(* ===== verification/Tcc_Base.thy ===== *)
theory Tcc_Base
  imports Main "HOL-Library.Word"
begin

unbundle bit_operations_syntax

section \<open>Prelude: machine integers, errors and shared facts\<close>

text \<open>
  The names of the fixed-width integer types the sources use, the two ways in
  which the compiler gives up (\<^verbatim>\<open>tcc_error\<close> and \<^verbatim>\<open>tcc_ice\<close>, both of which end
  the compilation), and the generic facts on words and lists that the component
  theories share.
\<close>

type_synonym u8 = "8 word"
type_synonym u16 = "16 word"
type_synonym u32 = "32 word"
type_synonym u64 = "64 word"

text \<open>
  \<^verbatim>\<open>tcc_error\<close> reports a user error, \<^verbatim>\<open>tcc_ice\<close> an internal one; neither returns.
  A function that can reach one of them has a sum type with the error on the left.
\<close>

datatype tcc_failure = TccError string | TccIce string

named_theorems word_fields \<open>how placed bit-fields read back\<close>
named_theorems emit_simps \<open>unfolding of the Thumb emitters\<close>
named_theorems shape_simps \<open>the encoding shapes\<close>
named_theorems table_simps \<open>the instruction tables\<close>

subsection \<open>Bits of words\<close>

lemma and_one_eq_of_bool: "(w::'a::len word) AND 1 = of_bool (bit w 0)"
  by (rule bit_word_eqI) (auto simp: bit_simps)

text \<open>
  Equality of 32-bit words bit by bit: with \<open>bit_simps\<close> it decides equations between
  words built from shifts, masks and Boolean operations.
\<close>

lemma word32_eq_iff: "(a::u32) = b \<longleftrightarrow> (bit a 0 = bit b 0 \<and>
     bit a 1 = bit b 1 \<and> bit a 2 = bit b 2 \<and> bit a 3 = bit b 3 \<and>
     bit a 4 = bit b 4 \<and> bit a 5 = bit b 5 \<and> bit a 6 = bit b 6 \<and>
     bit a 7 = bit b 7 \<and> bit a 8 = bit b 8 \<and> bit a 9 = bit b 9 \<and>
     bit a 10 = bit b 10 \<and> bit a 11 = bit b 11 \<and> bit a 12 = bit b 12 \<and>
     bit a 13 = bit b 13 \<and> bit a 14 = bit b 14 \<and> bit a 15 = bit b 15 \<and>
     bit a 16 = bit b 16 \<and> bit a 17 = bit b 17 \<and> bit a 18 = bit b 18 \<and>
     bit a 19 = bit b 19 \<and> bit a 20 = bit b 20 \<and> bit a 21 = bit b 21 \<and>
     bit a 22 = bit b 22 \<and> bit a 23 = bit b 23 \<and> bit a 24 = bit b 24 \<and>
     bit a 25 = bit b 25 \<and> bit a 26 = bit b 26 \<and> bit a 27 = bit b 27 \<and>
     bit a 28 = bit b 28 \<and> bit a 29 = bit b 29 \<and> bit a 30 = bit b 30 \<and>
     bit a 31 = bit b 31)"
proof -
  have "(a = b) = (\<forall>n<32. bit a n = bit b n)"
    by (auto intro: bit_word_eqI)
  also have "\<dots> = (bit a 0 = bit b 0 \<and> bit a 1 = bit b 1 \<and>
     bit a 2 = bit b 2 \<and> bit a 3 = bit b 3 \<and> bit a 4 = bit b 4 \<and>
     bit a 5 = bit b 5 \<and> bit a 6 = bit b 6 \<and> bit a 7 = bit b 7 \<and>
     bit a 8 = bit b 8 \<and> bit a 9 = bit b 9 \<and> bit a 10 = bit b 10 \<and>
     bit a 11 = bit b 11 \<and> bit a 12 = bit b 12 \<and> bit a 13 = bit b 13 \<and>
     bit a 14 = bit b 14 \<and> bit a 15 = bit b 15 \<and> bit a 16 = bit b 16 \<and>
     bit a 17 = bit b 17 \<and> bit a 18 = bit b 18 \<and> bit a 19 = bit b 19 \<and>
     bit a 20 = bit b 20 \<and> bit a 21 = bit b 21 \<and> bit a 22 = bit b 22 \<and>
     bit a 23 = bit b 23 \<and> bit a 24 = bit b 24 \<and> bit a 25 = bit b 25 \<and>
     bit a 26 = bit b 26 \<and> bit a 27 = bit b 27 \<and> bit a 28 = bit b 28 \<and>
     bit a 29 = bit b 29 \<and> bit a 30 = bit b 30 \<and> bit a 31 = bit b 31)"
    by (simp only: numeral_eq_Suc pred_numeral_simps BitM.simps Num.BitM.simps All_less_Suc) (simp add: conj_ac)
  finally show ?thesis .
qed

lemma bit_times_2 [simp]: "bit ((x::u32) * 2) n \<longleftrightarrow> 0 < n \<and> n < 32 \<and> bit x (n - 1)"
  by (subst mult.commute) (auto simp: bit_simps)

lemma bit_ge32: "32 \<le> n \<Longrightarrow> \<not> bit (w::u32) n"
  using bit_imp_le_length [of w n] by auto

lemmas bits32 = bit_ge32 word32_eq_iff bit_simps numeral_2_eq_2 [symmetric]

lemma bit_exp32: "n < 32 \<Longrightarrow> bit (2 ^ n :: u32) m \<longleftrightarrow> m = n"
  by (auto simp: bit_exp_iff)

lemma and_eq_right_iff: "(a::'a::len word) AND b = b \<longleftrightarrow> (\<forall>n. bit b n \<longrightarrow> bit a n)"
  by (metis bit_and_iff bit_eq_iff)

lemma and_not_eq_0_iff: "(a::'a::len word) AND NOT b = 0 \<longleftrightarrow> (\<forall>n. bit a n \<longrightarrow> bit b n)"
proof -
  have "a AND NOT b = 0 \<longleftrightarrow> (\<forall>n. \<not> bit (a AND NOT b) n)"
    by (metis bit_0_eq bit_eqI bot_apply bot_bool_def)
  then show ?thesis by (auto simp: bit_simps dest: bit_imp_le_length)
qed

lemma word_of_nat_and_31: "k < 32 \<Longrightarrow> (word_of_nat k :: u32) AND 31 = word_of_nat k"
proof -
  assume "k < 32"
  then have "take_bit 5 k = k" by (simp add: take_bit_nat_eq_self)
  then have "take_bit 5 (word_of_nat k :: u32) = word_of_nat k"
    by (simp only: take_bit_of_nat)
  moreover have "(31::u32) = mask 5" by (simp add: mask_eq_exp_minus_1)
  ultimately show ?thesis by (simp only: take_bit_eq_mask)
qed

text \<open>The bit-field of width \<open>n\<close> at position \<open>s\<close>, as the ARM pseudo-code reads it.\<close>

definition field :: "u32 \<Rightarrow> nat \<Rightarrow> nat \<Rightarrow> u32" where
  "field w s n = drop_bit s w AND mask n"

lemma unat_field: "unat (field w s n) = unat w div 2 ^ s mod 2 ^ n"
proof -
  have "field w s n = take_bit n (drop_bit s w)"
    by (simp add: field_def take_bit_eq_mask)
  then have "unat (field w s n) = take_bit n (drop_bit s (unat w))"
    by (simp only: unsigned_take_bit_eq unat_drop_bit_eq)
  then show ?thesis by (simp only: take_bit_eq_mod drop_bit_eq_div)
qed

end
