(* ===== verification/Thumb_Defs.thy ===== *)
theory Thumb_Defs
  imports Tcc_Base
begin

section \<open>Thumb encoder: data model\<close>

text \<open>
  The types of \<^verbatim>\<open>source/backend/arch/arm/thumb/thumb.h\<close>: registers, flag behaviour,
  forced encodings, shifts, feature sets, bit-field placements, encoding shapes,
  instruction variants and tables, and the arguments of an emission.  Core registers
  are \<open>uint32_t\<close> numbers as in the source; C enumerations that index arrays
  (\<^verbatim>\<open>thop_shape_id\<close>, the feature bits) are numbers, the others are datatypes.
\<close>

subsection \<open>Registers, flags, encodings\<close>

abbreviation R_IP :: u32 where "R_IP \<equiv> 12"
abbreviation R_SP :: u32 where "R_SP \<equiv> 13"
abbreviation R_LR :: u32 where "R_LR \<equiv> 14"
abbreviation R_PC :: u32 where "R_PC \<equiv> 15"

datatype thumb_flags_behaviour =
    FLAGS_BEHAVIOUR_NOT_IMPORTANT
  | FLAGS_BEHAVIOUR_SET
  | FLAGS_BEHAVIOUR_BLOCK

datatype thumb_enforce_encoding =
    ENFORCE_ENCODING_NONE
  | ENFORCE_ENCODING_16BIT
  | ENFORCE_ENCODING_32BIT

record thumb_opcode =
  op_size :: nat
  op_code :: u32

abbreviation no_opcode :: thumb_opcode where
  "no_opcode \<equiv> \<lparr>op_size = 0, op_code = 0\<rparr>"

datatype thumb_shift_type =
    THUMB_SHIFT_NONE
  | THUMB_SHIFT_RRX
  | THUMB_SHIFT_LSL
  | THUMB_SHIFT_LSR
  | THUMB_SHIFT_ASR
  | THUMB_SHIFT_ROR

primrec shift_code :: "thumb_shift_type \<Rightarrow> nat" where
  "shift_code THUMB_SHIFT_NONE = 0"
| "shift_code THUMB_SHIFT_RRX = 1"
| "shift_code THUMB_SHIFT_LSL = 2"
| "shift_code THUMB_SHIFT_LSR = 3"
| "shift_code THUMB_SHIFT_ASR = 4"
| "shift_code THUMB_SHIFT_ROR = 5"

datatype thumb_shift_mode = THUMB_SHIFT_IMMEDIATE | THUMB_SHIFT_REGISTER

record thumb_shift =
  sft_type :: thumb_shift_type
  sft_value :: u32
  sft_mode :: thumb_shift_mode

definition THUMB_SHIFT_DEFAULT :: thumb_shift where
  "THUMB_SHIFT_DEFAULT =
     \<lparr>sft_type = THUMB_SHIFT_NONE, sft_value = 0, sft_mode = THUMB_SHIFT_IMMEDIATE\<rparr>"

subsection \<open>Feature sets\<close>

text \<open>
  \<open>thop_feat\<close> is a 64-bit structure of one-bit fields and \<open>thop_feat32\<close> its first
  half; the code only ever combines them through their bit images
  (\<^verbatim>\<open>thop_feat_bits\<close>, \<^verbatim>\<open>thop_feat32_bits\<close>), so the model is the bit image and a field is
  its position.  \<open>feats\<close> is the designated initialiser \<^verbatim>\<open>{.a = 1, .b = 1}\<close>.
\<close>

type_synonym thop_feat = u64
type_synonym thop_feat32 = u32

abbreviation (input) F_t16 :: nat where "F_t16 \<equiv> 0"
abbreviation (input) F_t32 :: nat where "F_t32 \<equiv> 1"
abbreviation (input) F_it :: nat where "F_it \<equiv> 2"
abbreviation (input) F_mod_imm :: nat where "F_mod_imm \<equiv> 3"
abbreviation (input) F_movw_movt :: nat where "F_movw_movt \<equiv> 4"
abbreviation (input) F_dsp :: nat where "F_dsp \<equiv> 5"
abbreviation (input) F_sat :: nat where "F_sat \<equiv> 6"
abbreviation (input) F_div :: nat where "F_div \<equiv> 7"
abbreviation (input) F_bfx :: nat where "F_bfx \<equiv> 8"
abbreviation (input) F_clz_rbit :: nat where "F_clz_rbit \<equiv> 9"
abbreviation (input) F_ldaex :: nat where "F_ldaex \<equiv> 10"
abbreviation (input) F_vfp_sp :: nat where "F_vfp_sp \<equiv> 11"
abbreviation (input) F_vfp_dp :: nat where "F_vfp_dp \<equiv> 12"
abbreviation (input) F_tbb_tbh :: nat where "F_tbb_tbh \<equiv> 13"
abbreviation (input) F_cbz :: nat where "F_cbz \<equiv> 14"
abbreviation (input) F_hwdiv_t16 :: nat where "F_hwdiv_t16 \<equiv> 15"
abbreviation (input) F_sec :: nat where "F_sec \<equiv> 16"
abbreviation (input) F_sec_tt :: nat where "F_sec_tt \<equiv> 17"
abbreviation (input) F_lob :: nat where "F_lob \<equiv> 18"
abbreviation (input) F_pacbti :: nat where "F_pacbti \<equiv> 19"
abbreviation (input) F_cde :: nat where "F_cde \<equiv> 20"
abbreviation (input) F_ras :: nat where "F_ras \<equiv> 21"
abbreviation (input) F_fp16 :: nat where "F_fp16 \<equiv> 22"
abbreviation (input) F_fp_armv8 :: nat where "F_fp_armv8 \<equiv> 23"
abbreviation (input) F_fp_dp_d32 :: nat where "F_fp_dp_d32 \<equiv> 24"
abbreviation (input) F_mve_int :: nat where "F_mve_int \<equiv> 25"
abbreviation (input) F_mve_fp :: nat where "F_mve_fp \<equiv> 26"
abbreviation (input) F_cache_maint :: nat where "F_cache_maint \<equiv> 27"
abbreviation (input) F_debug :: nat where "F_debug \<equiv> 28"
abbreviation (input) F_coproc :: nat where "F_coproc \<equiv> 29"
abbreviation (input) F_lrcpc :: nat where "F_lrcpc \<equiv> 30"
abbreviation (input) F_unpriv_ls :: nat where "F_unpriv_ls \<equiv> 31"

primrec feats :: "nat list \<Rightarrow> 'a::len word" where
  "feats [] = 0"
| "feats (b # bs) = push_bit b 1 OR feats bs"

definition thop_feat_or :: "thop_feat \<Rightarrow> thop_feat \<Rightarrow> thop_feat" where
  "thop_feat_or a b = a OR b"

definition thop_feat32_widen :: "thop_feat32 \<Rightarrow> thop_feat" where
  "thop_feat32_widen f32 = ucast f32"

definition thop_feat32_subset :: "thop_feat32 \<Rightarrow> thop_feat \<Rightarrow> bool" where
  "thop_feat32_subset sub feat \<longleftrightarrow> sub AND ucast feat = sub"

subsection \<open>Shapes, variants, tables\<close>

datatype imm_kind =
    IMM_NONE
  | IMM_RAW
  | IMM_PACK_CONST
  | IMM_PACK_3_8_1
  | IMM_PACK_10_11_0
  | IMM_SIGNED_PUW

record imm_spec =
  is_kind :: imm_kind
  is_width :: nat
  is_scale_log2 :: nat
  is_signed :: bool

text \<open>A designated initialiser leaves the fields it does not name zero.\<close>

definition imm0 :: imm_spec where
  "imm0 = \<lparr>is_kind = IMM_NONE, is_width = 0, is_scale_log2 = 0, is_signed = False\<rparr>"

type_synonym reg_mask = u16

abbreviation REG_ANY :: reg_mask where "REG_ANY \<equiv> 0"
abbreviation REG_LOW_ONLY :: reg_mask where "REG_LOW_ONLY \<equiv> 1"
abbreviation REG_NOT_SP :: reg_mask where "REG_NOT_SP \<equiv> 2"
abbreviation REG_NOT_PC :: reg_mask where "REG_NOT_PC \<equiv> 4"
abbreviation REG_NOT_LR :: reg_mask where "REG_NOT_LR \<equiv> 8"
abbreviation REG_EQ_RN :: reg_mask where "REG_EQ_RN \<equiv> 16"
abbreviation REG_EQ_RM :: reg_mask where "REG_EQ_RM \<equiv> 32"
abbreviation REG_SP_ONLY :: reg_mask where "REG_SP_ONLY \<equiv> 64"
abbreviation REG_PC_ONLY :: reg_mask where "REG_PC_ONLY \<equiv> 128"
abbreviation REG_LOW_REGSET :: reg_mask where "REG_LOW_REGSET \<equiv> 256"
abbreviation REG_RM_BIT_NOT_SP :: reg_mask where "REG_RM_BIT_NOT_SP \<equiv> 512"
abbreviation REG_RM_BITS_NOT_LR_PC :: reg_mask where "REG_RM_BITS_NOT_LR_PC \<equiv> 1024"

record bitfield =
  bf_shift :: nat
  bf_width :: nat

abbreviation BF :: "nat \<Rightarrow> nat \<Rightarrow> bitfield" where
  "BF s w \<equiv> \<lparr>bf_shift = s, bf_width = w\<rparr>"

abbreviation (input) THOP_VARIANT_T16 :: nat where "THOP_VARIANT_T16 \<equiv> 2"
abbreviation (input) THOP_VARIANT_T32 :: nat where "THOP_VARIANT_T32 \<equiv> 4"

record thop_variant_shape =
  sh_feat :: thop_feat32
  sh_imm :: imm_spec
  rd_place :: bitfield
  rn_place :: bitfield
  rm_place :: bitfield
  ra_place :: bitfield
  imm_place :: bitfield
  shift_type_bits :: bitfield
  shift_imm2_bits :: bitfield
  shift_imm3_bits :: bitfield
  imm2_place :: bitfield
  split_imm2_place :: bitfield
  split_imm3_place :: bitfield
  puw_bits :: bitfield
  rm_raw_place :: bitfield
  dn_rd_split :: bitfield
  rd_con :: reg_mask
  rn_con :: reg_mask
  rm_con :: reg_mask
  ra_con :: reg_mask
  sh_size :: nat
  shift_allowed :: u16
  puw_fixed :: u8
  has_s_bit :: bool
  implicit_s :: bool
  forbid_s_in_it :: bool
  has_rd_hi :: bool

text \<open>The all-zero shape that a designated initialiser starts from.\<close>

definition shape0 :: thop_variant_shape where
  "shape0 = \<lparr>sh_feat = 0, sh_imm = imm0,
     rd_place = BF 0 0, rn_place = BF 0 0, rm_place = BF 0 0, ra_place = BF 0 0,
     imm_place = BF 0 0, shift_type_bits = BF 0 0, shift_imm2_bits = BF 0 0,
     shift_imm3_bits = BF 0 0, imm2_place = BF 0 0, split_imm2_place = BF 0 0,
     split_imm3_place = BF 0 0, puw_bits = BF 0 0, rm_raw_place = BF 0 0, dn_rd_split = BF 0 0,
     rd_con = 0, rn_con = 0, rm_con = 0, ra_con = 0, sh_size = 0, shift_allowed = 0,
     puw_fixed = 0, has_s_bit = False, implicit_s = False, forbid_s_in_it = False,
     has_rd_hi = False\<rparr>"

text \<open>
  A variant names its shape and its custom emitter by number.  The emitters are a
  datatype here: \<^verbatim>\<open>thop_call_custom\<close> switches on them.
\<close>

datatype thop_custom_id =
    CUSTOM_NONE
  | CUSTOM_bl_t1_emit | CUSTOM_b_t3_emit | CUSTOM_b_t4_emit | CUSTOM_b_t2_emit
  | CUSTOM_cbz_emit | CUSTOM_cmp_reg_t2_custom_emit
  | CUSTOM_coproc_cdp_emit | CUSTOM_coproc_mcr_emit | CUSTOM_coproc_mcrr_emit
  | CUSTOM_pkhbt_emit | CUSTOM_ldr_literal_emit | CUSTOM_ldrd_imm_emit
  | CUSTOM_mov_reg_t1_shift_emit | CUSTOM_mov_imm_t1_emit | CUSTOM_mov_reg_shift_t1_emit
  | CUSTOM_mrs_emit | CUSTOM_msr_emit | CUSTOM_mul_t16_emit | CUSTOM_long_mul_emit
  | CUSTOM_mvn_imm_emit | CUSTOM_shift_reg_t1_emit | CUSTOM_clz_emit | CUSTOM_tt_emit
  | CUSTOM_vfp_arith3_emit | CUSTOM_vfp_arith2_emit | CUSTOM_vmov_reg_emit
  | CUSTOM_vfp_pushpop_emit | CUSTOM_vfp_ldst_emit | CUSTOM_vmov_gp_sp_emit
  | CUSTOM_vmov_2gp_dp_emit | CUSTOM_vcvt_fd_emit | CUSTOM_vcvt_df_emit
  | CUSTOM_vcvt_fp_int_emit

record thop_variant =
  v_shape :: nat
  v_base :: u32
  v_custom :: thop_custom_id

record thop_table =
  tbl_name :: string
  tbl_variants :: "thop_variant list"

record thop_args =
  a_rd :: u32
  a_rn :: u32
  a_rm :: u32
  a_ra :: u32
  a_imm :: u32
  a_imm2 :: u32
  a_shift :: thumb_shift
  a_flags :: thumb_flags_behaviour
  a_enc :: thumb_enforce_encoding
  a_in_it_block :: bool
  a_puw :: u8
  a_exclude_bit :: u8

definition args0 :: thop_args where
  "args0 = \<lparr>a_rd = 0, a_rn = 0, a_rm = 0, a_ra = 0, a_imm = 0, a_imm2 = 0,
     a_shift = THUMB_SHIFT_DEFAULT, a_flags = FLAGS_BEHAVIOUR_NOT_IMPORTANT,
     a_enc = ENFORCE_ENCODING_NONE, a_in_it_block = False, a_puw = 0, a_exclude_bit = 0\<rparr>"

subsection \<open>Register constraints and field placement\<close>

definition con_has :: "reg_mask \<Rightarrow> reg_mask \<Rightarrow> bool" where
  "con_has con c \<longleftrightarrow> con AND c \<noteq> 0"

definition thop_reg_ok :: "u32 \<Rightarrow> reg_mask \<Rightarrow> bool" where
  "thop_reg_ok reg con =
     (if con_has con REG_LOW_ONLY \<and> reg > 7 then False
      else if con_has con REG_NOT_SP \<and> reg = 13 then False
      else if con_has con REG_NOT_PC \<and> reg = 15 then False
      else if con_has con REG_NOT_LR \<and> reg = 14 then False
      else if con_has con REG_SP_ONLY \<and> reg \<noteq> 13 then False
      else if con_has con REG_PC_ONLY \<and> reg \<noteq> 15 then False
      else True)"

definition thop_place :: "u32 \<Rightarrow> bitfield \<Rightarrow> u32" where
  "thop_place val bf =
     (if bf_width bf = 0 then 0
      else push_bit (bf_shift bf) (val AND (push_bit (bf_width bf) 1 - 1)))"

end
