(* ===== verification/Thumb_Pack.thy ===== *)
theory Thumb_Pack
  imports Thumb_Defs
begin

section \<open>Immediate, branch and shift encoders\<close>

text \<open>
  The arithmetic helpers of \<^verbatim>\<open>source/backend/arch/arm/thumb/thumb.c\<close>: the packing of
  immediates into the split fields of 32-bit Thumb encodings, the modified-immediate
  encoder \<^verbatim>\<open>th_pack_const\<close> with its direct-mapped cache, the branch-offset encoders and
  the shift helpers.  Each packer is proved against the decoder of the architecture
  manual (\<open>thumb_expand_imm\<close> is ThumbExpandImm, \<open>unpack_10_11_0\<close> the offset of B.W/BL);
  the cache is proved to be transparent.
\<close>

subsection \<open>Definitions\<close>

definition th_packimm_10_11_0 :: "u32 \<Rightarrow> u32" where
  "th_packimm_10_11_0 imm =
     (let imm11 = drop_bit 1 imm AND 0x7ff;
          imm10 = drop_bit 12 imm AND 0x3ff;
          s = drop_bit 24 imm AND 1;
          j1 = NOT (drop_bit 23 imm XOR s) AND 1;
          j2 = NOT (drop_bit 22 imm XOR s) AND 1
      in push_bit 26 s OR push_bit 16 imm10 OR push_bit 13 j1 OR push_bit 11 j2 OR imm11)"

definition th_packimm_3_8_1 :: "u32 \<Rightarrow> u32" where
  "th_packimm_3_8_1 imm =
     (let imm8 = imm AND 0xff;
          imm3 = drop_bit 8 imm AND 0x7;
          i = drop_bit 11 imm AND 1;
          imm4 = drop_bit 12 imm AND 0xf
      in push_bit 26 i OR push_bit 16 imm4 OR push_bit 12 imm3 OR imm8)"

text \<open>
  The loop of \<^verbatim>\<open>th_pack_const\<close> over the rotations 8 to 31 (\<open>j\<close> counts from 0, the
  source's \<open>i\<close> is \<open>j + 8\<close>); 0 when no rotation fits.
\<close>

function pack_const_rot :: "u32 \<Rightarrow> nat \<Rightarrow> u32" where
  "pack_const_rot imm j =
     (if j + 8 \<le> 0x1F then
        let i = word_of_nat (j + 8) :: u32;
            mask = drop_bit j (0xFF000000 :: u32);
            one = drop_bit j (0x80000000 :: u32)
        in if imm AND one = one \<and> imm AND NOT mask = 0 then
             push_bit 26 (drop_bit 4 i) OR push_bit 12 (drop_bit 1 i AND 7) OR
             push_bit 7 (i AND 1) OR (drop_bit (24 - j) imm AND 0x7f)
           else pack_const_rot imm (j + 1)
      else 0)"
  by pat_completeness auto
termination
  by (relation "measure (\<lambda>(imm, j). 32 - j)") auto

declare pack_const_rot.simps [simp del]

text \<open>The value \<^verbatim>\<open>th_pack_const\<close> computes on a cache miss.\<close>

definition pack_const_value :: "u32 \<Rightarrow> u32" where
  "pack_const_value imm =
     (if imm AND 0xffffff00 = 0 then imm
      else if imm AND 0xff00ff00 = 0 \<and> drop_bit 16 imm = imm AND 0xff then push_bit 12 1 OR (imm AND 0xff)
      else if imm AND 0x00ff00ff = 0 \<and> drop_bit 16 imm AND 0xff00 = imm AND 0xff00 then
        push_bit 12 2 OR (drop_bit 8 imm AND 0xff)
      else if imm AND 0xffff = drop_bit 16 imm AND 0xffff \<and> drop_bit 8 imm AND 0xff = imm AND 0xff then
        push_bit 12 3 OR (imm AND 0xff)
      else pack_const_rot imm 0)"

text \<open>The direct-mapped cache in front of it (the 64-entry configuration).\<close>

record pack_const_cache_entry =
  pc_imm :: u32
  pc_packed :: u32
  pc_valid :: bool

type_synonym pack_const_cache = "pack_const_cache_entry list"

abbreviation (input) TH_PACK_CONST_CACHE_SIZE :: nat where "TH_PACK_CONST_CACHE_SIZE \<equiv> 64"

definition th_pack_const_cache0 :: pack_const_cache where
  "th_pack_const_cache0 =
     replicate TH_PACK_CONST_CACHE_SIZE \<lparr>pc_imm = 0, pc_packed = 0, pc_valid = False\<rparr>"

definition pack_const_idx :: "u32 \<Rightarrow> nat" where
  "pack_const_idx imm =
     unat ((imm XOR drop_bit 9 imm XOR drop_bit 17 imm XOR drop_bit 25 imm) AND 63)"

definition th_pack_const :: "u32 \<Rightarrow> pack_const_cache \<Rightarrow> u32 \<times> pack_const_cache" where
  "th_pack_const imm cache =
     (let idx = pack_const_idx imm; e = cache ! idx
      in if pc_valid e \<and> pc_imm e = imm then (pc_packed e, cache)
         else let packed = pack_const_value imm
              in (packed, cache[idx := \<lparr>pc_imm = imm, pc_packed = packed, pc_valid = True\<rparr>]))"

definition th_encbranch_b_t3 :: "u32 \<Rightarrow> u32" where
  "th_encbranch_b_t3 imm =
     (let s = drop_bit 19 imm AND 1;
          imm6 = drop_bit 11 imm AND 0x3f;
          imm11 = imm AND 0x7ff;
          j2 = drop_bit 18 imm AND 1;
          j1 = drop_bit 17 imm AND 1;
          a = push_bit 10 s OR imm6;
          b = push_bit 13 j1 OR push_bit 11 j2 OR imm11
      in push_bit 16 a OR b)"

text \<open>
  The offset encoders take \<open>int\<close> positions; \<open>>> 1\<close> on a negative \<open>int\<close> is the arithmetic
  shift, and the conversion to \<open>uint32_t\<close> is reduction modulo \<open>2 ^ 32\<close>.
\<close>

definition th_encbranch :: "int \<Rightarrow> int \<Rightarrow> u32" where
  "th_encbranch pos addr = word_of_int (addr - pos - 4)"

definition th_encbranch_8 :: "int \<Rightarrow> int \<Rightarrow> tcc_failure + u32" where
  "th_encbranch_8 pos addr =
     (let a = drop_bit 1 (addr - pos - 4)
      in if a > 127 \<or> a < -128 then Inl (TccIce ''th_encbranch_8 too far address'')
         else Inr (word_of_int a AND 0xff))"

definition th_encbranch_11 :: "int \<Rightarrow> int \<Rightarrow> tcc_failure + u32" where
  "th_encbranch_11 pos addr =
     (let a = drop_bit 1 (addr - pos - 4)
      in if a > 1023 \<or> a < -1024 then Inl (TccIce ''th_encbranch_11 too far address'')
         else Inr (word_of_int a AND 0x7ff))"

definition th_encbranch_20 :: "int \<Rightarrow> int \<Rightarrow> u32" where
  "th_encbranch_20 pos addr = word_of_int (drop_bit 1 (addr - pos - 4))"

definition th_shift_type_to_op :: "thumb_shift \<Rightarrow> tcc_failure + u32" where
  "th_shift_type_to_op shift =
     (case sft_type shift of
        THUMB_SHIFT_ASR \<Rightarrow> Inr 4
      | THUMB_SHIFT_LSL \<Rightarrow> Inr 2
      | THUMB_SHIFT_LSR \<Rightarrow> Inr 3
      | THUMB_SHIFT_ROR \<Rightarrow> Inr 7
      | _ \<Rightarrow> Inl (TccIce ''th_shift_type_to_op, unknown shift type''))"

definition th_shift_imm_normalize :: "thumb_shift \<Rightarrow> bool \<times> thumb_shift" where
  "th_shift_imm_normalize shift =
     (case sft_type shift of
        THUMB_SHIFT_LSL \<Rightarrow> (sft_value shift \<le> 31, shift)
      | THUMB_SHIFT_LSR \<Rightarrow>
          (sft_value shift \<le> 32,
           if sft_value shift = 0 then shift\<lparr>sft_type := THUMB_SHIFT_LSL\<rparr> else shift)
      | THUMB_SHIFT_ASR \<Rightarrow>
          (sft_value shift \<le> 32,
           if sft_value shift = 0 then shift\<lparr>sft_type := THUMB_SHIFT_LSL\<rparr> else shift)
      | THUMB_SHIFT_ROR \<Rightarrow>
          (sft_value shift \<le> 31,
           if sft_value shift = 0 then shift\<lparr>sft_type := THUMB_SHIFT_LSL\<rparr> else shift)
      | _ \<Rightarrow> (True, shift))"

definition th_shift_value_to_sr_type :: "thumb_shift \<Rightarrow> u32" where
  "th_shift_value_to_sr_type shift =
     (case sft_type shift of
        THUMB_SHIFT_NONE \<Rightarrow> 0
      | THUMB_SHIFT_LSL \<Rightarrow> 0
      | THUMB_SHIFT_LSR \<Rightarrow> 1
      | THUMB_SHIFT_ASR \<Rightarrow> 2
      | THUMB_SHIFT_ROR \<Rightarrow> 3
      | THUMB_SHIFT_RRX \<Rightarrow> 3)"

definition th_generic_op_reg_shift_with_status ::
  "u32 \<Rightarrow> u32 \<Rightarrow> u32 \<Rightarrow> u32 \<Rightarrow> thumb_flags_behaviour \<Rightarrow> thumb_shift \<Rightarrow> tcc_failure + thumb_opcode"
where
  "th_generic_op_reg_shift_with_status op rd rn rm flags shift =
     (let sr = th_shift_value_to_sr_type shift;
          imm2 = sft_value shift AND 3;
          imm3 = drop_bit 2 (sft_value shift) AND 7;
          s = (if flags = FLAGS_BEHAVIOUR_SET then 1 else 0)
      in if rd > 15 \<or> rn > 15 \<or> rm > 15
         then Inl (TccIce ''th_generic_op_reg_shift_with_status invalid register'')
         else Inr \<lparr>op_size = 4,
           op_code = push_bit 16 op OR push_bit 16 rn OR push_bit 8 rd OR rm OR push_bit 4 sr OR
             push_bit 6 imm2 OR push_bit 12 imm3 OR push_bit 20 s\<rparr>)"

text \<open>The decoders of the architecture manual the packers are proved against.\<close>

definition unpack_3_8_1 :: "u32 \<Rightarrow> u32" where
  "unpack_3_8_1 w = push_bit 12 (field w 16 4) OR push_bit 11 (field w 26 1) OR
     push_bit 8 (field w 12 3) OR field w 0 8"

definition unpack_10_11_0 :: "u32 \<Rightarrow> u32" where
  "unpack_10_11_0 w =
     (let s = field w 26 1;
          i1 = NOT (field w 13 1 XOR s) AND 1;
          i2 = NOT (field w 11 1 XOR s) AND 1
      in (signed_take_bit 24 (push_bit 24 s OR push_bit 23 i1 OR push_bit 22 i2 OR
        push_bit 12 (field w 16 10) OR push_bit 1 (field w 0 11))))"

definition thumb_expand_imm :: "u32 \<Rightarrow> u32" where
  "thumb_expand_imm w =
     (let imm8 = field w 0 8; imm3 = field w 12 3; i = field w 26 1;
          imm12 = push_bit 11 i OR push_bit 8 imm3 OR imm8
      in if field imm12 10 2 = 0 then
           (if field imm12 8 2 = 0 then imm8
            else if field imm12 8 2 = 1 then push_bit 16 imm8 OR imm8
            else if field imm12 8 2 = 2 then push_bit 24 imm8 OR push_bit 8 imm8
            else push_bit 24 imm8 OR push_bit 16 imm8 OR push_bit 8 imm8 OR imm8)
         else word_rotr (unat (field imm12 7 5)) (push_bit 7 1 OR field imm12 0 7))"

definition unpack_b_t3 :: "u32 \<Rightarrow> u32" where
  "unpack_b_t3 w =
     signed_take_bit 20 (push_bit 20 (field w 26 1) OR push_bit 19 (field w 11 1) OR
       push_bit 18 (field w 13 1) OR push_bit 12 (field w 16 6) OR push_bit 1 (field w 0 11))"

text \<open>
  The immediate shift the processor performs for a type and an \<open>imm5\<close> field (DecodeImmShift)
  and its result on a register, with \<open>c\<close> the carry flag.
\<close>

definition decode_imm_shift :: "u32 \<Rightarrow> u32 \<Rightarrow> thumb_shift_type \<times> u32" where
  "decode_imm_shift typ imm5 =
     (if typ = 0 then (THUMB_SHIFT_LSL, imm5)
      else if typ = 1 then (THUMB_SHIFT_LSR, if imm5 = 0 then 32 else imm5)
      else if typ = 2 then (THUMB_SHIFT_ASR, if imm5 = 0 then 32 else imm5)
      else if imm5 = 0 then (THUMB_SHIFT_RRX, 1) else (THUMB_SHIFT_ROR, imm5))"

definition apply_shift :: "bool \<Rightarrow> thumb_shift_type \<times> u32 \<Rightarrow> u32 \<Rightarrow> u32" where
  "apply_shift c ta x =
     (case ta of (t, a) \<Rightarrow>
        case t of
          THUMB_SHIFT_NONE \<Rightarrow> x
        | THUMB_SHIFT_LSL \<Rightarrow> push_bit (unat a) x
        | THUMB_SHIFT_LSR \<Rightarrow> drop_bit (unat a) x
        | THUMB_SHIFT_ASR \<Rightarrow> signed_drop_bit (unat a) x
        | THUMB_SHIFT_ROR \<Rightarrow> word_rotr (unat a) x
        | THUMB_SHIFT_RRX \<Rightarrow> push_bit 31 (of_bool c) OR drop_bit 1 x)"

text \<open>The cache invariant: a valid entry holds the value of its key.\<close>

definition pack_cache_ok :: "pack_const_cache \<Rightarrow> bool" where
  "pack_cache_ok cache \<longleftrightarrow> length cache = TH_PACK_CONST_CACHE_SIZE \<and>
     (\<forall>e \<in> set cache. pc_valid e \<longrightarrow> pc_packed e = pack_const_value (pc_imm e))"

text \<open>One round of the rotation loop, as its test and its result.\<close>

definition rot_guard :: "u32 \<Rightarrow> nat \<Rightarrow> bool" where
  "rot_guard imm j \<longleftrightarrow> imm AND drop_bit j 0x80000000 = drop_bit j 0x80000000 \<and>
     imm AND NOT (drop_bit j 0xFF000000) = 0"

definition rot_bits :: "u32 \<Rightarrow> nat \<Rightarrow> u32" where
  "rot_bits imm j = (let i = word_of_nat (j + 8) in
     push_bit 26 (drop_bit 4 i) OR push_bit 12 (drop_bit 1 i AND 7) OR
     push_bit 7 (i AND 1) OR (drop_bit (24 - j) imm AND 0x7f))"

subsection \<open>Split immediates\<close>

lemma unpack_pack_3_8_1: "unpack_3_8_1 (th_packimm_3_8_1 imm) = imm AND 0xffff"
  unfolding unpack_3_8_1_def th_packimm_3_8_1_def field_def Let_def
  by (simp add: bits32)

lemma unpack_pack_10_11_0: "unpack_10_11_0 (th_packimm_10_11_0 imm) = signed_take_bit 24 (imm AND NOT 1)"
  unfolding unpack_10_11_0_def th_packimm_10_11_0_def field_def Let_def
  by (simp add: bits32) auto

lemma unpack_pack_b_t3: "unpack_b_t3 (th_encbranch_b_t3 imm) = signed_take_bit 20 (push_bit 1 imm)"
  unfolding unpack_b_t3_def th_encbranch_b_t3_def field_def Let_def
  by (simp add: bits32)

subsection \<open>The modified-immediate encoder\<close>

lemma rot_imm12:
  "(let w = push_bit 26 (drop_bit 4 (i AND 31)) OR push_bit 12 (drop_bit 1 (i AND 31) AND 7) OR
      push_bit 7 ((i AND 31) AND 1) OR (x AND 0x7f) :: u32
    in push_bit 11 (field w 26 1) OR push_bit 8 (field w 12 3) OR field w 0 8)
   = push_bit 7 (i AND 31) OR (x AND 0x7f)"
  by (simp add: Let_def field_def bits32)

lemma rot_imm12_fields:
  "field (push_bit 7 (i AND 31) OR (x AND 0x7f)) 7 5 = i AND 31"
  "field (push_bit 7 (i AND 31) OR (x AND 0x7f)) 0 7 = x AND 0x7f"
  "field (push_bit 7 (i AND 31) OR (x AND 0x7f)) 10 2 = drop_bit 3 (i AND 31)"
  by (simp_all add: field_def bits32)

lemma pack_const_rot_step:
  "pack_const_rot imm j =
     (if j \<le> 23 then if rot_guard imm j then rot_bits imm j else pack_const_rot imm (Suc j) else 0)"
  by (subst pack_const_rot.simps) (auto simp: rot_guard_def rot_bits_def Let_def)

lemma expand_rot:
  assumes "8 \<le> k" "k < 32"
  shows "thumb_expand_imm (let i = word_of_nat k in push_bit 26 (drop_bit 4 i) OR push_bit 12 (drop_bit 1 i AND 7) OR
      push_bit 7 (i AND 1) OR (x AND 0x7f)) = word_rotr k (0x80 OR (x AND 0x7f))"
proof -
  define i :: u32 where "i = word_of_nat k"
  have u: "unat i = k" using assms by (simp add: i_def unat_of_nat)
  have i31: "i AND 31 = i"
    using assms by (simp add: i_def word_of_nat_and_31)
  have "drop_bit 3 i \<noteq> 0"
  proof
    assume "drop_bit 3 i = 0"
    then have "unat (drop_bit 3 i) = 0" by simp
    then show False using assms by (simp add: drop_bit_eq_div unat_div u)
  qed
  then show ?thesis
    using rot_imm12 [of i x] rot_imm12_fields [of i x]
    by (simp add: thumb_expand_imm_def Let_def i31 u flip: i_def)
qed

lemma bit_ff000000: "bit (0xFF000000::u32) m \<longleftrightarrow> 24 \<le> m \<and> m < 32"
proof -
  have "(0xFF000000::u32) = push_bit 24 (mask 8)" by (simp add: mask_eq_exp_minus_1)
  then show ?thesis by (simp only: bit_push_bit_iff bit_mask_iff possible_bit_word) auto
qed

lemma rot_guard_iff:
  assumes "j \<le> 23"
  shows "rot_guard imm j \<longleftrightarrow> bit imm (31 - j) \<and> (\<forall>n. bit imm n \<longrightarrow> 24 - j \<le> n \<and> n \<le> 31 - j)"
proof -
  have one: "bit (drop_bit j (0x80000000::u32)) n \<longleftrightarrow> n = 31 - j" for n
    using bit_exp32 [of 31 "j + n"] assms by (auto simp: bit_drop_bit_eq)
  have msk: "bit (drop_bit j (0xFF000000::u32)) n \<longleftrightarrow> 24 - j \<le> n \<and> n \<le> 31 - j" for n
    using assms by (simp only: bit_drop_bit_eq comp_apply bit_ff000000) auto
  show ?thesis
    by (simp only: rot_guard_def and_eq_right_iff and_not_eq_0_iff one msk) auto
qed

lemma bit_rot_payload:
  "bit (0x80 OR (x AND 0x7f) :: u32) m \<longleftrightarrow> m = 7 \<or> (m < 7 \<and> bit x m)"
proof -
  have "bit (0x80::u32) m \<longleftrightarrow> m = 7" using bit_exp32 [of 7 m] by simp
  moreover have "(0x7f::u32) = mask 7" by (simp add: mask_eq_exp_minus_1)
  ultimately show ?thesis by (simp only: bit_or_iff bit_and_iff bit_mask_iff possible_bit_word) auto
qed

lemma rot_back:
  assumes j: "j \<le> 23" and g: "rot_guard imm j"
  shows "word_rotr (j + 8) (0x80 OR (drop_bit (24 - j) imm AND 0x7f)) = imm"
proof (rule bit_word_eqI)
  note gd = g [unfolded rot_guard_iff [OF j]]
  fix n assume "n < LENGTH(32)"
  then have n: "n < 32" by simp
  define m where "m = (n + (j + 8)) mod 32"
  have m: "m = (if n + (j + 8) < 32 then n + (j + 8) else n + (j + 8) - 32)"
    using n j by (simp add: m_def le_mod_geq)
  have "bit (word_rotr (j + 8) (0x80 OR (drop_bit (24 - j) imm AND 0x7f))) n
      \<longleftrightarrow> m = 7 \<or> (m < 7 \<and> bit imm (24 - j + m))"
    using n by (simp add: bit_word_rotr_iff bit_rot_payload m_def [symmetric] bit_drop_bit_eq)
  also have "\<dots> \<longleftrightarrow> bit imm n"
  proof (cases "24 - j \<le> n \<and> n \<le> 31 - j")
    case True
    with j have "\<not> n + (j + 8) < 32" by linarith
    then have "m = n + j - 24" by (simp add: m)
    with True j have "24 - j + m = n" "m = 7 \<longleftrightarrow> n = 31 - j" "m \<le> 7" by linarith+
    with gd show ?thesis by auto
  next
    case False
    with n j have "m > 7" by (simp add: m split: if_split) linarith
    with False gd show ?thesis by simp blast
  qed
  finally show "bit (word_rotr (j + 8) (0x80 OR (drop_bit (24 - j) imm AND 0x7f))) n = bit imm n" .
qed

lemma expand_rot_bits: "j \<le> 23 \<Longrightarrow> rot_guard imm j \<Longrightarrow> thumb_expand_imm (rot_bits imm j) = imm"
  using expand_rot [of "j + 8" "drop_bit (24 - j) imm"] rot_back [of j imm]
  by (simp add: rot_bits_def)

lemma pack_const_rot_sound:
  "pack_const_rot imm j \<noteq> 0 \<Longrightarrow> thumb_expand_imm (pack_const_rot imm j) = imm"
proof (induction "24 - j" arbitrary: j)
  case 0
  then show ?case by (simp add: pack_const_rot_step [of imm j])
next
  case (Suc d)
  then show ?case
    by (cases "rot_guard imm j") (auto simp: pack_const_rot_step [of imm j] expand_rot_bits split: if_splits)
qed

lemma pack_const_rot_complete:
  "rot_guard imm k \<Longrightarrow> j \<le> k \<Longrightarrow> k \<le> 23 \<Longrightarrow> pack_const_rot imm j \<noteq> 0"
proof (induction "24 - j" arbitrary: j)
  case 0
  then show ?case by simp
next
  case (Suc d)
  show ?case
  proof (cases "rot_guard imm j")
    case True
    have "rot_bits imm j \<noteq> 0"
    proof
      assume "rot_bits imm j = 0"
      then have "thumb_expand_imm 0 = imm" using expand_rot_bits [of j imm] True Suc.prems by simp
      then have "imm = 0" by (simp add: thumb_expand_imm_def field_def)
      then show False using True Suc.prems by (simp add: rot_guard_iff)
    qed
    with True Suc.prems show ?thesis by (simp add: pack_const_rot_step [of imm j])
  next
    case False
    with Suc.prems have "Suc j \<le> k" by (metis le_antisym not_less_eq_eq)
    with False Suc show ?thesis by (simp add: pack_const_rot_step [of imm j])
  qed
qed

lemma expand_plain: "thumb_expand_imm (x AND 0xff) = x AND 0xff"
proof -
  have "field (x AND 0xff) 0 8 = x AND 0xff" "field (x AND 0xff) 12 3 = 0" "field (x AND 0xff) 26 1 = 0"
    "field (x AND 0xff) 10 2 = 0" "field (x AND 0xff) 8 2 = 0"
    by (simp_all add: field_def bits32)
  then show ?thesis by (simp add: thumb_expand_imm_def)
qed

lemma expand_repl:
  assumes "c = 1 \<or> c = 2 \<or> c = 3"
  shows "thumb_expand_imm (push_bit 12 c OR (x AND 0xff)) =
    (if c = 1 then push_bit 16 (x AND 0xff) OR (x AND 0xff)
     else if c = 2 then push_bit 24 (x AND 0xff) OR push_bit 8 (x AND 0xff)
     else push_bit 24 (x AND 0xff) OR push_bit 16 (x AND 0xff) OR push_bit 8 (x AND 0xff) OR (x AND 0xff))"
proof -
  let ?w = "push_bit 12 c OR (x AND 0xff)"
  have w: "field ?w 0 8 = x AND 0xff" "field ?w 12 3 = c" "field ?w 26 1 = 0"
    using assms by (auto simp: field_def bits32)
  moreover have "field (push_bit 8 c OR (x AND 0xff)) 10 2 = 0" "field (push_bit 8 c OR (x AND 0xff)) 8 2 = c"
    using assms by (auto simp: field_def bits32)
  ultimately show ?thesis using assms by (auto simp: thumb_expand_imm_def)
qed

lemma pack_const_value_sound:
  assumes "pack_const_value imm \<noteq> 0 \<or> imm = 0"
  shows "thumb_expand_imm (pack_const_value imm) = imm"
proof -
  consider (plain) "imm AND 0xffffff00 = 0"
    | (r1) "imm AND 0xffffff00 \<noteq> 0" "imm AND 0xff00ff00 = 0 \<and> drop_bit 16 imm = imm AND 0xff"
    | (r2) "imm AND 0xffffff00 \<noteq> 0" "\<not> (imm AND 0xff00ff00 = 0 \<and> drop_bit 16 imm = imm AND 0xff)"
       "imm AND 0x00ff00ff = 0 \<and> drop_bit 16 imm AND 0xff00 = imm AND 0xff00"
    | (r3) "imm AND 0xffffff00 \<noteq> 0" "\<not> (imm AND 0xff00ff00 = 0 \<and> drop_bit 16 imm = imm AND 0xff)"
       "\<not> (imm AND 0x00ff00ff = 0 \<and> drop_bit 16 imm AND 0xff00 = imm AND 0xff00)"
       "imm AND 0xffff = drop_bit 16 imm AND 0xffff \<and> drop_bit 8 imm AND 0xff = imm AND 0xff"
    | (rot) "imm AND 0xffffff00 \<noteq> 0" "\<not> (imm AND 0xff00ff00 = 0 \<and> drop_bit 16 imm = imm AND 0xff)"
       "\<not> (imm AND 0x00ff00ff = 0 \<and> drop_bit 16 imm AND 0xff00 = imm AND 0xff00)"
       "\<not> (imm AND 0xffff = drop_bit 16 imm AND 0xffff \<and> drop_bit 8 imm AND 0xff = imm AND 0xff)"
    by blast
  then show ?thesis
  proof cases
    case plain
    then have "imm = imm AND 0xff" by (simp add: bits32)
    with plain expand_plain [of imm] show ?thesis by (simp add: pack_const_value_def)
  next
    case r1
    then have "pack_const_value imm = push_bit 12 1 OR (imm AND 0xff)" by (simp add: pack_const_value_def)
    moreover from r1(2) have "push_bit 16 (imm AND 0xff) OR (imm AND 0xff) = imm" by (simp add: bits32)
    ultimately show ?thesis using expand_repl [of 1 imm] by simp
  next
    case r2
    then have "pack_const_value imm = push_bit 12 2 OR (drop_bit 8 imm AND 0xff)"
      by (simp add: pack_const_value_def del: de_Morgan_conj)
    moreover from r2(3) have "push_bit 24 (drop_bit 8 imm AND 0xff) OR push_bit 8 (drop_bit 8 imm AND 0xff) = imm"
      by (simp add: bits32)
    ultimately show ?thesis using expand_repl [of 2 "drop_bit 8 imm"] by simp
  next
    case r3
    then have "pack_const_value imm = push_bit 12 3 OR (imm AND 0xff)"
      by (simp add: pack_const_value_def del: de_Morgan_conj)
    moreover from r3(4) have "push_bit 24 (imm AND 0xff) OR push_bit 16 (imm AND 0xff) OR
        push_bit 8 (imm AND 0xff) OR (imm AND 0xff) = imm" by (simp add: bits32) (elim conjE, simp)
    ultimately show ?thesis using expand_repl [of 3 imm] by simp
  next
    case rot
    then have "pack_const_value imm = pack_const_rot imm 0" "imm \<noteq> 0" by (auto simp: pack_const_value_def)
    with assms pack_const_rot_sound [of imm 0] show ?thesis by simp
  qed
qed

lemma rot_guard_rotr:
  assumes "8 \<le> k" "k < 32"
  shows "rot_guard (word_rotr k (0x80 OR (x AND 0x7f))) (k - 8)"
proof -
  have b: "bit (word_rotr k (0x80 OR (x AND 0x7f)) :: u32) n \<longleftrightarrow>
      n < 32 \<and> ((n + k) mod 32 = 7 \<or> ((n + k) mod 32 < 7 \<and> bit x ((n + k) mod 32)))" for n
    by (simp add: bit_word_rotr_iff bit_rot_payload)
  have r: "32 - k \<le> n \<and> n \<le> 39 - k" if "n < 32" "(n + k) mod 32 \<le> 7" for n
    using that assms by (cases "n + k < 32") (auto simp: le_mod_geq)
  have "(31 - (k - 8) + k) mod 32 = 7" using assms by simp
  then show ?thesis
    using assms r by (subst rot_guard_iff) (auto simp: b)
qed

lemma pack_const_value_complete:
  assumes "imm = thumb_expand_imm w"
  shows "pack_const_value imm \<noteq> 0 \<or> imm = 0"
proof (rule ccontr)
  assume "\<not> ?thesis"
  then have z: "pack_const_value imm = 0" and nz: "imm \<noteq> 0" by auto
  have or_nz: "push_bit 12 c OR (y AND 0xff) \<noteq> (0::u32)" if "c = 1 \<or> c = 2 \<or> c = 3" for c y
    using that by (auto simp: bits32)
  from z nz have g: "imm AND 0xffffff00 \<noteq> 0" "\<not> (imm AND 0xff00ff00 = 0 \<and> drop_bit 16 imm = imm AND 0xff)"
    "\<not> (imm AND 0x00ff00ff = 0 \<and> drop_bit 16 imm AND 0xff00 = imm AND 0xff00)"
    "\<not> (imm AND 0xffff = drop_bit 16 imm AND 0xffff \<and> drop_bit 8 imm AND 0xff = imm AND 0xff)"
    "pack_const_rot imm 0 = 0"
    using or_nz [of 1 imm] or_nz [of 2 "drop_bit 8 imm"] or_nz [of 3 imm]
    by (simp_all add: pack_const_value_def split: if_splits)
  define b where "b = field w 0 8"
  have b: "b = w AND 0xff" by (simp add: b_def field_def mask_eq_exp_minus_1)
  define imm12 where "imm12 = push_bit 11 (field w 26 1) OR push_bit 8 (field w 12 3) OR field w 0 8"
  show False
  proof (cases "field imm12 10 2 = 0")
    case True
    then have "imm = b \<or> imm = push_bit 16 b OR b \<or> imm = push_bit 24 b OR push_bit 8 b \<or>
        imm = push_bit 24 b OR push_bit 16 b OR push_bit 8 b OR b"
      using assms by (auto simp: thumb_expand_imm_def Let_def b_def imm12_def)
    then show False
    proof (elim disjE)
      assume e: "imm = b"
      have "imm AND 0xffffff00 = 0" unfolding e b by (simp add: bits32)
      with g show False by simp
    next
      assume e: "imm = push_bit 16 b OR b"
      have "imm AND 0xff00ff00 = 0 \<and> drop_bit 16 imm = imm AND 0xff" unfolding e b by (simp add: bits32)
      with g show False by simp
    next
      assume e: "imm = push_bit 24 b OR push_bit 8 b"
      have "imm AND 0x00ff00ff = 0 \<and> drop_bit 16 imm AND 0xff00 = imm AND 0xff00"
        unfolding e b by (simp add: bits32)
      with g show False by simp
    next
      assume e: "imm = push_bit 24 b OR push_bit 16 b OR push_bit 8 b OR b"
      have "imm AND 0xffff = drop_bit 16 imm AND 0xffff \<and> drop_bit 8 imm AND 0xff = imm AND 0xff"
        unfolding e b by (simp add: bits32)
      with g show False by simp
    qed
  next
    case False
    define k where "k = unat (field imm12 7 5)"
    have u: "k = unat imm12 div 128 mod 32" by (simp add: k_def unat_field)
    then have k: "k < 32" by simp
    have "8 \<le> k"
    proof (rule ccontr)
      assume "\<not> 8 \<le> k"
      moreover have "unat imm12 div 1024 mod 4 = k div 8"
        using mod_mult2_eq [of "unat imm12 div 128" 8 4] div_mult2_eq [of "unat imm12" 128 8] u by simp
      ultimately have "unat imm12 div 1024 mod 4 = 0" by simp
      then have "unat (field imm12 10 2) = 0" by (simp add: unat_field)
      with False show False by (simp add: unat_eq_0)
    qed
    have "imm = word_rotr k (push_bit 7 1 OR field imm12 0 7)"
      using False assms by (simp only: thumb_expand_imm_def Let_def imm12_def [symmetric] k_def if_False)
    then have "imm = word_rotr k (0x80 OR (imm12 AND 0x7f))"
      by (simp add: field_def mask_eq_exp_minus_1)
    then have "rot_guard imm (k - 8)" using rot_guard_rotr [of k imm12] k \<open>8 \<le> k\<close> by simp
    then have "pack_const_rot imm 0 \<noteq> 0" using k by (intro pack_const_rot_complete [of imm "k - 8"]) auto
    with g show False by simp
  qed
qed

lemma rot_field_mask:
  assumes "i AND 31 = i"
  shows "(push_bit 26 (drop_bit 4 i) OR push_bit 12 (drop_bit 1 i AND 7) OR
     push_bit 7 (i AND 1) OR (x AND 0x7f)) AND NOT 0x040070FF = (0::u32)"
proof -
  have "(push_bit 26 (drop_bit 4 (i AND 31)) OR push_bit 12 (drop_bit 1 (i AND 31) AND 7) OR
     push_bit 7 ((i AND 31) AND 1) OR (x AND 0x7f)) AND NOT 0x040070FF = (0::u32)"
    by (simp add: bits32)
  with assms show ?thesis by simp
qed

lemma pack_const_rot_fields: "pack_const_rot imm j AND NOT 0x040070FF = 0"
proof (induction "24 - j" arbitrary: j)
  case 0
  then show ?case by (simp add: pack_const_rot_step [of imm j])
next
  case (Suc d)
  have "rot_bits imm j AND NOT 0x040070FF = 0" if "j \<le> 23"
  proof -
    have "(word_of_nat (j + 8) :: u32) AND 31 = word_of_nat (j + 8)"
      using that by (intro word_of_nat_and_31) simp
    then show ?thesis unfolding rot_bits_def Let_def by (rule rot_field_mask)
  qed
  with Suc show ?case by (auto simp: pack_const_rot_step [of imm j])
qed

lemma pack_const_value_fields: "pack_const_value imm AND NOT 0x040070FF = 0"
proof -
  have "(push_bit 12 1 OR (x AND 0xff)) AND NOT 0x040070FF = (0::u32)"
    "(push_bit 12 2 OR (x AND 0xff)) AND NOT 0x040070FF = (0::u32)"
    "(push_bit 12 3 OR (x AND 0xff)) AND NOT 0x040070FF = (0::u32)" for x
    by (simp_all add: bits32)
  moreover have "imm AND NOT 0x040070FF = 0" if "imm AND 0xffffff00 = 0"
    using that by (simp add: bits32)
  ultimately show ?thesis
    by (simp only: pack_const_value_def pack_const_rot_fields split: if_split) blast
qed

subsection \<open>The cache\<close>

text \<open>
  What a client relies on when it goes through a memo table: in a good state a lookup gives
  the value of the memoised function and leaves a good state.
\<close>

locale memo =
  fixes look :: "'k \<Rightarrow> 's \<Rightarrow> 'v \<times> 's"
    and ok :: "'s \<Rightarrow> bool"
    and val :: "'k \<Rightarrow> 'v"
  assumes look_val: "ok s \<Longrightarrow> fst (look k s) = val k"
    and look_ok: "ok s \<Longrightarrow> ok (snd (look k s))"
begin

lemma look_eq: "ok s \<Longrightarrow> \<exists>s'. look k s = (val k, s') \<and> ok s'"
  by (metis look_val look_ok prod.collapse)

lemma fold_look:
  "ok s \<Longrightarrow> fold (\<lambda>k (vs, s). case look k s of (v, s') \<Rightarrow> (vs @ [v], s')) ks (vs, s) =
     (vs @ map val ks, snd (fold (\<lambda>k (vs, s). case look k s of (v, s') \<Rightarrow> (vs @ [v], s')) ks (vs, s)))"
proof (induction ks arbitrary: s vs)
  case (Cons k ks)
  then obtain s' where "look k s = (val k, s')" "ok s'" using look_eq by blast
  with Cons.IH [of s' "vs @ [val k]"] show ?case by simp
qed simp

end

lemma pack_const_idx_less: "pack_const_idx imm < 64"
proof -
  have "(x::u32) AND 63 = take_bit 6 x" for x
    using take_bit_eq_mask [of 6 x] by (simp add: mask_eq_exp_minus_1)
  then show ?thesis by (simp only: pack_const_idx_def unsigned_take_bit_eq) (simp add: take_bit_eq_mod)
qed

interpretation pack_memo: memo th_pack_const pack_cache_ok pack_const_value
proof
  fix s k assume ok: "pack_cache_ok s"
  then have "s ! pack_const_idx k \<in> set s" using pack_const_idx_less [of k] by (simp add: pack_cache_ok_def)
  with ok show "fst (th_pack_const k s) = pack_const_value k"
    by (auto simp: th_pack_const_def Let_def pack_cache_ok_def)
  from ok show "pack_cache_ok (snd (th_pack_const k s))"
    by (auto simp: th_pack_const_def Let_def pack_cache_ok_def dest!: set_update_subset_insert [THEN subsetD])
qed

lemma pack_cache0_ok: "pack_cache_ok th_pack_const_cache0"
  by (simp add: pack_cache_ok_def th_pack_const_cache0_def)

subsection \<open>Branch offsets\<close>

lemma sint_signed_take_bit_word_of_int:
  assumes "n < 31" "- (2 ^ n) \<le> k" "k < 2 ^ n"
  shows "sint (signed_take_bit n (word_of_int k :: u32)) = k"
proof -
  have "sint (signed_take_bit n (word_of_int k :: u32)) = signed_take_bit n k"
    using assms by (simp add: sint_uint signed_take_bit_of_int unsigned_of_int signed_take_bit_take_bit min_def)
  also have "\<dots> = k" using assms by (simp add: signed_take_bit_int_eq_self_iff)
  finally show ?thesis .
qed

lemma halve_offset:
  assumes "even (addr - pos)"
  obtains m :: int where "addr - pos - 4 = 2 * m" "drop_bit 1 (addr - pos - 4) = m"
proof -
  from assms have "even (addr - pos - 4)" by simp
  then obtain m where "addr - pos - 4 = 2 * m" by blast
  then show thesis by (intro that [of m]) (simp_all add: drop_bit_eq_div del: diff_diff_add)
qed

lemma encbranch_8_reaches:
  assumes "even (addr - pos)" "- 256 \<le> addr - pos - 4" "addr - pos - 4 \<le> 254"
  shows "\<exists>w. th_encbranch_8 pos addr = Inr w \<and> pos + 4 + 2 * sint (signed_take_bit 7 w) = addr"
proof -
  obtain a where a: "addr - pos - 4 = 2 * a" "drop_bit 1 (addr - pos - 4) = a"
    using assms(1) by (rule halve_offset)
  have "signed_take_bit 7 ((word_of_int a :: u32) AND 0xff) = signed_take_bit 7 (word_of_int a)"
    by (simp add: bits32)
  then have "sint (signed_take_bit 7 ((word_of_int a :: u32) AND 0xff)) = a"
    using sint_signed_take_bit_word_of_int [of 7 a] a(1) assms by simp
  moreover have "\<not> (a > 127 \<or> a < - 128)" using a(1) assms by linarith
  then have "th_encbranch_8 pos addr = Inr (word_of_int a AND 0xff)"
    by (simp only: th_encbranch_8_def a(2) Let_def if_False)
  ultimately show ?thesis using a(1) by simp
qed

lemma encbranch_11_reaches:
  assumes "even (addr - pos)" "- 2048 \<le> addr - pos - 4" "addr - pos - 4 \<le> 2046"
  shows "\<exists>w. th_encbranch_11 pos addr = Inr w \<and> pos + 4 + 2 * sint (signed_take_bit 10 w) = addr"
proof -
  obtain a where a: "addr - pos - 4 = 2 * a" "drop_bit 1 (addr - pos - 4) = a"
    using assms(1) by (rule halve_offset)
  have "signed_take_bit 10 ((word_of_int a :: u32) AND 0x7ff) = signed_take_bit 10 (word_of_int a)"
    by (simp add: bits32)
  then have "sint (signed_take_bit 10 ((word_of_int a :: u32) AND 0x7ff)) = a"
    using sint_signed_take_bit_word_of_int [of 10 a] a(1) assms by simp
  moreover have "\<not> (a > 1023 \<or> a < - 1024)" using a(1) assms by linarith
  then have "th_encbranch_11 pos addr = Inr (word_of_int a AND 0x7ff)"
    by (simp only: th_encbranch_11_def a(2) Let_def if_False)
  ultimately show ?thesis using a(1) by simp
qed

lemma encbranch_20_reaches:
  assumes "even (addr - pos)" "- 1048576 \<le> addr - pos - 4" "addr - pos - 4 \<le> 1048574"
  shows "pos + 4 + sint (unpack_b_t3 (th_encbranch_b_t3 (th_encbranch_20 pos addr))) = addr"
proof -
  obtain a where a: "addr - pos - 4 = 2 * a" "drop_bit 1 (addr - pos - 4) = a"
    using assms(1) by (rule halve_offset)
  have "push_bit 1 (th_encbranch_20 pos addr) = word_of_int (2 * a)"
    by (simp only: th_encbranch_20_def a(2)) simp
  then have "sint (signed_take_bit 20 (push_bit 1 (th_encbranch_20 pos addr))) = 2 * a"
    using sint_signed_take_bit_word_of_int [of 20 "2 * a"] a(1) assms by simp
  then show ?thesis using a(1) by (simp only: unpack_pack_b_t3)
qed

lemma encbranch_bl_reaches:
  assumes "even (addr - pos)" "- 16777216 \<le> addr - pos - 4" "addr - pos - 4 \<le> 16777214"
  shows "pos + 4 + sint (unpack_10_11_0 (th_packimm_10_11_0 (th_encbranch pos addr))) = addr"
proof -
  obtain a where a: "addr - pos - 4 = 2 * a" using assms(1) by (rule halve_offset)
  have "th_encbranch pos addr = push_bit 1 (word_of_int a)"
    by (simp only: th_encbranch_def a) simp
  then have "th_encbranch pos addr AND NOT 1 = th_encbranch pos addr" by (simp add: bits32)
  then have "th_encbranch pos addr AND NOT 1 = word_of_int (2 * a)"
    by (simp only: th_encbranch_def a)
  then have "sint (signed_take_bit 24 (th_encbranch pos addr AND NOT 1)) = 2 * a"
    using sint_signed_take_bit_word_of_int [of 24 "2 * a"] a assms by simp
  then show ?thesis using a by (simp only: unpack_pack_10_11_0)
qed

subsection \<open>Shift operands\<close>

lemma word_rotr_0 [simp]: "word_rotr 0 (x::u32) = x"
  by (rule bit_word_eqI) (simp add: bit_word_rotr_iff)

lemma le_31_and: "(v::u32) \<le> 31 \<Longrightarrow> v AND 31 = v"
  using word_of_nat_and_31 [of "unat v"] by (simp add: word_le_nat_alt)

lemma le_32_cases: "(v::u32) \<le> 32 \<Longrightarrow> v = 32 \<or> v \<le> 31"
  by uint_arith

lemma shift_normalize_sound:
  assumes "th_shift_imm_normalize s = (True, s')"
    and "sft_type s \<in> {THUMB_SHIFT_NONE, THUMB_SHIFT_RRX} \<Longrightarrow> sft_value s = 0"
  shows "apply_shift c (decode_imm_shift (th_shift_value_to_sr_type s') (sft_value s' AND 31)) x =
    apply_shift c (sft_type s, sft_value s) x"
proof (cases "sft_value s = 0")
  case True
  then show ?thesis using assms
    by (cases "sft_type s") (auto simp: th_shift_imm_normalize_def th_shift_value_to_sr_type_def decode_imm_shift_def apply_shift_def)
next
  case False
  then have v: "sft_value s \<le> 31 \<or> sft_value s = 32 \<and> sft_type s \<in> {THUMB_SHIFT_LSR, THUMB_SHIFT_ASR}"
    and s': "s' = s"
    using assms le_32_cases [of "sft_value s"] by (cases "sft_type s"; auto simp: th_shift_imm_normalize_def)+
  from v show ?thesis
  proof
    assume "sft_value s \<le> 31"
    then show ?thesis using le_31_and [of "sft_value s"] False s' assms
      by (cases "sft_type s") (auto simp: th_shift_value_to_sr_type_def decode_imm_shift_def apply_shift_def)
  next
    assume "sft_value s = 32 \<and> sft_type s \<in> {THUMB_SHIFT_LSR, THUMB_SHIFT_ASR}"
    then show ?thesis using s'
      by (auto simp: th_shift_value_to_sr_type_def decode_imm_shift_def apply_shift_def)
  qed
qed

subsection \<open>Properties\<close>

text \<open>
  C10: the modified-immediate encoder with its cache is exact.  In a sound cache
  \<^verbatim>\<open>th_pack_const\<close> leaves a sound cache; it reports an encoding (a nonzero result, or
  the constant 0) precisely when some encoding expands to the constant; the encoding it
  reports expands to the constant; and it only occupies the i:imm3:imm8 fields.
\<close>

theorem th_pack_const_exact:
  assumes "pack_cache_ok cache" and "th_pack_const imm cache = (r, cache')"
  shows "pack_cache_ok cache' \<and>
    ((r \<noteq> 0 \<or> imm = 0) \<longleftrightarrow> (\<exists>w. thumb_expand_imm w = imm)) \<and>
    (r \<noteq> 0 \<or> imm = 0 \<longrightarrow> thumb_expand_imm r = imm) \<and>
    r AND NOT 0x040070FF = 0"
proof -
  from pack_memo.look_eq [OF assms(1), of imm] assms(2)
  have r: "r = pack_const_value imm" and ok: "pack_cache_ok cache'" by auto
  have "(\<exists>w. thumb_expand_imm w = imm) \<longleftrightarrow> r \<noteq> 0 \<or> imm = 0"
    unfolding r using pack_const_value_complete pack_const_value_sound by metis
  then show ?thesis
    using ok pack_const_value_sound [of imm] pack_const_value_fields [of imm] by (simp add: r)
qed

theorem th_pack_const_exact_witness:
  "thumb_expand_imm (fst (th_pack_const 0xFF00 th_pack_const_cache0)) = 0xFF00"
proof -
  obtain r c where rc: "th_pack_const 0xFF00 th_pack_const_cache0 = (r, c)" by fastforce
  have "r \<noteq> 0" using rc pack_memo.look_val [OF pack_cache0_ok, of "0xFF00"]
    by (simp add: pack_const_value_def pack_const_rot.simps)
  with th_pack_const_exact [OF pack_cache0_ok rc] rc show ?thesis by simp
qed

end
