(* ===== verification/Thumb_Custom.thy ===== *)
theory Thumb_Custom
  imports Thumb_Pack
begin

section \<open>Custom emitters\<close>

text \<open>
  The encodings that do not fit the generic shapes: the \<^verbatim>\<open>*_emit\<close> functions of the
  \<^verbatim>\<open>thop_*.c\<close> files, one definition per function, and \<^verbatim>\<open>thop_call_custom\<close>
  (\<^verbatim>\<open>thop_customs_def.h\<close>), which dispatches on the emitter's number.  An emitter that does
  not apply gives size 0.  \<^verbatim>\<open>mvn_imm_emit\<close> goes through the \<^verbatim>\<open>th_pack_const\<close> cache and
  \<^verbatim>\<open>mov_reg_shift_t1_emit\<close> can end the compilation, so the dispatcher returns a sum and
  threads the cache.
\<close>

subsection \<open>Branches (\<open>thop_branch.c\<close>)\<close>

definition bl_t1_emit :: "u32 \<Rightarrow> thop_args \<Rightarrow> thumb_opcode" where
  "bl_t1_emit base a =
     (let sval = sint (a_imm a)
      in if odd sval \<or> sval < -16777216 \<or> sval > 16777214 then no_opcode
         else let val = a_imm a;
                  s = drop_bit 24 val AND 1;
                  imm10 = drop_bit 12 val AND 0x3ff;
                  j1 = (NOT (drop_bit 23 val AND 1) XOR s) AND 1;
                  j2 = (NOT (drop_bit 22 val AND 1) XOR s) AND 1;
                  imm11 = drop_bit 1 val AND 0x7ff;
                  hi = 0xf000 OR push_bit 10 s OR imm10;
                  lo = 0xd000 OR push_bit 13 j1 OR push_bit 11 j2 OR imm11
              in \<lparr>op_size = 4, op_code = push_bit 16 hi OR lo\<rparr>)"

definition b_t3_emit :: "u32 \<Rightarrow> thop_args \<Rightarrow> thumb_opcode" where
  "b_t3_emit base a =
     (let imm = a_imm a;
          s = drop_bit 19 imm AND 1;
          imm6 = drop_bit 11 imm AND 0x3f;
          imm11 = imm AND 0x7ff;
          j2 = drop_bit 18 imm AND 1;
          j1 = drop_bit 17 imm AND 1;
          a_field = push_bit 10 s OR imm6;
          b_field = push_bit 13 j1 OR push_bit 11 j2 OR imm11;
          enc = push_bit 16 a_field OR b_field
      in \<lparr>op_size = 4, op_code = 0xf0008000 OR push_bit 22 (a_rd a) OR enc\<rparr>)"

definition b_t4_emit :: "u32 \<Rightarrow> thop_args \<Rightarrow> thumb_opcode" where
  "b_t4_emit base a =
     (let sval = sint (a_imm a)
      in if odd sval \<or> sval < -16777216 \<or> sval > 16777214 then no_opcode
         else let val = a_imm a;
                  s = drop_bit 24 val AND 1;
                  imm10 = drop_bit 12 val AND 0x3ff;
                  j1 = (NOT (drop_bit 23 val AND 1) XOR s) AND 1;
                  j2 = (NOT (drop_bit 22 val AND 1) XOR s) AND 1;
                  imm11 = drop_bit 1 val AND 0x7ff;
                  hi = 0xf000 OR push_bit 10 s OR imm10;
                  lo = 0x9000 OR push_bit 13 j1 OR push_bit 11 j2 OR imm11
              in \<lparr>op_size = 4, op_code = push_bit 16 hi OR lo\<rparr>)"

definition b_t2_emit :: "u32 \<Rightarrow> thop_args \<Rightarrow> thumb_opcode" where
  "b_t2_emit base a =
     (let i = signed_drop_bit 1 (a_imm a)
      in if sint i \<le> 1023 \<and> sint i \<ge> -1024 \<and> \<not> bit (a_imm a) 0
         then \<lparr>op_size = 2, op_code = base OR (i AND 0x7ff)\<rparr>
         else no_opcode)"

definition cbz_emit :: "u32 \<Rightarrow> thop_args \<Rightarrow> thumb_opcode" where
  "cbz_emit base a =
     (let val = a_imm a
      in if val > 126 \<or> val AND 1 \<noteq> 0 \<or> a_rd a > 7 then no_opcode
         else let i = drop_bit 5 val AND 1;
                  imm5 = drop_bit 1 val AND 0x1f
              in \<lparr>op_size = 2, op_code = base OR push_bit 9 i OR push_bit 3 imm5 OR a_rd a\<rparr>)"

subsection \<open>Comparisons, coprocessors, DSP\<close>

definition cmp_reg_t2_custom_emit :: "u32 \<Rightarrow> thop_args \<Rightarrow> thumb_opcode" where
  "cmp_reg_t2_custom_emit base a =
     (let N = drop_bit 3 (a_rn a) AND 1
      in \<lparr>op_size = 2, op_code = base OR push_bit 7 N OR push_bit 3 (a_rm a) OR (a_rn a AND 7)\<rparr>)"

definition coproc_cdp_emit :: "u32 \<Rightarrow> thop_args \<Rightarrow> thumb_opcode" where
  "coproc_cdp_emit base a =
     \<lparr>op_size = 4,
      op_code = base OR push_bit 20 (a_ra a AND 0xf) OR push_bit 16 (a_rn a AND 0xf) OR
        push_bit 12 (a_rd a AND 0xf) OR push_bit 8 (a_imm2 a AND 0xf) OR
        push_bit 5 (a_imm a AND 7) OR (a_rm a AND 0xf)\<rparr>"

definition coproc_mcr_emit :: "u32 \<Rightarrow> thop_args \<Rightarrow> thumb_opcode" where
  "coproc_mcr_emit base a =
     \<lparr>op_size = 4,
      op_code = base OR push_bit 21 (a_ra a AND 7) OR push_bit 16 (a_rn a AND 0xf) OR
        push_bit 12 (a_rd a AND 0xf) OR push_bit 8 (a_imm2 a AND 0xf) OR
        push_bit 5 (a_imm a AND 7) OR (a_rm a AND 0xf)\<rparr>"

definition coproc_mcrr_emit :: "u32 \<Rightarrow> thop_args \<Rightarrow> thumb_opcode" where
  "coproc_mcrr_emit base a =
     \<lparr>op_size = 4,
      op_code = base OR push_bit 16 (a_rn a AND 0xf) OR push_bit 12 (a_rd a AND 0xf) OR
        push_bit 8 (a_imm2 a AND 0xf) OR push_bit 4 (a_ra a AND 0xf) OR (a_rm a AND 0xf)\<rparr>"

definition pkhbt_emit :: "u32 \<Rightarrow> thop_args \<Rightarrow> thumb_opcode" where
  "pkhbt_emit base a =
     (let shift_n = sft_value (a_shift a);
          tb = (if sft_type (a_shift a) = THUMB_SHIFT_ASR then 1 else 0)
      in \<lparr>op_size = 4,
          op_code = base OR push_bit 8 (a_rd a) OR push_bit 16 (a_rn a) OR a_rm a OR
            push_bit 6 (shift_n AND 3) OR push_bit 12 (drop_bit 2 shift_n AND 7) OR
            push_bit 5 tb\<rparr>)"

subsection \<open>Loads (\<open>thop_ldr_literal.c\<close>, \<open>thop_ldrd.c\<close>)\<close>

definition ldr_literal_emit :: "u32 \<Rightarrow> thop_args \<Rightarrow> thumb_opcode" where
  "ldr_literal_emit base a =
     (let rt = a_rd a; imm = a_imm a; add = a_rn a
      in if rt = R_PC then no_opcode
         else if imm \<le> 0xfff then
           \<lparr>op_size = 4,
            op_code = push_bit 16 (0xf85f OR push_bit 7 (add AND 1)) OR
              (push_bit 12 (rt AND 0xf) OR imm)\<rparr>
         else no_opcode)"

definition ldrd_imm_emit :: "u32 \<Rightarrow> thop_args \<Rightarrow> thumb_opcode" where
  "ldrd_imm_emit base a =
     (let imm = a_imm a;
          index = (if a_puw a AND 4 \<noteq> 0 then 1 else 0);
          add = (if a_puw a AND 2 \<noteq> 0 then 1 else 0);
          wback = (if a_puw a AND 1 \<noteq> 0 then 1 else 0)
      in \<lparr>op_size = 4,
          op_code = base OR push_bit 23 add OR push_bit 24 index OR push_bit 21 wback OR
            push_bit 16 (a_rn a) OR push_bit 12 (a_rd a) OR push_bit 8 (a_rm a) OR
            (imm AND 0xff)\<rparr>)"

subsection \<open>Moves (\<open>thop_mov.c\<close>, \<open>thop_mvn.c\<close>, \<open>thop_mrs.c\<close>)\<close>

definition mov_reg_t1_shift_emit :: "u32 \<Rightarrow> thop_args \<Rightarrow> thumb_opcode" where
  "mov_reg_t1_shift_emit base a =
     (if a_rd a < 8 \<and> a_rm a < 8 \<and> sft_type (a_shift a) \<noteq> THUMB_SHIFT_RRX \<and>
         sft_type (a_shift a) \<noteq> THUMB_SHIFT_ROR \<and>
         (a_flags a = FLAGS_BEHAVIOUR_SET \<and> \<not> a_in_it_block a \<or>
          a_flags a \<noteq> FLAGS_BEHAVIOUR_SET \<and> a_in_it_block a)
      then \<lparr>op_size = 2,
            op_code = push_bit 11 (th_shift_value_to_sr_type (a_shift a)) OR
              push_bit 6 (sft_value (a_shift a) AND 0x1f) OR push_bit 3 (a_rm a) OR a_rd a\<rparr>
      else no_opcode)"

definition mov_imm_t1_emit :: "u32 \<Rightarrow> thop_args \<Rightarrow> thumb_opcode" where
  "mov_imm_t1_emit base a =
     (if a_rd a \<le> 7 \<and> a_imm a \<le> 255 \<and> a_flags a \<noteq> FLAGS_BEHAVIOUR_BLOCK
      then \<lparr>op_size = 2, op_code = base OR push_bit 8 (a_rd a) OR a_imm a\<rparr>
      else no_opcode)"

definition mov_reg_shift_t1_emit :: "u32 \<Rightarrow> thop_args \<Rightarrow> tcc_failure + thumb_opcode" where
  "mov_reg_shift_t1_emit base a =
     (if a_rd a = a_rm a \<and> a_rd a < 8 \<and> a_ra a < 8 \<and> a_enc a \<noteq> ENFORCE_ENCODING_32BIT \<and>
         sft_type (a_shift a) \<noteq> THUMB_SHIFT_RRX
      then (case th_shift_type_to_op (a_shift a) of
              Inl e \<Rightarrow> Inl e
            | Inr op \<Rightarrow> Inr \<lparr>op_size = 2,
                op_code = 0x4000 OR push_bit 3 (a_ra a) OR push_bit 6 op OR a_rd a\<rparr>)
      else Inr no_opcode)"

definition mrs_emit :: "u32 \<Rightarrow> thop_args \<Rightarrow> thumb_opcode" where
  "mrs_emit base a = \<lparr>op_size = 4, op_code = base OR push_bit 8 (a_rd a) OR a_rm a\<rparr>"

definition msr_emit :: "u32 \<Rightarrow> thop_args \<Rightarrow> thumb_opcode" where
  "msr_emit base a =
     \<lparr>op_size = 4, op_code = base OR push_bit 16 (a_rd a) OR push_bit 10 (a_imm a) OR a_rm a\<rparr>"

definition mvn_imm_emit ::
  "u32 \<Rightarrow> thop_args \<Rightarrow> pack_const_cache \<Rightarrow> thumb_opcode \<times> pack_const_cache" where
  "mvn_imm_emit base a cache =
     (let S = (if a_flags a = FLAGS_BEHAVIOUR_SET then 1 else 0)
      in case th_pack_const (a_imm a) cache of (packed, cache') \<Rightarrow>
           if packed = 0 \<and> a_imm a \<noteq> 0 then (no_opcode, cache')
           else (\<lparr>op_size = 4,
                  op_code = base OR push_bit 20 S OR push_bit 8 (a_rd a) OR packed\<rparr>, cache'))"

subsection \<open>Multiplication, shifts, system\<close>

definition mul_t16_emit :: "u32 \<Rightarrow> thop_args \<Rightarrow> thumb_opcode" where
  "mul_t16_emit base a =
     \<lparr>op_size = 2, op_code = base OR (a_rd a AND 7) OR push_bit 3 (a_rm a AND 7)\<rparr>"

definition long_mul_emit :: "u32 \<Rightarrow> thop_args \<Rightarrow> thumb_opcode" where
  "long_mul_emit base a =
     \<lparr>op_size = 4,
      op_code = base OR push_bit 8 (a_rd a) OR push_bit 16 (a_rn a) OR a_rm a OR
        push_bit 12 (a_ra a)\<rparr>"

definition shift_reg_t1_emit :: "u32 \<Rightarrow> thop_args \<Rightarrow> thumb_opcode" where
  "shift_reg_t1_emit base a =
     \<lparr>op_size = 2, op_code = base OR push_bit 3 (a_rm a) OR (a_rd a AND 7)\<rparr>"

definition clz_emit :: "u32 \<Rightarrow> thop_args \<Rightarrow> thumb_opcode" where
  "clz_emit base a =
     \<lparr>op_size = 4, op_code = base OR push_bit 16 (a_rm a) OR push_bit 8 (a_rd a) OR a_rm a\<rparr>"

definition tt_emit :: "u32 \<Rightarrow> thop_args \<Rightarrow> thumb_opcode" where
  "tt_emit base a =
     (let op = base OR push_bit 16 (a_rn a) OR push_bit 8 (a_rd a);
          op = (if a_imm a \<noteq> 0 then op OR 0x80 else op);
          op = (if a_imm2 a \<noteq> 0 then op OR 0x40 else op)
      in \<lparr>op_size = 4, op_code = op\<rparr>)"

subsection \<open>Floating point (\<open>thop_vfp.c\<close>)\<close>

text \<open>The D:Vd split of a VFP register: \<open>(D, Vd)\<close>.\<close>

definition vfp_pack_sp :: "u32 \<Rightarrow> u32 \<times> u32" where
  "vfp_pack_sp reg = (reg AND 1, drop_bit 1 reg AND 0xf)"

definition vfp_pack_dp :: "u32 \<Rightarrow> u32 \<times> u32" where
  "vfp_pack_dp reg = (drop_bit 4 reg AND 1, reg AND 0xf)"

definition vfp_arith3_emit :: "u32 \<Rightarrow> thop_args \<Rightarrow> thumb_opcode" where
  "vfp_arith3_emit base a =
     (let pack = (if bit base 8 then vfp_pack_dp else vfp_pack_sp);
          (D, Vd) = pack (a_rd a);
          (N, Vn) = pack (a_rn a);
          (M, Vm) = pack (a_rm a)
      in \<lparr>op_size = 4,
          op_code = base OR push_bit 22 D OR push_bit 16 Vn OR push_bit 12 Vd OR
            push_bit 7 N OR push_bit 5 M OR Vm\<rparr>)"

definition vfp_arith2_emit :: "u32 \<Rightarrow> thop_args \<Rightarrow> thumb_opcode" where
  "vfp_arith2_emit base a =
     (let pack = (if bit base 8 then vfp_pack_dp else vfp_pack_sp);
          (D, Vd) = pack (a_rd a);
          (M, Vm) = pack (a_rm a)
      in \<lparr>op_size = 4, op_code = base OR push_bit 22 D OR push_bit 12 Vd OR push_bit 5 M OR Vm\<rparr>)"

definition vmov_reg_emit :: "u32 \<Rightarrow> thop_args \<Rightarrow> thumb_opcode" where
  "vmov_reg_emit base a =
     (let pack = (if bit base 8 then vfp_pack_dp else vfp_pack_sp);
          (D, Vd) = pack (a_rd a);
          (M, Vm) = pack (a_rm a)
      in \<lparr>op_size = 4, op_code = base OR push_bit 22 D OR push_bit 12 Vd OR push_bit 5 M OR Vm\<rparr>)"

text \<open>
  The two loops of \<^verbatim>\<open>vfp_pushpop_emit\<close>: the lowest set bit of the list (0 when it is
  empty) and the number of set bits.
\<close>

definition vfp_first_register :: "u32 \<Rightarrow> nat" where
  "vfp_first_register regs = (case List.find (bit regs) [0..<32] of Some i \<Rightarrow> i | None \<Rightarrow> 0)"

definition vfp_register_count :: "u32 \<Rightarrow> nat" where
  "vfp_register_count regs = length (filter (bit regs) [0..<32])"

definition vfp_pushpop_emit :: "u32 \<Rightarrow> thop_args \<Rightarrow> thumb_opcode" where
  "vfp_pushpop_emit base a =
     (let regs = a_imm a;
          is_doubleword = bit base 8;
          first = word_of_nat (vfp_first_register regs) :: u32;
          cnt = vfp_register_count regs;
          (D, Vd) = (if is_doubleword then vfp_pack_dp first else vfp_pack_sp first);
          cnt = (if is_doubleword then 2 * cnt else cnt)
      in \<lparr>op_size = 4,
          op_code = base OR push_bit 22 D OR push_bit 12 Vd OR (word_of_nat cnt AND 0xff)\<rparr>)"

definition vfp_ldst_emit :: "u32 \<Rightarrow> thop_args \<Rightarrow> thumb_opcode" where
  "vfp_ldst_emit base a =
     (let (D, Vd) = (if bit base 8 then vfp_pack_dp (a_rd a) else vfp_pack_sp (a_rd a));
          op = base OR push_bit 22 D OR push_bit 16 (a_rn a) OR push_bit 12 Vd OR (a_imm a AND 0xff);
          op = (if a_imm2 a = 0 then op AND NOT (push_bit 23 1) else op)
      in \<lparr>op_size = 4, op_code = op\<rparr>)"

definition vmov_gp_sp_emit :: "u32 \<Rightarrow> thop_args \<Rightarrow> thumb_opcode" where
  "vmov_gp_sp_emit base a =
     (let Vn = drop_bit 1 (a_rn a) AND 0xf;
          N = a_rn a AND 1
      in \<lparr>op_size = 4,
          op_code = base OR push_bit 20 (a_imm2 a) OR push_bit 12 (a_rd a) OR push_bit 16 Vn OR
            push_bit 7 N\<rparr>)"

definition vmov_2gp_dp_emit :: "u32 \<Rightarrow> thop_args \<Rightarrow> thumb_opcode" where
  "vmov_2gp_dp_emit base a =
     (let M = drop_bit 4 (a_rm a) AND 1;
          Vm = a_rm a AND 0xf
      in \<lparr>op_size = 4,
          op_code = base OR push_bit 20 (a_imm2 a) OR push_bit 16 (a_rn a) OR push_bit 12 (a_rd a) OR
            push_bit 5 M OR Vm\<rparr>)"

definition vcvt_fd_emit :: "u32 \<Rightarrow> thop_args \<Rightarrow> thumb_opcode" where
  "vcvt_fd_emit base a =
     (let D = drop_bit 4 (a_rd a) AND 1;
          Vd = a_rd a AND 0xf;
          M = a_rm a AND 1;
          Vm = drop_bit 1 (a_rm a) AND 0xf
      in \<lparr>op_size = 4, op_code = base OR push_bit 22 D OR push_bit 12 Vd OR push_bit 5 M OR Vm\<rparr>)"

definition vcvt_df_emit :: "u32 \<Rightarrow> thop_args \<Rightarrow> thumb_opcode" where
  "vcvt_df_emit base a =
     (let D = a_rd a AND 1;
          Vd = drop_bit 1 (a_rd a) AND 0xf;
          M = drop_bit 4 (a_rm a) AND 1;
          Vm = a_rm a AND 0xf
      in \<lparr>op_size = 4, op_code = base OR push_bit 22 D OR push_bit 12 Vd OR push_bit 5 M OR Vm\<rparr>)"

definition vcvt_fp_int_emit :: "u32 \<Rightarrow> thop_args \<Rightarrow> thumb_opcode" where
  "vcvt_fp_int_emit base a =
     (let sz = drop_bit 8 base AND 1;
          is_fp_to_int = a_imm a \<noteq> 0;
          op_bit = of_bool is_fp_to_int OR a_imm2 a;
          (D, Vd) = (if is_fp_to_int then vfp_pack_sp (a_rd a)
                     else if sz = 0 then vfp_pack_sp (a_rd a) else vfp_pack_dp (a_rd a));
          (M, Vm) = (if is_fp_to_int \<and> sz = 1 then vfp_pack_dp (a_rm a) else vfp_pack_sp (a_rm a))
      in \<lparr>op_size = 4,
          op_code = base OR push_bit 22 D OR push_bit 12 Vd OR push_bit 16 (a_imm a) OR
            push_bit 7 op_bit OR 0x40 OR push_bit 5 M OR Vm\<rparr>)"

subsection \<open>Dispatch\<close>

definition thop_call_custom ::
  "thop_custom_id \<Rightarrow> u32 \<Rightarrow> thop_args \<Rightarrow> pack_const_cache \<Rightarrow>
   tcc_failure + thumb_opcode \<times> pack_const_cache"
where
  "thop_call_custom cid base a cache =
     (case cid of
        CUSTOM_NONE \<Rightarrow> Inr (no_opcode, cache)
      | CUSTOM_bl_t1_emit \<Rightarrow> Inr (bl_t1_emit base a, cache)
      | CUSTOM_b_t3_emit \<Rightarrow> Inr (b_t3_emit base a, cache)
      | CUSTOM_b_t4_emit \<Rightarrow> Inr (b_t4_emit base a, cache)
      | CUSTOM_b_t2_emit \<Rightarrow> Inr (b_t2_emit base a, cache)
      | CUSTOM_cbz_emit \<Rightarrow> Inr (cbz_emit base a, cache)
      | CUSTOM_cmp_reg_t2_custom_emit \<Rightarrow> Inr (cmp_reg_t2_custom_emit base a, cache)
      | CUSTOM_coproc_cdp_emit \<Rightarrow> Inr (coproc_cdp_emit base a, cache)
      | CUSTOM_coproc_mcr_emit \<Rightarrow> Inr (coproc_mcr_emit base a, cache)
      | CUSTOM_coproc_mcrr_emit \<Rightarrow> Inr (coproc_mcrr_emit base a, cache)
      | CUSTOM_pkhbt_emit \<Rightarrow> Inr (pkhbt_emit base a, cache)
      | CUSTOM_ldr_literal_emit \<Rightarrow> Inr (ldr_literal_emit base a, cache)
      | CUSTOM_ldrd_imm_emit \<Rightarrow> Inr (ldrd_imm_emit base a, cache)
      | CUSTOM_mov_reg_t1_shift_emit \<Rightarrow> Inr (mov_reg_t1_shift_emit base a, cache)
      | CUSTOM_mov_imm_t1_emit \<Rightarrow> Inr (mov_imm_t1_emit base a, cache)
      | CUSTOM_mov_reg_shift_t1_emit \<Rightarrow>
          (case mov_reg_shift_t1_emit base a of Inl e \<Rightarrow> Inl e | Inr r \<Rightarrow> Inr (r, cache))
      | CUSTOM_mrs_emit \<Rightarrow> Inr (mrs_emit base a, cache)
      | CUSTOM_msr_emit \<Rightarrow> Inr (msr_emit base a, cache)
      | CUSTOM_mul_t16_emit \<Rightarrow> Inr (mul_t16_emit base a, cache)
      | CUSTOM_long_mul_emit \<Rightarrow> Inr (long_mul_emit base a, cache)
      | CUSTOM_mvn_imm_emit \<Rightarrow> Inr (mvn_imm_emit base a cache)
      | CUSTOM_shift_reg_t1_emit \<Rightarrow> Inr (shift_reg_t1_emit base a, cache)
      | CUSTOM_clz_emit \<Rightarrow> Inr (clz_emit base a, cache)
      | CUSTOM_tt_emit \<Rightarrow> Inr (tt_emit base a, cache)
      | CUSTOM_vfp_arith3_emit \<Rightarrow> Inr (vfp_arith3_emit base a, cache)
      | CUSTOM_vfp_arith2_emit \<Rightarrow> Inr (vfp_arith2_emit base a, cache)
      | CUSTOM_vmov_reg_emit \<Rightarrow> Inr (vmov_reg_emit base a, cache)
      | CUSTOM_vfp_pushpop_emit \<Rightarrow> Inr (vfp_pushpop_emit base a, cache)
      | CUSTOM_vfp_ldst_emit \<Rightarrow> Inr (vfp_ldst_emit base a, cache)
      | CUSTOM_vmov_gp_sp_emit \<Rightarrow> Inr (vmov_gp_sp_emit base a, cache)
      | CUSTOM_vmov_2gp_dp_emit \<Rightarrow> Inr (vmov_2gp_dp_emit base a, cache)
      | CUSTOM_vcvt_fd_emit \<Rightarrow> Inr (vcvt_fd_emit base a, cache)
      | CUSTOM_vcvt_df_emit \<Rightarrow> Inr (vcvt_df_emit base a, cache)
      | CUSTOM_vcvt_fp_int_emit \<Rightarrow> Inr (vcvt_fp_int_emit base a, cache))"

lemmas custom_emit_defs [emit_simps] =
  bl_t1_emit_def b_t3_emit_def b_t4_emit_def b_t2_emit_def cbz_emit_def
  cmp_reg_t2_custom_emit_def coproc_cdp_emit_def coproc_mcr_emit_def coproc_mcrr_emit_def
  pkhbt_emit_def ldr_literal_emit_def ldrd_imm_emit_def mov_reg_t1_shift_emit_def
  mov_imm_t1_emit_def mov_reg_shift_t1_emit_def mrs_emit_def msr_emit_def mvn_imm_emit_def
  mul_t16_emit_def long_mul_emit_def shift_reg_t1_emit_def clz_emit_def tt_emit_def
  vfp_arith3_emit_def vfp_arith2_emit_def vmov_reg_emit_def vfp_pushpop_emit_def
  vfp_ldst_emit_def vmov_gp_sp_emit_def vmov_2gp_dp_emit_def vcvt_fd_emit_def
  vcvt_df_emit_def vcvt_fp_int_emit_def

end
