(* ===== verification/Thumb_Shapes.thy ===== *)
theory Thumb_Shapes
  imports Thumb_Defs
begin

section \<open>The encoding shapes\<close>

text \<open>
  The entries of \<^verbatim>\<open>thop_shapes[]\<close> (\<^verbatim>\<open>thop_shapes_def.h\<close>), one list per section of the
  array, each entry written over the all-zero shape as the designated initialiser is; the numbering of \<^verbatim>\<open>enum thop_shape_id\<close> (\<^verbatim>\<open>thop_shapes.h\<close>), and the array.
\<close>

subsection \<open>Shape numbers\<close>

abbreviation (input) THOP_SHAPE_END :: nat where "THOP_SHAPE_END \<equiv> 0"
abbreviation (input) THOP_SHAPE_ADR_T1 :: nat where "THOP_SHAPE_ADR_T1 \<equiv> 1"
abbreviation (input) THOP_SHAPE_ADR_T3 :: nat where "THOP_SHAPE_ADR_T3 \<equiv> 2"
abbreviation (input) THOP_SHAPE_ADR_T4 :: nat where "THOP_SHAPE_ADR_T4 \<equiv> 3"
abbreviation (input) THOP_SHAPE_T16_IMM8 :: nat where "THOP_SHAPE_T16_IMM8 \<equiv> 4"
abbreviation (input) THOP_SHAPE_T16_IMM3 :: nat where "THOP_SHAPE_T16_IMM3 \<equiv> 5"
abbreviation (input) THOP_SHAPE_T32_MOD_IMM :: nat where "THOP_SHAPE_T32_MOD_IMM \<equiv> 6"
abbreviation (input) THOP_SHAPE_T32_IMM12 :: nat where "THOP_SHAPE_T32_IMM12 \<equiv> 7"
abbreviation (input) THOP_SHAPE_T16_ADD_SP_IMM :: nat where "THOP_SHAPE_T16_ADD_SP_IMM \<equiv> 8"
abbreviation (input) THOP_SHAPE_T16_ADD_SP_IMM8 :: nat where "THOP_SHAPE_T16_ADD_SP_IMM8 \<equiv> 9"
abbreviation (input) THOP_SHAPE_T16_SUB_SP_IMM :: nat where "THOP_SHAPE_T16_SUB_SP_IMM \<equiv> 10"
abbreviation (input) THOP_SHAPE_T16_REG3 :: nat where "THOP_SHAPE_T16_REG3 \<equiv> 11"
abbreviation (input) THOP_SHAPE_T32_REG_SHIFT :: nat where "THOP_SHAPE_T32_REG_SHIFT \<equiv> 12"
abbreviation (input) THOP_SHAPE_T16_ADD_SP_REG :: nat where "THOP_SHAPE_T16_ADD_SP_REG \<equiv> 13"
abbreviation (input) THOP_SHAPE_T16_ADD_T2 :: nat where "THOP_SHAPE_T16_ADD_T2 \<equiv> 14"
abbreviation (input) THOP_SHAPE_T16_REG_RDN_RM :: nat where "THOP_SHAPE_T16_REG_RDN_RM \<equiv> 15"
abbreviation (input) THOP_SHAPE_T32_BFX :: nat where "THOP_SHAPE_T32_BFX \<equiv> 16"
abbreviation (input) THOP_SHAPE_T32_SSAT_LSL :: nat where "THOP_SHAPE_T32_SSAT_LSL \<equiv> 17"
abbreviation (input) THOP_SHAPE_T32_SSAT_ASR :: nat where "THOP_SHAPE_T32_SSAT_ASR \<equiv> 18"
abbreviation (input) THOP_SHAPE_T32_USAT_LSL :: nat where "THOP_SHAPE_T32_USAT_LSL \<equiv> 19"
abbreviation (input) THOP_SHAPE_T32_USAT_ASR :: nat where "THOP_SHAPE_T32_USAT_ASR \<equiv> 20"
abbreviation (input) THOP_SHAPE_PUSH_T1 :: nat where "THOP_SHAPE_PUSH_T1 \<equiv> 21"
abbreviation (input) THOP_SHAPE_PUSH_T2 :: nat where "THOP_SHAPE_PUSH_T2 \<equiv> 22"
abbreviation (input) THOP_SHAPE_POP_T1 :: nat where "THOP_SHAPE_POP_T1 \<equiv> 23"
abbreviation (input) THOP_SHAPE_POP_T2 :: nat where "THOP_SHAPE_POP_T2 \<equiv> 24"
abbreviation (input) THOP_SHAPE_LDM_T1 :: nat where "THOP_SHAPE_LDM_T1 \<equiv> 25"
abbreviation (input) THOP_SHAPE_LDM_T3 :: nat where "THOP_SHAPE_LDM_T3 \<equiv> 26"
abbreviation (input) THOP_SHAPE_STM_T1 :: nat where "THOP_SHAPE_STM_T1 \<equiv> 27"
abbreviation (input) THOP_SHAPE_STM_T3 :: nat where "THOP_SHAPE_STM_T3 \<equiv> 28"
abbreviation (input) THOP_SHAPE_LDMDB :: nat where "THOP_SHAPE_LDMDB \<equiv> 29"
abbreviation (input) THOP_SHAPE_STMDB :: nat where "THOP_SHAPE_STMDB \<equiv> 30"
abbreviation (input) THOP_SHAPE_BX :: nat where "THOP_SHAPE_BX \<equiv> 31"
abbreviation (input) THOP_SHAPE_BL_T1 :: nat where "THOP_SHAPE_BL_T1 \<equiv> 32"
abbreviation (input) THOP_SHAPE_BLX_REG :: nat where "THOP_SHAPE_BLX_REG \<equiv> 33"
abbreviation (input) THOP_SHAPE_B_COND_T16 :: nat where "THOP_SHAPE_B_COND_T16 \<equiv> 34"
abbreviation (input) THOP_SHAPE_B_T3 :: nat where "THOP_SHAPE_B_T3 \<equiv> 35"
abbreviation (input) THOP_SHAPE_B_T4 :: nat where "THOP_SHAPE_B_T4 \<equiv> 36"
abbreviation (input) THOP_SHAPE_B_T2 :: nat where "THOP_SHAPE_B_T2 \<equiv> 37"
abbreviation (input) THOP_SHAPE_CBZ :: nat where "THOP_SHAPE_CBZ \<equiv> 38"
abbreviation (input) THOP_SHAPE_T16_CMP_IMM :: nat where "THOP_SHAPE_T16_CMP_IMM \<equiv> 39"
abbreviation (input) THOP_SHAPE_T32_CMP_IMM :: nat where "THOP_SHAPE_T32_CMP_IMM \<equiv> 40"
abbreviation (input) THOP_SHAPE_T16_CMP_REG :: nat where "THOP_SHAPE_T16_CMP_REG \<equiv> 41"
abbreviation (input) THOP_SHAPE_T16_CMP_REG_T2 :: nat where "THOP_SHAPE_T16_CMP_REG_T2 \<equiv> 42"
abbreviation (input) THOP_SHAPE_T32_CMP_REG :: nat where "THOP_SHAPE_T32_CMP_REG \<equiv> 43"
abbreviation (input) THOP_SHAPE_COPROC :: nat where "THOP_SHAPE_COPROC \<equiv> 44"
abbreviation (input) THOP_SHAPE_DSP_REG3 :: nat where "THOP_SHAPE_DSP_REG3 \<equiv> 45"
abbreviation (input) THOP_SHAPE_PKH :: nat where "THOP_SHAPE_PKH \<equiv> 46"
abbreviation (input) THOP_SHAPE_T16_EXTEND :: nat where "THOP_SHAPE_T16_EXTEND \<equiv> 47"
abbreviation (input) THOP_SHAPE_T32_EXTEND :: nat where "THOP_SHAPE_T32_EXTEND \<equiv> 48"
abbreviation (input) THOP_SHAPE_LDAEX :: nat where "THOP_SHAPE_LDAEX \<equiv> 49"
abbreviation (input) THOP_SHAPE_STLEX :: nat where "THOP_SHAPE_STLEX \<equiv> 50"
abbreviation (input) THOP_SHAPE_LDR_LIT_T1 :: nat where "THOP_SHAPE_LDR_LIT_T1 \<equiv> 51"
abbreviation (input) THOP_SHAPE_LDR_LIT_T32 :: nat where "THOP_SHAPE_LDR_LIT_T32 \<equiv> 52"
abbreviation (input) THOP_SHAPE_LDRD :: nat where "THOP_SHAPE_LDRD \<equiv> 53"
abbreviation (input) THOP_SHAPE_LDREX :: nat where "THOP_SHAPE_LDREX \<equiv> 54"
abbreviation (input) THOP_SHAPE_STREX :: nat where "THOP_SHAPE_STREX \<equiv> 55"
abbreviation (input) THOP_SHAPE_LDREXB :: nat where "THOP_SHAPE_LDREXB \<equiv> 56"
abbreviation (input) THOP_SHAPE_STREXB :: nat where "THOP_SHAPE_STREXB \<equiv> 57"
abbreviation (input) THOP_SHAPE_T32_EXCLUSIVE :: nat where "THOP_SHAPE_T32_EXCLUSIVE \<equiv> 58"
abbreviation (input) THOP_SHAPE_T16_MEM_IMM4 :: nat where "THOP_SHAPE_T16_MEM_IMM4 \<equiv> 59"
abbreviation (input) THOP_SHAPE_T16_MEM_IMM0 :: nat where "THOP_SHAPE_T16_MEM_IMM0 \<equiv> 60"
abbreviation (input) THOP_SHAPE_T16_MEM_IMM1 :: nat where "THOP_SHAPE_T16_MEM_IMM1 \<equiv> 61"
abbreviation (input) THOP_SHAPE_T16_MEM_SP_IMM4 :: nat where "THOP_SHAPE_T16_MEM_SP_IMM4 \<equiv> 62"
abbreviation (input) THOP_SHAPE_T32_MEM_POS_ANY_NOTPC :: nat where "THOP_SHAPE_T32_MEM_POS_ANY_NOTPC \<equiv> 63"
abbreviation (input) THOP_SHAPE_T32_MEM_POS_NOSP_NOTPC :: nat where "THOP_SHAPE_T32_MEM_POS_NOSP_NOTPC \<equiv> 64"
abbreviation (input) THOP_SHAPE_T32_MEM_PC_POS :: nat where "THOP_SHAPE_T32_MEM_PC_POS \<equiv> 65"
abbreviation (input) THOP_SHAPE_T32_MEM_PC_NEG :: nat where "THOP_SHAPE_T32_MEM_PC_NEG \<equiv> 66"
abbreviation (input) THOP_SHAPE_T32_MEM_IDX_ANY :: nat where "THOP_SHAPE_T32_MEM_IDX_ANY \<equiv> 67"
abbreviation (input) THOP_SHAPE_T32_MEM_IDX_NOSP :: nat where "THOP_SHAPE_T32_MEM_IDX_NOSP \<equiv> 68"
abbreviation (input) THOP_SHAPE_T32_MEM_IDX_ANY_NOTPC :: nat where "THOP_SHAPE_T32_MEM_IDX_ANY_NOTPC \<equiv> 69"
abbreviation (input) THOP_SHAPE_T32_MEM_IDX_NOSP_NOTPC :: nat where "THOP_SHAPE_T32_MEM_IDX_NOSP_NOTPC \<equiv> 70"
abbreviation (input) THOP_SHAPE_T16_MEM_REG :: nat where "THOP_SHAPE_T16_MEM_REG \<equiv> 71"
abbreviation (input) THOP_SHAPE_T32_MEM_REG :: nat where "THOP_SHAPE_T32_MEM_REG \<equiv> 72"
abbreviation (input) THOP_SHAPE_T32_MEM_UNPRIV :: nat where "THOP_SHAPE_T32_MEM_UNPRIV \<equiv> 73"
abbreviation (input) THOP_SHAPE_MOV_REG_T1_HIGH :: nat where "THOP_SHAPE_MOV_REG_T1_HIGH \<equiv> 74"
abbreviation (input) THOP_SHAPE_MOV_REG_T1_SHIFT :: nat where "THOP_SHAPE_MOV_REG_T1_SHIFT \<equiv> 75"
abbreviation (input) THOP_SHAPE_MOV_REG_T3 :: nat where "THOP_SHAPE_MOV_REG_T3 \<equiv> 76"
abbreviation (input) THOP_SHAPE_MOV_IMM_T1 :: nat where "THOP_SHAPE_MOV_IMM_T1 \<equiv> 77"
abbreviation (input) THOP_SHAPE_MOV_IMM_T3 :: nat where "THOP_SHAPE_MOV_IMM_T3 \<equiv> 78"
abbreviation (input) THOP_SHAPE_MOV_IMM_T4 :: nat where "THOP_SHAPE_MOV_IMM_T4 \<equiv> 79"
abbreviation (input) THOP_SHAPE_MOVT :: nat where "THOP_SHAPE_MOVT \<equiv> 80"
abbreviation (input) THOP_SHAPE_MOV_REG_SHIFT_T1 :: nat where "THOP_SHAPE_MOV_REG_SHIFT_T1 \<equiv> 81"
abbreviation (input) THOP_SHAPE_MOV_REG_SHIFT_T3 :: nat where "THOP_SHAPE_MOV_REG_SHIFT_T3 \<equiv> 82"
abbreviation (input) THOP_SHAPE_MRS :: nat where "THOP_SHAPE_MRS \<equiv> 83"
abbreviation (input) THOP_SHAPE_MSR :: nat where "THOP_SHAPE_MSR \<equiv> 84"
abbreviation (input) THOP_SHAPE_MUL_T16 :: nat where "THOP_SHAPE_MUL_T16 \<equiv> 85"
abbreviation (input) THOP_SHAPE_MUL_T32 :: nat where "THOP_SHAPE_MUL_T32 \<equiv> 86"
abbreviation (input) THOP_SHAPE_MLA :: nat where "THOP_SHAPE_MLA \<equiv> 87"
abbreviation (input) THOP_SHAPE_LONG_MUL :: nat where "THOP_SHAPE_LONG_MUL \<equiv> 88"
abbreviation (input) THOP_SHAPE_LONG_MUL_DSP :: nat where "THOP_SHAPE_LONG_MUL_DSP \<equiv> 89"
abbreviation (input) THOP_SHAPE_DIV :: nat where "THOP_SHAPE_DIV \<equiv> 90"
abbreviation (input) THOP_SHAPE_MVN_REG_T1 :: nat where "THOP_SHAPE_MVN_REG_T1 \<equiv> 91"
abbreviation (input) THOP_SHAPE_MVN_REG_T3 :: nat where "THOP_SHAPE_MVN_REG_T3 \<equiv> 92"
abbreviation (input) THOP_SHAPE_MVN_IMM_T3 :: nat where "THOP_SHAPE_MVN_IMM_T3 \<equiv> 93"
abbreviation (input) THOP_SHAPE_T16_REV :: nat where "THOP_SHAPE_T16_REV \<equiv> 94"
abbreviation (input) THOP_SHAPE_T32_REV :: nat where "THOP_SHAPE_T32_REV \<equiv> 95"
abbreviation (input) THOP_SHAPE_T32_RBIT :: nat where "THOP_SHAPE_T32_RBIT \<equiv> 96"
abbreviation (input) THOP_SHAPE_T16_SHIFT_IMM :: nat where "THOP_SHAPE_T16_SHIFT_IMM \<equiv> 97"
abbreviation (input) THOP_SHAPE_T32_SHIFT_IMM :: nat where "THOP_SHAPE_T32_SHIFT_IMM \<equiv> 98"
abbreviation (input) THOP_SHAPE_T16_SHIFT_REG :: nat where "THOP_SHAPE_T16_SHIFT_REG \<equiv> 99"
abbreviation (input) THOP_SHAPE_T32_SHIFT_REG :: nat where "THOP_SHAPE_T32_SHIFT_REG \<equiv> 100"
abbreviation (input) THOP_SHAPE_HINT_T16 :: nat where "THOP_SHAPE_HINT_T16 \<equiv> 101"
abbreviation (input) THOP_SHAPE_HINT_T32 :: nat where "THOP_SHAPE_HINT_T32 \<equiv> 102"
abbreviation (input) THOP_SHAPE_IMM8_T16 :: nat where "THOP_SHAPE_IMM8_T16 \<equiv> 103"
abbreviation (input) THOP_SHAPE_UDF_T16 :: nat where "THOP_SHAPE_UDF_T16 \<equiv> 104"
abbreviation (input) THOP_SHAPE_UDF_T32 :: nat where "THOP_SHAPE_UDF_T32 \<equiv> 105"
abbreviation (input) THOP_SHAPE_CPS :: nat where "THOP_SHAPE_CPS \<equiv> 106"
abbreviation (input) THOP_SHAPE_BARRIER :: nat where "THOP_SHAPE_BARRIER \<equiv> 107"
abbreviation (input) THOP_SHAPE_NOARG_T32 :: nat where "THOP_SHAPE_NOARG_T32 \<equiv> 108"
abbreviation (input) THOP_SHAPE_IT :: nat where "THOP_SHAPE_IT \<equiv> 109"
abbreviation (input) THOP_SHAPE_CLZ :: nat where "THOP_SHAPE_CLZ \<equiv> 110"
abbreviation (input) THOP_SHAPE_TBB :: nat where "THOP_SHAPE_TBB \<equiv> 111"
abbreviation (input) THOP_SHAPE_TT :: nat where "THOP_SHAPE_TT \<equiv> 112"
abbreviation (input) THOP_SHAPE_VFP_SP :: nat where "THOP_SHAPE_VFP_SP \<equiv> 113"
abbreviation (input) THOP_SHAPE_VFP_DP :: nat where "THOP_SHAPE_VFP_DP \<equiv> 114"
abbreviation (input) THOP_SHAPE_VFP_DP_MOVE :: nat where "THOP_SHAPE_VFP_DP_MOVE \<equiv> 115"
abbreviation (input) THOP_SHAPE_VMOVGPSP :: nat where "THOP_SHAPE_VMOVGPSP \<equiv> 116"
abbreviation (input) THOP_SHAPE_VMOV2GPDP :: nat where "THOP_SHAPE_VMOV2GPDP \<equiv> 117"
abbreviation (input) THOP_SHAPE_VMRS :: nat where "THOP_SHAPE_VMRS \<equiv> 118"
abbreviation (input) THOP_SHAPE_VCVT_FD :: nat where "THOP_SHAPE_VCVT_FD \<equiv> 119"
abbreviation (input) THOP_SHAPE_VCVT_DF :: nat where "THOP_SHAPE_VCVT_DF \<equiv> 120"
abbreviation (input) THOP_SHAPE_VCVT_FP_INT_SP :: nat where "THOP_SHAPE_VCVT_FP_INT_SP \<equiv> 121"
abbreviation (input) THOP_SHAPE_VCVT_FP_INT_DP :: nat where "THOP_SHAPE_VCVT_FP_INT_DP \<equiv> 122"

subsection \<open>Shapes\<close>

definition shapes_adr :: "thop_variant_shape list" where
  "shapes_adr = [
     shape0\<lparr>sh_size := THOP_VARIANT_T16, rd_place := BF 8 3, rd_con := REG_LOW_ONLY,
       sh_imm := imm0\<lparr>is_kind := IMM_RAW, is_width := 8, is_scale_log2 := 2\<rparr>,
       imm_place := BF 0 8, sh_feat := feats [F_t16]\<rparr>,
     shape0\<lparr>sh_size := THOP_VARIANT_T32, rd_place := BF 8 4, rd_con := REG_NOT_PC,
       sh_imm := imm0\<lparr>is_kind := IMM_PACK_3_8_1, is_width := 12\<rparr>,
       sh_feat := feats [F_t32]\<rparr>,
     shape0\<lparr>sh_size := THOP_VARIANT_T32, rd_place := BF 8 4, rd_con := REG_NOT_PC,
       sh_imm := imm0\<lparr>is_kind := IMM_PACK_3_8_1, is_width := 12, is_signed := True\<rparr>,
       sh_feat := feats [F_t32]\<rparr>]"

definition shapes_alu_imm :: "thop_variant_shape list" where
  "shapes_alu_imm = [
     shape0\<lparr>sh_size := THOP_VARIANT_T16, rd_place := BF 8 3, rn_place := BF 8 3,
       rd_con := REG_LOW_ONLY OR REG_EQ_RN, rn_con := REG_LOW_ONLY,
       sh_imm := imm0\<lparr>is_kind := IMM_RAW, is_width := 8\<rparr>, imm_place := BF 0 8,
       implicit_s := True, sh_feat := feats [F_t16]\<rparr>,
     shape0\<lparr>sh_size := THOP_VARIANT_T16, rd_place := BF 0 3, rn_place := BF 3 3,
       rd_con := REG_LOW_ONLY, rn_con := REG_LOW_ONLY,
       sh_imm := imm0\<lparr>is_kind := IMM_RAW, is_width := 3\<rparr>, imm_place := BF 6 3,
       implicit_s := True, sh_feat := feats [F_t16]\<rparr>,
     shape0\<lparr>sh_size := THOP_VARIANT_T32, rd_place := BF 8 4, rn_place := BF 16 4,
       rd_con := REG_NOT_PC, rn_con := REG_NOT_PC,
       sh_imm := imm0\<lparr>is_kind := IMM_PACK_CONST, is_width := 12\<rparr>,
       has_s_bit := True, sh_feat := feats [F_t32, F_mod_imm]\<rparr>,
     shape0\<lparr>sh_size := THOP_VARIANT_T32, rd_place := BF 8 4, rn_place := BF 16 4,
       rd_con := REG_NOT_PC,
       sh_imm := imm0\<lparr>is_kind := IMM_PACK_3_8_1, is_width := 12\<rparr>,
       sh_feat := feats [F_t32]\<rparr>,
     shape0\<lparr>sh_size := THOP_VARIANT_T16, rd_con := REG_SP_ONLY, rn_con := REG_SP_ONLY,
       sh_imm := imm0\<lparr>is_kind := IMM_RAW, is_width := 7, is_scale_log2 := 2\<rparr>,
       imm_place := BF 0 7, sh_feat := feats [F_t16]\<rparr>,
     shape0\<lparr>sh_size := THOP_VARIANT_T16, rd_place := BF 8 3, rd_con := REG_LOW_ONLY,
       rn_con := REG_SP_ONLY,
       sh_imm := imm0\<lparr>is_kind := IMM_RAW, is_width := 8, is_scale_log2 := 2\<rparr>,
       imm_place := BF 0 8, sh_feat := feats [F_t16]\<rparr>,
     shape0\<lparr>sh_size := THOP_VARIANT_T16, rd_con := REG_SP_ONLY, rn_con := REG_SP_ONLY,
       sh_imm := imm0\<lparr>is_kind := IMM_RAW, is_width := 7, is_scale_log2 := 2\<rparr>,
       imm_place := BF 0 7, sh_feat := feats [F_t16]\<rparr>]"

definition shapes_alu_reg :: "thop_variant_shape list" where
  "shapes_alu_reg = [
     shape0\<lparr>sh_size := THOP_VARIANT_T16, rd_place := BF 0 3, rn_place := BF 3 3,
       rm_place := BF 6 3, rd_con := REG_LOW_ONLY, rn_con := REG_LOW_ONLY,
       rm_con := REG_LOW_ONLY, implicit_s := True, sh_feat := feats [F_t16]\<rparr>,
     shape0\<lparr>sh_size := THOP_VARIANT_T32, rd_place := BF 8 4, rn_place := BF 16 4,
       rm_place := BF 0 4, rd_con := REG_NOT_PC, rn_con := REG_NOT_PC,
       rm_con := REG_NOT_SP OR REG_NOT_PC, has_s_bit := True, shift_type_bits := BF 4 2,
       shift_imm2_bits := BF 6 2, shift_imm3_bits := BF 12 3, sh_feat := feats [F_t32]\<rparr>,
     shape0\<lparr>sh_size := THOP_VARIANT_T16, rd_place := BF 0 3, has_rd_hi := True,
       rn_place := BF 3 4, rd_con := REG_EQ_RM, rn_con := REG_SP_ONLY,
       sh_feat := feats [F_t16]\<rparr>,
     shape0\<lparr>sh_size := THOP_VARIANT_T16, rd_place := BF 0 3, has_rd_hi := True,
       rn_place := BF 0 3, rm_place := BF 3 4, rd_con := REG_EQ_RN,
       sh_feat := feats [F_t16]\<rparr>,
     shape0\<lparr>sh_size := THOP_VARIANT_T16, rd_place := BF 0 3, rm_place := BF 3 3,
       rd_con := REG_LOW_ONLY OR REG_EQ_RN, rn_con := REG_LOW_ONLY, rm_con := REG_LOW_ONLY,
       implicit_s := True, sh_feat := feats [F_t16]\<rparr>]"

definition shapes_bitfield :: "thop_variant_shape list" where
  "shapes_bitfield = [
     shape0\<lparr>sh_size := THOP_VARIANT_T32, rd_place := BF 8 4, rn_place := BF 16 4,
       rd_con := REG_NOT_PC, rn_con := REG_ANY,
       sh_imm := imm0\<lparr>is_kind := IMM_RAW, is_width := 5\<rparr>,
       split_imm2_place := BF 6 2, split_imm3_place := BF 12 3, imm2_place := BF 0 5,
       sh_feat := feats [F_t32, F_bfx]\<rparr>,
     shape0\<lparr>sh_size := THOP_VARIANT_T32, rd_place := BF 8 4, rn_place := BF 16 4,
       rd_con := REG_NOT_PC, shift_imm3_bits := BF 12 3, shift_imm2_bits := BF 6 2,
       shift_allowed := push_bit (shift_code THUMB_SHIFT_NONE) 1 OR push_bit (shift_code THUMB_SHIFT_LSL) 1,
       imm2_place := BF 0 5, sh_feat := feats [F_t32, F_sat]\<rparr>,
     shape0\<lparr>sh_size := THOP_VARIANT_T32, rd_place := BF 8 4, rn_place := BF 16 4,
       rd_con := REG_NOT_PC, shift_imm3_bits := BF 12 3, shift_imm2_bits := BF 6 2,
       shift_allowed := push_bit (shift_code THUMB_SHIFT_ASR) 1, imm2_place := BF 0 5,
       sh_feat := feats [F_t32, F_sat]\<rparr>,
     shape0\<lparr>sh_size := THOP_VARIANT_T32, rd_place := BF 8 4, rn_place := BF 16 4,
       rd_con := REG_NOT_PC, shift_imm3_bits := BF 12 3, shift_imm2_bits := BF 6 2,
       shift_allowed := push_bit (shift_code THUMB_SHIFT_NONE) 1 OR push_bit (shift_code THUMB_SHIFT_LSL) 1,
       imm2_place := BF 0 5, sh_feat := feats [F_t32, F_sat]\<rparr>,
     shape0\<lparr>sh_size := THOP_VARIANT_T32, rd_place := BF 8 4, rn_place := BF 16 4,
       rd_con := REG_NOT_PC, shift_imm3_bits := BF 12 3, shift_imm2_bits := BF 6 2,
       shift_allowed := push_bit (shift_code THUMB_SHIFT_ASR) 1, imm2_place := BF 0 5,
       sh_feat := feats [F_t32, F_sat]\<rparr>]"

definition shapes_block :: "thop_variant_shape list" where
  "shapes_block = [
     shape0\<lparr>sh_size := THOP_VARIANT_T16, rm_raw_place := BF 0 8,
       sh_imm := imm0\<lparr>is_kind := IMM_RAW, is_width := 1\<rparr>, imm_place := BF 8 1,
       rm_con := REG_LOW_REGSET OR REG_RM_BITS_NOT_LR_PC, sh_feat := feats [F_t16]\<rparr>,
     shape0\<lparr>sh_size := THOP_VARIANT_T32, rm_place := BF 0 13,
       sh_imm := imm0\<lparr>is_kind := IMM_RAW, is_width := 1\<rparr>, imm_place := BF 14 1,
       rm_con := REG_RM_BITS_NOT_LR_PC, sh_feat := feats [F_t32]\<rparr>,
     shape0\<lparr>sh_size := THOP_VARIANT_T16, rm_raw_place := BF 0 8,
       sh_imm := imm0\<lparr>is_kind := IMM_RAW, is_width := 1\<rparr>, imm_place := BF 8 1,
       rm_con := REG_LOW_REGSET OR REG_RM_BITS_NOT_LR_PC, sh_feat := feats [F_t16]\<rparr>,
     shape0\<lparr>sh_size := THOP_VARIANT_T32, rm_place := BF 0 15,
       sh_imm := imm0\<lparr>is_kind := IMM_RAW, is_width := 1\<rparr>, imm_place := BF 15 1,
       rm_con := REG_RM_BIT_NOT_SP, sh_feat := feats [F_t32]\<rparr>,
     shape0\<lparr>sh_size := THOP_VARIANT_T16, rd_place := BF 8 3, rd_con := REG_LOW_ONLY,
       rm_raw_place := BF 0 8, rm_con := REG_LOW_REGSET, sh_feat := feats [F_t16]\<rparr>,
     shape0\<lparr>sh_size := THOP_VARIANT_T32, rd_place := BF 16 4, rm_place := BF 0 16,
       rm_con := REG_RM_BIT_NOT_SP,
       sh_imm := imm0\<lparr>is_kind := IMM_RAW, is_width := 1\<rparr>, imm_place := BF 21 1,
       sh_feat := feats [F_t32]\<rparr>,
     shape0\<lparr>sh_size := THOP_VARIANT_T16, rd_place := BF 8 3, rd_con := REG_LOW_ONLY,
       rm_raw_place := BF 0 8, rm_con := REG_LOW_REGSET, sh_feat := feats [F_t16]\<rparr>,
     shape0\<lparr>sh_size := THOP_VARIANT_T32, rd_place := BF 16 4, rm_place := BF 0 15,
       rm_con := REG_RM_BIT_NOT_SP,
       sh_imm := imm0\<lparr>is_kind := IMM_RAW, is_width := 1\<rparr>, imm_place := BF 21 1,
       sh_feat := feats [F_t32]\<rparr>,
     shape0\<lparr>sh_size := THOP_VARIANT_T32, rd_place := BF 16 4, rm_place := BF 0 16,
       rm_con := REG_RM_BIT_NOT_SP,
       sh_imm := imm0\<lparr>is_kind := IMM_RAW, is_width := 1\<rparr>, imm_place := BF 21 1,
       sh_feat := feats [F_t32]\<rparr>,
     shape0\<lparr>sh_size := THOP_VARIANT_T32, rd_place := BF 16 4, rm_place := BF 0 15,
       rm_con := REG_RM_BIT_NOT_SP,
       sh_imm := imm0\<lparr>is_kind := IMM_RAW, is_width := 1\<rparr>, imm_place := BF 21 1,
       sh_feat := feats [F_t32]\<rparr>]"

definition shapes_branch :: "thop_variant_shape list" where
  "shapes_branch = [
     shape0\<lparr>sh_size := THOP_VARIANT_T16, rm_place := BF 3 4,
       sh_feat := feats [F_t16]\<rparr>,
     shape0\<lparr>sh_size := THOP_VARIANT_T32, sh_feat := feats [F_t32]\<rparr>,
     shape0\<lparr>sh_size := THOP_VARIANT_T16, rm_place := BF 3 4,
       sh_feat := feats [F_t16]\<rparr>,
     shape0\<lparr>sh_size := THOP_VARIANT_T16, rd_place := BF 8 4,
       sh_imm := imm0\<lparr>is_kind := IMM_RAW, is_width := 8\<rparr>, imm_place := BF 0 8,
       sh_feat := feats [F_t16]\<rparr>,
     shape0\<lparr>sh_size := THOP_VARIANT_T32, rd_place := BF 22 4,
       sh_feat := feats [F_t32]\<rparr>,
     shape0\<lparr>sh_size := THOP_VARIANT_T32, sh_feat := feats [F_t32]\<rparr>,
     shape0\<lparr>sh_size := THOP_VARIANT_T16, sh_feat := feats [F_t16]\<rparr>,
     shape0\<lparr>sh_size := THOP_VARIANT_T16, rd_place := BF 0 3, rd_con := REG_LOW_ONLY,
       sh_feat := feats [F_t16, F_cbz]\<rparr>]"

definition shapes_cmp :: "thop_variant_shape list" where
  "shapes_cmp = [
     shape0\<lparr>sh_size := THOP_VARIANT_T16, rn_place := BF 8 3, rn_con := REG_LOW_ONLY,
       sh_imm := imm0\<lparr>is_kind := IMM_RAW, is_width := 8\<rparr>, imm_place := BF 0 8,
       implicit_s := True, sh_feat := feats [F_t16]\<rparr>,
     shape0\<lparr>sh_size := THOP_VARIANT_T32, rn_place := BF 16 4, rn_con := REG_NOT_PC,
       sh_imm := imm0\<lparr>is_kind := IMM_PACK_CONST, is_width := 12\<rparr>,
       implicit_s := True, sh_feat := feats [F_t32, F_mod_imm]\<rparr>,
     shape0\<lparr>sh_size := THOP_VARIANT_T16, rn_place := BF 0 3, rm_place := BF 3 3,
       rn_con := REG_LOW_ONLY, rm_con := REG_LOW_ONLY, implicit_s := True,
       sh_feat := feats [F_t16]\<rparr>,
     shape0\<lparr>sh_size := THOP_VARIANT_T16, rm_place := BF 3 3, rn_con := REG_NOT_PC,
       rm_con := REG_ANY, implicit_s := True, sh_feat := feats [F_t16]\<rparr>,
     shape0\<lparr>sh_size := THOP_VARIANT_T32, rn_place := BF 16 4, rm_place := BF 0 4,
       rn_con := REG_NOT_PC, rm_con := REG_NOT_SP OR REG_NOT_PC, shift_type_bits := BF 4 2,
       shift_imm2_bits := BF 6 2, shift_imm3_bits := BF 12 3, implicit_s := True,
       sh_feat := feats [F_t32]\<rparr>]"

definition shapes_coproc :: "thop_variant_shape list" where
  "shapes_coproc = [
     shape0\<lparr>sh_size := THOP_VARIANT_T32, sh_feat := feats [F_t32, F_coproc]\<rparr>]"

definition shapes_dsp :: "thop_variant_shape list" where
  "shapes_dsp = [
     shape0\<lparr>sh_size := THOP_VARIANT_T32, rd_place := BF 8 4, rn_place := BF 16 4,
       rm_place := BF 0 4, sh_feat := feats [F_t32, F_dsp]\<rparr>,
     shape0\<lparr>sh_size := THOP_VARIANT_T32, rd_place := BF 8 4, rn_place := BF 16 4,
       rm_place := BF 0 4,
       shift_allowed := push_bit (shift_code THUMB_SHIFT_LSL) 1 OR push_bit (shift_code THUMB_SHIFT_ASR) 1,
       sh_feat := feats [F_t32, F_dsp]\<rparr>]"

definition shapes_extend :: "thop_variant_shape list" where
  "shapes_extend = [
     shape0\<lparr>sh_size := THOP_VARIANT_T16, rd_place := BF 0 3, rm_place := BF 3 3,
       rd_con := REG_LOW_ONLY, rm_con := REG_LOW_ONLY,
       sh_imm := imm0\<lparr>is_kind := IMM_RAW, is_width := 0\<rparr>,
       shift_allowed := push_bit (shift_code THUMB_SHIFT_ROR) 1,
       sh_feat := feats [F_t16]\<rparr>,
     shape0\<lparr>sh_size := THOP_VARIANT_T32, rd_place := BF 8 4, rm_place := BF 0 4,
       ra_place := BF 16 4, rd_con := REG_NOT_PC,
       sh_imm := imm0\<lparr>is_kind := IMM_RAW, is_width := 2, is_scale_log2 := 3\<rparr>,
       imm_place := BF 4 2, shift_allowed := push_bit (shift_code THUMB_SHIFT_ROR) 1,
       sh_feat := feats [F_t32]\<rparr>]"

definition shapes_ldaex :: "thop_variant_shape list" where
  "shapes_ldaex = [
     shape0\<lparr>sh_size := THOP_VARIANT_T32, rd_place := BF 12 4, rn_place := BF 16 4,
       sh_feat := feats [F_t32, F_ldaex]\<rparr>,
     shape0\<lparr>sh_size := THOP_VARIANT_T32, rd_place := BF 0 4, rn_place := BF 16 4,
       rm_place := BF 12 4, sh_feat := feats [F_t32, F_ldaex]\<rparr>]"

definition shapes_ldr_literal :: "thop_variant_shape list" where
  "shapes_ldr_literal = [
     shape0\<lparr>sh_size := THOP_VARIANT_T16, rd_place := BF 8 3, rd_con := REG_LOW_ONLY,
       sh_imm := imm0\<lparr>is_kind := IMM_RAW, is_width := 8, is_scale_log2 := 2\<rparr>,
       imm_place := BF 0 8, sh_feat := feats [F_t16]\<rparr>,
     shape0\<lparr>sh_size := THOP_VARIANT_T32, rd_place := BF 12 4, rd_con := REG_NOT_PC,
       sh_feat := feats [F_t32]\<rparr>]"

definition shapes_ldrd :: "thop_variant_shape list" where
  "shapes_ldrd = [
     shape0\<lparr>sh_size := THOP_VARIANT_T32, rd_place := BF 12 4, rn_place := BF 16 4,
       rm_place := BF 8 4, sh_imm := imm0\<lparr>is_kind := IMM_RAW, is_width := 8\<rparr>,
       sh_feat := feats [F_t32]\<rparr>]"

definition shapes_ldrex :: "thop_variant_shape list" where
  "shapes_ldrex = [
     shape0\<lparr>sh_size := THOP_VARIANT_T32, rd_place := BF 12 4, rn_place := BF 16 4,
       sh_imm := imm0\<lparr>is_kind := IMM_RAW, is_width := 8\<rparr>, imm_place := BF 0 8,
       sh_feat := feats [F_t32]\<rparr>,
     shape0\<lparr>sh_size := THOP_VARIANT_T32, rd_place := BF 8 4, rn_place := BF 12 4,
       rm_place := BF 16 4, sh_imm := imm0\<lparr>is_kind := IMM_RAW, is_width := 8\<rparr>,
       imm_place := BF 0 8, sh_feat := feats [F_t32]\<rparr>,
     shape0\<lparr>sh_size := THOP_VARIANT_T32, rd_place := BF 12 4, rn_place := BF 16 4,
       sh_feat := feats [F_t32]\<rparr>,
     shape0\<lparr>sh_size := THOP_VARIANT_T32, rd_place := BF 0 4, rn_place := BF 12 4,
       rm_place := BF 16 4, sh_feat := feats [F_t32]\<rparr>]"

definition shapes_mem_exclusive :: "thop_variant_shape list" where
  "shapes_mem_exclusive = [
     shape0\<lparr>sh_size := THOP_VARIANT_T32, rd_place := BF 12 4, rn_place := BF 16 4,
       sh_feat := feats [F_t32]\<rparr>]"

definition shapes_mem_imm :: "thop_variant_shape list" where
  "shapes_mem_imm = [
     shape0\<lparr>sh_size := THOP_VARIANT_T16, rd_place := BF 0 3, rn_place := BF 3 3,
       rd_con := REG_LOW_ONLY, rn_con := REG_LOW_ONLY,
       sh_imm := imm0\<lparr>is_kind := IMM_RAW, is_width := 5, is_scale_log2 := 2\<rparr>,
       imm_place := BF 6 5, puw_fixed := 6, sh_feat := feats [F_t16]\<rparr>,
     shape0\<lparr>sh_size := THOP_VARIANT_T16, rd_place := BF 0 3, rn_place := BF 3 3,
       rd_con := REG_LOW_ONLY, rn_con := REG_LOW_ONLY,
       sh_imm := imm0\<lparr>is_kind := IMM_RAW, is_width := 5, is_scale_log2 := 0\<rparr>,
       imm_place := BF 6 5, puw_fixed := 6, sh_feat := feats [F_t16]\<rparr>,
     shape0\<lparr>sh_size := THOP_VARIANT_T16, rd_place := BF 0 3, rn_place := BF 3 3,
       rd_con := REG_LOW_ONLY, rn_con := REG_LOW_ONLY,
       sh_imm := imm0\<lparr>is_kind := IMM_RAW, is_width := 5, is_scale_log2 := 1\<rparr>,
       imm_place := BF 6 5, puw_fixed := 6, sh_feat := feats [F_t16]\<rparr>,
     shape0\<lparr>sh_size := THOP_VARIANT_T16, rd_place := BF 8 3, rd_con := REG_LOW_ONLY,
       rn_con := REG_SP_ONLY,
       sh_imm := imm0\<lparr>is_kind := IMM_RAW, is_width := 8, is_scale_log2 := 2\<rparr>,
       imm_place := BF 0 8, puw_fixed := 6, sh_feat := feats [F_t16]\<rparr>,
     shape0\<lparr>sh_size := THOP_VARIANT_T32, rd_place := BF 12 4, rn_place := BF 16 4,
       rd_con := REG_ANY, rn_con := REG_NOT_PC,
       sh_imm := imm0\<lparr>is_kind := IMM_RAW, is_width := 12, is_scale_log2 := 0\<rparr>,
       imm_place := BF 0 12, puw_fixed := 6, sh_feat := feats [F_t32]\<rparr>,
     shape0\<lparr>sh_size := THOP_VARIANT_T32, rd_place := BF 12 4, rn_place := BF 16 4,
       rd_con := REG_NOT_SP, rn_con := REG_NOT_PC,
       sh_imm := imm0\<lparr>is_kind := IMM_RAW, is_width := 12, is_scale_log2 := 0\<rparr>,
       imm_place := BF 0 12, puw_fixed := 6, sh_feat := feats [F_t32]\<rparr>,
     shape0\<lparr>sh_size := THOP_VARIANT_T32, rd_place := BF 12 4, rn_place := BF 16 4,
       rd_con := REG_ANY, rn_con := REG_PC_ONLY,
       sh_imm := imm0\<lparr>is_kind := IMM_RAW, is_width := 12, is_scale_log2 := 0\<rparr>,
       imm_place := BF 0 12, puw_fixed := 6, sh_feat := feats [F_t32]\<rparr>,
     shape0\<lparr>sh_size := THOP_VARIANT_T32, rd_place := BF 12 4, rn_place := BF 16 4,
       rd_con := REG_ANY, rn_con := REG_PC_ONLY,
       sh_imm := imm0\<lparr>is_kind := IMM_RAW, is_width := 12, is_scale_log2 := 0\<rparr>,
       imm_place := BF 0 12, puw_fixed := 4, sh_feat := feats [F_t32]\<rparr>,
     shape0\<lparr>sh_size := THOP_VARIANT_T32, rd_place := BF 12 4, rn_place := BF 16 4,
       rd_con := REG_ANY, rn_con := REG_ANY,
       sh_imm := imm0\<lparr>is_kind := IMM_RAW, is_width := 8, is_scale_log2 := 0\<rparr>,
       imm_place := BF 0 8, puw_bits := BF 8 3, sh_feat := feats [F_t32]\<rparr>,
     shape0\<lparr>sh_size := THOP_VARIANT_T32, rd_place := BF 12 4, rn_place := BF 16 4,
       rd_con := REG_NOT_SP, rn_con := REG_ANY,
       sh_imm := imm0\<lparr>is_kind := IMM_RAW, is_width := 8, is_scale_log2 := 0\<rparr>,
       imm_place := BF 0 8, puw_bits := BF 8 3, sh_feat := feats [F_t32]\<rparr>,
     shape0\<lparr>sh_size := THOP_VARIANT_T32, rd_place := BF 12 4, rn_place := BF 16 4,
       rd_con := REG_ANY, rn_con := REG_NOT_PC,
       sh_imm := imm0\<lparr>is_kind := IMM_RAW, is_width := 8, is_scale_log2 := 0\<rparr>,
       imm_place := BF 0 8, puw_bits := BF 8 3, sh_feat := feats [F_t32]\<rparr>,
     shape0\<lparr>sh_size := THOP_VARIANT_T32, rd_place := BF 12 4, rn_place := BF 16 4,
       rd_con := REG_NOT_SP, rn_con := REG_NOT_PC,
       sh_imm := imm0\<lparr>is_kind := IMM_RAW, is_width := 8, is_scale_log2 := 0\<rparr>,
       imm_place := BF 0 8, puw_bits := BF 8 3, sh_feat := feats [F_t32]\<rparr>]"

definition shapes_mem_reg :: "thop_variant_shape list" where
  "shapes_mem_reg = [
     shape0\<lparr>sh_size := THOP_VARIANT_T16, rd_place := BF 0 3, rn_place := BF 3 3,
       rm_place := BF 6 3, rd_con := REG_LOW_ONLY, rn_con := REG_LOW_ONLY,
       rm_con := REG_LOW_ONLY, sh_feat := feats [F_t16]\<rparr>,
     shape0\<lparr>sh_size := THOP_VARIANT_T32, rd_place := BF 12 4, rn_place := BF 16 4,
       rm_place := BF 0 4, rd_con := REG_NOT_SP, rn_con := REG_NOT_PC,
       rm_con := REG_NOT_SP OR REG_NOT_PC, shift_imm2_bits := BF 4 2,
       shift_allowed := push_bit (shift_code THUMB_SHIFT_LSL) 1,
       sh_feat := feats [F_t32]\<rparr>]"

definition shapes_mem_unpriv :: "thop_variant_shape list" where
  "shapes_mem_unpriv = [
     shape0\<lparr>sh_size := THOP_VARIANT_T32, rd_place := BF 12 4, rn_place := BF 16 4,
       sh_imm := imm0\<lparr>is_kind := IMM_RAW, is_width := 8\<rparr>, imm_place := BF 0 8,
       sh_feat := feats [F_t32]\<rparr>]"

definition shapes_mov :: "thop_variant_shape list" where
  "shapes_mov = [
     shape0\<lparr>sh_size := THOP_VARIANT_T16, rd_place := BF 0 3, dn_rd_split := BF 0 3,
       rm_place := BF 3 4, rd_con := REG_NOT_PC, rm_con := REG_ANY,
       sh_feat := feats [F_t16]\<rparr>,
     shape0\<lparr>sh_size := THOP_VARIANT_T16,
       shift_allowed := push_bit (shift_code THUMB_SHIFT_LSL) 1 OR push_bit (shift_code THUMB_SHIFT_LSR) 1 OR push_bit (shift_code THUMB_SHIFT_ASR) 1,
       has_s_bit := True, sh_feat := feats [F_t16]\<rparr>,
     shape0\<lparr>sh_size := THOP_VARIANT_T32, rd_place := BF 8 4, rn_place := BF 16 4,
       rm_place := BF 0 4, has_s_bit := True, shift_type_bits := BF 4 2,
       shift_imm2_bits := BF 6 2, shift_imm3_bits := BF 12 3,
       shift_allowed := push_bit (shift_code THUMB_SHIFT_LSL) 1 OR push_bit (shift_code THUMB_SHIFT_LSR) 1 OR push_bit (shift_code THUMB_SHIFT_ASR) 1 OR push_bit (shift_code THUMB_SHIFT_ROR) 1 OR push_bit (shift_code THUMB_SHIFT_RRX) 1,
       sh_feat := feats [F_t32]\<rparr>,
     shape0\<lparr>sh_size := THOP_VARIANT_T16, implicit_s := True,
       sh_feat := feats [F_t16]\<rparr>,
     shape0\<lparr>sh_size := THOP_VARIANT_T32, rd_place := BF 8 4,
       rd_con := REG_NOT_SP OR REG_NOT_PC,
       sh_imm := imm0\<lparr>is_kind := IMM_PACK_CONST\<rparr>, has_s_bit := True,
       sh_feat := feats [F_t32, F_mod_imm]\<rparr>,
     shape0\<lparr>sh_size := THOP_VARIANT_T32, rd_place := BF 8 4,
       rd_con := REG_NOT_SP OR REG_NOT_PC,
       sh_imm := imm0\<lparr>is_kind := IMM_PACK_3_8_1\<rparr>,
       sh_feat := feats [F_t32, F_movw_movt]\<rparr>,
     shape0\<lparr>sh_size := THOP_VARIANT_T32, rd_place := BF 8 4,
       rd_con := REG_NOT_SP OR REG_NOT_PC,
       sh_imm := imm0\<lparr>is_kind := IMM_PACK_3_8_1\<rparr>,
       sh_feat := feats [F_t32, F_movw_movt]\<rparr>,
     shape0\<lparr>sh_size := THOP_VARIANT_T16, rd_place := BF 0 3, rm_place := BF 0 3,
       ra_place := BF 3 3, rd_con := REG_LOW_ONLY OR REG_EQ_RM, rm_con := REG_LOW_ONLY,
       ra_con := REG_LOW_ONLY, implicit_s := True,
       shift_allowed := push_bit (shift_code THUMB_SHIFT_LSL) 1 OR push_bit (shift_code THUMB_SHIFT_LSR) 1 OR push_bit (shift_code THUMB_SHIFT_ASR) 1 OR push_bit (shift_code THUMB_SHIFT_ROR) 1,
       sh_feat := feats [F_t16]\<rparr>,
     shape0\<lparr>sh_size := THOP_VARIANT_T32, rd_place := BF 8 4, rm_place := BF 16 4,
       ra_place := BF 0 4, has_s_bit := True, shift_type_bits := BF 21 2,
       shift_allowed := push_bit (shift_code THUMB_SHIFT_LSL) 1 OR push_bit (shift_code THUMB_SHIFT_LSR) 1 OR push_bit (shift_code THUMB_SHIFT_ASR) 1 OR push_bit (shift_code THUMB_SHIFT_ROR) 1,
       sh_feat := feats [F_t32]\<rparr>]"

definition shapes_mrs :: "thop_variant_shape list" where
  "shapes_mrs = [
     shape0\<lparr>sh_size := THOP_VARIANT_T32, rd_place := BF 8 4, rm_place := BF 0 8,
       sh_feat := feats [F_t32]\<rparr>,
     shape0\<lparr>sh_size := THOP_VARIANT_T32, rd_place := BF 16 4, rm_place := BF 0 8,
       sh_imm := imm0\<lparr>is_kind := IMM_RAW, is_width := 2\<rparr>, imm2_place := BF 10 2,
       sh_feat := feats [F_t32]\<rparr>]"

definition shapes_mul :: "thop_variant_shape list" where
  "shapes_mul = [
     shape0\<lparr>sh_size := THOP_VARIANT_T16, rd_place := BF 0 3, rm_place := BF 3 3,
       implicit_s := True, sh_feat := feats [F_t16]\<rparr>,
     shape0\<lparr>sh_size := THOP_VARIANT_T32, rd_place := BF 8 4, rn_place := BF 16 4,
       rm_place := BF 0 4, sh_feat := feats [F_t32]\<rparr>,
     shape0\<lparr>sh_size := THOP_VARIANT_T32, rd_place := BF 8 4, rn_place := BF 16 4,
       rm_place := BF 0 4, ra_place := BF 12 4, sh_feat := feats [F_t32]\<rparr>,
     shape0\<lparr>sh_size := THOP_VARIANT_T32, rd_place := BF 8 4, rn_place := BF 0 4,
       rm_place := BF 16 4, ra_place := BF 12 4, sh_feat := feats [F_t32]\<rparr>,
     shape0\<lparr>sh_size := THOP_VARIANT_T32, rd_place := BF 8 4, rn_place := BF 0 4,
       rm_place := BF 16 4, ra_place := BF 12 4, sh_feat := feats [F_t32, F_dsp]\<rparr>,
     shape0\<lparr>sh_size := THOP_VARIANT_T32, rd_place := BF 8 4, rn_place := BF 16 4,
       rm_place := BF 0 4, sh_feat := feats [F_t32, F_div]\<rparr>]"

definition shapes_mvn :: "thop_variant_shape list" where
  "shapes_mvn = [
     shape0\<lparr>sh_size := THOP_VARIANT_T16, rd_place := BF 0 3, rm_place := BF 3 3,
       rd_con := REG_LOW_ONLY OR REG_EQ_RN, rn_con := REG_LOW_ONLY, rm_con := REG_LOW_ONLY,
       implicit_s := True, sh_feat := feats [F_t16]\<rparr>,
     shape0\<lparr>sh_size := THOP_VARIANT_T32, rd_place := BF 8 4, rn_place := BF 16 4,
       rm_place := BF 0 4, rd_con := REG_NOT_PC, rn_con := REG_NOT_PC,
       rm_con := REG_NOT_SP OR REG_NOT_PC, has_s_bit := True, shift_type_bits := BF 4 2,
       shift_imm2_bits := BF 6 2, shift_imm3_bits := BF 12 3, sh_feat := feats [F_t32]\<rparr>,
     shape0\<lparr>sh_size := THOP_VARIANT_T32, rd_place := BF 8 4, has_s_bit := True,
       sh_feat := feats [F_t32]\<rparr>]"

definition shapes_rev :: "thop_variant_shape list" where
  "shapes_rev = [
     shape0\<lparr>sh_size := THOP_VARIANT_T16, rd_place := BF 0 3, rm_place := BF 3 3,
       rd_con := REG_LOW_ONLY, rm_con := REG_LOW_ONLY, sh_feat := feats [F_t16]\<rparr>,
     shape0\<lparr>sh_size := THOP_VARIANT_T32, rd_place := BF 8 4, rm_place := BF 0 4,
       ra_place := BF 16 4, rd_con := REG_NOT_PC, sh_feat := feats [F_t32]\<rparr>,
     shape0\<lparr>sh_size := THOP_VARIANT_T32, rd_place := BF 8 4, rm_place := BF 0 4,
       ra_place := BF 16 4, rd_con := REG_NOT_PC, sh_feat := feats [F_t32, F_clz_rbit]\<rparr>]"

definition shapes_shift_imm :: "thop_variant_shape list" where
  "shapes_shift_imm = [
     shape0\<lparr>sh_size := THOP_VARIANT_T16, rd_place := BF 0 3, rm_place := BF 3 3,
       rd_con := REG_LOW_ONLY, rm_con := REG_LOW_ONLY,
       sh_imm := imm0\<lparr>is_kind := IMM_RAW, is_width := 5\<rparr>, imm_place := BF 6 5,
       shift_type_bits := BF 11 2, implicit_s := True, sh_feat := feats [F_t16]\<rparr>,
     shape0\<lparr>sh_size := THOP_VARIANT_T32, rd_place := BF 8 4, rm_place := BF 0 4,
       rd_con := REG_NOT_PC, rm_con := REG_NOT_PC, has_s_bit := True,
       shift_imm3_bits := BF 12 3, shift_imm2_bits := BF 6 2, shift_type_bits := BF 4 2,
       sh_feat := feats [F_t32]\<rparr>]"

definition shapes_shift_reg :: "thop_variant_shape list" where
  "shapes_shift_reg = [
     shape0\<lparr>sh_size := THOP_VARIANT_T16, rd_place := BF 0 3, rm_place := BF 3 3,
       rd_con := REG_LOW_ONLY OR REG_EQ_RN, rn_con := REG_LOW_ONLY, rm_con := REG_LOW_ONLY,
       implicit_s := True, sh_feat := feats [F_t16]\<rparr>,
     shape0\<lparr>sh_size := THOP_VARIANT_T32, rd_place := BF 8 4, rn_place := BF 16 4,
       rm_place := BF 0 4, rd_con := REG_NOT_PC, rn_con := REG_NOT_PC,
       rm_con := REG_NOT_SP OR REG_NOT_PC, has_s_bit := True, sh_feat := feats [F_t32]\<rparr>]"

definition shapes_system :: "thop_variant_shape list" where
  "shapes_system = [
     shape0\<lparr>sh_size := THOP_VARIANT_T16,
       sh_imm := imm0\<lparr>is_kind := IMM_RAW, is_width := 4\<rparr>, imm_place := BF 4 4,
       sh_feat := feats [F_t16]\<rparr>,
     shape0\<lparr>sh_size := THOP_VARIANT_T32,
       sh_imm := imm0\<lparr>is_kind := IMM_RAW, is_width := 4\<rparr>, imm_place := BF 0 4,
       sh_feat := feats [F_t32]\<rparr>,
     shape0\<lparr>sh_size := THOP_VARIANT_T16,
       sh_imm := imm0\<lparr>is_kind := IMM_RAW, is_width := 8\<rparr>, imm_place := BF 0 8,
       sh_feat := feats [F_t16]\<rparr>,
     shape0\<lparr>sh_size := THOP_VARIANT_T16,
       sh_imm := imm0\<lparr>is_kind := IMM_RAW, is_width := 8\<rparr>, imm_place := BF 0 8,
       sh_feat := feats [F_t16]\<rparr>,
     shape0\<lparr>sh_size := THOP_VARIANT_T32,
       sh_imm := imm0\<lparr>is_kind := IMM_RAW, is_width := 12\<rparr>, imm_place := BF 0 12,
       imm2_place := BF 16 4, sh_feat := feats [F_t32]\<rparr>,
     shape0\<lparr>sh_size := THOP_VARIANT_T16, rd_place := BF 4 1,
       sh_imm := imm0\<lparr>is_kind := IMM_RAW, is_width := 1\<rparr>, imm_place := BF 0 1,
       imm2_place := BF 1 1, sh_feat := feats [F_t16]\<rparr>,
     shape0\<lparr>sh_size := THOP_VARIANT_T32,
       sh_imm := imm0\<lparr>is_kind := IMM_RAW, is_width := 4\<rparr>, imm_place := BF 0 4,
       sh_feat := feats [F_t32]\<rparr>,
     shape0\<lparr>sh_size := THOP_VARIANT_T32, sh_feat := feats [F_t32]\<rparr>,
     shape0\<lparr>sh_size := THOP_VARIANT_T16, rd_place := BF 4 4,
       sh_imm := imm0\<lparr>is_kind := IMM_RAW, is_width := 4\<rparr>, imm_place := BF 0 4,
       sh_feat := feats [F_t16]\<rparr>,
     shape0\<lparr>sh_size := THOP_VARIANT_T32, rd_place := BF 8 4, rm_place := BF 16 4,
       sh_feat := feats [F_t32, F_clz_rbit]\<rparr>]"

definition shapes_tbb :: "thop_variant_shape list" where
  "shapes_tbb = [
     shape0\<lparr>sh_size := THOP_VARIANT_T32, rn_place := BF 16 4, rm_place := BF 0 4,
       sh_feat := feats [F_t32, F_tbb_tbh]\<rparr>,
     shape0\<lparr>sh_size := THOP_VARIANT_T32, rd_place := BF 8 4, rn_place := BF 16 4,
       sh_feat := feats [F_t32]\<rparr>]"

definition shapes_vfp :: "thop_variant_shape list" where
  "shapes_vfp = [
     shape0\<lparr>sh_size := THOP_VARIANT_T32, sh_feat := feats [F_t32, F_vfp_sp]\<rparr>,
     shape0\<lparr>sh_size := THOP_VARIANT_T32, sh_feat := feats [F_t32, F_vfp_dp]\<rparr>,
     shape0\<lparr>sh_size := THOP_VARIANT_T32, sh_feat := feats [F_t32, F_vfp_sp]\<rparr>,
     shape0\<lparr>sh_size := THOP_VARIANT_T32, rd_place := BF 12 4, imm2_place := BF 20 1,
       sh_feat := feats [F_t32, F_vfp_sp]\<rparr>,
     shape0\<lparr>sh_size := THOP_VARIANT_T32, rd_place := BF 12 4, rn_place := BF 16 4,
       imm2_place := BF 20 1, sh_feat := feats [F_t32, F_vfp_sp]\<rparr>,
     shape0\<lparr>sh_size := THOP_VARIANT_T32, rd_place := BF 12 4,
       sh_feat := feats [F_t32, F_vfp_sp]\<rparr>,
     shape0\<lparr>sh_size := THOP_VARIANT_T32, sh_feat := feats [F_t32, F_vfp_dp]\<rparr>,
     shape0\<lparr>sh_size := THOP_VARIANT_T32, sh_feat := feats [F_t32, F_vfp_dp]\<rparr>,
     shape0\<lparr>sh_size := THOP_VARIANT_T32,
       sh_imm := imm0\<lparr>is_kind := IMM_RAW, is_width := 4\<rparr>, imm_place := BF 16 4,
       imm2_place := BF 7 1, puw_bits := BF 8 1, sh_feat := feats [F_t32, F_vfp_sp]\<rparr>,
     shape0\<lparr>sh_size := THOP_VARIANT_T32,
       sh_imm := imm0\<lparr>is_kind := IMM_RAW, is_width := 4\<rparr>, imm_place := BF 16 4,
       imm2_place := BF 7 1, puw_bits := BF 8 1, sh_feat := feats [F_t32, F_vfp_dp]\<rparr>]"

subsection \<open>The array\<close>

text \<open>The entry 0, \<^verbatim>\<open>THOP_SHAPE_END\<close>, has no initialiser.\<close>

definition thop_shapes :: "thop_variant_shape list" where
  "thop_shapes = shape0 # shapes_adr @ shapes_alu_imm @ shapes_alu_reg @ shapes_bitfield @
     shapes_block @ shapes_branch @ shapes_cmp @ shapes_coproc @ shapes_dsp @ shapes_extend @
     shapes_ldaex @ shapes_ldr_literal @ shapes_ldrd @ shapes_ldrex @ shapes_mem_exclusive @
     shapes_mem_imm @ shapes_mem_reg @ shapes_mem_unpriv @ shapes_mov @ shapes_mrs @
     shapes_mul @ shapes_mvn @ shapes_rev @ shapes_shift_imm @ shapes_shift_reg @
     shapes_system @ shapes_tbb @ shapes_vfp"

lemmas shape_defs [shape_simps] =
  shape0_def imm0_def shapes_adr_def shapes_alu_imm_def shapes_alu_reg_def shapes_bitfield_def
  shapes_block_def shapes_branch_def shapes_cmp_def shapes_coproc_def shapes_dsp_def
  shapes_extend_def shapes_ldaex_def shapes_ldr_literal_def shapes_ldrd_def shapes_ldrex_def
  shapes_mem_exclusive_def shapes_mem_imm_def shapes_mem_reg_def shapes_mem_unpriv_def
  shapes_mov_def shapes_mrs_def shapes_mul_def shapes_mvn_def shapes_rev_def
  shapes_shift_imm_def shapes_shift_reg_def shapes_system_def shapes_tbb_def shapes_vfp_def

lemma length_shapes:
  "length shapes_adr = 3"
  "length shapes_alu_imm = 7"
  "length shapes_alu_reg = 5"
  "length shapes_bitfield = 5"
  "length shapes_block = 10"
  "length shapes_branch = 8"
  "length shapes_cmp = 5"
  "length shapes_coproc = 1"
  "length shapes_dsp = 2"
  "length shapes_extend = 2"
  "length shapes_ldaex = 2"
  "length shapes_ldr_literal = 2"
  "length shapes_ldrd = 1"
  "length shapes_ldrex = 4"
  "length shapes_mem_exclusive = 1"
  "length shapes_mem_imm = 12"
  "length shapes_mem_reg = 2"
  "length shapes_mem_unpriv = 1"
  "length shapes_mov = 9"
  "length shapes_mrs = 2"
  "length shapes_mul = 6"
  "length shapes_mvn = 3"
  "length shapes_rev = 3"
  "length shapes_shift_imm = 2"
  "length shapes_shift_reg = 2"
  "length shapes_system = 10"
  "length shapes_tbb = 2"
  "length shapes_vfp = 10"
  by (simp_all add: shape_defs)

lemma length_thop_shapes: "length thop_shapes = 123"
  by (simp add: thop_shapes_def length_shapes)

text \<open>Reading an entry of the array.\<close>

lemma thop_shapes_nth [shape_simps]:
  "thop_shapes ! Suc 0 = shapes_adr ! 0"
  "thop_shapes ! 2 = shapes_adr ! Suc 0"
  "thop_shapes ! 3 = shapes_adr ! 2"
  "thop_shapes ! 4 = shapes_alu_imm ! 0"
  "thop_shapes ! 5 = shapes_alu_imm ! Suc 0"
  "thop_shapes ! 6 = shapes_alu_imm ! 2"
  "thop_shapes ! 7 = shapes_alu_imm ! 3"
  "thop_shapes ! 8 = shapes_alu_imm ! 4"
  "thop_shapes ! 9 = shapes_alu_imm ! 5"
  "thop_shapes ! 10 = shapes_alu_imm ! 6"
  "thop_shapes ! 11 = shapes_alu_reg ! 0"
  "thop_shapes ! 12 = shapes_alu_reg ! Suc 0"
  "thop_shapes ! 13 = shapes_alu_reg ! 2"
  "thop_shapes ! 14 = shapes_alu_reg ! 3"
  "thop_shapes ! 15 = shapes_alu_reg ! 4"
  "thop_shapes ! 16 = shapes_bitfield ! 0"
  "thop_shapes ! 17 = shapes_bitfield ! Suc 0"
  "thop_shapes ! 18 = shapes_bitfield ! 2"
  "thop_shapes ! 19 = shapes_bitfield ! 3"
  "thop_shapes ! 20 = shapes_bitfield ! 4"
  "thop_shapes ! 21 = shapes_block ! 0"
  "thop_shapes ! 22 = shapes_block ! Suc 0"
  "thop_shapes ! 23 = shapes_block ! 2"
  "thop_shapes ! 24 = shapes_block ! 3"
  "thop_shapes ! 25 = shapes_block ! 4"
  "thop_shapes ! 26 = shapes_block ! 5"
  "thop_shapes ! 27 = shapes_block ! 6"
  "thop_shapes ! 28 = shapes_block ! 7"
  "thop_shapes ! 29 = shapes_block ! 8"
  "thop_shapes ! 30 = shapes_block ! 9"
  "thop_shapes ! 31 = shapes_branch ! 0"
  "thop_shapes ! 32 = shapes_branch ! Suc 0"
  "thop_shapes ! 33 = shapes_branch ! 2"
  "thop_shapes ! 34 = shapes_branch ! 3"
  "thop_shapes ! 35 = shapes_branch ! 4"
  "thop_shapes ! 36 = shapes_branch ! 5"
  "thop_shapes ! 37 = shapes_branch ! 6"
  "thop_shapes ! 38 = shapes_branch ! 7"
  "thop_shapes ! 39 = shapes_cmp ! 0"
  "thop_shapes ! 40 = shapes_cmp ! Suc 0"
  "thop_shapes ! 41 = shapes_cmp ! 2"
  "thop_shapes ! 42 = shapes_cmp ! 3"
  "thop_shapes ! 43 = shapes_cmp ! 4"
  "thop_shapes ! 44 = shapes_coproc ! 0"
  "thop_shapes ! 45 = shapes_dsp ! 0"
  "thop_shapes ! 46 = shapes_dsp ! Suc 0"
  "thop_shapes ! 47 = shapes_extend ! 0"
  "thop_shapes ! 48 = shapes_extend ! Suc 0"
  "thop_shapes ! 49 = shapes_ldaex ! 0"
  "thop_shapes ! 50 = shapes_ldaex ! Suc 0"
  "thop_shapes ! 51 = shapes_ldr_literal ! 0"
  "thop_shapes ! 52 = shapes_ldr_literal ! Suc 0"
  "thop_shapes ! 53 = shapes_ldrd ! 0"
  "thop_shapes ! 54 = shapes_ldrex ! 0"
  "thop_shapes ! 55 = shapes_ldrex ! Suc 0"
  "thop_shapes ! 56 = shapes_ldrex ! 2"
  "thop_shapes ! 57 = shapes_ldrex ! 3"
  "thop_shapes ! 58 = shapes_mem_exclusive ! 0"
  "thop_shapes ! 59 = shapes_mem_imm ! 0"
  "thop_shapes ! 60 = shapes_mem_imm ! Suc 0"
  "thop_shapes ! 61 = shapes_mem_imm ! 2"
  "thop_shapes ! 62 = shapes_mem_imm ! 3"
  "thop_shapes ! 63 = shapes_mem_imm ! 4"
  "thop_shapes ! 64 = shapes_mem_imm ! 5"
  "thop_shapes ! 65 = shapes_mem_imm ! 6"
  "thop_shapes ! 66 = shapes_mem_imm ! 7"
  "thop_shapes ! 67 = shapes_mem_imm ! 8"
  "thop_shapes ! 68 = shapes_mem_imm ! 9"
  "thop_shapes ! 69 = shapes_mem_imm ! 10"
  "thop_shapes ! 70 = shapes_mem_imm ! 11"
  "thop_shapes ! 71 = shapes_mem_reg ! 0"
  "thop_shapes ! 72 = shapes_mem_reg ! Suc 0"
  "thop_shapes ! 73 = shapes_mem_unpriv ! 0"
  "thop_shapes ! 74 = shapes_mov ! 0"
  "thop_shapes ! 75 = shapes_mov ! Suc 0"
  "thop_shapes ! 76 = shapes_mov ! 2"
  "thop_shapes ! 77 = shapes_mov ! 3"
  "thop_shapes ! 78 = shapes_mov ! 4"
  "thop_shapes ! 79 = shapes_mov ! 5"
  "thop_shapes ! 80 = shapes_mov ! 6"
  "thop_shapes ! 81 = shapes_mov ! 7"
  "thop_shapes ! 82 = shapes_mov ! 8"
  "thop_shapes ! 83 = shapes_mrs ! 0"
  "thop_shapes ! 84 = shapes_mrs ! Suc 0"
  "thop_shapes ! 85 = shapes_mul ! 0"
  "thop_shapes ! 86 = shapes_mul ! Suc 0"
  "thop_shapes ! 87 = shapes_mul ! 2"
  "thop_shapes ! 88 = shapes_mul ! 3"
  "thop_shapes ! 89 = shapes_mul ! 4"
  "thop_shapes ! 90 = shapes_mul ! 5"
  "thop_shapes ! 91 = shapes_mvn ! 0"
  "thop_shapes ! 92 = shapes_mvn ! Suc 0"
  "thop_shapes ! 93 = shapes_mvn ! 2"
  "thop_shapes ! 94 = shapes_rev ! 0"
  "thop_shapes ! 95 = shapes_rev ! Suc 0"
  "thop_shapes ! 96 = shapes_rev ! 2"
  "thop_shapes ! 97 = shapes_shift_imm ! 0"
  "thop_shapes ! 98 = shapes_shift_imm ! Suc 0"
  "thop_shapes ! 99 = shapes_shift_reg ! 0"
  "thop_shapes ! 100 = shapes_shift_reg ! Suc 0"
  "thop_shapes ! 101 = shapes_system ! 0"
  "thop_shapes ! 102 = shapes_system ! Suc 0"
  "thop_shapes ! 103 = shapes_system ! 2"
  "thop_shapes ! 104 = shapes_system ! 3"
  "thop_shapes ! 105 = shapes_system ! 4"
  "thop_shapes ! 106 = shapes_system ! 5"
  "thop_shapes ! 107 = shapes_system ! 6"
  "thop_shapes ! 108 = shapes_system ! 7"
  "thop_shapes ! 109 = shapes_system ! 8"
  "thop_shapes ! 110 = shapes_system ! 9"
  "thop_shapes ! 111 = shapes_tbb ! 0"
  "thop_shapes ! 112 = shapes_tbb ! Suc 0"
  "thop_shapes ! 113 = shapes_vfp ! 0"
  "thop_shapes ! 114 = shapes_vfp ! Suc 0"
  "thop_shapes ! 115 = shapes_vfp ! 2"
  "thop_shapes ! 116 = shapes_vfp ! 3"
  "thop_shapes ! 117 = shapes_vfp ! 4"
  "thop_shapes ! 118 = shapes_vfp ! 5"
  "thop_shapes ! 119 = shapes_vfp ! 6"
  "thop_shapes ! 120 = shapes_vfp ! 7"
  "thop_shapes ! 121 = shapes_vfp ! 8"
  "thop_shapes ! 122 = shapes_vfp ! 9"
  by (simp_all add: thop_shapes_def length_shapes nth_append)

end
