(* ===== verification/Thumb_Engine.thy ===== *)
theory Thumb_Engine
  imports Thumb_Custom Thumb_Shapes
begin

section \<open>The emit engine\<close>

text \<open>
  \<^verbatim>\<open>thop_emit_in\<close>, \<^verbatim>\<open>thop_emit\<close> and \<^verbatim>\<open>thop_emit_table\<close> of \<^verbatim>\<open>thumb.c\<close> with the helper
  \<^verbatim>\<open>thop_try_imm\<close> of \<^verbatim>\<open>thumb.h\<close>: walk the variants of an instruction and encode the first
  one whose constraints hold.  The state is what the functions read and write outside
  their arguments: the target's feature set (\<^verbatim>\<open>arm_target_dependent.feat\<close>) and the
  \<^verbatim>\<open>th_pack_const\<close> cache.  Messages on stderr are not modelled, the immediate checks the
  error walk repeats are, because they go through the cache.

  The second half is the contract of the engine: \<open>emit_spec\<close> is a function of the
  feature set, the variants and the arguments alone, and \<open>thop_emit_loop_refines\<close> shows that the
  engine implements it.
\<close>

subsection \<open>State\<close>

record thumb_state =
  target_feat :: thop_feat
  pack_cache :: pack_const_cache

type_synonym 'a emit = "thumb_state \<Rightarrow> tcc_failure + 'a \<times> thumb_state"

subsection \<open>Immediates\<close>

text \<open>\<open>None\<close> is \<^verbatim>\<open>false\<close>, \<open>Some bits\<close> is \<^verbatim>\<open>true\<close> with \<^verbatim>\<open>*out_bits = bits\<close>.\<close>

definition try_imm_scale :: "imm_spec \<Rightarrow> u32 \<Rightarrow> u32 option" where
  "try_imm_scale spec imm =
     (if is_signed spec \<and> sint imm \<ge> 0 then None
      else let scaled = (if is_signed spec then - imm else imm)
           in if is_scale_log2 spec > 0 then
                if scaled AND (push_bit (is_scale_log2 spec) 1 - 1) \<noteq> 0 then None
                else Some (drop_bit (is_scale_log2 spec) scaled)
              else Some scaled)"

definition thop_try_imm ::
  "thop_variant_shape \<Rightarrow> u32 \<Rightarrow> pack_const_cache \<Rightarrow> u32 option \<times> pack_const_cache" where
  "thop_try_imm s imm cache =
     (let spec = sh_imm s
      in if is_kind spec = IMM_NONE then (if imm = 0 then Some 0 else None, cache)
         else case try_imm_scale spec imm of
           None \<Rightarrow> (None, cache)
         | Some scaled \<Rightarrow>
             (case is_kind spec of
                IMM_RAW \<Rightarrow>
                  (if scaled \<ge> push_bit (is_width spec) 1 then None
                   else Some (thop_place scaled (imm_place s)), cache)
              | IMM_PACK_CONST \<Rightarrow>
                  (case th_pack_const imm cache of (packed, cache') \<Rightarrow>
                     (if packed = 0 \<and> imm \<noteq> 0 then None else Some packed, cache'))
              | IMM_PACK_3_8_1 \<Rightarrow>
                  (if (if is_width spec \<noteq> 0 then scaled \<ge> push_bit (is_width spec) 1
                       else scaled > 0xFFFF) then None
                   else Some (th_packimm_3_8_1 scaled), cache)
              | IMM_PACK_10_11_0 \<Rightarrow> (Some (th_packimm_10_11_0 imm), cache)
              | _ \<Rightarrow> (None, cache)))"

subsection \<open>Guards of the variant loop\<close>

text \<open>The checks of a variant before its immediate, in the order of the source.\<close>

definition thop_regs_ok :: "thop_variant_shape \<Rightarrow> thop_args \<Rightarrow> bool" where
  "thop_regs_ok s a \<longleftrightarrow>
     \<not> ((bf_width (rd_place s) \<noteq> 0 \<or> rd_con s \<noteq> 0) \<and> \<not> thop_reg_ok (a_rd a) (rd_con s)) \<and>
     \<not> ((bf_width (rn_place s) \<noteq> 0 \<or> rn_con s \<noteq> 0) \<and> \<not> thop_reg_ok (a_rn a) (rn_con s)) \<and>
     \<not> ((bf_width (rm_place s) \<noteq> 0 \<or> rm_con s \<noteq> 0) \<and> \<not> thop_reg_ok (a_rm a) (rm_con s)) \<and>
     \<not> ((bf_width (ra_place s) \<noteq> 0 \<or> ra_con s \<noteq> 0) \<and> \<not> thop_reg_ok (a_ra a) (ra_con s)) \<and>
     \<not> (con_has (rd_con s) REG_EQ_RN \<and> a_rd a \<noteq> a_rn a) \<and>
     \<not> (con_has (rd_con s) REG_EQ_RM \<and> a_rd a \<noteq> a_rm a)"

definition thop_enc_ok :: "thop_variant_shape \<Rightarrow> thop_args \<Rightarrow> bool" where
  "thop_enc_ok s a \<longleftrightarrow>
     \<not> (a_enc a = ENFORCE_ENCODING_16BIT \<and> sh_size s \<noteq> THOP_VARIANT_T16) \<and>
     \<not> (a_enc a = ENFORCE_ENCODING_32BIT \<and> sh_size s \<noteq> THOP_VARIANT_T32)"

definition thop_shift_ok :: "thop_variant_shape \<Rightarrow> thop_args \<Rightarrow> bool" where
  "thop_shift_ok s a \<longleftrightarrow>
     (sft_type (a_shift a) \<noteq> THUMB_SHIFT_NONE \<longrightarrow>
        (let has_shift_fields = bf_width (shift_type_bits s) \<noteq> 0 \<or>
               bf_width (shift_imm2_bits s) \<noteq> 0 \<or> bf_width (shift_imm3_bits s) \<noteq> 0
         in \<not> (\<not> has_shift_fields \<and> shift_allowed s = 0) \<and>
            \<not> (shift_allowed s \<noteq> 0 \<and> \<not> bit (shift_allowed s) (shift_code (sft_type (a_shift a))))))"

definition thop_puw_ok :: "thop_variant_shape \<Rightarrow> thop_args \<Rightarrow> bool" where
  "thop_puw_ok s a \<longleftrightarrow>
     \<not> (bf_width (puw_bits s) = 0 \<and> puw_fixed s \<noteq> 0 \<and> a_puw a \<noteq> puw_fixed s)"

definition thop_guards :: "thop_feat \<Rightarrow> thop_variant_shape \<Rightarrow> thop_args \<Rightarrow> bool" where
  "thop_guards tf s a \<longleftrightarrow>
     thop_feat32_subset (sh_feat s) tf \<and>
     thop_enc_ok s a \<and>
     thop_regs_ok s a \<and>
     \<not> (a_flags a = FLAGS_BEHAVIOUR_SET \<and> \<not> has_s_bit s \<and> \<not> implicit_s s) \<and>
     \<not> (a_flags a = FLAGS_BEHAVIOUR_BLOCK \<and> implicit_s s) \<and>
     \<not> (forbid_s_in_it s \<and> a_in_it_block a \<and> a_flags a = FLAGS_BEHAVIOUR_SET) \<and>
     \<not> (implicit_s s \<and> a_in_it_block a) \<and>
     thop_shift_ok s a \<and>
     thop_puw_ok s a"

text \<open>The checks on a register list in \<^verbatim>\<open>rm\<close>.\<close>

definition thop_regset_ok :: "thop_variant_shape \<Rightarrow> thop_args \<Rightarrow> bool" where
  "thop_regset_ok s a \<longleftrightarrow>
     \<not> (con_has (rm_con s) REG_LOW_REGSET \<and> a_rm a AND NOT 0xff \<noteq> 0) \<and>
     \<not> (con_has (rm_con s) REG_RM_BIT_NOT_SP \<and> a_rm a AND push_bit 13 1 \<noteq> 0) \<and>
     \<not> (con_has (rm_con s) REG_RM_BITS_NOT_LR_PC \<and>
         a_rm a AND (push_bit 14 1 OR push_bit 15 1) \<noteq> 0)"

subsection \<open>Encoding of a matched variant\<close>

definition thop_rm_for_place :: "thop_variant_shape \<Rightarrow> thop_args \<Rightarrow> u32" where
  "thop_rm_for_place s a =
     (if bf_width (rm_raw_place s) \<noteq> 0 \<and> a_exclude_bit a \<noteq> 0
      then a_rm a AND NOT (push_bit (unat (a_exclude_bit a)) 1) else a_rm a)"

definition thop_encode :: "thop_variant_shape \<Rightarrow> u32 \<Rightarrow> thop_args \<Rightarrow> u32 \<Rightarrow> u32" where
  "thop_encode s base a imm_bits =
     base OR
     thop_place (a_rd a) (rd_place s) OR
     (if has_rd_hi s then thop_place (drop_bit (bf_width (rd_place s)) (a_rd a)) (BF 7 1) else 0) OR
     thop_place (a_rn a) (rn_place s) OR
     thop_place (a_rm a) (rm_place s) OR
     thop_place (a_ra a) (ra_place s) OR
     imm_bits OR
     (if bf_width (dn_rd_split s) \<noteq> 0
      then thop_place (drop_bit 3 (a_rd a) AND 1) (BF 7 1) OR
           thop_place (a_rd a AND (push_bit (bf_width (dn_rd_split s)) 1 - 1)) (dn_rd_split s)
      else 0) OR
     (if has_s_bit s \<and> a_flags a = FLAGS_BEHAVIOUR_SET then push_bit 20 1 else 0) OR
     (if bf_width (shift_type_bits s) \<noteq> 0
      then thop_place (th_shift_value_to_sr_type (a_shift a)) (shift_type_bits s) else 0) OR
     (if bf_width (shift_imm2_bits s) \<noteq> 0
      then thop_place (sft_value (a_shift a) AND 3) (shift_imm2_bits s) else 0) OR
     (if bf_width (shift_imm3_bits s) \<noteq> 0
      then thop_place (drop_bit 2 (sft_value (a_shift a)) AND 7) (shift_imm3_bits s) else 0) OR
     (if bf_width (imm2_place s) \<noteq> 0 then thop_place (a_imm2 a) (imm2_place s) else 0) OR
     (if bf_width (split_imm2_place s) \<noteq> 0
      then thop_place (a_imm a AND 3) (split_imm2_place s) else 0) OR
     (if bf_width (split_imm3_place s) \<noteq> 0
      then thop_place (drop_bit 2 (a_imm a) AND 7) (split_imm3_place s) else 0) OR
     (if bf_width (puw_bits s) \<noteq> 0
      then thop_place (ucast (a_puw a AND 7)) (puw_bits s) else 0) OR
     (if bf_width (rm_raw_place s) \<noteq> 0
      then thop_place (thop_rm_for_place s a) (rm_raw_place s) else 0)"

subsection \<open>The error walk\<close>

text \<open>
  \<^verbatim>\<open>thop_emit_error_in\<close> walks the variants again to say why each was rejected.  A variant
  that passes the chain of checks up to its immediate has the immediate tried once more.
  (The chain does not look at the implicit-S/BLOCK conflict.)
\<close>

definition thop_error_reaches_imm :: "thop_feat \<Rightarrow> thop_variant_shape \<Rightarrow> thop_args \<Rightarrow> bool" where
  "thop_error_reaches_imm tf s a \<longleftrightarrow>
     thop_feat32_subset (sh_feat s) tf \<and>
     thop_enc_ok s a \<and>
     thop_regs_ok s a \<and>
     \<not> (a_flags a = FLAGS_BEHAVIOUR_SET \<and> \<not> has_s_bit s \<and> \<not> implicit_s s) \<and>
     \<not> (forbid_s_in_it s \<and> a_in_it_block a \<and> a_flags a = FLAGS_BEHAVIOUR_SET) \<and>
     \<not> (implicit_s s \<and> a_in_it_block a) \<and>
     thop_shift_ok s a \<and>
     thop_puw_ok s a \<and>
     is_kind (sh_imm s) \<noteq> IMM_NONE"

primrec thop_emit_error_in ::
  "thop_variant_shape list \<Rightarrow> thop_variant list \<Rightarrow> thop_args \<Rightarrow> thumb_state \<Rightarrow> thumb_opcode \<times> thumb_state"
where
  "thop_emit_error_in shapes [] a st = (no_opcode, st)"
| "thop_emit_error_in shapes (v # vs) a st =
     (let s = shapes ! v_shape v
      in if thop_error_reaches_imm (target_feat st) s a
         then thop_emit_error_in shapes vs a
                (st\<lparr>pack_cache := snd (thop_try_imm s (a_imm a) (pack_cache st))\<rparr>)
         else thop_emit_error_in shapes vs a st)"

subsection \<open>The variant loop\<close>

text \<open>
  \<open>table\<close> is the whole list, which the error walk sees again.  A custom emitter that gives
  size 0 passes to the next variant.
\<close>

primrec thop_emit_loop ::
  "thop_variant_shape list \<Rightarrow> thop_variant list \<Rightarrow> thop_args \<Rightarrow> thop_variant list \<Rightarrow> thumb_opcode emit"
where
  "thop_emit_loop shapes table a [] st = Inr (thop_emit_error_in shapes table a st)"
| "thop_emit_loop shapes table a (v # vs) st =
     (let s = shapes ! v_shape v
      in if \<not> thop_guards (target_feat st) s a then thop_emit_loop shapes table a vs st
         else case (if is_kind (sh_imm s) \<noteq> IMM_NONE
                    then thop_try_imm s (a_imm a) (pack_cache st)
                    else (Some 0, pack_cache st)) of
           (None, c) \<Rightarrow> thop_emit_loop shapes table a vs (st\<lparr>pack_cache := c\<rparr>)
         | (Some imm_bits, c) \<Rightarrow>
             let st = st\<lparr>pack_cache := c\<rparr>
             in if \<not> thop_regset_ok s a then thop_emit_loop shapes table a vs st
                else if v_custom v \<noteq> CUSTOM_NONE then
                  (case thop_call_custom (v_custom v) (v_base v) a (pack_cache st) of
                     Inl e \<Rightarrow> Inl e
                   | Inr (r, c') \<Rightarrow>
                       if op_size r \<noteq> 0 then Inr (r, st\<lparr>pack_cache := c'\<rparr>)
                       else thop_emit_loop shapes table a vs (st\<lparr>pack_cache := c'\<rparr>))
                else Inr (\<lparr>op_size = sh_size s, op_code = thop_encode s (v_base v) a imm_bits\<rparr>, st))"

definition thop_emit_in ::
  "thop_variant_shape list \<Rightarrow> thop_variant list \<Rightarrow> thop_args \<Rightarrow> thumb_opcode emit" where
  "thop_emit_in shapes table a = thop_emit_loop shapes table a table"

definition thop_emit :: "thop_variant list \<Rightarrow> thop_args \<Rightarrow> thumb_opcode emit" where
  "thop_emit table a = thop_emit_in thop_shapes table a"

text \<open>A table ends at the first variant whose shape is \<^verbatim>\<open>THOP_SHAPE_END\<close>.\<close>

definition thop_emit_table :: "thop_table \<Rightarrow> thop_args \<Rightarrow> thumb_opcode emit" where
  "thop_emit_table t a =
     thop_emit (takeWhile (\<lambda>v. v_shape v \<noteq> THOP_SHAPE_END) (tbl_variants t)) a"

text \<open>The macro \<^verbatim>\<open>TH_TABLE\<close> appends the end marker.\<close>

definition TH_TABLE :: "string \<Rightarrow> thop_variant list \<Rightarrow> thop_table" where
  "TH_TABLE mnemonic vs =
     \<lparr>tbl_name = mnemonic,
      tbl_variants = vs @ [\<lparr>v_shape = THOP_SHAPE_END, v_base = 0, v_custom = CUSTOM_NONE\<rparr>]\<rparr>"

abbreviation V :: "nat \<Rightarrow> u32 \<Rightarrow> thop_variant" where
  "V s b \<equiv> \<lparr>v_shape = s, v_base = b, v_custom = CUSTOM_NONE\<rparr>"

abbreviation VC :: "nat \<Rightarrow> u32 \<Rightarrow> thop_custom_id \<Rightarrow> thop_variant" where
  "VC s b c \<equiv> \<lparr>v_shape = s, v_base = b, v_custom = c\<rparr>"

subsection \<open>The contract\<close>

definition try_imm_spec :: "thop_variant_shape \<Rightarrow> u32 \<Rightarrow> u32 option" where
  "try_imm_spec s imm =
     (if is_kind (sh_imm s) = IMM_PACK_CONST then
        case try_imm_scale (sh_imm s) imm of
          None \<Rightarrow> None
        | Some _ \<Rightarrow> if pack_const_value imm = 0 \<and> imm \<noteq> 0 then None else Some (pack_const_value imm)
      else fst (thop_try_imm s imm []))"

definition call_custom_spec :: "thop_custom_id \<Rightarrow> u32 \<Rightarrow> thop_args \<Rightarrow> tcc_failure + thumb_opcode" where
  "call_custom_spec cid base a =
     (if cid = CUSTOM_mvn_imm_emit then
        Inr (if pack_const_value (a_imm a) = 0 \<and> a_imm a \<noteq> 0 then no_opcode
             else \<lparr>op_size = 4,
                   op_code = base OR push_bit 20 (if a_flags a = FLAGS_BEHAVIOUR_SET then 1 else 0) OR
                     push_bit 8 (a_rd a) OR pack_const_value (a_imm a)\<rparr>)
      else map_sum id fst (thop_call_custom cid base a []))"

text \<open>What one variant contributes: \<open>None\<close> when it is passed over.\<close>

definition variant_result ::
  "thop_feat \<Rightarrow> thop_variant \<Rightarrow> thop_args \<Rightarrow> (tcc_failure + thumb_opcode) option" where
  "variant_result tf v a =
     (let s = thop_shapes ! v_shape v
      in if \<not> thop_guards tf s a then None
         else case (if is_kind (sh_imm s) \<noteq> IMM_NONE then try_imm_spec s (a_imm a) else Some 0) of
           None \<Rightarrow> None
         | Some imm_bits \<Rightarrow>
             if \<not> thop_regset_ok s a then None
             else if v_custom v \<noteq> CUSTOM_NONE then
               (case call_custom_spec (v_custom v) (v_base v) a of
                  Inl e \<Rightarrow> Some (Inl e)
                | Inr r \<Rightarrow> if op_size r \<noteq> 0 then Some (Inr r) else None)
             else Some (Inr \<lparr>op_size = sh_size s, op_code = thop_encode s (v_base v) a imm_bits\<rparr>))"

primrec emit_spec :: "thop_feat \<Rightarrow> thop_variant list \<Rightarrow> thop_args \<Rightarrow> tcc_failure + thumb_opcode" where
  "emit_spec tf [] a = Inr no_opcode"
| "emit_spec tf (v # vs) a =
     (case variant_result tf v a of Some r \<Rightarrow> r | None \<Rightarrow> emit_spec tf vs a)"

definition state_ok :: "thumb_state \<Rightarrow> bool" where
  "state_ok st \<longleftrightarrow> pack_cache_ok (pack_cache st)"

text \<open>An emission implements a specification: same outcome, sound state, same target.\<close>

definition outcome ::
  "thop_feat \<Rightarrow> tcc_failure + thumb_opcode \<Rightarrow> tcc_failure + thumb_opcode \<times> thumb_state \<Rightarrow> bool" where
  "outcome tf sp res =
     (case res of
        Inl e \<Rightarrow> sp = Inl e
      | Inr (r, st') \<Rightarrow> sp = Inr r \<and> state_ok st' \<and> target_feat st' = tf)"

definition emits :: "thumb_opcode emit \<Rightarrow> (thop_feat \<Rightarrow> tcc_failure + thumb_opcode) \<Rightarrow> bool" where
  "emits m sp \<longleftrightarrow> (\<forall>st. state_ok st \<longrightarrow> outcome (target_feat st) (sp (target_feat st)) (m st))"

subsection \<open>Refinement\<close>

lemma try_imm_refines:
  assumes "pack_cache_ok c"
  shows "fst (thop_try_imm s imm c) = (if is_kind (sh_imm s) = IMM_NONE then (if imm = 0 then Some 0 else None)
     else try_imm_spec s imm) \<and> pack_cache_ok (snd (thop_try_imm s imm c))"
proof -
  obtain c' where c': "th_pack_const imm c = (pack_const_value imm, c')" "pack_cache_ok c'"
    using pack_memo.look_eq [OF assms] by blast
  show ?thesis
    using assms by (cases "is_kind (sh_imm s)")
      (auto simp: thop_try_imm_def try_imm_spec_def Let_def c' split: option.split)
qed

lemma call_custom_refines:
  assumes "pack_cache_ok c"
  shows "case thop_call_custom cid base a c of
      Inl e \<Rightarrow> call_custom_spec cid base a = Inl e
    | Inr (r, c') \<Rightarrow> call_custom_spec cid base a = Inr r \<and> pack_cache_ok c'"
proof -
  obtain c' where c': "th_pack_const (a_imm a) c = (pack_const_value (a_imm a), c')" "pack_cache_ok c'"
    using pack_memo.look_eq [OF assms] by blast
  show ?thesis
    using assms by (cases cid)
      (auto simp: thop_call_custom_def call_custom_spec_def mvn_imm_emit_def Let_def c' split: sum.split)
qed

lemma state_ok_update [simp]: "state_ok (st\<lparr>pack_cache := c\<rparr>) = pack_cache_ok c"
  by (simp add: state_ok_def)

lemma outcome_simps [simp]:
  "outcome tf sp (Inl e) \<longleftrightarrow> sp = Inl e"
  "outcome tf sp (Inr (r, st)) \<longleftrightarrow> sp = Inr r \<and> state_ok st \<and> target_feat st = tf"
  by (simp_all add: outcome_def)

lemma error_in_refines:
  "state_ok st \<Longrightarrow> \<exists>st'. thop_emit_error_in shapes vs a st = (no_opcode, st') \<and> state_ok st' \<and>
     target_feat st' = target_feat st"
proof (induction vs arbitrary: st)
  case (Cons v vs)
  show ?case
  proof (cases "thop_error_reaches_imm (target_feat st) (shapes ! v_shape v) a")
    case True
    have "pack_cache_ok (snd (thop_try_imm (shapes ! v_shape v) (a_imm a) (pack_cache st)))"
      using Cons.prems try_imm_refines by (simp add: state_ok_def)
    with True Cons.IH [of "st\<lparr>pack_cache := snd (thop_try_imm (shapes ! v_shape v) (a_imm a) (pack_cache st))\<rparr>"]
    show ?thesis by (simp add: Let_def)
  next
    case False
    with Cons show ?thesis by (simp add: Let_def)
  qed
qed simp

lemma emit_loop_refines:
  "state_ok st \<Longrightarrow>
     outcome (target_feat st) (emit_spec (target_feat st) vs a) (thop_emit_loop thop_shapes table a vs st)"
proof (induction vs arbitrary: st)
  case Nil
  then show ?case using error_in_refines [of st thop_shapes table a] by auto
next
  case (Cons v vs)
  define s where "s = thop_shapes ! v_shape v"
  define imm where "imm = (if is_kind (sh_imm s) \<noteq> IMM_NONE
                    then thop_try_imm s (a_imm a) (pack_cache st) else (Some 0, pack_cache st))"
  have imm: "fst imm = (if is_kind (sh_imm s) \<noteq> IMM_NONE then try_imm_spec s (a_imm a) else Some 0)"
    "pack_cache_ok (snd imm)"
    using Cons.prems try_imm_refines [of "pack_cache st" s "a_imm a"] by (auto simp: imm_def state_ok_def)
  have IH: "outcome (target_feat st) (emit_spec (target_feat st) vs a)
      (thop_emit_loop thop_shapes table a vs (st\<lparr>pack_cache := c\<rparr>))" if "pack_cache_ok c" for c
    using Cons.IH [of "st\<lparr>pack_cache := c\<rparr>"] that by simp
  show ?case
  proof (cases "thop_guards (target_feat st) s a")
    case False
    with Cons show ?thesis by (simp add: variant_result_def Let_def flip: s_def)
  next
    case g: True
    show ?thesis
    proof (cases "fst imm")
      case None
      have "thop_emit_loop thop_shapes table a (v # vs) st =
          thop_emit_loop thop_shapes table a vs (st\<lparr>pack_cache := snd imm\<rparr>)"
        using g None by (auto simp add: Let_def simp flip: s_def imm_def split: prod.split)
      moreover have "variant_result (target_feat st) v a = None"
        using g None imm by (simp add: variant_result_def Let_def flip: s_def)
      ultimately show ?thesis using IH imm by simp
    next
      case (Some b)
      then have pr: "imm = (Some b, snd imm)" by (metis prod.collapse)
      have loop: "thop_emit_loop thop_shapes table a (v # vs) st =
         (if \<not> thop_regset_ok s a then thop_emit_loop thop_shapes table a vs (st\<lparr>pack_cache := snd imm\<rparr>)
                else if v_custom v \<noteq> CUSTOM_NONE then
                  (case thop_call_custom (v_custom v) (v_base v) a (snd imm) of
                     Inl e \<Rightarrow> Inl e
                   | Inr (r, c') \<Rightarrow>
                       if op_size r \<noteq> 0 then Inr (r, st\<lparr>pack_cache := c'\<rparr>)
                       else thop_emit_loop thop_shapes table a vs (st\<lparr>pack_cache := c'\<rparr>))
                else Inr (\<lparr>op_size = sh_size s, op_code = thop_encode s (v_base v) a b\<rparr>, st\<lparr>pack_cache := snd imm\<rparr>))"
        using g pr by (cases imm) (auto simp: Let_def simp flip: s_def imm_def split: sum.split)
      have vr: "variant_result (target_feat st) v a =
        (if \<not> thop_regset_ok s a then None
             else if v_custom v \<noteq> CUSTOM_NONE then
               (case call_custom_spec (v_custom v) (v_base v) a of
                  Inl e \<Rightarrow> Some (Inl e)
                | Inr r \<Rightarrow> if op_size r \<noteq> 0 then Some (Inr r) else None)
             else Some (Inr \<lparr>op_size = sh_size s, op_code = thop_encode s (v_base v) a b\<rparr>))"
        using g Some imm by (simp add: variant_result_def Let_def flip: s_def)
      show ?thesis
        using IH imm(2) call_custom_refines [OF imm(2), of "v_custom v" "v_base v" a]
        by (auto simp: loop vr split: sum.splits prod.splits simp del: thop_emit_loop.simps)
    qed
  qed
qed

lemma takeWhile_variants:
  "takeWhile (\<lambda>v. v_shape v \<noteq> THOP_SHAPE_END) (tbl_variants (TH_TABLE nm vs)) =
     takeWhile (\<lambda>v. v_shape v \<noteq> THOP_SHAPE_END) vs"
  by (auto simp: TH_TABLE_def takeWhile_append takeWhile_eq_all_conv [THEN iffD2])

lemma emits_table:
  "emits (thop_emit_table (TH_TABLE nm vs) a) (\<lambda>tf. emit_spec tf (takeWhile (\<lambda>v. v_shape v \<noteq> THOP_SHAPE_END) vs) a)"
  unfolding emits_def thop_emit_table_def takeWhile_variants thop_emit_def thop_emit_in_def
  using emit_loop_refines by blast

text \<open>Evaluation of the engine on a concrete instruction.\<close>

lemmas emit_eval =
  thop_emit_table_def thop_emit_def thop_emit_in_def TH_TABLE_def args0_def
  THUMB_SHIFT_DEFAULT_def Let_def thop_guards_def thop_feat32_subset_def thop_enc_ok_def
  thop_regs_ok_def thop_reg_ok_def con_has_def thop_shift_ok_def thop_puw_ok_def
  thop_regset_ok_def thop_try_imm_def try_imm_scale_def thop_encode_def thop_rm_for_place_def
  thop_place_def th_shift_value_to_sr_type_def

end
