(* ===== verification/Thumb_Alu.thy ===== *)
theory Thumb_Alu
  imports Thumb_Engine
begin

section \<open>Data-processing instructions\<close>

text \<open>
  The instruction tables and the public \<^verbatim>\<open>th_*\<close> wrappers of the
  data-processing instructions: arithmetic and logic on immediates and registers, bit-fields and
  saturation, comparisons, DSP, extension, moves, multiplication and division, reversal, shifts.
  A table is a \<^verbatim>\<open>TH_TABLE\<close> of the source, a wrapper builds the argument
  structure and runs the engine. C \<open>int\<close> parameters are integers, converted to
  \<open>uint32_t\<close> where the source converts them.
\<close>

subsection \<open>\<open>thop_alu_imm.c\<close>\<close>

definition THOP_ALU_IMM_FN ::
  "thop_table \<Rightarrow> u32 \<Rightarrow> u32 \<Rightarrow> u32 \<Rightarrow> thumb_flags_behaviour \<Rightarrow> thumb_enforce_encoding \<Rightarrow> thumb_opcode emit"
where
  "THOP_ALU_IMM_FN table_id rd rn imm flags enc =
     thop_emit_table table_id
       (args0\<lparr>a_rd := rd, a_rn := rn, a_imm := imm, a_flags := flags, a_enc := enc\<rparr>)"

definition THOP_ALU_WIDE_TABLE :: "string \<Rightarrow> u32 \<Rightarrow> thop_table" where
  "THOP_ALU_WIDE_TABLE fn_name base32 = TH_TABLE fn_name [V THOP_SHAPE_T32_IMM12 base32]"

definition THOP_ALU_WIDE_FN ::
  "string \<Rightarrow> u32 \<Rightarrow> u32 \<Rightarrow> u32 \<Rightarrow> u32 \<Rightarrow> thumb_opcode emit"
where
  "THOP_ALU_WIDE_FN fn_name base32 rd rn imm =
     thop_emit_table (THOP_ALU_WIDE_TABLE fn_name base32)
       (args0\<lparr>a_rd := rd, a_rn := rn, a_imm := imm, a_enc := ENFORCE_ENCODING_32BIT\<rparr>)"

definition TH_ADD_IMM :: thop_table where
  "TH_ADD_IMM = TH_TABLE ''add'' [V THOP_SHAPE_T16_IMM8 0x3000, V THOP_SHAPE_T16_IMM3 0x1C00,
     V THOP_SHAPE_T16_ADD_SP_IMM 0xb000, V THOP_SHAPE_T16_ADD_SP_IMM8 0xa800,
     V THOP_SHAPE_T32_MOD_IMM 0xF1000000, V THOP_SHAPE_T32_IMM12 0xF2000000]"

definition th_add_imm ::
  "u32 \<Rightarrow> u32 \<Rightarrow> u32 \<Rightarrow> thumb_flags_behaviour \<Rightarrow> thumb_enforce_encoding \<Rightarrow> thumb_opcode emit"
where
  "th_add_imm = THOP_ALU_IMM_FN TH_ADD_IMM"

definition th_addw :: "u32 \<Rightarrow> u32 \<Rightarrow> u32 \<Rightarrow> thumb_opcode emit" where
  "th_addw = THOP_ALU_WIDE_FN ''th_addw'' 0xF2000000"

definition TH_SUB_IMM :: thop_table where
  "TH_SUB_IMM = TH_TABLE ''sub'' [V THOP_SHAPE_T16_IMM8 0x3800, V THOP_SHAPE_T16_IMM3 0x1E00,
     V THOP_SHAPE_T16_SUB_SP_IMM 0xb080, V THOP_SHAPE_T32_MOD_IMM 0xF1A00000,
     V THOP_SHAPE_T32_IMM12 0xF2A00000]"

definition th_sub_imm ::
  "u32 \<Rightarrow> u32 \<Rightarrow> u32 \<Rightarrow> thumb_flags_behaviour \<Rightarrow> thumb_enforce_encoding \<Rightarrow> thumb_opcode emit"
where
  "th_sub_imm = THOP_ALU_IMM_FN TH_SUB_IMM"

definition th_subw :: "u32 \<Rightarrow> u32 \<Rightarrow> u32 \<Rightarrow> thumb_opcode emit" where
  "th_subw = THOP_ALU_WIDE_FN ''th_subw'' 0xF2A00000"

definition TH_RSB_IMM :: thop_table where
  "TH_RSB_IMM = TH_TABLE ''rsb'' [V THOP_SHAPE_T32_MOD_IMM 0xF1C00000]"

definition th_rsb_imm ::
  "u32 \<Rightarrow> u32 \<Rightarrow> u32 \<Rightarrow> thumb_flags_behaviour \<Rightarrow> thumb_enforce_encoding \<Rightarrow> thumb_opcode emit"
where
  "th_rsb_imm = THOP_ALU_IMM_FN TH_RSB_IMM"

definition TH_ADC_IMM :: thop_table where
  "TH_ADC_IMM = TH_TABLE ''adc'' [V THOP_SHAPE_T32_MOD_IMM 0xF1400000]"

definition th_adc_imm ::
  "u32 \<Rightarrow> u32 \<Rightarrow> u32 \<Rightarrow> thumb_flags_behaviour \<Rightarrow> thumb_enforce_encoding \<Rightarrow> thumb_opcode emit"
where
  "th_adc_imm = THOP_ALU_IMM_FN TH_ADC_IMM"

definition TH_SBC_IMM :: thop_table where
  "TH_SBC_IMM = TH_TABLE ''sbc'' [V THOP_SHAPE_T32_MOD_IMM 0xF1600000]"

definition th_sbc_imm ::
  "u32 \<Rightarrow> u32 \<Rightarrow> u32 \<Rightarrow> thumb_flags_behaviour \<Rightarrow> thumb_enforce_encoding \<Rightarrow> thumb_opcode emit"
where
  "th_sbc_imm = THOP_ALU_IMM_FN TH_SBC_IMM"

definition TH_AND_IMM :: thop_table where
  "TH_AND_IMM = TH_TABLE ''and'' [V THOP_SHAPE_T32_MOD_IMM 0xF0000000]"

definition th_and_imm ::
  "u32 \<Rightarrow> u32 \<Rightarrow> u32 \<Rightarrow> thumb_flags_behaviour \<Rightarrow> thumb_enforce_encoding \<Rightarrow> thumb_opcode emit"
where
  "th_and_imm = THOP_ALU_IMM_FN TH_AND_IMM"

definition TH_BIC_IMM :: thop_table where
  "TH_BIC_IMM = TH_TABLE ''bic'' [V THOP_SHAPE_T32_MOD_IMM 0xF0200000]"

definition th_bic_imm ::
  "u32 \<Rightarrow> u32 \<Rightarrow> u32 \<Rightarrow> thumb_flags_behaviour \<Rightarrow> thumb_enforce_encoding \<Rightarrow> thumb_opcode emit"
where
  "th_bic_imm = THOP_ALU_IMM_FN TH_BIC_IMM"

definition TH_ORR_IMM :: thop_table where
  "TH_ORR_IMM = TH_TABLE ''orr'' [V THOP_SHAPE_T32_MOD_IMM 0xF0400000]"

definition th_orr_imm ::
  "u32 \<Rightarrow> u32 \<Rightarrow> u32 \<Rightarrow> thumb_flags_behaviour \<Rightarrow> thumb_enforce_encoding \<Rightarrow> thumb_opcode emit"
where
  "th_orr_imm = THOP_ALU_IMM_FN TH_ORR_IMM"

definition TH_ORN_IMM :: thop_table where
  "TH_ORN_IMM = TH_TABLE ''orn'' [V THOP_SHAPE_T32_MOD_IMM 0xF0600000]"

definition th_orn_imm ::
  "u32 \<Rightarrow> u32 \<Rightarrow> u32 \<Rightarrow> thumb_flags_behaviour \<Rightarrow> thumb_enforce_encoding \<Rightarrow> thumb_opcode emit"
where
  "th_orn_imm = THOP_ALU_IMM_FN TH_ORN_IMM"

definition TH_EOR_IMM :: thop_table where
  "TH_EOR_IMM = TH_TABLE ''eor'' [V THOP_SHAPE_T32_MOD_IMM 0xF0800000]"

definition th_eor_imm ::
  "u32 \<Rightarrow> u32 \<Rightarrow> u32 \<Rightarrow> thumb_flags_behaviour \<Rightarrow> thumb_enforce_encoding \<Rightarrow> thumb_opcode emit"
where
  "th_eor_imm = THOP_ALU_IMM_FN TH_EOR_IMM"

definition tables_alu_imm :: "thop_table list" where
  "tables_alu_imm = [TH_ADD_IMM, TH_SUB_IMM, TH_RSB_IMM, TH_ADC_IMM, TH_SBC_IMM, TH_AND_IMM,
     TH_BIC_IMM, TH_ORR_IMM, TH_ORN_IMM, TH_EOR_IMM,
     THOP_ALU_WIDE_TABLE ''th_addw'' 0xF2000000, THOP_ALU_WIDE_TABLE ''th_subw'' 0xF2A00000]"

subsection \<open>\<open>thop_alu_reg.c\<close>\<close>

definition thop_alu_reg ::
  "u32 \<Rightarrow> u32 \<Rightarrow> u32 \<Rightarrow> thumb_flags_behaviour \<Rightarrow> thumb_shift \<Rightarrow> thumb_enforce_encoding \<Rightarrow> thop_table \<Rightarrow> thumb_opcode emit"
where
  "thop_alu_reg rd rn rm flags shift enc table =
     thop_emit_table table (args0\<lparr>a_rd := rd, a_rn := rn, a_rm := rm, a_flags := flags,
       a_shift := shift, a_enc := enc\<rparr>)"

definition THOP_ALU_REG_FN ::
  "thop_table \<Rightarrow> u32 \<Rightarrow> u32 \<Rightarrow> u32 \<Rightarrow> thumb_flags_behaviour \<Rightarrow> thumb_shift \<Rightarrow> thumb_enforce_encoding \<Rightarrow> thumb_opcode emit"
where
  "THOP_ALU_REG_FN table_id rd rn rm flags shift enc =
     thop_alu_reg rd rn rm flags shift enc table_id"

definition TH_ADD_REG :: thop_table where
  "TH_ADD_REG = TH_TABLE ''add'' [V THOP_SHAPE_T16_REG3 0x1800,
     V THOP_SHAPE_T16_ADD_SP_REG 0x4400, V THOP_SHAPE_T16_ADD_T2 0x4400,
     V THOP_SHAPE_T32_REG_SHIFT 0xEB000000]"

definition th_add_reg ::
  "u32 \<Rightarrow> u32 \<Rightarrow> u32 \<Rightarrow> thumb_flags_behaviour \<Rightarrow> thumb_shift \<Rightarrow> thumb_enforce_encoding \<Rightarrow> thumb_opcode emit"
where
  "th_add_reg = THOP_ALU_REG_FN TH_ADD_REG"

definition TH_SUB_REG :: thop_table where
  "TH_SUB_REG = TH_TABLE ''sub'' [V THOP_SHAPE_T16_REG3 0x1a00,
     V THOP_SHAPE_T32_REG_SHIFT 0xEBA00000]"

definition th_sub_reg ::
  "u32 \<Rightarrow> u32 \<Rightarrow> u32 \<Rightarrow> thumb_flags_behaviour \<Rightarrow> thumb_shift \<Rightarrow> thumb_enforce_encoding \<Rightarrow> thumb_opcode emit"
where
  "th_sub_reg = THOP_ALU_REG_FN TH_SUB_REG"

definition TH_RSB_REG :: thop_table where
  "TH_RSB_REG = TH_TABLE ''rsb'' [V THOP_SHAPE_T32_REG_SHIFT 0xEBC00000]"

definition th_rsb_reg ::
  "u32 \<Rightarrow> u32 \<Rightarrow> u32 \<Rightarrow> thumb_flags_behaviour \<Rightarrow> thumb_shift \<Rightarrow> thumb_enforce_encoding \<Rightarrow> thumb_opcode emit"
where
  "th_rsb_reg = THOP_ALU_REG_FN TH_RSB_REG"

definition TH_ADC_REG :: thop_table where
  "TH_ADC_REG = TH_TABLE ''adc'' [V THOP_SHAPE_T16_REG_RDN_RM 0x4140,
     V THOP_SHAPE_T32_REG_SHIFT 0xEB400000]"

definition th_adc_reg ::
  "u32 \<Rightarrow> u32 \<Rightarrow> u32 \<Rightarrow> thumb_flags_behaviour \<Rightarrow> thumb_shift \<Rightarrow> thumb_enforce_encoding \<Rightarrow> thumb_opcode emit"
where
  "th_adc_reg = THOP_ALU_REG_FN TH_ADC_REG"

definition TH_SBC_REG :: thop_table where
  "TH_SBC_REG = TH_TABLE ''sbc'' [V THOP_SHAPE_T16_REG_RDN_RM 0x4180,
     V THOP_SHAPE_T32_REG_SHIFT 0xEB600000]"

definition th_sbc_reg ::
  "u32 \<Rightarrow> u32 \<Rightarrow> u32 \<Rightarrow> thumb_flags_behaviour \<Rightarrow> thumb_shift \<Rightarrow> thumb_enforce_encoding \<Rightarrow> thumb_opcode emit"
where
  "th_sbc_reg = THOP_ALU_REG_FN TH_SBC_REG"

definition TH_AND_REG :: thop_table where
  "TH_AND_REG = TH_TABLE ''and'' [V THOP_SHAPE_T16_REG_RDN_RM 0x4000,
     V THOP_SHAPE_T32_REG_SHIFT 0xEA000000]"

definition th_and_reg ::
  "u32 \<Rightarrow> u32 \<Rightarrow> u32 \<Rightarrow> thumb_flags_behaviour \<Rightarrow> thumb_shift \<Rightarrow> thumb_enforce_encoding \<Rightarrow> thumb_opcode emit"
where
  "th_and_reg = THOP_ALU_REG_FN TH_AND_REG"

definition TH_BIC_REG :: thop_table where
  "TH_BIC_REG = TH_TABLE ''bic'' [V THOP_SHAPE_T16_REG_RDN_RM 0x4380,
     V THOP_SHAPE_T32_REG_SHIFT 0xEA200000]"

definition th_bic_reg ::
  "u32 \<Rightarrow> u32 \<Rightarrow> u32 \<Rightarrow> thumb_flags_behaviour \<Rightarrow> thumb_shift \<Rightarrow> thumb_enforce_encoding \<Rightarrow> thumb_opcode emit"
where
  "th_bic_reg = THOP_ALU_REG_FN TH_BIC_REG"

definition TH_ORR_REG :: thop_table where
  "TH_ORR_REG = TH_TABLE ''orr'' [V THOP_SHAPE_T16_REG_RDN_RM 0x4300,
     V THOP_SHAPE_T32_REG_SHIFT 0xEA400000]"

definition th_orr_reg ::
  "u32 \<Rightarrow> u32 \<Rightarrow> u32 \<Rightarrow> thumb_flags_behaviour \<Rightarrow> thumb_shift \<Rightarrow> thumb_enforce_encoding \<Rightarrow> thumb_opcode emit"
where
  "th_orr_reg = THOP_ALU_REG_FN TH_ORR_REG"

definition TH_ORN_REG :: thop_table where
  "TH_ORN_REG = TH_TABLE ''orn'' [V THOP_SHAPE_T32_REG_SHIFT 0xEA600000]"

definition th_orn_reg ::
  "u32 \<Rightarrow> u32 \<Rightarrow> u32 \<Rightarrow> thumb_flags_behaviour \<Rightarrow> thumb_shift \<Rightarrow> thumb_enforce_encoding \<Rightarrow> thumb_opcode emit"
where
  "th_orn_reg = THOP_ALU_REG_FN TH_ORN_REG"

definition TH_EOR_REG :: thop_table where
  "TH_EOR_REG = TH_TABLE ''eor'' [V THOP_SHAPE_T16_REG_RDN_RM 0x4040,
     V THOP_SHAPE_T32_REG_SHIFT 0xEA800000]"

definition th_eor_reg ::
  "u32 \<Rightarrow> u32 \<Rightarrow> u32 \<Rightarrow> thumb_flags_behaviour \<Rightarrow> thumb_shift \<Rightarrow> thumb_enforce_encoding \<Rightarrow> thumb_opcode emit"
where
  "th_eor_reg = THOP_ALU_REG_FN TH_EOR_REG"

definition tables_alu_reg :: "thop_table list" where
  "tables_alu_reg = [TH_ADD_REG, TH_SUB_REG, TH_RSB_REG, TH_ADC_REG, TH_SBC_REG, TH_AND_REG,
     TH_BIC_REG, TH_ORR_REG, TH_ORN_REG, TH_EOR_REG]"

subsection \<open>\<open>thop_adr.c\<close>\<close>

definition TH_ADR_IMM :: thop_table where
  "TH_ADR_IMM = TH_TABLE ''adr'' [V THOP_SHAPE_ADR_T1 0xa000, V THOP_SHAPE_ADR_T3 0xf20f0000,
     V THOP_SHAPE_ADR_T4 0xf2af0000]"

definition th_adr_imm ::
  "u32 \<Rightarrow> int \<Rightarrow> thumb_enforce_encoding \<Rightarrow> thumb_opcode emit"
where
  "th_adr_imm rd imm encoding =
     thop_emit_table TH_ADR_IMM (args0\<lparr>a_rd := rd, a_imm := word_of_int imm,
       a_enc := encoding\<rparr>)"

definition tables_adr :: "thop_table list" where
  "tables_adr = [TH_ADR_IMM]"

subsection \<open>\<open>thop_bitfield.c\<close>\<close>

definition TH_BFC :: thop_table where
  "TH_BFC = TH_TABLE ''bfc'' [V THOP_SHAPE_T32_BFX 0xf36f0000]"

definition TH_BFI :: thop_table where
  "TH_BFI = TH_TABLE ''bfi'' [V THOP_SHAPE_T32_BFX 0xf3600000]"

definition TH_SBFX :: thop_table where
  "TH_SBFX = TH_TABLE ''sbfx'' [V THOP_SHAPE_T32_BFX 0xf3400000]"

definition TH_SSAT :: thop_table where
  "TH_SSAT = TH_TABLE ''ssat'' [V THOP_SHAPE_T32_SSAT_LSL 0xf3000000,
     V THOP_SHAPE_T32_SSAT_ASR 0xf3200000]"

definition TH_USAT :: thop_table where
  "TH_USAT = TH_TABLE ''usat'' [V THOP_SHAPE_T32_USAT_LSL 0xf3800000,
     V THOP_SHAPE_T32_USAT_ASR 0xf3a00000]"

definition th_bfc :: "u32 \<Rightarrow> u32 \<Rightarrow> u32 \<Rightarrow> thumb_opcode emit" where
  "th_bfc rd lsb width =
     thop_emit_table TH_BFC (args0\<lparr>a_rd := rd, a_rn := 0, a_imm := lsb,
       a_imm2 := lsb + width - 1\<rparr>)"

definition th_bfi ::
  "u32 \<Rightarrow> u32 \<Rightarrow> u32 \<Rightarrow> u32 \<Rightarrow> thumb_opcode emit"
where
  "th_bfi rd rn lsb width =
     thop_emit_table TH_BFI (args0\<lparr>a_rd := rd, a_rn := rn, a_imm := lsb,
       a_imm2 := lsb + width - 1\<rparr>)"

definition th_sbfx ::
  "u32 \<Rightarrow> u32 \<Rightarrow> u32 \<Rightarrow> u32 \<Rightarrow> thumb_opcode emit"
where
  "th_sbfx rd rn lsb width =
     thop_emit_table TH_SBFX (args0\<lparr>a_rd := rd, a_rn := rn, a_imm := lsb,
       a_imm2 := width - 1\<rparr>)"

definition th_ssat ::
  "u32 \<Rightarrow> u32 \<Rightarrow> u32 \<Rightarrow> thumb_shift \<Rightarrow> thumb_opcode emit"
where
  "th_ssat rd imm rn shift =
     thop_emit_table TH_SSAT (args0\<lparr>a_rd := rd, a_rn := rn, a_imm2 := imm - 1,
       a_shift := shift\<rparr>)"

definition th_usat ::
  "u32 \<Rightarrow> u32 \<Rightarrow> u32 \<Rightarrow> thumb_shift \<Rightarrow> thumb_opcode emit"
where
  "th_usat rd imm rn shift =
     thop_emit_table TH_USAT (args0\<lparr>a_rd := rd, a_rn := rn, a_imm2 := imm,
       a_shift := shift\<rparr>)"

definition tables_bitfield :: "thop_table list" where
  "tables_bitfield = [TH_BFC, TH_BFI, TH_SBFX, TH_SSAT, TH_USAT]"

subsection \<open>\<open>thop_cmp.c\<close>\<close>

definition thop_cmp_imm ::
  "u32 \<Rightarrow> u32 \<Rightarrow> thumb_flags_behaviour \<Rightarrow> thumb_enforce_encoding \<Rightarrow> thop_table \<Rightarrow> thumb_opcode emit"
where
  "thop_cmp_imm rn imm flags enc table =
     thop_emit_table table (args0\<lparr>a_rd := 0xf, a_rn := rn, a_imm := imm, a_flags := flags,
       a_enc := enc\<rparr>)"

definition thop_cmp_reg ::
  "u32 \<Rightarrow> u32 \<Rightarrow> thumb_flags_behaviour \<Rightarrow> thumb_shift \<Rightarrow> thumb_enforce_encoding \<Rightarrow> thop_table \<Rightarrow> thumb_opcode emit"
where
  "thop_cmp_reg rn rm flags shift enc table =
     thop_emit_table table (args0\<lparr>a_rd := 0xf, a_rn := rn, a_rm := rm, a_flags := flags,
       a_shift := shift, a_enc := enc\<rparr>)"

definition THOP_CMP_IMM_FN ::
  "thop_table \<Rightarrow> u32 \<Rightarrow> u32 \<Rightarrow> thumb_flags_behaviour \<Rightarrow> thumb_enforce_encoding \<Rightarrow> thumb_opcode emit"
where
  "THOP_CMP_IMM_FN table_id rn imm flags enc =
     thop_cmp_imm rn imm flags enc table_id"

definition THOP_CMP_REG_FN ::
  "thop_table \<Rightarrow> u32 \<Rightarrow> u32 \<Rightarrow> thumb_flags_behaviour \<Rightarrow> thumb_shift \<Rightarrow> thumb_enforce_encoding \<Rightarrow> thumb_opcode emit"
where
  "THOP_CMP_REG_FN table_id rn rm flags shift enc =
     thop_cmp_reg rn rm flags shift enc table_id"

definition TH_CMP_IMM :: thop_table where
  "TH_CMP_IMM = TH_TABLE ''cmp'' [V THOP_SHAPE_T16_CMP_IMM 0x2800,
     V THOP_SHAPE_T32_CMP_IMM 0xF1B00F00]"

definition th_cmp_imm ::
  "u32 \<Rightarrow> u32 \<Rightarrow> thumb_flags_behaviour \<Rightarrow> thumb_enforce_encoding \<Rightarrow> thumb_opcode emit"
where
  "th_cmp_imm = THOP_CMP_IMM_FN TH_CMP_IMM"

definition TH_CMN_IMM :: thop_table where
  "TH_CMN_IMM = TH_TABLE ''cmn'' [V THOP_SHAPE_T32_CMP_IMM 0xF1100F00]"

definition th_cmn_imm ::
  "u32 \<Rightarrow> u32 \<Rightarrow> thumb_flags_behaviour \<Rightarrow> thumb_enforce_encoding \<Rightarrow> thumb_opcode emit"
where
  "th_cmn_imm = THOP_CMP_IMM_FN TH_CMN_IMM"

definition TH_TST_IMM :: thop_table where
  "TH_TST_IMM = TH_TABLE ''tst'' [V THOP_SHAPE_T32_CMP_IMM 0xF0100F00]"

definition th_tst_imm ::
  "u32 \<Rightarrow> u32 \<Rightarrow> thumb_flags_behaviour \<Rightarrow> thumb_enforce_encoding \<Rightarrow> thumb_opcode emit"
where
  "th_tst_imm = THOP_CMP_IMM_FN TH_TST_IMM"

definition TH_TEQ_IMM :: thop_table where
  "TH_TEQ_IMM = TH_TABLE ''teq'' [V THOP_SHAPE_T32_CMP_IMM 0xF0900F00]"

definition th_teq_imm ::
  "u32 \<Rightarrow> u32 \<Rightarrow> thumb_flags_behaviour \<Rightarrow> thumb_enforce_encoding \<Rightarrow> thumb_opcode emit"
where
  "th_teq_imm = THOP_CMP_IMM_FN TH_TEQ_IMM"

definition TH_CMP_REG :: thop_table where
  "TH_CMP_REG = TH_TABLE ''cmp'' [V THOP_SHAPE_T16_CMP_REG 0x4280,
     VC THOP_SHAPE_T16_CMP_REG_T2 0x4500 CUSTOM_cmp_reg_t2_custom_emit,
     V THOP_SHAPE_T32_CMP_REG 0xEBB00F00]"

definition th_cmp_reg ::
  "u32 \<Rightarrow> u32 \<Rightarrow> u32 \<Rightarrow> thumb_flags_behaviour \<Rightarrow> thumb_shift \<Rightarrow> thumb_enforce_encoding \<Rightarrow> thumb_opcode emit"
where
  "th_cmp_reg rd rn rm flags shift encoding =
     thop_cmp_reg rn rm flags shift encoding TH_CMP_REG"

definition TH_CMN_REG :: thop_table where
  "TH_CMN_REG = TH_TABLE ''cmn'' [V THOP_SHAPE_T16_CMP_REG 0x42C0,
     V THOP_SHAPE_T32_CMP_REG 0xEB100F00]"

definition th_cmn_reg ::
  "u32 \<Rightarrow> u32 \<Rightarrow> thumb_flags_behaviour \<Rightarrow> thumb_shift \<Rightarrow> thumb_enforce_encoding \<Rightarrow> thumb_opcode emit"
where
  "th_cmn_reg = THOP_CMP_REG_FN TH_CMN_REG"

definition TH_TST_REG :: thop_table where
  "TH_TST_REG = TH_TABLE ''tst'' [V THOP_SHAPE_T16_CMP_REG 0x4200,
     V THOP_SHAPE_T32_CMP_REG 0xEA100F00]"

definition th_tst_reg ::
  "u32 \<Rightarrow> u32 \<Rightarrow> thumb_flags_behaviour \<Rightarrow> thumb_shift \<Rightarrow> thumb_enforce_encoding \<Rightarrow> thumb_opcode emit"
where
  "th_tst_reg = THOP_CMP_REG_FN TH_TST_REG"

definition TH_TEQ_REG :: thop_table where
  "TH_TEQ_REG = TH_TABLE ''teq'' [V THOP_SHAPE_T32_CMP_REG 0xEA900F00]"

definition th_teq_reg ::
  "u32 \<Rightarrow> u32 \<Rightarrow> thumb_flags_behaviour \<Rightarrow> thumb_shift \<Rightarrow> thumb_enforce_encoding \<Rightarrow> thumb_opcode emit"
where
  "th_teq_reg = THOP_CMP_REG_FN TH_TEQ_REG"

definition tables_cmp :: "thop_table list" where
  "tables_cmp = [TH_CMP_IMM, TH_CMN_IMM, TH_TST_IMM, TH_TEQ_IMM, TH_CMP_REG, TH_CMN_REG,
     TH_TST_REG, TH_TEQ_REG]"

subsection \<open>\<open>thop_dsp.c\<close>\<close>

definition TH_UADD8 :: thop_table where
  "TH_UADD8 = TH_TABLE ''uadd8'' [V THOP_SHAPE_DSP_REG3 0xfa80f040]"

definition TH_USUB8 :: thop_table where
  "TH_USUB8 = TH_TABLE ''usub8'' [V THOP_SHAPE_DSP_REG3 0xfac0f040]"

definition TH_SEL :: thop_table where
  "TH_SEL = TH_TABLE ''sel'' [V THOP_SHAPE_DSP_REG3 0xfaa0f080]"

definition TH_PKHBT :: thop_table where
  "TH_PKHBT = TH_TABLE ''pkhbt'' [VC THOP_SHAPE_PKH 0xeac00000 CUSTOM_pkhbt_emit]"

definition th_uadd8 :: "u16 \<Rightarrow> u16 \<Rightarrow> u16 \<Rightarrow> thumb_opcode emit" where
  "th_uadd8 rd rn rm =
     thop_emit_table TH_UADD8 (args0\<lparr>a_rd := ucast rd, a_rn := ucast rn,
       a_rm := ucast rm\<rparr>)"

definition th_usub8 :: "u16 \<Rightarrow> u16 \<Rightarrow> u16 \<Rightarrow> thumb_opcode emit" where
  "th_usub8 rd rn rm =
     thop_emit_table TH_USUB8 (args0\<lparr>a_rd := ucast rd, a_rn := ucast rn,
       a_rm := ucast rm\<rparr>)"

definition th_sel :: "u16 \<Rightarrow> u16 \<Rightarrow> u16 \<Rightarrow> thumb_opcode emit" where
  "th_sel rd rn rm =
     thop_emit_table TH_SEL (args0\<lparr>a_rd := ucast rd, a_rn := ucast rn,
       a_rm := ucast rm\<rparr>)"

definition th_pkhbt ::
  "u32 \<Rightarrow> u32 \<Rightarrow> u32 \<Rightarrow> thumb_shift \<Rightarrow> thumb_opcode emit"
where
  "th_pkhbt rd rn rm shift =
     thop_emit_table TH_PKHBT (args0\<lparr>a_rd := rd, a_rn := rn, a_rm := rm,
       a_shift := shift\<rparr>)"

definition tables_dsp :: "thop_table list" where
  "tables_dsp = [TH_UADD8, TH_USUB8, TH_SEL, TH_PKHBT]"

subsection \<open>\<open>thop_extend.c\<close>\<close>

definition thop_extend ::
  "u32 \<Rightarrow> u32 \<Rightarrow> thumb_shift \<Rightarrow> thumb_enforce_encoding \<Rightarrow> thop_table \<Rightarrow> thumb_opcode emit"
where
  "thop_extend rd rm shift enc table =
     thop_emit_table table (args0\<lparr>a_rd := rd, a_rm := rm, a_ra := rm,
       a_imm := sft_value shift, a_shift := shift, a_enc := enc\<rparr>)"

definition THOP_EXTEND_FN ::
  "thop_table \<Rightarrow> u32 \<Rightarrow> u32 \<Rightarrow> thumb_shift \<Rightarrow> thumb_enforce_encoding \<Rightarrow> thumb_opcode emit"
where
  "THOP_EXTEND_FN table_id rd rm shift enc =
     thop_extend rd rm shift enc table_id"

definition TH_SXTB :: thop_table where
  "TH_SXTB = TH_TABLE ''sxtb'' [V THOP_SHAPE_T16_EXTEND 0xb240,
     V THOP_SHAPE_T32_EXTEND 0xfa4ff080]"

definition th_sxtb ::
  "u32 \<Rightarrow> u32 \<Rightarrow> thumb_shift \<Rightarrow> thumb_enforce_encoding \<Rightarrow> thumb_opcode emit"
where
  "th_sxtb = THOP_EXTEND_FN TH_SXTB"

definition TH_SXTH :: thop_table where
  "TH_SXTH = TH_TABLE ''sxth'' [V THOP_SHAPE_T16_EXTEND 0xb200,
     V THOP_SHAPE_T32_EXTEND 0xfa0ff080]"

definition th_sxth ::
  "u32 \<Rightarrow> u32 \<Rightarrow> thumb_shift \<Rightarrow> thumb_enforce_encoding \<Rightarrow> thumb_opcode emit"
where
  "th_sxth = THOP_EXTEND_FN TH_SXTH"

definition TH_UXTB :: thop_table where
  "TH_UXTB = TH_TABLE ''uxtb'' [V THOP_SHAPE_T16_EXTEND 0xb2c0,
     V THOP_SHAPE_T32_EXTEND 0xfa5ff080]"

definition th_uxtb ::
  "u32 \<Rightarrow> u32 \<Rightarrow> thumb_shift \<Rightarrow> thumb_enforce_encoding \<Rightarrow> thumb_opcode emit"
where
  "th_uxtb = THOP_EXTEND_FN TH_UXTB"

definition TH_UXTH :: thop_table where
  "TH_UXTH = TH_TABLE ''uxth'' [V THOP_SHAPE_T16_EXTEND 0xb280,
     V THOP_SHAPE_T32_EXTEND 0xfa1ff080]"

definition th_uxth ::
  "u32 \<Rightarrow> u32 \<Rightarrow> thumb_shift \<Rightarrow> thumb_enforce_encoding \<Rightarrow> thumb_opcode emit"
where
  "th_uxth = THOP_EXTEND_FN TH_UXTH"

definition tables_extend :: "thop_table list" where
  "tables_extend = [TH_SXTB, TH_SXTH, TH_UXTB, TH_UXTH]"

subsection \<open>\<open>thop_mov.c\<close>\<close>

definition TH_MOV_REG :: thop_table where
  "TH_MOV_REG = TH_TABLE ''mov'' [V THOP_SHAPE_MOV_REG_T1_HIGH 0x4600,
     VC THOP_SHAPE_MOV_REG_T1_SHIFT 0 CUSTOM_mov_reg_t1_shift_emit,
     V THOP_SHAPE_MOV_REG_T3 0xea4f0000]"

definition TH_MOV_IMM :: thop_table where
  "TH_MOV_IMM = TH_TABLE ''mov'' [VC THOP_SHAPE_MOV_IMM_T1 0x2000 CUSTOM_mov_imm_t1_emit,
     V THOP_SHAPE_MOV_IMM_T3 0xf04f0000, V THOP_SHAPE_MOV_IMM_T4 0xf2400000]"

definition th_mov_imm ::
  "u16 \<Rightarrow> u32 \<Rightarrow> thumb_flags_behaviour \<Rightarrow> thumb_enforce_encoding \<Rightarrow> thumb_opcode emit"
where
  "th_mov_imm rd imm setflags encoding =
     thop_emit_table TH_MOV_IMM (args0\<lparr>a_rd := ucast rd, a_imm := imm,
       a_flags := setflags, a_enc := encoding\<rparr>)"

definition TH_MOVT :: thop_table where
  "TH_MOVT = TH_TABLE ''movt'' [V THOP_SHAPE_MOVT 0xf2c00000]"

definition th_movt :: "u32 \<Rightarrow> u32 \<Rightarrow> thumb_opcode emit" where
  "th_movt rd imm16 =
     thop_emit_table TH_MOVT (args0\<lparr>a_rd := rd, a_imm := imm16\<rparr>)"

definition TH_MOV_REG_SHIFT :: thop_table where
  "TH_MOV_REG_SHIFT = TH_TABLE ''mov'' [
     VC THOP_SHAPE_MOV_REG_SHIFT_T1 0 CUSTOM_mov_reg_shift_t1_emit,
     V THOP_SHAPE_MOV_REG_SHIFT_T3 0xfa00f000]"

definition th_mov_reg_shift ::
  "u32 \<Rightarrow> u32 \<Rightarrow> u32 \<Rightarrow> thumb_flags_behaviour \<Rightarrow> thumb_shift \<Rightarrow> thumb_enforce_encoding \<Rightarrow> thumb_opcode emit"
where
  "th_mov_reg_shift rd rm rs flags shift encoding =
     thop_emit_table TH_MOV_REG_SHIFT (args0\<lparr>a_rd := rd, a_rm := rm, a_ra := rs,
       a_flags := flags, a_shift := shift, a_enc := encoding\<rparr>)"

definition th_mov_reg ::
  "u32 \<Rightarrow> u32 \<Rightarrow> thumb_flags_behaviour \<Rightarrow> thumb_shift \<Rightarrow> thumb_enforce_encoding \<Rightarrow> bool \<Rightarrow>
   thumb_opcode emit"
where
  "th_mov_reg rd rm flags shift encoding in_it st =
     (if sft_mode shift = THUMB_SHIFT_REGISTER \<and> sft_type shift \<noteq> THUMB_SHIFT_NONE
      then th_mov_reg_shift rd rm (sft_value shift) flags shift encoding st
      else if sft_mode shift = THUMB_SHIFT_IMMEDIATE \<and> \<not>  fst (th_shift_imm_normalize shift)
      then Inr (no_opcode, st)
      else let shift = (if sft_mode shift = THUMB_SHIFT_IMMEDIATE
                        then snd (th_shift_imm_normalize shift) else shift)
           in thop_emit_table TH_MOV_REG
                (args0\<lparr>a_rd := rd, a_rm := rm, a_flags := flags, a_shift := shift,
                   a_enc := encoding, a_in_it_block := in_it\<rparr>) st)"

definition tables_mov :: "thop_table list" where
  "tables_mov = [TH_MOV_REG, TH_MOV_IMM, TH_MOVT, TH_MOV_REG_SHIFT]"

subsection \<open>\<open>thop_mul.c\<close>\<close>

definition TH_MUL_T16 :: thop_table where
  "TH_MUL_T16 = TH_TABLE ''muls'' [VC THOP_SHAPE_MUL_T16 0x4340 CUSTOM_mul_t16_emit]"

definition TH_MUL_T32 :: thop_table where
  "TH_MUL_T32 = TH_TABLE ''mul'' [V THOP_SHAPE_MUL_T32 0xfb00f000]"

definition TH_MLA :: thop_table where
  "TH_MLA = TH_TABLE ''mla'' [V THOP_SHAPE_MLA 0xfb000000]"

definition TH_MLS :: thop_table where
  "TH_MLS = TH_TABLE ''mls'' [V THOP_SHAPE_MLA 0xfb000010]"

definition TH_UMULL :: thop_table where
  "TH_UMULL = TH_TABLE ''umull'' [VC THOP_SHAPE_LONG_MUL 0xfba00000 CUSTOM_long_mul_emit]"

definition TH_UMLAL :: thop_table where
  "TH_UMLAL = TH_TABLE ''umlal'' [VC THOP_SHAPE_LONG_MUL 0xfbe00000 CUSTOM_long_mul_emit]"

definition TH_SMULL :: thop_table where
  "TH_SMULL = TH_TABLE ''smull'' [VC THOP_SHAPE_LONG_MUL 0xfb800000 CUSTOM_long_mul_emit]"

definition TH_SMLAL :: thop_table where
  "TH_SMLAL = TH_TABLE ''smlal'' [VC THOP_SHAPE_LONG_MUL 0xfbc00000 CUSTOM_long_mul_emit]"

definition TH_UMAAL :: thop_table where
  "TH_UMAAL = TH_TABLE ''umaal'' [VC THOP_SHAPE_LONG_MUL_DSP 0xfbe00060 CUSTOM_long_mul_emit]"

definition TH_UDIV :: thop_table where
  "TH_UDIV = TH_TABLE ''udiv'' [V THOP_SHAPE_DIV 0xfbb0f0f0]"

definition TH_SDIV :: thop_table where
  "TH_SDIV = TH_TABLE ''sdiv'' [V THOP_SHAPE_DIV 0xfb90f0f0]"

definition th_mul ::
  "u32 \<Rightarrow> u32 \<Rightarrow> u32 \<Rightarrow> thumb_flags_behaviour \<Rightarrow> thumb_enforce_encoding \<Rightarrow> thumb_opcode emit"
where
  "th_mul rd rn rm flags encoding =
     (let t16_possible = encoding \<noteq> ENFORCE_ENCODING_32BIT \<and> rd \<le> 7 \<and> rn \<le> 7 \<and> rm \<le> 7 \<and>
            flags \<noteq> FLAGS_BEHAVIOUR_BLOCK
      in if t16_possible \<and> (rd = rm \<or> rd = rn) then
           let other = (if rd = rm then rn else rm)
           in thop_emit_table TH_MUL_T16
                (args0\<lparr>a_rd := rd, a_rm := other, a_flags := flags, a_enc := encoding\<rparr>)
         else thop_emit_table TH_MUL_T32
                (args0\<lparr>a_rd := rd, a_rm := rm, a_rn := rn, a_flags := flags, a_enc := encoding\<rparr>))"

definition th_mla ::
  "u32 \<Rightarrow> u32 \<Rightarrow> u32 \<Rightarrow> u32 \<Rightarrow> thumb_opcode emit"
where
  "th_mla rd rn rm ra =
     thop_emit_table TH_MLA (args0\<lparr>a_rd := rd, a_rn := rn, a_rm := rm, a_ra := ra\<rparr>)"

definition th_mls ::
  "u32 \<Rightarrow> u32 \<Rightarrow> u32 \<Rightarrow> u32 \<Rightarrow> thumb_opcode emit"
where
  "th_mls rd rn rm ra =
     thop_emit_table TH_MLS (args0\<lparr>a_rd := rd, a_rn := rn, a_rm := rm, a_ra := ra\<rparr>)"

definition th_umull ::
  "u32 \<Rightarrow> u32 \<Rightarrow> u32 \<Rightarrow> u32 \<Rightarrow> thumb_opcode emit"
where
  "th_umull rdlo rdhi rn rm =
     thop_emit_table TH_UMULL (args0\<lparr>a_rd := rdhi, a_rn := rn, a_rm := rm,
       a_ra := rdlo\<rparr>)"

definition th_umlal ::
  "u32 \<Rightarrow> u32 \<Rightarrow> u32 \<Rightarrow> u32 \<Rightarrow> thumb_opcode emit"
where
  "th_umlal rdlo rdhi rn rm =
     thop_emit_table TH_UMLAL (args0\<lparr>a_rd := rdhi, a_rn := rn, a_rm := rm,
       a_ra := rdlo\<rparr>)"

definition th_umaal ::
  "u32 \<Rightarrow> u32 \<Rightarrow> u32 \<Rightarrow> u32 \<Rightarrow> thumb_opcode emit"
where
  "th_umaal rdlo rdhi rn rm =
     thop_emit_table TH_UMAAL (args0\<lparr>a_rd := rdhi, a_rn := rn, a_rm := rm,
       a_ra := rdlo\<rparr>)"

definition th_smull ::
  "u32 \<Rightarrow> u32 \<Rightarrow> u32 \<Rightarrow> u32 \<Rightarrow> thumb_opcode emit"
where
  "th_smull rdlo rdhi rn rm =
     thop_emit_table TH_SMULL (args0\<lparr>a_rd := rdhi, a_rn := rn, a_rm := rm,
       a_ra := rdlo\<rparr>)"

definition th_smlal ::
  "u32 \<Rightarrow> u32 \<Rightarrow> u32 \<Rightarrow> u32 \<Rightarrow> thumb_opcode emit"
where
  "th_smlal rdlo rdhi rn rm =
     thop_emit_table TH_SMLAL (args0\<lparr>a_rd := rdhi, a_rn := rn, a_rm := rm,
       a_ra := rdlo\<rparr>)"

definition th_udiv :: "u16 \<Rightarrow> u16 \<Rightarrow> u16 \<Rightarrow> thumb_opcode emit" where
  "th_udiv rd rn rm =
     thop_emit_table TH_UDIV (args0\<lparr>a_rd := ucast rd, a_rn := ucast rn,
       a_rm := ucast rm\<rparr>)"

definition th_sdiv :: "u16 \<Rightarrow> u16 \<Rightarrow> u16 \<Rightarrow> thumb_opcode emit" where
  "th_sdiv rd rn rm =
     thop_emit_table TH_SDIV (args0\<lparr>a_rd := ucast rd, a_rn := ucast rn,
       a_rm := ucast rm\<rparr>)"

definition tables_mul :: "thop_table list" where
  "tables_mul = [TH_MUL_T16, TH_MUL_T32, TH_MLA, TH_MLS, TH_UMULL, TH_UMLAL, TH_SMULL, TH_SMLAL,
     TH_UMAAL, TH_UDIV, TH_SDIV]"

subsection \<open>\<open>thop_mvn.c\<close>\<close>

definition TH_MVN_REG :: thop_table where
  "TH_MVN_REG = TH_TABLE ''mvn'' [V THOP_SHAPE_MVN_REG_T1 0x43c0,
     V THOP_SHAPE_MVN_REG_T3 0xea6f0000]"

definition thop_mvn_reg ::
  "u32 \<Rightarrow> u32 \<Rightarrow> u32 \<Rightarrow> thumb_flags_behaviour \<Rightarrow> thumb_shift \<Rightarrow> thumb_enforce_encoding \<Rightarrow> thumb_opcode emit"
where
  "thop_mvn_reg rd rn rm flags shift enc =
     thop_emit_table TH_MVN_REG (args0\<lparr>a_rd := rd, a_rn := rn, a_rm := rm,
       a_flags := flags, a_shift := shift, a_enc := enc\<rparr>)"

definition th_mvn_reg ::
  "u32 \<Rightarrow> u32 \<Rightarrow> u32 \<Rightarrow> thumb_flags_behaviour \<Rightarrow> thumb_shift \<Rightarrow> thumb_enforce_encoding \<Rightarrow> thumb_opcode emit"
where
  "th_mvn_reg rd rn rm flags shift encoding =
     thop_mvn_reg rd rn rm flags shift encoding"

definition TH_MVN_IMM :: thop_table where
  "TH_MVN_IMM = TH_TABLE ''mvn'' [VC THOP_SHAPE_MVN_IMM_T3 0xf06f0000 CUSTOM_mvn_imm_emit]"

definition th_mvn_imm ::
  "u32 \<Rightarrow> u32 \<Rightarrow> u32 \<Rightarrow> thumb_flags_behaviour \<Rightarrow> thumb_enforce_encoding \<Rightarrow> thumb_opcode emit"
where
  "th_mvn_imm rd rm imm flags encoding =
     thop_emit_table TH_MVN_IMM (args0\<lparr>a_rd := rd, a_imm := imm, a_flags := flags,
       a_enc := encoding\<rparr>)"

definition tables_mvn :: "thop_table list" where
  "tables_mvn = [TH_MVN_REG, TH_MVN_IMM]"

subsection \<open>\<open>thop_rev.c\<close>\<close>

definition thop_rev ::
  "u32 \<Rightarrow> u32 \<Rightarrow> thumb_enforce_encoding \<Rightarrow> thop_table \<Rightarrow> thumb_opcode emit"
where
  "thop_rev rd rm enc table =
     thop_emit_table table (args0\<lparr>a_rd := rd, a_rm := rm, a_ra := rm, a_enc := enc\<rparr>)"

definition TH_REV :: thop_table where
  "TH_REV = TH_TABLE ''rev'' [V THOP_SHAPE_T16_REV 0xba00, V THOP_SHAPE_T32_REV 0xfa90f080]"

definition th_rev ::
  "u32 \<Rightarrow> u32 \<Rightarrow> thumb_enforce_encoding \<Rightarrow> thumb_opcode emit"
where
  "th_rev rd rm enc =
     thop_rev rd rm enc TH_REV"

definition TH_REV16 :: thop_table where
  "TH_REV16 = TH_TABLE ''rev16'' [V THOP_SHAPE_T16_REV 0xba40, V THOP_SHAPE_T32_REV 0xfa90f090]"

definition th_rev16 ::
  "u32 \<Rightarrow> u32 \<Rightarrow> thumb_enforce_encoding \<Rightarrow> thumb_opcode emit"
where
  "th_rev16 rd rm enc =
     thop_rev rd rm enc TH_REV16"

definition TH_REVSH :: thop_table where
  "TH_REVSH = TH_TABLE ''revsh'' [V THOP_SHAPE_T16_REV 0xbac0, V THOP_SHAPE_T32_REV 0xfa90f0b0]"

definition th_revsh ::
  "u32 \<Rightarrow> u32 \<Rightarrow> thumb_enforce_encoding \<Rightarrow> thumb_opcode emit"
where
  "th_revsh rd rm enc =
     thop_rev rd rm enc TH_REVSH"

definition TH_RBIT :: thop_table where
  "TH_RBIT = TH_TABLE ''rbit'' [V THOP_SHAPE_T32_RBIT 0xfa90f0a0]"

definition th_rbit :: "u32 \<Rightarrow> u32 \<Rightarrow> thumb_opcode emit" where
  "th_rbit rd rm =
     thop_rev rd rm ENFORCE_ENCODING_NONE TH_RBIT"

definition tables_rev :: "thop_table list" where
  "tables_rev = [TH_REV, TH_REV16, TH_REVSH, TH_RBIT]"

subsection \<open>\<open>thop_shift_imm.c\<close>\<close>

definition thop_shift_imm ::
  "u32 \<Rightarrow> u32 \<Rightarrow> u32 \<Rightarrow> thumb_flags_behaviour \<Rightarrow> thumb_enforce_encoding \<Rightarrow> thumb_shift \<Rightarrow> thop_table \<Rightarrow> thumb_opcode emit"
where
  "thop_shift_imm rd rm imm flags enc shift table =
     thop_emit_table table (args0\<lparr>a_rd := rd, a_rm := rm, a_imm := imm, a_flags := flags,
       a_shift := shift, a_enc := enc\<rparr>)"

definition THOP_SHIFT_IMM_FN ::
  "thop_table \<Rightarrow> thumb_shift_type \<Rightarrow> u32 \<Rightarrow> u32 \<Rightarrow> u32 \<Rightarrow> thumb_flags_behaviour \<Rightarrow>
   thumb_enforce_encoding \<Rightarrow> thumb_opcode emit"
where
  "THOP_SHIFT_IMM_FN table_id shift_type rd rm imm flags enc st =
     (case th_shift_imm_normalize
             \<lparr>sft_type = shift_type, sft_value = imm, sft_mode = THUMB_SHIFT_IMMEDIATE\<rparr> of
        (False, _) \<Rightarrow> Inr (no_opcode, st)
      | (True, shift) \<Rightarrow>
          thop_shift_imm rd rm (sft_value shift AND 0x1f) flags enc shift table_id st)"

definition TH_LSL_IMM :: thop_table where
  "TH_LSL_IMM = TH_TABLE ''lsl'' [V THOP_SHAPE_T16_SHIFT_IMM 0x0000,
     V THOP_SHAPE_T32_SHIFT_IMM 0xEA4F0000]"

definition th_lsl_imm ::
  "u32 \<Rightarrow> u32 \<Rightarrow> u32 \<Rightarrow> thumb_flags_behaviour \<Rightarrow> thumb_enforce_encoding \<Rightarrow> thumb_opcode emit"
where
  "th_lsl_imm = THOP_SHIFT_IMM_FN TH_LSL_IMM THUMB_SHIFT_LSL"

definition TH_LSR_IMM :: thop_table where
  "TH_LSR_IMM = TH_TABLE ''lsr'' [V THOP_SHAPE_T16_SHIFT_IMM 0x0000,
     V THOP_SHAPE_T32_SHIFT_IMM 0xEA4F0000]"

definition th_lsr_imm ::
  "u32 \<Rightarrow> u32 \<Rightarrow> u32 \<Rightarrow> thumb_flags_behaviour \<Rightarrow> thumb_enforce_encoding \<Rightarrow> thumb_opcode emit"
where
  "th_lsr_imm = THOP_SHIFT_IMM_FN TH_LSR_IMM THUMB_SHIFT_LSR"

definition TH_ASR_IMM :: thop_table where
  "TH_ASR_IMM = TH_TABLE ''asr'' [V THOP_SHAPE_T16_SHIFT_IMM 0x0000,
     V THOP_SHAPE_T32_SHIFT_IMM 0xEA4F0000]"

definition th_asr_imm ::
  "u32 \<Rightarrow> u32 \<Rightarrow> u32 \<Rightarrow> thumb_flags_behaviour \<Rightarrow> thumb_enforce_encoding \<Rightarrow> thumb_opcode emit"
where
  "th_asr_imm = THOP_SHIFT_IMM_FN TH_ASR_IMM THUMB_SHIFT_ASR"

definition TH_ROR_IMM :: thop_table where
  "TH_ROR_IMM = TH_TABLE ''ror'' [V THOP_SHAPE_T32_SHIFT_IMM 0xEA4F0000]"

definition th_ror_imm ::
  "u32 \<Rightarrow> u32 \<Rightarrow> u32 \<Rightarrow> thumb_flags_behaviour \<Rightarrow> thumb_enforce_encoding \<Rightarrow> thumb_opcode emit"
where
  "th_ror_imm = THOP_SHIFT_IMM_FN TH_ROR_IMM THUMB_SHIFT_ROR"

definition tables_shift_imm :: "thop_table list" where
  "tables_shift_imm = [TH_LSL_IMM, TH_LSR_IMM, TH_ASR_IMM, TH_ROR_IMM]"

subsection \<open>\<open>thop_shift_reg.c\<close>\<close>

definition thop_shift_reg ::
  "u32 \<Rightarrow> u32 \<Rightarrow> u32 \<Rightarrow> thumb_flags_behaviour \<Rightarrow> thumb_enforce_encoding \<Rightarrow> thop_table \<Rightarrow> thumb_opcode emit"
where
  "thop_shift_reg rd rn rm flags enc table =
     thop_emit_table table (args0\<lparr>a_rd := rd, a_rn := rn, a_rm := rm, a_flags := flags,
       a_enc := enc\<rparr>)"

definition THOP_SHIFT_REG_FN ::
  "thop_table \<Rightarrow> u32 \<Rightarrow> u32 \<Rightarrow> u32 \<Rightarrow> thumb_flags_behaviour \<Rightarrow> thumb_shift \<Rightarrow> thumb_enforce_encoding \<Rightarrow> thumb_opcode emit"
where
  "THOP_SHIFT_REG_FN table_id rd rn rm flags shift enc =
     thop_shift_reg rd rn rm flags enc table_id"

definition TH_LSL_REG :: thop_table where
  "TH_LSL_REG = TH_TABLE ''lsl'' [VC THOP_SHAPE_T16_SHIFT_REG 0x4080 CUSTOM_shift_reg_t1_emit,
     V THOP_SHAPE_T32_SHIFT_REG 0xFA00F000]"

definition th_lsl_reg ::
  "u32 \<Rightarrow> u32 \<Rightarrow> u32 \<Rightarrow> thumb_flags_behaviour \<Rightarrow> thumb_shift \<Rightarrow> thumb_enforce_encoding \<Rightarrow> thumb_opcode emit"
where
  "th_lsl_reg = THOP_SHIFT_REG_FN TH_LSL_REG"

definition TH_LSR_REG :: thop_table where
  "TH_LSR_REG = TH_TABLE ''lsr'' [VC THOP_SHAPE_T16_SHIFT_REG 0x40C0 CUSTOM_shift_reg_t1_emit,
     V THOP_SHAPE_T32_SHIFT_REG 0xFA20F000]"

definition th_lsr_reg ::
  "u32 \<Rightarrow> u32 \<Rightarrow> u32 \<Rightarrow> thumb_flags_behaviour \<Rightarrow> thumb_shift \<Rightarrow> thumb_enforce_encoding \<Rightarrow> thumb_opcode emit"
where
  "th_lsr_reg = THOP_SHIFT_REG_FN TH_LSR_REG"

definition TH_ASR_REG :: thop_table where
  "TH_ASR_REG = TH_TABLE ''asr'' [VC THOP_SHAPE_T16_SHIFT_REG 0x4100 CUSTOM_shift_reg_t1_emit,
     V THOP_SHAPE_T32_SHIFT_REG 0xFA40F000]"

definition th_asr_reg ::
  "u32 \<Rightarrow> u32 \<Rightarrow> u32 \<Rightarrow> thumb_flags_behaviour \<Rightarrow> thumb_shift \<Rightarrow> thumb_enforce_encoding \<Rightarrow> thumb_opcode emit"
where
  "th_asr_reg = THOP_SHIFT_REG_FN TH_ASR_REG"

definition TH_ROR_REG :: thop_table where
  "TH_ROR_REG = TH_TABLE ''ror'' [V THOP_SHAPE_T32_SHIFT_REG 0xFA60F000]"

definition th_ror_reg ::
  "u32 \<Rightarrow> u32 \<Rightarrow> u32 \<Rightarrow> thumb_flags_behaviour \<Rightarrow> thumb_shift \<Rightarrow> thumb_enforce_encoding \<Rightarrow> thumb_opcode emit"
where
  "th_ror_reg = THOP_SHIFT_REG_FN TH_ROR_REG"

definition tables_shift_reg :: "thop_table list" where
  "tables_shift_reg = [TH_LSL_REG, TH_LSR_REG, TH_ASR_REG, TH_ROR_REG]"

lemmas Thumb_Alu_tables [table_simps] =
  tables_alu_imm_def tables_alu_reg_def tables_adr_def tables_bitfield_def tables_cmp_def
  tables_dsp_def tables_extend_def tables_mov_def tables_mul_def tables_mvn_def tables_rev_def
  tables_shift_imm_def tables_shift_reg_def THOP_ALU_WIDE_TABLE_def TH_ADD_IMM_def TH_SUB_IMM_def TH_RSB_IMM_def
  TH_ADC_IMM_def TH_SBC_IMM_def TH_AND_IMM_def TH_BIC_IMM_def TH_ORR_IMM_def TH_ORN_IMM_def
  TH_EOR_IMM_def TH_ADD_REG_def TH_SUB_REG_def TH_RSB_REG_def TH_ADC_REG_def TH_SBC_REG_def
  TH_AND_REG_def TH_BIC_REG_def TH_ORR_REG_def TH_ORN_REG_def TH_EOR_REG_def TH_ADR_IMM_def
  TH_BFC_def TH_BFI_def TH_SBFX_def TH_SSAT_def TH_USAT_def TH_CMP_IMM_def TH_CMN_IMM_def
  TH_TST_IMM_def TH_TEQ_IMM_def TH_CMP_REG_def TH_CMN_REG_def TH_TST_REG_def TH_TEQ_REG_def
  TH_UADD8_def TH_USUB8_def TH_SEL_def TH_PKHBT_def TH_SXTB_def TH_SXTH_def TH_UXTB_def
  TH_UXTH_def TH_MOV_REG_def TH_MOV_IMM_def TH_MOVT_def TH_MOV_REG_SHIFT_def TH_MUL_T16_def
  TH_MUL_T32_def TH_MLA_def TH_MLS_def TH_UMULL_def TH_UMLAL_def TH_SMULL_def TH_SMLAL_def
  TH_UMAAL_def TH_UDIV_def TH_SDIV_def TH_MVN_REG_def TH_MVN_IMM_def TH_REV_def TH_REV16_def
  TH_REVSH_def TH_RBIT_def TH_LSL_IMM_def TH_LSR_IMM_def TH_ASR_IMM_def TH_ROR_IMM_def
  TH_LSL_REG_def TH_LSR_REG_def TH_ASR_REG_def TH_ROR_REG_def

end
