(* ===== verification/Thumb_Mem.thy ===== *)
theory Thumb_Mem
  imports Thumb_Engine
begin

section \<open>Memory instructions\<close>

text \<open>
  The instruction tables and the public \<^verbatim>\<open>th_*\<close> wrappers of the memory
  instructions: block transfers, acquire/release and exclusive accesses, literal, dual,
  immediate-offset, register-offset and unprivileged loads and stores, preloads. A table is a
  \<^verbatim>\<open>TH_TABLE\<close> of the source, a wrapper builds the argument structure and
  runs the engine. C \<open>int\<close> parameters are integers, converted to
  \<open>uint32_t\<close> where the source converts them.
\<close>

subsection \<open>\<open>thop_mem_imm.c\<close>\<close>

definition TH_LDR_IMM :: thop_table where
  "TH_LDR_IMM = TH_TABLE ''ldr'' [V THOP_SHAPE_T16_MEM_IMM4 0x6800,
     V THOP_SHAPE_T16_MEM_SP_IMM4 0x9800, V THOP_SHAPE_T32_MEM_POS_ANY_NOTPC 0xf8d00000,
     V THOP_SHAPE_T32_MEM_PC_POS 0xf8df0000, V THOP_SHAPE_T32_MEM_PC_NEG 0xf85f0000,
     V THOP_SHAPE_T32_MEM_IDX_ANY 0xf8500800]"

definition TH_LDRB_IMM :: thop_table where
  "TH_LDRB_IMM = TH_TABLE ''ldrb'' [V THOP_SHAPE_T16_MEM_IMM0 0x7800,
     V THOP_SHAPE_T32_MEM_POS_NOSP_NOTPC 0xf8900000, V THOP_SHAPE_T32_MEM_PC_POS 0xf89f0000,
     V THOP_SHAPE_T32_MEM_PC_NEG 0xf81f0000, V THOP_SHAPE_T32_MEM_IDX_NOSP 0xf8100800]"

definition TH_LDRH_IMM :: thop_table where
  "TH_LDRH_IMM = TH_TABLE ''ldrh'' [V THOP_SHAPE_T16_MEM_IMM1 0x8800,
     V THOP_SHAPE_T32_MEM_POS_NOSP_NOTPC 0xf8b00000, V THOP_SHAPE_T32_MEM_PC_POS 0xf8bf0000,
     V THOP_SHAPE_T32_MEM_PC_NEG 0xf83f0000, V THOP_SHAPE_T32_MEM_IDX_NOSP 0xf8300800]"

definition TH_LDRSB_IMM :: thop_table where
  "TH_LDRSB_IMM = TH_TABLE ''ldrsb'' [V THOP_SHAPE_T32_MEM_POS_NOSP_NOTPC 0xf9900000,
     V THOP_SHAPE_T32_MEM_PC_POS 0xf99f0000, V THOP_SHAPE_T32_MEM_PC_NEG 0xf91f0000,
     V THOP_SHAPE_T32_MEM_IDX_NOSP 0xf9100800]"

definition TH_LDRSH_IMM :: thop_table where
  "TH_LDRSH_IMM = TH_TABLE ''ldrsh'' [V THOP_SHAPE_T32_MEM_POS_NOSP_NOTPC 0xf9b00000,
     V THOP_SHAPE_T32_MEM_PC_POS 0xf9bf0000, V THOP_SHAPE_T32_MEM_PC_NEG 0xf93f0000,
     V THOP_SHAPE_T32_MEM_IDX_NOSP 0xf9300800]"

definition TH_STR_IMM :: thop_table where
  "TH_STR_IMM = TH_TABLE ''str'' [V THOP_SHAPE_T16_MEM_IMM4 0x6000,
     V THOP_SHAPE_T16_MEM_SP_IMM4 0x9000, V THOP_SHAPE_T32_MEM_POS_ANY_NOTPC 0xf8c00000,
     V THOP_SHAPE_T32_MEM_IDX_ANY_NOTPC 0xf8400800]"

definition TH_STRB_IMM :: thop_table where
  "TH_STRB_IMM = TH_TABLE ''strb'' [V THOP_SHAPE_T16_MEM_IMM0 0x7000,
     V THOP_SHAPE_T32_MEM_POS_NOSP_NOTPC 0xf8800000,
     V THOP_SHAPE_T32_MEM_IDX_NOSP_NOTPC 0xf8000800]"

definition TH_STRH_IMM :: thop_table where
  "TH_STRH_IMM = TH_TABLE ''strh'' [V THOP_SHAPE_T16_MEM_IMM1 0x8000,
     V THOP_SHAPE_T32_MEM_POS_NOSP_NOTPC 0xf8a00000,
     V THOP_SHAPE_T32_MEM_IDX_NOSP_NOTPC 0xf8200800]"

definition th_ldr_imm ::
  "u32 \<Rightarrow> u32 \<Rightarrow> int \<Rightarrow> u32 \<Rightarrow> thumb_enforce_encoding \<Rightarrow> thumb_opcode emit"
where
  "th_ldr_imm rt rn imm puw enc =
     thop_emit_table TH_LDR_IMM (args0\<lparr>a_rd := rt, a_rn := rn, a_imm := word_of_int imm,
       a_puw := ucast puw, a_enc := enc\<rparr>)"

definition th_ldrb_imm ::
  "u32 \<Rightarrow> u32 \<Rightarrow> int \<Rightarrow> u32 \<Rightarrow> thumb_enforce_encoding \<Rightarrow> thumb_opcode emit"
where
  "th_ldrb_imm rt rn imm puw enc =
     thop_emit_table TH_LDRB_IMM (args0\<lparr>a_rd := rt, a_rn := rn, a_imm := word_of_int imm,
       a_puw := ucast puw, a_enc := enc\<rparr>)"

definition th_ldrh_imm ::
  "u32 \<Rightarrow> u32 \<Rightarrow> int \<Rightarrow> u32 \<Rightarrow> thumb_enforce_encoding \<Rightarrow> thumb_opcode emit"
where
  "th_ldrh_imm rt rn imm puw enc =
     thop_emit_table TH_LDRH_IMM (args0\<lparr>a_rd := rt, a_rn := rn, a_imm := word_of_int imm,
       a_puw := ucast puw, a_enc := enc\<rparr>)"

definition th_ldrsb_imm ::
  "u32 \<Rightarrow> u32 \<Rightarrow> int \<Rightarrow> u32 \<Rightarrow> thumb_enforce_encoding \<Rightarrow> thumb_opcode emit"
where
  "th_ldrsb_imm rt rn imm puw enc =
     thop_emit_table TH_LDRSB_IMM (args0\<lparr>a_rd := rt, a_rn := rn, a_imm := word_of_int imm,
       a_puw := ucast puw, a_enc := enc\<rparr>)"

definition th_ldrsh_imm ::
  "u32 \<Rightarrow> u32 \<Rightarrow> int \<Rightarrow> u32 \<Rightarrow> thumb_enforce_encoding \<Rightarrow> thumb_opcode emit"
where
  "th_ldrsh_imm rt rn imm puw enc =
     thop_emit_table TH_LDRSH_IMM (args0\<lparr>a_rd := rt, a_rn := rn, a_imm := word_of_int imm,
       a_puw := ucast puw, a_enc := enc\<rparr>)"

definition th_str_imm ::
  "u32 \<Rightarrow> u32 \<Rightarrow> int \<Rightarrow> u32 \<Rightarrow> thumb_enforce_encoding \<Rightarrow> thumb_opcode emit"
where
  "th_str_imm rt rn imm puw enc =
     thop_emit_table TH_STR_IMM (args0\<lparr>a_rd := rt, a_rn := rn, a_imm := word_of_int imm,
       a_puw := ucast puw, a_enc := enc\<rparr>)"

definition th_strb_imm ::
  "u32 \<Rightarrow> u32 \<Rightarrow> int \<Rightarrow> u32 \<Rightarrow> thumb_enforce_encoding \<Rightarrow> thumb_opcode emit"
where
  "th_strb_imm rt rn imm puw enc =
     thop_emit_table TH_STRB_IMM (args0\<lparr>a_rd := rt, a_rn := rn, a_imm := word_of_int imm,
       a_puw := ucast puw, a_enc := enc\<rparr>)"

definition th_strh_imm ::
  "u32 \<Rightarrow> u32 \<Rightarrow> int \<Rightarrow> u32 \<Rightarrow> thumb_enforce_encoding \<Rightarrow> thumb_opcode emit"
where
  "th_strh_imm rt rn imm puw enc =
     thop_emit_table TH_STRH_IMM (args0\<lparr>a_rd := rt, a_rn := rn, a_imm := word_of_int imm,
       a_puw := ucast puw, a_enc := enc\<rparr>)"

definition tables_mem_imm :: "thop_table list" where
  "tables_mem_imm = [TH_LDR_IMM, TH_LDRB_IMM, TH_LDRH_IMM, TH_LDRSB_IMM, TH_LDRSH_IMM,
     TH_STR_IMM, TH_STRB_IMM, TH_STRH_IMM]"

subsection \<open>\<open>thop_block.c\<close>\<close>

definition TH_PUSH :: thop_table where
  "TH_PUSH = TH_TABLE ''push'' [V THOP_SHAPE_PUSH_T1 0xb400, V THOP_SHAPE_PUSH_T2 0xe92d0000]"

definition TH_POP :: thop_table where
  "TH_POP = TH_TABLE ''pop'' [V THOP_SHAPE_POP_T1 0xbc00, V THOP_SHAPE_POP_T2 0xe8bd0000]"

definition TH_LDM :: thop_table where
  "TH_LDM = TH_TABLE ''ldm'' [V THOP_SHAPE_LDM_T1 0xc800, V THOP_SHAPE_LDM_T3 0xe8900000]"

definition TH_STM :: thop_table where
  "TH_STM = TH_TABLE ''stm'' [V THOP_SHAPE_STM_T1 0xc000, V THOP_SHAPE_STM_T3 0xe8800000]"

definition TH_LDMDB :: thop_table where
  "TH_LDMDB = TH_TABLE ''ldmdb'' [V THOP_SHAPE_LDMDB 0xe9100000]"

definition TH_STMDB :: thop_table where
  "TH_STMDB = TH_TABLE ''stmdb'' [V THOP_SHAPE_STMDB 0xe9000000]"

text \<open>\<^verbatim>\<open>__builtin_ctz\<close> on a nonzero word: the position of its lowest set bit.\<close>

definition ctz :: "u32 \<Rightarrow> nat" where
  "ctz w = (case List.find (bit w) [0..<32] of Some i \<Rightarrow> i | None \<Rightarrow> 32)"

definition th_push :: "u32 \<Rightarrow> thumb_opcode emit" where
  "th_push regs =
     (let lr = drop_bit 14 regs AND 1;
          regs = regs AND NOT (push_bit 14 1 OR push_bit 15 1)
      in if regs \<noteq> 0 \<and> regs AND (regs - 1) = 0 \<and> lr = 0 \<and> regs AND NOT 0xff \<noteq> 0
         then th_str_imm (word_of_nat (ctz regs)) R_SP 4 5 ENFORCE_ENCODING_32BIT
         else thop_emit_table TH_PUSH (args0\<lparr>a_rm := regs, a_imm := lr\<rparr>))"

definition th_pop :: "u16 \<Rightarrow> thumb_opcode emit" where
  "th_pop regs16 =
     (let pc = drop_bit 15 (ucast regs16 :: u32) AND 1;
          regs = (ucast regs16 :: u32) AND NOT (push_bit 15 1)
      in if pc = 0 \<and> regs \<noteq> 0 \<and> regs AND (regs - 1) = 0 \<and> regs AND NOT 0xff \<noteq> 0
         then th_ldr_imm (word_of_nat (ctz regs)) R_SP 4 3 ENFORCE_ENCODING_32BIT
         else thop_emit_table TH_POP (args0\<lparr>a_rm := regs, a_imm := pc\<rparr>))"

definition th_ldm :: "u32 \<Rightarrow> u32 \<Rightarrow> u32 \<Rightarrow> thumb_enforce_encoding \<Rightarrow> thumb_opcode emit" where
  "th_ldm rn regset writeback encoding st =
     (if rn = R_SP \<and> writeback \<noteq> 0 \<and> encoding \<noteq> ENFORCE_ENCODING_32BIT
      then th_pop (ucast regset) st
      else let in_list = drop_bit (unat rn) regset AND 1
           in if writeback \<noteq> 0 \<and> in_list \<noteq> 0 then Inr (no_opcode, st)
              else if (writeback = 0) \<noteq> (in_list \<noteq> 0) then
                if encoding = ENFORCE_ENCODING_16BIT then Inr (no_opcode, st)
                else thop_emit_table TH_LDM
                       (args0\<lparr>a_rd := rn, a_rm := regset, a_imm := writeback,
                          a_enc := ENFORCE_ENCODING_32BIT\<rparr>) st
              else thop_emit_table TH_LDM
                     (args0\<lparr>a_rd := rn, a_rm := regset, a_imm := writeback, a_enc := encoding\<rparr>) st)"

definition th_stm :: "u32 \<Rightarrow> u32 \<Rightarrow> u32 \<Rightarrow> thumb_enforce_encoding \<Rightarrow> thumb_opcode emit" where
  "th_stm rn regset writeback encoding st =
     (let in_list = drop_bit (unat rn) regset AND 1;
          t16_ok = rn \<le> 7 \<and> regset AND NOT 0xff = 0 \<and> regset AND (push_bit (unat rn) 1 - 1) = 0
      in if writeback = 0 \<and> encoding = ENFORCE_ENCODING_16BIT then Inr (no_opcode, st)
         else if writeback \<noteq> 0 \<and> in_list \<noteq> 0 \<and> (\<not>  t16_ok \<or> encoding = ENFORCE_ENCODING_32BIT)
         then Inr (no_opcode, st)
         else thop_emit_table TH_STM
                (args0\<lparr>a_rd := rn, a_rm := regset, a_imm := writeback,
                   a_enc := (if writeback = 0 then ENFORCE_ENCODING_32BIT else encoding)\<rparr>) st)"

definition th_ldmdb :: "u32 \<Rightarrow> u32 \<Rightarrow> u32 \<Rightarrow> thumb_opcode emit" where
  "th_ldmdb rn reglist w =
     thop_emit_table TH_LDMDB (args0\<lparr>a_rd := rn, a_rm := reglist, a_imm := w\<rparr>)"

definition th_stmdb ::
  "u32 \<Rightarrow> u32 \<Rightarrow> u32 \<Rightarrow> thumb_enforce_encoding \<Rightarrow> thumb_opcode emit"
where
  "th_stmdb rn reglist w encoding =
     thop_emit_table TH_STMDB (args0\<lparr>a_rd := rn, a_rm := reglist, a_imm := w\<rparr>)"

definition tables_block :: "thop_table list" where
  "tables_block = [TH_PUSH, TH_POP, TH_LDM, TH_STM, TH_LDMDB, TH_STMDB]"

subsection \<open>\<open>thop_ldaex.c\<close>\<close>

definition TH_LDAEX :: thop_table where
  "TH_LDAEX = TH_TABLE ''ldaex'' [V THOP_SHAPE_LDAEX 0xe8d00fef]"

definition TH_LDAEXB :: thop_table where
  "TH_LDAEXB = TH_TABLE ''ldaexb'' [V THOP_SHAPE_LDAEX 0xe8d00fcf]"

definition TH_LDAEXH :: thop_table where
  "TH_LDAEXH = TH_TABLE ''ldaexh'' [V THOP_SHAPE_LDAEX 0xe8d00fdf]"

definition TH_STLEX :: thop_table where
  "TH_STLEX = TH_TABLE ''stlex'' [V THOP_SHAPE_STLEX 0xe8c00fe0]"

definition TH_STLEXB :: thop_table where
  "TH_STLEXB = TH_TABLE ''stlexb'' [V THOP_SHAPE_STLEX 0xe8c00fc0]"

definition TH_STLEXH :: thop_table where
  "TH_STLEXH = TH_TABLE ''stlexh'' [V THOP_SHAPE_STLEX 0xe8c00fd0]"

definition th_ldaex :: "u32 \<Rightarrow> u32 \<Rightarrow> thumb_opcode emit" where
  "th_ldaex rt rn =
     thop_emit_table TH_LDAEX (args0\<lparr>a_rd := rt, a_rn := rn\<rparr>)"

definition th_stlex :: "u32 \<Rightarrow> u32 \<Rightarrow> u32 \<Rightarrow> thumb_opcode emit" where
  "th_stlex rd rt rn =
     thop_emit_table TH_STLEX (args0\<lparr>a_rd := rd, a_rn := rn, a_rm := rt\<rparr>)"

definition th_ldaexb :: "u32 \<Rightarrow> u32 \<Rightarrow> thumb_opcode emit" where
  "th_ldaexb rt rn =
     thop_emit_table TH_LDAEXB (args0\<lparr>a_rd := rt, a_rn := rn\<rparr>)"

definition th_ldaexh :: "u32 \<Rightarrow> u32 \<Rightarrow> thumb_opcode emit" where
  "th_ldaexh rt rn =
     thop_emit_table TH_LDAEXH (args0\<lparr>a_rd := rt, a_rn := rn\<rparr>)"

definition th_stlexb :: "u32 \<Rightarrow> u32 \<Rightarrow> u32 \<Rightarrow> thumb_opcode emit" where
  "th_stlexb rd rt rn =
     thop_emit_table TH_STLEXB (args0\<lparr>a_rd := rd, a_rn := rn, a_rm := rt\<rparr>)"

definition th_stlexh :: "u32 \<Rightarrow> u32 \<Rightarrow> u32 \<Rightarrow> thumb_opcode emit" where
  "th_stlexh rd rt rn =
     thop_emit_table TH_STLEXH (args0\<lparr>a_rd := rd, a_rn := rn, a_rm := rt\<rparr>)"

definition tables_ldaex :: "thop_table list" where
  "tables_ldaex = [TH_LDAEX, TH_LDAEXB, TH_LDAEXH, TH_STLEX, TH_STLEXB, TH_STLEXH]"

subsection \<open>\<open>thop_ldr_literal.c\<close>\<close>

definition TH_LDR_LITERAL :: thop_table where
  "TH_LDR_LITERAL = TH_TABLE ''ldr'' [V THOP_SHAPE_LDR_LIT_T1 0x4800,
     VC THOP_SHAPE_LDR_LIT_T32 0 CUSTOM_ldr_literal_emit]"

definition th_ldr_literal :: "u16 \<Rightarrow> u32 \<Rightarrow> u32 \<Rightarrow> thumb_opcode emit" where
  "th_ldr_literal rt imm add =
     thop_emit_table TH_LDR_LITERAL (args0\<lparr>a_rd := ucast rt, a_imm := imm,
       a_rn := add\<rparr>)"

definition tables_ldr_literal :: "thop_table list" where
  "tables_ldr_literal = [TH_LDR_LITERAL]"

subsection \<open>\<open>thop_ldrd.c\<close>\<close>

definition TH_LDRD_IMM :: thop_table where
  "TH_LDRD_IMM = TH_TABLE ''ldrd'' [VC THOP_SHAPE_LDRD 0xe8500000 CUSTOM_ldrd_imm_emit]"

definition TH_STRD_IMM :: thop_table where
  "TH_STRD_IMM = TH_TABLE ''strd'' [VC THOP_SHAPE_LDRD 0xe8400000 CUSTOM_ldrd_imm_emit]"

definition ldrd_args_ok :: "u32 \<Rightarrow> u32 \<Rightarrow> int \<Rightarrow> u32 \<Rightarrow> bool \<Rightarrow> bool" where
  "ldrd_args_ok rt rt2 imm puw is_load =
     (if imm < 0 \<or> imm AND 3 \<noteq> 0 \<or> imm > 1020 then False
      else if puw AND 5 = 0 then False
      else if is_load \<and> rt = rt2 then False
      else True)"

definition th_ldrd_imm :: "u32 \<Rightarrow> u32 \<Rightarrow> u32 \<Rightarrow> int \<Rightarrow> u32 \<Rightarrow> thumb_opcode emit" where
  "th_ldrd_imm rt rt2 rn imm puw st =
     (if \<not>  ldrd_args_ok rt rt2 imm puw True then Inr (no_opcode, st)
      else thop_emit_table TH_LDRD_IMM
             (args0\<lparr>a_rd := rt, a_rm := rt2, a_rn := rn, a_imm := word_of_int (drop_bit 2 imm),
                a_puw := ucast puw\<rparr>) st)"

definition th_strd_imm :: "u32 \<Rightarrow> u32 \<Rightarrow> u32 \<Rightarrow> int \<Rightarrow> u32 \<Rightarrow> thumb_opcode emit" where
  "th_strd_imm rt rt2 rn imm puw st =
     (if \<not>  ldrd_args_ok rt rt2 imm puw False then Inr (no_opcode, st)
      else thop_emit_table TH_STRD_IMM
             (args0\<lparr>a_rd := rt, a_rm := rt2, a_rn := rn, a_imm := word_of_int (drop_bit 2 imm),
                a_puw := ucast puw\<rparr>) st)"

definition tables_ldrd :: "thop_table list" where
  "tables_ldrd = [TH_LDRD_IMM, TH_STRD_IMM]"

subsection \<open>\<open>thop_ldrex.c\<close>\<close>

definition TH_LDREX :: thop_table where
  "TH_LDREX = TH_TABLE ''ldrex'' [V THOP_SHAPE_LDREX 0xe8500f00]"

definition TH_STREX :: thop_table where
  "TH_STREX = TH_TABLE ''strex'' [V THOP_SHAPE_STREX 0xe8400000]"

definition TH_LDREXB :: thop_table where
  "TH_LDREXB = TH_TABLE ''ldrexb'' [V THOP_SHAPE_LDREXB 0xe8d00f4f]"

definition TH_LDREXH :: thop_table where
  "TH_LDREXH = TH_TABLE ''ldrexh'' [V THOP_SHAPE_LDREXB 0xe8d00f5f]"

definition TH_STREXB :: thop_table where
  "TH_STREXB = TH_TABLE ''strexb'' [V THOP_SHAPE_STREXB 0xe8c00f40]"

definition TH_STREXH :: thop_table where
  "TH_STREXH = TH_TABLE ''strexh'' [V THOP_SHAPE_STREXB 0xe8c00f50]"

definition th_ldrex :: "u32 \<Rightarrow> u32 \<Rightarrow> int \<Rightarrow> thumb_opcode emit" where
  "th_ldrex rt rn imm =
     thop_emit_table TH_LDREX (args0\<lparr>a_rd := rt, a_rn := rn,
       a_imm := word_of_int (drop_bit 2 imm)\<rparr>)"

definition th_strex ::
  "u32 \<Rightarrow> u32 \<Rightarrow> u32 \<Rightarrow> int \<Rightarrow> thumb_opcode emit"
where
  "th_strex rd rt rn imm =
     thop_emit_table TH_STREX (args0\<lparr>a_rd := rd, a_rn := rt, a_rm := rn,
       a_imm := word_of_int (drop_bit 2 imm)\<rparr>)"

definition th_ldrexb :: "u32 \<Rightarrow> u32 \<Rightarrow> thumb_opcode emit" where
  "th_ldrexb rt rn =
     thop_emit_table TH_LDREXB (args0\<lparr>a_rd := rt, a_rn := rn\<rparr>)"

definition th_ldrexh :: "u32 \<Rightarrow> u32 \<Rightarrow> thumb_opcode emit" where
  "th_ldrexh rt rn =
     thop_emit_table TH_LDREXH (args0\<lparr>a_rd := rt, a_rn := rn\<rparr>)"

definition th_strexb :: "u32 \<Rightarrow> u32 \<Rightarrow> u32 \<Rightarrow> thumb_opcode emit" where
  "th_strexb rd rt rn =
     thop_emit_table TH_STREXB (args0\<lparr>a_rd := rd, a_rn := rt, a_rm := rn\<rparr>)"

definition th_strexh :: "u32 \<Rightarrow> u32 \<Rightarrow> u32 \<Rightarrow> thumb_opcode emit" where
  "th_strexh rd rt rn =
     thop_emit_table TH_STREXH (args0\<lparr>a_rd := rd, a_rn := rt, a_rm := rn\<rparr>)"

definition tables_ldrex :: "thop_table list" where
  "tables_ldrex = [TH_LDREX, TH_STREX, TH_LDREXB, TH_LDREXH, TH_STREXB, TH_STREXH]"

subsection \<open>\<open>thop_mem_exclusive.c\<close>\<close>

definition thop_exclusive ::
  "u32 \<Rightarrow> u32 \<Rightarrow> thop_table \<Rightarrow> thumb_opcode emit"
where
  "thop_exclusive rt rn table =
     thop_emit_table table (args0\<lparr>a_rd := rt, a_rn := rn\<rparr>)"

definition THOP_EXCLUSIVE_FN ::
  "thop_table \<Rightarrow> u32 \<Rightarrow> u32 \<Rightarrow> thumb_opcode emit"
where
  "THOP_EXCLUSIVE_FN table_id rt rn =
     thop_exclusive rt rn table_id"

definition TH_LDA :: thop_table where
  "TH_LDA = TH_TABLE ''lda'' [V THOP_SHAPE_T32_EXCLUSIVE 0xE8D00FAF]"

definition th_lda :: "u32 \<Rightarrow> u32 \<Rightarrow> thumb_opcode emit" where
  "th_lda = THOP_EXCLUSIVE_FN TH_LDA"

definition TH_LDAB :: thop_table where
  "TH_LDAB = TH_TABLE ''ldab'' [V THOP_SHAPE_T32_EXCLUSIVE 0xE8D00F8F]"

definition th_ldab :: "u32 \<Rightarrow> u32 \<Rightarrow> thumb_opcode emit" where
  "th_ldab = THOP_EXCLUSIVE_FN TH_LDAB"

definition TH_LDAH :: thop_table where
  "TH_LDAH = TH_TABLE ''ldah'' [V THOP_SHAPE_T32_EXCLUSIVE 0xE8D00F9F]"

definition th_ldah :: "u32 \<Rightarrow> u32 \<Rightarrow> thumb_opcode emit" where
  "th_ldah = THOP_EXCLUSIVE_FN TH_LDAH"

definition TH_STL :: thop_table where
  "TH_STL = TH_TABLE ''stl'' [V THOP_SHAPE_T32_EXCLUSIVE 0xE8C00FAF]"

definition th_stl :: "u32 \<Rightarrow> u32 \<Rightarrow> thumb_opcode emit" where
  "th_stl = THOP_EXCLUSIVE_FN TH_STL"

definition TH_STLB :: thop_table where
  "TH_STLB = TH_TABLE ''stlb'' [V THOP_SHAPE_T32_EXCLUSIVE 0xE8C00F8F]"

definition th_stlb :: "u32 \<Rightarrow> u32 \<Rightarrow> thumb_opcode emit" where
  "th_stlb = THOP_EXCLUSIVE_FN TH_STLB"

definition TH_STLH :: thop_table where
  "TH_STLH = TH_TABLE ''stlh'' [V THOP_SHAPE_T32_EXCLUSIVE 0xE8C00F9F]"

definition th_stlh :: "u32 \<Rightarrow> u32 \<Rightarrow> thumb_opcode emit" where
  "th_stlh = THOP_EXCLUSIVE_FN TH_STLH"

definition tables_mem_exclusive :: "thop_table list" where
  "tables_mem_exclusive = [TH_LDA, TH_LDAB, TH_LDAH, TH_STL, TH_STLB, TH_STLH]"

subsection \<open>\<open>thop_mem_reg.c\<close>\<close>

definition THOP_MEM_REG_FN ::
  "thop_table \<Rightarrow> u32 \<Rightarrow> u32 \<Rightarrow> u32 \<Rightarrow> thumb_shift \<Rightarrow> thumb_enforce_encoding \<Rightarrow> thumb_opcode emit"
where
  "THOP_MEM_REG_FN table_id rt rn rm shift enc =
     thop_emit_table table_id
       (args0\<lparr>a_rd := rt, a_rn := rn, a_rm := rm, a_flags := FLAGS_BEHAVIOUR_NOT_IMPORTANT,
          a_shift := shift, a_enc := enc\<rparr>)"

definition TH_LDR_REG :: thop_table where
  "TH_LDR_REG = TH_TABLE ''ldr'' [V THOP_SHAPE_T16_MEM_REG 0x5800,
     V THOP_SHAPE_T32_MEM_REG 0xF8500000]"

definition th_ldr_reg ::
  "u32 \<Rightarrow> u32 \<Rightarrow> u32 \<Rightarrow> thumb_shift \<Rightarrow> thumb_enforce_encoding \<Rightarrow> thumb_opcode emit"
where
  "th_ldr_reg = THOP_MEM_REG_FN TH_LDR_REG"

definition TH_LDRB_REG :: thop_table where
  "TH_LDRB_REG = TH_TABLE ''ldrb'' [V THOP_SHAPE_T16_MEM_REG 0x5C00,
     V THOP_SHAPE_T32_MEM_REG 0xF8100000]"

definition th_ldrb_reg ::
  "u32 \<Rightarrow> u32 \<Rightarrow> u32 \<Rightarrow> thumb_shift \<Rightarrow> thumb_enforce_encoding \<Rightarrow> thumb_opcode emit"
where
  "th_ldrb_reg = THOP_MEM_REG_FN TH_LDRB_REG"

definition TH_LDRH_REG :: thop_table where
  "TH_LDRH_REG = TH_TABLE ''ldrh'' [V THOP_SHAPE_T16_MEM_REG 0x5A00,
     V THOP_SHAPE_T32_MEM_REG 0xF8300000]"

definition th_ldrh_reg ::
  "u32 \<Rightarrow> u32 \<Rightarrow> u32 \<Rightarrow> thumb_shift \<Rightarrow> thumb_enforce_encoding \<Rightarrow> thumb_opcode emit"
where
  "th_ldrh_reg = THOP_MEM_REG_FN TH_LDRH_REG"

definition TH_LDRSB_REG :: thop_table where
  "TH_LDRSB_REG = TH_TABLE ''ldrsb'' [V THOP_SHAPE_T16_MEM_REG 0x5600,
     V THOP_SHAPE_T32_MEM_REG 0xF9100000]"

definition th_ldrsb_reg ::
  "u32 \<Rightarrow> u32 \<Rightarrow> u32 \<Rightarrow> thumb_shift \<Rightarrow> thumb_enforce_encoding \<Rightarrow> thumb_opcode emit"
where
  "th_ldrsb_reg = THOP_MEM_REG_FN TH_LDRSB_REG"

definition TH_LDRSH_REG :: thop_table where
  "TH_LDRSH_REG = TH_TABLE ''ldrsh'' [V THOP_SHAPE_T16_MEM_REG 0x5E00,
     V THOP_SHAPE_T32_MEM_REG 0xF9300000]"

definition th_ldrsh_reg ::
  "u32 \<Rightarrow> u32 \<Rightarrow> u32 \<Rightarrow> thumb_shift \<Rightarrow> thumb_enforce_encoding \<Rightarrow> thumb_opcode emit"
where
  "th_ldrsh_reg = THOP_MEM_REG_FN TH_LDRSH_REG"

definition TH_STR_REG :: thop_table where
  "TH_STR_REG = TH_TABLE ''str'' [V THOP_SHAPE_T16_MEM_REG 0x5000,
     V THOP_SHAPE_T32_MEM_REG 0xF8400000]"

definition th_str_reg ::
  "u32 \<Rightarrow> u32 \<Rightarrow> u32 \<Rightarrow> thumb_shift \<Rightarrow> thumb_enforce_encoding \<Rightarrow> thumb_opcode emit"
where
  "th_str_reg = THOP_MEM_REG_FN TH_STR_REG"

definition TH_STRB_REG :: thop_table where
  "TH_STRB_REG = TH_TABLE ''strb'' [V THOP_SHAPE_T16_MEM_REG 0x5400,
     V THOP_SHAPE_T32_MEM_REG 0xF8000000]"

definition th_strb_reg ::
  "u32 \<Rightarrow> u32 \<Rightarrow> u32 \<Rightarrow> thumb_shift \<Rightarrow> thumb_enforce_encoding \<Rightarrow> thumb_opcode emit"
where
  "th_strb_reg = THOP_MEM_REG_FN TH_STRB_REG"

definition TH_STRH_REG :: thop_table where
  "TH_STRH_REG = TH_TABLE ''strh'' [V THOP_SHAPE_T16_MEM_REG 0x5200,
     V THOP_SHAPE_T32_MEM_REG 0xF8200000]"

definition th_strh_reg ::
  "u32 \<Rightarrow> u32 \<Rightarrow> u32 \<Rightarrow> thumb_shift \<Rightarrow> thumb_enforce_encoding \<Rightarrow> thumb_opcode emit"
where
  "th_strh_reg = THOP_MEM_REG_FN TH_STRH_REG"

definition tables_mem_reg :: "thop_table list" where
  "tables_mem_reg = [TH_LDR_REG, TH_LDRB_REG, TH_LDRH_REG, TH_LDRSB_REG, TH_LDRSH_REG,
     TH_STR_REG, TH_STRB_REG, TH_STRH_REG]"

subsection \<open>\<open>thop_mem_unpriv.c\<close>\<close>

definition THOP_MEM_UNPRIV_FN ::
  "thop_table \<Rightarrow> u32 \<Rightarrow> u32 \<Rightarrow> int \<Rightarrow> thumb_opcode emit"
where
  "THOP_MEM_UNPRIV_FN table_id rt rn imm =
     thop_emit_table table_id (args0\<lparr>a_rd := rt, a_rn := rn, a_imm := word_of_int imm\<rparr>)"

definition TH_LDRT :: thop_table where
  "TH_LDRT = TH_TABLE ''ldrt'' [V THOP_SHAPE_T32_MEM_UNPRIV 0xF8500E00]"

definition th_ldrt ::
  "u32 \<Rightarrow> u32 \<Rightarrow> int \<Rightarrow> thumb_opcode emit"
where
  "th_ldrt = THOP_MEM_UNPRIV_FN TH_LDRT"

definition TH_LDRBT :: thop_table where
  "TH_LDRBT = TH_TABLE ''ldrbt'' [V THOP_SHAPE_T32_MEM_UNPRIV 0xF8100E00]"

definition th_ldrbt ::
  "u32 \<Rightarrow> u32 \<Rightarrow> int \<Rightarrow> thumb_opcode emit"
where
  "th_ldrbt = THOP_MEM_UNPRIV_FN TH_LDRBT"

definition TH_LDRHT :: thop_table where
  "TH_LDRHT = TH_TABLE ''ldrht'' [V THOP_SHAPE_T32_MEM_UNPRIV 0xF8300E00]"

definition th_ldrht ::
  "u32 \<Rightarrow> u32 \<Rightarrow> int \<Rightarrow> thumb_opcode emit"
where
  "th_ldrht = THOP_MEM_UNPRIV_FN TH_LDRHT"

definition TH_LDRSBT :: thop_table where
  "TH_LDRSBT = TH_TABLE ''ldrsbt'' [V THOP_SHAPE_T32_MEM_UNPRIV 0xF9100E00]"

definition th_ldrsbt ::
  "u32 \<Rightarrow> u32 \<Rightarrow> int \<Rightarrow> thumb_opcode emit"
where
  "th_ldrsbt = THOP_MEM_UNPRIV_FN TH_LDRSBT"

definition TH_LDRSHT :: thop_table where
  "TH_LDRSHT = TH_TABLE ''ldrsht'' [V THOP_SHAPE_T32_MEM_UNPRIV 0xF9300E00]"

definition th_ldrsht ::
  "u32 \<Rightarrow> u32 \<Rightarrow> int \<Rightarrow> thumb_opcode emit"
where
  "th_ldrsht = THOP_MEM_UNPRIV_FN TH_LDRSHT"

definition TH_STRT :: thop_table where
  "TH_STRT = TH_TABLE ''strt'' [V THOP_SHAPE_T32_MEM_UNPRIV 0xF8400E00]"

definition th_strt ::
  "u32 \<Rightarrow> u32 \<Rightarrow> int \<Rightarrow> thumb_opcode emit"
where
  "th_strt = THOP_MEM_UNPRIV_FN TH_STRT"

definition TH_STRBT :: thop_table where
  "TH_STRBT = TH_TABLE ''strbt'' [V THOP_SHAPE_T32_MEM_UNPRIV 0xF8000E00]"

definition th_strbt ::
  "u32 \<Rightarrow> u32 \<Rightarrow> int \<Rightarrow> thumb_opcode emit"
where
  "th_strbt = THOP_MEM_UNPRIV_FN TH_STRBT"

definition TH_STRHT :: thop_table where
  "TH_STRHT = TH_TABLE ''strht'' [V THOP_SHAPE_T32_MEM_UNPRIV 0xF8200E00]"

definition th_strht ::
  "u32 \<Rightarrow> u32 \<Rightarrow> int \<Rightarrow> thumb_opcode emit"
where
  "th_strht = THOP_MEM_UNPRIV_FN TH_STRHT"

definition tables_mem_unpriv :: "thop_table list" where
  "tables_mem_unpriv = [TH_LDRT, TH_LDRBT, TH_LDRHT, TH_LDRSBT, TH_LDRSHT, TH_STRT, TH_STRBT,
     TH_STRHT]"

subsection \<open>\<open>thop_pld.c\<close>\<close>

definition th_pld_literal :: "int \<Rightarrow> thumb_opcode" where
  "th_pld_literal imm =
     (let u = (if imm < 0 then 0 else 1); imm = (if imm < 0 then - imm else imm)
      in \<lparr>op_size = 4, op_code = 0xf81ff000 OR push_bit 23 u OR word_of_int imm\<rparr>)"

definition th_pld_imm :: "u32 \<Rightarrow> u32 \<Rightarrow> int \<Rightarrow> thumb_opcode" where
  "th_pld_imm rn w imm =
     (if imm \<ge> 0
      then \<lparr>op_size = 4,
             op_code = 0xf890f000 OR push_bit 22 w OR push_bit 16 rn OR word_of_int imm\<rparr>
      else \<lparr>op_size = 4,
             op_code = 0xf810fc00 OR push_bit 22 w OR push_bit 16 rn OR word_of_int (- imm)\<rparr>)"

definition th_pld_reg :: "u32 \<Rightarrow> u32 \<Rightarrow> u32 \<Rightarrow> thumb_shift \<Rightarrow> thumb_opcode" where
  "th_pld_reg rn rm w shift =
     \<lparr>op_size = 4,
      op_code = 0xf810f000 OR push_bit 22 w OR push_bit 16 rn OR rm OR push_bit 4 (sft_value shift)\<rparr>"

definition th_pli_literal :: "int \<Rightarrow> thumb_opcode" where
  "th_pli_literal imm =
     (let u = (if imm < 0 then 0 else 1); imm = (if imm < 0 then - imm else imm)
      in \<lparr>op_size = 4, op_code = 0xf91ff000 OR push_bit 23 u OR word_of_int imm\<rparr>)"

definition th_pli_imm :: "u32 \<Rightarrow> u32 \<Rightarrow> int \<Rightarrow> thumb_opcode" where
  "th_pli_imm rn w imm =
     (if imm \<ge> 0
      then \<lparr>op_size = 4,
             op_code = 0xf990f000 OR push_bit 22 w OR push_bit 16 rn OR word_of_int imm\<rparr>
      else \<lparr>op_size = 4,
             op_code = 0xf910fc00 OR push_bit 22 w OR push_bit 16 rn OR word_of_int (- imm)\<rparr>)"

definition th_pli_reg :: "u32 \<Rightarrow> u32 \<Rightarrow> u32 \<Rightarrow> thumb_shift \<Rightarrow> thumb_opcode" where
  "th_pli_reg rn rm w shift =
     \<lparr>op_size = 4,
      op_code = 0xf910f000 OR push_bit 22 w OR push_bit 16 rn OR rm OR push_bit 4 (sft_value shift)\<rparr>"

lemmas Thumb_Mem_tables [table_simps] =
  tables_mem_imm_def tables_block_def tables_ldaex_def tables_ldr_literal_def tables_ldrd_def
  tables_ldrex_def tables_mem_exclusive_def tables_mem_reg_def tables_mem_unpriv_def
  TH_LDR_IMM_def TH_LDRB_IMM_def TH_LDRH_IMM_def TH_LDRSB_IMM_def TH_LDRSH_IMM_def TH_STR_IMM_def
  TH_STRB_IMM_def TH_STRH_IMM_def TH_PUSH_def TH_POP_def TH_LDM_def TH_STM_def TH_LDMDB_def
  TH_STMDB_def TH_LDAEX_def TH_LDAEXB_def TH_LDAEXH_def TH_STLEX_def TH_STLEXB_def TH_STLEXH_def
  TH_LDR_LITERAL_def TH_LDRD_IMM_def TH_STRD_IMM_def TH_LDREX_def TH_STREX_def TH_LDREXB_def
  TH_LDREXH_def TH_STREXB_def TH_STREXH_def TH_LDA_def TH_LDAB_def TH_LDAH_def TH_STL_def
  TH_STLB_def TH_STLH_def TH_LDR_REG_def TH_LDRB_REG_def TH_LDRH_REG_def TH_LDRSB_REG_def
  TH_LDRSH_REG_def TH_STR_REG_def TH_STRB_REG_def TH_STRH_REG_def TH_LDRT_def TH_LDRBT_def
  TH_LDRHT_def TH_LDRSBT_def TH_LDRSHT_def TH_STRT_def TH_STRBT_def TH_STRHT_def

end
