(* ===== verification/Thumb_Sys.thy ===== *)
theory Thumb_Sys
  imports Thumb_Engine
begin

section \<open>Branches and system instructions\<close>

text \<open>
  The instruction tables and the public \<^verbatim>\<open>th_*\<close> wrappers of branches,
  coprocessor access, special registers, hints, barriers, IT, table branches. A table is a
  \<^verbatim>\<open>TH_TABLE\<close> of the source, a wrapper builds the argument structure and
  runs the engine. C \<open>int\<close> parameters are integers, converted to
  \<open>uint32_t\<close> where the source converts them.
\<close>

subsection \<open>\<open>thop_branch.c\<close>\<close>

definition TH_BX :: thop_table where
  "TH_BX = TH_TABLE ''bx'' [V THOP_SHAPE_BX 0x4700]"

definition TH_BL_T1 :: thop_table where
  "TH_BL_T1 = TH_TABLE ''bl'' [VC THOP_SHAPE_BL_T1 0 CUSTOM_bl_t1_emit]"

definition TH_BLX_REG :: thop_table where
  "TH_BLX_REG = TH_TABLE ''blx'' [V THOP_SHAPE_BLX_REG 0x4780]"

definition TH_B_COND_T16 :: thop_table where
  "TH_B_COND_T16 = TH_TABLE ''b'' [V THOP_SHAPE_B_COND_T16 0xd000]"

definition TH_B_T3 :: thop_table where
  "TH_B_T3 = TH_TABLE ''b.w'' [VC THOP_SHAPE_B_T3 0 CUSTOM_b_t3_emit]"

definition TH_B_T4 :: thop_table where
  "TH_B_T4 = TH_TABLE ''b.w'' [VC THOP_SHAPE_B_T4 0 CUSTOM_b_t4_emit]"

definition TH_B_T2 :: thop_table where
  "TH_B_T2 = TH_TABLE ''b'' [VC THOP_SHAPE_B_T2 0xe000 CUSTOM_b_t2_emit]"

definition TH_CBZ :: thop_table where
  "TH_CBZ = TH_TABLE ''cbz'' [VC THOP_SHAPE_CBZ 0xb100 CUSTOM_cbz_emit]"

definition TH_CBNZ :: thop_table where
  "TH_CBNZ = TH_TABLE ''cbnz'' [VC THOP_SHAPE_CBZ 0xb900 CUSTOM_cbz_emit]"

definition th_bx_reg :: "u16 \<Rightarrow> thumb_opcode emit" where
  "th_bx_reg rm =
     thop_emit_table TH_BX (args0\<lparr>a_rm := ucast rm\<rparr>)"

definition th_bl_t1 :: "u32 \<Rightarrow> thumb_opcode emit" where
  "th_bl_t1 imm =
     thop_emit_table TH_BL_T1 (args0\<lparr>a_imm := imm\<rparr>)"

definition th_b_t1 :: "u32 \<Rightarrow> u32 \<Rightarrow> thumb_opcode emit" where
  "th_b_t1 cond imm =
     thop_emit_table TH_B_COND_T16 (args0\<lparr>a_rd := cond, a_imm := imm AND 0xff\<rparr>)"

definition th_b_t3 :: "u32 \<Rightarrow> u32 \<Rightarrow> thumb_opcode emit" where
  "th_b_t3 cond imm =
     thop_emit_table TH_B_T3 (args0\<lparr>a_rd := cond, a_imm := imm\<rparr>)"

definition th_b_t4 :: "int \<Rightarrow> thumb_opcode emit" where
  "th_b_t4 imm =
     thop_emit_table TH_B_T4 (args0\<lparr>a_imm := word_of_int imm\<rparr>)"

definition th_b_t2 :: "int \<Rightarrow> thumb_opcode emit" where
  "th_b_t2 imm11 =
     thop_emit_table TH_B_T2 (args0\<lparr>a_imm := word_of_int imm11\<rparr>)"

definition th_blx_reg :: "u16 \<Rightarrow> thumb_opcode emit" where
  "th_blx_reg rm =
     thop_emit_table TH_BLX_REG (args0\<lparr>a_rm := ucast rm\<rparr>)"

definition th_cbz :: "u16 \<Rightarrow> u32 \<Rightarrow> u32 \<Rightarrow> thumb_opcode emit" where
  "th_cbz rn imm nonzero =
     (if nonzero \<noteq> 0 then thop_emit_table TH_CBNZ (args0\<lparr>a_rd := ucast rn,
       a_imm := imm\<rparr>)
      else thop_emit_table TH_CBZ (args0\<lparr>a_rd := ucast rn, a_imm := imm\<rparr>))"

definition tables_branch :: "thop_table list" where
  "tables_branch = [TH_BX, TH_BL_T1, TH_BLX_REG, TH_B_COND_T16, TH_B_T3, TH_B_T4, TH_B_T2,
     TH_CBZ, TH_CBNZ]"

subsection \<open>\<open>thop_coproc.c\<close>\<close>

definition TH_CDP :: thop_table where
  "TH_CDP = TH_TABLE ''cdp'' [VC THOP_SHAPE_COPROC 0xee000000 CUSTOM_coproc_cdp_emit]"

definition TH_CDP2 :: thop_table where
  "TH_CDP2 = TH_TABLE ''cdp2'' [VC THOP_SHAPE_COPROC 0xfe000000 CUSTOM_coproc_cdp_emit]"

definition TH_MCR :: thop_table where
  "TH_MCR = TH_TABLE ''mcr'' [VC THOP_SHAPE_COPROC 0xee000010 CUSTOM_coproc_mcr_emit]"

definition TH_MCR2 :: thop_table where
  "TH_MCR2 = TH_TABLE ''mcr2'' [VC THOP_SHAPE_COPROC 0xfe000010 CUSTOM_coproc_mcr_emit]"

definition TH_MRC :: thop_table where
  "TH_MRC = TH_TABLE ''mrc'' [VC THOP_SHAPE_COPROC 0xee100010 CUSTOM_coproc_mcr_emit]"

definition TH_MRC2 :: thop_table where
  "TH_MRC2 = TH_TABLE ''mrc2'' [VC THOP_SHAPE_COPROC 0xfe100010 CUSTOM_coproc_mcr_emit]"

definition TH_MCRR :: thop_table where
  "TH_MCRR = TH_TABLE ''mcrr'' [VC THOP_SHAPE_COPROC 0xec400000 CUSTOM_coproc_mcrr_emit]"

definition TH_MCRR2 :: thop_table where
  "TH_MCRR2 = TH_TABLE ''mcrr2'' [VC THOP_SHAPE_COPROC 0xfc400000 CUSTOM_coproc_mcrr_emit]"

definition TH_MRRC :: thop_table where
  "TH_MRRC = TH_TABLE ''mrrc'' [VC THOP_SHAPE_COPROC 0xec500000 CUSTOM_coproc_mcrr_emit]"

definition TH_MRRC2 :: thop_table where
  "TH_MRRC2 = TH_TABLE ''mrrc2'' [VC THOP_SHAPE_COPROC 0xfc500000 CUSTOM_coproc_mcrr_emit]"

definition th_cdp ::
  "u32 \<Rightarrow> u32 \<Rightarrow> u32 \<Rightarrow> u32 \<Rightarrow> u32 \<Rightarrow> u32 \<Rightarrow> u32 \<Rightarrow> thumb_opcode emit"
where
  "th_cdp coproc opc1 crd crn crm opc2 two =
     (let t = (if two \<noteq> 0 then TH_CDP2 else TH_CDP)
      in thop_emit_table t (args0\<lparr>a_rd := crd, a_rn := crn, a_rm := crm, a_ra := opc1,
       a_imm := opc2, a_imm2 := coproc\<rparr>))"

definition th_mcr ::
  "u32 \<Rightarrow> u32 \<Rightarrow> u32 \<Rightarrow> u32 \<Rightarrow> u32 \<Rightarrow> u32 \<Rightarrow> u32 \<Rightarrow> thumb_opcode emit"
where
  "th_mcr coproc opc1 rt crn crm opc2 two =
     (let t = (if two \<noteq> 0 then TH_MCR2 else TH_MCR)
      in thop_emit_table t (args0\<lparr>a_rd := rt, a_rn := crn, a_rm := crm, a_ra := opc1,
       a_imm := opc2, a_imm2 := coproc\<rparr>))"

definition th_mrc ::
  "u32 \<Rightarrow> u32 \<Rightarrow> u32 \<Rightarrow> u32 \<Rightarrow> u32 \<Rightarrow> u32 \<Rightarrow> u32 \<Rightarrow> thumb_opcode emit"
where
  "th_mrc coproc opc1 rt crn crm opc2 two =
     (let t = (if two \<noteq> 0 then TH_MRC2 else TH_MRC)
      in thop_emit_table t (args0\<lparr>a_rd := rt, a_rn := crn, a_rm := crm, a_ra := opc1,
       a_imm := opc2, a_imm2 := coproc\<rparr>))"

definition th_mcrr ::
  "u32 \<Rightarrow> u32 \<Rightarrow> u32 \<Rightarrow> u32 \<Rightarrow> u32 \<Rightarrow> u32 \<Rightarrow> thumb_opcode emit"
where
  "th_mcrr coproc opc1 rt rt2 crm two =
     (let t = (if two \<noteq> 0 then TH_MCRR2 else TH_MCRR)
      in thop_emit_table t (args0\<lparr>a_rd := rt, a_rn := rt2, a_rm := crm, a_ra := opc1,
       a_imm2 := coproc\<rparr>))"

definition th_mrrc ::
  "u32 \<Rightarrow> u32 \<Rightarrow> u32 \<Rightarrow> u32 \<Rightarrow> u32 \<Rightarrow> u32 \<Rightarrow> thumb_opcode emit"
where
  "th_mrrc coproc opc1 rt rt2 crm two =
     (let t = (if two \<noteq> 0 then TH_MRRC2 else TH_MRRC)
      in thop_emit_table t (args0\<lparr>a_rd := rt, a_rn := rt2, a_rm := crm, a_ra := opc1,
       a_imm2 := coproc\<rparr>))"

definition tables_coproc :: "thop_table list" where
  "tables_coproc = [TH_CDP, TH_CDP2, TH_MCR, TH_MCR2, TH_MRC, TH_MRC2, TH_MCRR, TH_MCRR2,
     TH_MRRC, TH_MRRC2]"

subsection \<open>\<open>thop_mrs.c\<close>\<close>

definition TH_MRS :: thop_table where
  "TH_MRS = TH_TABLE ''mrs'' [VC THOP_SHAPE_MRS 0xf3ef8000 CUSTOM_mrs_emit]"

definition TH_MSR :: thop_table where
  "TH_MSR = TH_TABLE ''msr'' [VC THOP_SHAPE_MSR 0xf3808000 CUSTOM_msr_emit]"

definition th_mrs :: "u32 \<Rightarrow> u32 \<Rightarrow> thumb_opcode emit" where
  "th_mrs rd sysm =
     thop_emit_table TH_MRS (args0\<lparr>a_rd := rd, a_rm := sysm\<rparr>)"

definition th_msr :: "u32 \<Rightarrow> u32 \<Rightarrow> u32 \<Rightarrow> thumb_opcode emit" where
  "th_msr specreg rn msk =
     thop_emit_table TH_MSR (args0\<lparr>a_rd := rn, a_rm := specreg, a_imm := msk\<rparr>)"

definition tables_mrs :: "thop_table list" where
  "tables_mrs = [TH_MRS, TH_MSR]"

subsection \<open>\<open>thop_system.c\<close>\<close>

definition TH_NOP_T16 :: thop_table where
  "TH_NOP_T16 = TH_TABLE ''nop'' [V THOP_SHAPE_HINT_T16 0xbf00]"

definition TH_NOP_T32 :: thop_table where
  "TH_NOP_T32 = TH_TABLE ''nop.w'' [V THOP_SHAPE_HINT_T32 0xf3af8000]"

definition TH_SEV_T16 :: thop_table where
  "TH_SEV_T16 = TH_TABLE ''sev'' [V THOP_SHAPE_HINT_T16 0xbf40]"

definition TH_SEV_T32 :: thop_table where
  "TH_SEV_T32 = TH_TABLE ''sev.w'' [V THOP_SHAPE_HINT_T32 0xf3af8004]"

definition TH_WFE_T16 :: thop_table where
  "TH_WFE_T16 = TH_TABLE ''wfe'' [V THOP_SHAPE_HINT_T16 0xbf20]"

definition TH_WFE_T32 :: thop_table where
  "TH_WFE_T32 = TH_TABLE ''wfe.w'' [V THOP_SHAPE_HINT_T32 0xf3af8002]"

definition TH_WFI_T16 :: thop_table where
  "TH_WFI_T16 = TH_TABLE ''wfi'' [V THOP_SHAPE_HINT_T16 0xbf30]"

definition TH_WFI_T32 :: thop_table where
  "TH_WFI_T32 = TH_TABLE ''wfi.w'' [V THOP_SHAPE_HINT_T32 0xf3af8003]"

definition TH_YIELD_T16 :: thop_table where
  "TH_YIELD_T16 = TH_TABLE ''yield'' [V THOP_SHAPE_HINT_T16 0xbf10]"

definition TH_YIELD_T32 :: thop_table where
  "TH_YIELD_T32 = TH_TABLE ''yield.w'' [V THOP_SHAPE_HINT_T32 0xf3af8001]"

definition TH_SVC :: thop_table where
  "TH_SVC = TH_TABLE ''svc'' [V THOP_SHAPE_IMM8_T16 0xdf00]"

definition TH_BKPT :: thop_table where
  "TH_BKPT = TH_TABLE ''bkpt'' [V THOP_SHAPE_IMM8_T16 0xbe00]"

definition TH_UDF_T16 :: thop_table where
  "TH_UDF_T16 = TH_TABLE ''udf'' [V THOP_SHAPE_UDF_T16 0xde00]"

definition TH_UDF_T32 :: thop_table where
  "TH_UDF_T32 = TH_TABLE ''udf.w'' [V THOP_SHAPE_UDF_T32 0xf7f0a000]"

definition TH_CPS :: thop_table where
  "TH_CPS = TH_TABLE ''cps'' [V THOP_SHAPE_CPS 0xb660]"

definition TH_CLREX :: thop_table where
  "TH_CLREX = TH_TABLE ''clrex'' [V THOP_SHAPE_NOARG_T32 0xf3bf8f2f]"

definition TH_CSDB :: thop_table where
  "TH_CSDB = TH_TABLE ''csdb'' [V THOP_SHAPE_NOARG_T32 0xf3af8014]"

definition TH_DMB :: thop_table where
  "TH_DMB = TH_TABLE ''dmb'' [V THOP_SHAPE_BARRIER 0xf3bf8f50]"

definition TH_DSB :: thop_table where
  "TH_DSB = TH_TABLE ''dsb'' [V THOP_SHAPE_BARRIER 0xf3bf8f40]"

definition TH_ISB :: thop_table where
  "TH_ISB = TH_TABLE ''isb'' [V THOP_SHAPE_BARRIER 0xf3bf8f60]"

definition TH_SSBB :: thop_table where
  "TH_SSBB = TH_TABLE ''ssbb'' [V THOP_SHAPE_NOARG_T32 0xf3bf8f40]"

definition TH_IT :: thop_table where
  "TH_IT = TH_TABLE ''it'' [V THOP_SHAPE_IT 0xbf00]"

definition TH_CLZ :: thop_table where
  "TH_CLZ = TH_TABLE ''clz'' [VC THOP_SHAPE_CLZ 0xfab0f080 CUSTOM_clz_emit]"

definition th_nop :: "thumb_enforce_encoding \<Rightarrow> thumb_opcode emit" where
  "th_nop encoding =
     (if encoding = ENFORCE_ENCODING_32BIT then thop_emit_table TH_NOP_T32 args0
      else thop_emit_table TH_NOP_T16 args0)"

definition th_sev :: "thumb_enforce_encoding \<Rightarrow> thumb_opcode emit" where
  "th_sev encoding =
     (if encoding = ENFORCE_ENCODING_32BIT then thop_emit_table TH_SEV_T32 args0
      else thop_emit_table TH_SEV_T16 args0)"

definition th_wfe :: "thumb_enforce_encoding \<Rightarrow> thumb_opcode emit" where
  "th_wfe encoding =
     (if encoding = ENFORCE_ENCODING_32BIT then thop_emit_table TH_WFE_T32 args0
      else thop_emit_table TH_WFE_T16 args0)"

definition th_wfi :: "thumb_enforce_encoding \<Rightarrow> thumb_opcode emit" where
  "th_wfi encoding =
     (if encoding = ENFORCE_ENCODING_32BIT then thop_emit_table TH_WFI_T32 args0
      else thop_emit_table TH_WFI_T16 args0)"

definition th_yield :: "thumb_enforce_encoding \<Rightarrow> thumb_opcode emit" where
  "th_yield encoding =
     (if encoding = ENFORCE_ENCODING_32BIT then thop_emit_table TH_YIELD_T32 args0
      else thop_emit_table TH_YIELD_T16 args0)"

definition th_svc :: "u32 \<Rightarrow> thumb_opcode emit" where
  "th_svc imm =
     thop_emit_table TH_SVC (args0\<lparr>a_imm := imm\<rparr>)"

definition th_bkpt :: "u32 \<Rightarrow> thumb_opcode emit" where
  "th_bkpt imm =
     thop_emit_table TH_BKPT (args0\<lparr>a_imm := imm\<rparr>)"

definition th_udf :: "u32 \<Rightarrow> thumb_enforce_encoding \<Rightarrow> thumb_opcode emit" where
  "th_udf imm encoding =
     (if encoding \<noteq> ENFORCE_ENCODING_32BIT \<and> imm \<le> 0xff
      then thop_emit_table TH_UDF_T16 (args0\<lparr>a_imm := imm\<rparr>)
      else thop_emit_table TH_UDF_T32
             (args0\<lparr>a_imm := imm AND 0xfff, a_imm2 := drop_bit 12 imm AND 0xf\<rparr>))"

definition th_cps :: "u32 \<Rightarrow> u32 \<Rightarrow> u32 \<Rightarrow> thumb_opcode emit" where
  "th_cps enable i f =
     thop_emit_table TH_CPS (args0\<lparr>a_rd := enable, a_imm := f, a_imm2 := i\<rparr>)"

definition th_clrex :: "thumb_opcode emit" where
  "th_clrex =
     thop_emit_table TH_CLREX args0"

definition th_csdb :: "thumb_opcode emit" where
  "th_csdb =
     thop_emit_table TH_CSDB args0"

definition th_dmb :: "u32 \<Rightarrow> thumb_opcode emit" where
  "th_dmb option =
     thop_emit_table TH_DMB (args0\<lparr>a_imm := option\<rparr>)"

definition th_dsb :: "u32 \<Rightarrow> thumb_opcode emit" where
  "th_dsb option =
     thop_emit_table TH_DSB (args0\<lparr>a_imm := option\<rparr>)"

definition th_isb :: "u32 \<Rightarrow> thumb_opcode emit" where
  "th_isb option =
     thop_emit_table TH_ISB (args0\<lparr>a_imm := option\<rparr>)"

definition th_ssbb :: "thumb_opcode emit" where
  "th_ssbb =
     thop_emit_table TH_SSBB args0"

definition th_it :: "u16 \<Rightarrow> u16 \<Rightarrow> thumb_opcode emit" where
  "th_it cond msk =
     thop_emit_table TH_IT (args0\<lparr>a_rd := ucast cond, a_imm := ucast msk\<rparr>)"

definition th_clz :: "u32 \<Rightarrow> u32 \<Rightarrow> thumb_opcode emit" where
  "th_clz rd rm =
     thop_emit_table TH_CLZ (args0\<lparr>a_rd := rd, a_rm := rm\<rparr>)"

definition tables_system :: "thop_table list" where
  "tables_system = [TH_NOP_T16, TH_NOP_T32, TH_SEV_T16, TH_SEV_T32, TH_WFE_T16, TH_WFE_T32,
     TH_WFI_T16, TH_WFI_T32, TH_YIELD_T16, TH_YIELD_T32, TH_SVC, TH_BKPT, TH_UDF_T16, TH_UDF_T32,
     TH_CPS, TH_CLREX, TH_CSDB, TH_DMB, TH_DSB, TH_ISB, TH_SSBB, TH_IT, TH_CLZ]"

subsection \<open>\<open>thop_tbb.c\<close>\<close>

definition TH_TBB :: thop_table where
  "TH_TBB = TH_TABLE ''tbb'' [V THOP_SHAPE_TBB 0xe8d0f000]"

definition TH_TBH :: thop_table where
  "TH_TBH = TH_TABLE ''tbh'' [V THOP_SHAPE_TBB 0xe8d0f010]"

definition TH_TT :: thop_table where
  "TH_TT = TH_TABLE ''tt'' [VC THOP_SHAPE_TT 0xe840f000 CUSTOM_tt_emit]"

definition th_tbb :: "u32 \<Rightarrow> u32 \<Rightarrow> u32 \<Rightarrow> thumb_opcode emit" where
  "th_tbb rn rm h =
     (if h \<noteq> 0 then thop_emit_table TH_TBH (args0\<lparr>a_rn := rn, a_rm := rm\<rparr>)
      else thop_emit_table TH_TBB (args0\<lparr>a_rn := rn, a_rm := rm\<rparr>))"

definition th_tt ::
  "u32 \<Rightarrow> u32 \<Rightarrow> u32 \<Rightarrow> u32 \<Rightarrow> thumb_opcode emit"
where
  "th_tt rd rn a t =
     thop_emit_table TH_TT (args0\<lparr>a_rd := rd, a_rn := rn, a_imm := a, a_imm2 := t\<rparr>)"

definition tables_tbb :: "thop_table list" where
  "tables_tbb = [TH_TBB, TH_TBH, TH_TT]"

lemmas Thumb_Sys_tables [table_simps] =
  tables_branch_def tables_coproc_def tables_mrs_def tables_system_def tables_tbb_def TH_BX_def
  TH_BL_T1_def TH_BLX_REG_def TH_B_COND_T16_def TH_B_T3_def TH_B_T4_def TH_B_T2_def TH_CBZ_def
  TH_CBNZ_def TH_CDP_def TH_CDP2_def TH_MCR_def TH_MCR2_def TH_MRC_def TH_MRC2_def TH_MCRR_def
  TH_MCRR2_def TH_MRRC_def TH_MRRC2_def TH_MRS_def TH_MSR_def TH_NOP_T16_def TH_NOP_T32_def
  TH_SEV_T16_def TH_SEV_T32_def TH_WFE_T16_def TH_WFE_T32_def TH_WFI_T16_def TH_WFI_T32_def
  TH_YIELD_T16_def TH_YIELD_T32_def TH_SVC_def TH_BKPT_def TH_UDF_T16_def TH_UDF_T32_def
  TH_CPS_def TH_CLREX_def TH_CSDB_def TH_DMB_def TH_DSB_def TH_ISB_def TH_SSBB_def TH_IT_def
  TH_CLZ_def TH_TBB_def TH_TBH_def TH_TT_def

end
