(* ===== verification/Thumb_Vfp.thy ===== *)
theory Thumb_Vfp
  imports Thumb_Engine
begin

section \<open>Floating-point instructions\<close>

text \<open>
  The instruction tables and the public \<^verbatim>\<open>th_*\<close> wrappers of the VFP
  instructions. A table is a \<^verbatim>\<open>TH_TABLE\<close> of the source, a wrapper builds
  the argument structure and runs the engine. C \<open>int\<close> parameters are integers,
  converted to \<open>uint32_t\<close> where the source converts them.
\<close>

subsection \<open>\<open>thop_vfp.c\<close>\<close>

definition TH_VADD_F_SP :: thop_table where
  "TH_VADD_F_SP = TH_TABLE ''vadd.f32'' [VC THOP_SHAPE_VFP_SP 0xee300a00 CUSTOM_vfp_arith3_emit]"

definition TH_VADD_F_DP :: thop_table where
  "TH_VADD_F_DP = TH_TABLE ''vadd.f64'' [VC THOP_SHAPE_VFP_DP 0xee300b00 CUSTOM_vfp_arith3_emit]"

definition TH_VSUB_F_SP :: thop_table where
  "TH_VSUB_F_SP = TH_TABLE ''vsub.f32'' [VC THOP_SHAPE_VFP_SP 0xee300a40 CUSTOM_vfp_arith3_emit]"

definition TH_VSUB_F_DP :: thop_table where
  "TH_VSUB_F_DP = TH_TABLE ''vsub.f64'' [VC THOP_SHAPE_VFP_DP 0xee300b40 CUSTOM_vfp_arith3_emit]"

definition TH_VMUL_F_SP :: thop_table where
  "TH_VMUL_F_SP = TH_TABLE ''vmul.f32'' [VC THOP_SHAPE_VFP_SP 0xee200a00 CUSTOM_vfp_arith3_emit]"

definition TH_VMUL_F_DP :: thop_table where
  "TH_VMUL_F_DP = TH_TABLE ''vmul.f64'' [VC THOP_SHAPE_VFP_DP 0xee200b00 CUSTOM_vfp_arith3_emit]"

definition TH_VDIV_F_SP :: thop_table where
  "TH_VDIV_F_SP = TH_TABLE ''vdiv.f32'' [VC THOP_SHAPE_VFP_SP 0xee800a00 CUSTOM_vfp_arith3_emit]"

definition TH_VDIV_F_DP :: thop_table where
  "TH_VDIV_F_DP = TH_TABLE ''vdiv.f64'' [VC THOP_SHAPE_VFP_DP 0xee800b00 CUSTOM_vfp_arith3_emit]"

definition TH_VNEG_F_SP :: thop_table where
  "TH_VNEG_F_SP = TH_TABLE ''vneg.f32'' [VC THOP_SHAPE_VFP_SP 0xeeb10a40 CUSTOM_vfp_arith2_emit]"

definition TH_VNEG_F_DP :: thop_table where
  "TH_VNEG_F_DP = TH_TABLE ''vneg.f64'' [VC THOP_SHAPE_VFP_DP 0xeeb10b40 CUSTOM_vfp_arith2_emit]"

definition TH_VCMP_F_SP :: thop_table where
  "TH_VCMP_F_SP = TH_TABLE ''vcmp.f32'' [VC THOP_SHAPE_VFP_SP 0xeeb40a40 CUSTOM_vfp_arith2_emit]"

definition TH_VCMP_F_DP :: thop_table where
  "TH_VCMP_F_DP = TH_TABLE ''vcmp.f64'' [VC THOP_SHAPE_VFP_DP 0xeeb40b40 CUSTOM_vfp_arith2_emit]"

definition TH_VPUSH_SP :: thop_table where
  "TH_VPUSH_SP = TH_TABLE ''vpush.f32'' [VC THOP_SHAPE_VFP_SP 0xed2d0a00 CUSTOM_vfp_pushpop_emit]"

definition TH_VPUSH_DP :: thop_table where
  "TH_VPUSH_DP = TH_TABLE ''vpush.f64'' [VC THOP_SHAPE_VFP_SP 0xed2d0b00 CUSTOM_vfp_pushpop_emit]"

definition TH_VPOP_SP :: thop_table where
  "TH_VPOP_SP = TH_TABLE ''vpop.f32'' [VC THOP_SHAPE_VFP_SP 0xecbd0a00 CUSTOM_vfp_pushpop_emit]"

definition TH_VPOP_DP :: thop_table where
  "TH_VPOP_DP = TH_TABLE ''vpop.f64'' [VC THOP_SHAPE_VFP_SP 0xecbd0b00 CUSTOM_vfp_pushpop_emit]"

definition TH_VLDR_SP :: thop_table where
  "TH_VLDR_SP = TH_TABLE ''vldr.f32'' [VC THOP_SHAPE_VFP_SP 0xed900a00 CUSTOM_vfp_ldst_emit]"

definition TH_VLDR_DP :: thop_table where
  "TH_VLDR_DP = TH_TABLE ''vldr.f64'' [VC THOP_SHAPE_VFP_DP_MOVE 0xed900b00 CUSTOM_vfp_ldst_emit]"

definition TH_VSTR_SP :: thop_table where
  "TH_VSTR_SP = TH_TABLE ''vstr.f32'' [VC THOP_SHAPE_VFP_SP 0xed800a00 CUSTOM_vfp_ldst_emit]"

definition TH_VSTR_DP :: thop_table where
  "TH_VSTR_DP = TH_TABLE ''vstr.f64'' [VC THOP_SHAPE_VFP_DP_MOVE 0xed800b00 CUSTOM_vfp_ldst_emit]"

definition TH_VMOV_REG_SP :: thop_table where
  "TH_VMOV_REG_SP = TH_TABLE ''vmov.f32'' [VC THOP_SHAPE_VFP_SP 0xeeb00a40 CUSTOM_vmov_reg_emit]"

definition TH_VMOV_REG_DP :: thop_table where
  "TH_VMOV_REG_DP = TH_TABLE ''vmov.f64'' [VC THOP_SHAPE_VFP_DP 0xeeb00b40 CUSTOM_vmov_reg_emit]"

definition TH_VMOV_GP_SP :: thop_table where
  "TH_VMOV_GP_SP = TH_TABLE ''vmov.gp_sp'' [
     VC THOP_SHAPE_VMOVGPSP 0xee000a10 CUSTOM_vmov_gp_sp_emit]"

definition TH_VMOV_2GP_DP :: thop_table where
  "TH_VMOV_2GP_DP = TH_TABLE ''vmov.2gp_dp'' [
     VC THOP_SHAPE_VMOV2GPDP 0xec400b10 CUSTOM_vmov_2gp_dp_emit]"

definition TH_VMRS :: thop_table where
  "TH_VMRS = TH_TABLE ''vmrs'' [V THOP_SHAPE_VMRS 0xeef10a10]"

definition TH_VCVT_FD :: thop_table where
  "TH_VCVT_FD = TH_TABLE ''vcvt.f64.f32'' [VC THOP_SHAPE_VCVT_FD 0xeeb70ac0 CUSTOM_vcvt_fd_emit]"

definition TH_VCVT_DF :: thop_table where
  "TH_VCVT_DF = TH_TABLE ''vcvt.f32.f64'' [VC THOP_SHAPE_VCVT_DF 0xeeb70bc0 CUSTOM_vcvt_df_emit]"

definition TH_VCVT_FP_INT_SP :: thop_table where
  "TH_VCVT_FP_INT_SP = TH_TABLE ''vcvt.fp_int.f32'' [
     VC THOP_SHAPE_VCVT_FP_INT_SP 0xeeb80a40 CUSTOM_vcvt_fp_int_emit]"

definition TH_VCVT_FP_INT_DP :: thop_table where
  "TH_VCVT_FP_INT_DP = TH_TABLE ''vcvt.fp_int.f64'' [
     VC THOP_SHAPE_VCVT_FP_INT_DP 0xeeb80b40 CUSTOM_vcvt_fp_int_emit]"

definition th_vadd_f ::
  "u32 \<Rightarrow> u32 \<Rightarrow> u32 \<Rightarrow> u32 \<Rightarrow> thumb_opcode emit"
where
  "th_vadd_f vd vn vm sz =
     (if sz = 0 then thop_emit_table TH_VADD_F_SP (args0\<lparr>a_rd := vd, a_rn := vn,
       a_rm := vm\<rparr>)
      else thop_emit_table TH_VADD_F_DP (args0\<lparr>a_rd := vd, a_rn := vn, a_rm := vm\<rparr>))"

definition th_vsub_f ::
  "u32 \<Rightarrow> u32 \<Rightarrow> u32 \<Rightarrow> u32 \<Rightarrow> thumb_opcode emit"
where
  "th_vsub_f vd vn vm sz =
     (if sz = 0 then thop_emit_table TH_VSUB_F_SP (args0\<lparr>a_rd := vd, a_rn := vn,
       a_rm := vm\<rparr>)
      else thop_emit_table TH_VSUB_F_DP (args0\<lparr>a_rd := vd, a_rn := vn, a_rm := vm\<rparr>))"

definition th_vmul_f ::
  "u32 \<Rightarrow> u32 \<Rightarrow> u32 \<Rightarrow> u32 \<Rightarrow> thumb_opcode emit"
where
  "th_vmul_f vd vn vm sz =
     (if sz = 0 then thop_emit_table TH_VMUL_F_SP (args0\<lparr>a_rd := vd, a_rn := vn,
       a_rm := vm\<rparr>)
      else thop_emit_table TH_VMUL_F_DP (args0\<lparr>a_rd := vd, a_rn := vn, a_rm := vm\<rparr>))"

definition th_vdiv_f ::
  "u32 \<Rightarrow> u32 \<Rightarrow> u32 \<Rightarrow> u32 \<Rightarrow> thumb_opcode emit"
where
  "th_vdiv_f vd vn vm sz =
     (if sz = 0 then thop_emit_table TH_VDIV_F_SP (args0\<lparr>a_rd := vd, a_rn := vn,
       a_rm := vm\<rparr>)
      else thop_emit_table TH_VDIV_F_DP (args0\<lparr>a_rd := vd, a_rn := vn, a_rm := vm\<rparr>))"

definition th_vneg_f :: "u32 \<Rightarrow> u32 \<Rightarrow> u32 \<Rightarrow> thumb_opcode emit" where
  "th_vneg_f vd vm sz =
     (if sz = 0 then thop_emit_table TH_VNEG_F_SP (args0\<lparr>a_rd := vd, a_rm := vm\<rparr>)
      else thop_emit_table TH_VNEG_F_DP (args0\<lparr>a_rd := vd, a_rm := vm\<rparr>))"

definition th_vcmp_f :: "u32 \<Rightarrow> u32 \<Rightarrow> u32 \<Rightarrow> thumb_opcode emit" where
  "th_vcmp_f vd vm sz =
     (if sz = 0 then thop_emit_table TH_VCMP_F_SP (args0\<lparr>a_rd := vd, a_rm := vm\<rparr>)
      else thop_emit_table TH_VCMP_F_DP (args0\<lparr>a_rd := vd, a_rm := vm\<rparr>))"

definition th_vpush :: "u32 \<Rightarrow> u32 \<Rightarrow> thumb_opcode emit" where
  "th_vpush regs is_doubleword =
     (if is_doubleword = 0 then thop_emit_table TH_VPUSH_SP (args0\<lparr>a_imm := regs\<rparr>)
      else thop_emit_table TH_VPUSH_DP (args0\<lparr>a_imm := regs\<rparr>))"

definition th_vpop :: "u32 \<Rightarrow> u32 \<Rightarrow> thumb_opcode emit" where
  "th_vpop regs is_doubleword =
     (if is_doubleword = 0 then thop_emit_table TH_VPOP_SP (args0\<lparr>a_imm := regs\<rparr>)
      else thop_emit_table TH_VPOP_DP (args0\<lparr>a_imm := regs\<rparr>))"

definition th_vldmstm :: "int \<Rightarrow> int \<Rightarrow> u32 \<Rightarrow> int \<Rightarrow> u32 \<Rightarrow> u32 \<Rightarrow> thumb_opcode" where
  "th_vldmstm load decrement_before rn writeback regs is_doubleword =
     (let base = 0xec000a00 OR (if is_doubleword \<noteq> 0 then 0x100 else 0) OR
            push_bit 20 (if load \<noteq> 0 then 1 else 0) OR
            push_bit 21 (if writeback \<noteq> 0 then 1 else 0) OR push_bit 16 (rn AND 0xf) OR
            (if decrement_before \<noteq> 0 then push_bit 24 1 else push_bit 23 1)
      in vfp_pushpop_emit base (args0\<lparr>a_imm := regs\<rparr>))"

definition th_vldr :: "u32 \<Rightarrow> u32 \<Rightarrow> int \<Rightarrow> u32 \<Rightarrow> thumb_opcode emit" where
  "th_vldr vd rn offset is_double =
     (let u = (if offset \<ge> 0 then 1 else 0);
          imm8 = drop_bit 2 (word_of_int (if offset < 0 then - offset else offset)) AND 0xff
      in if is_double = 0
         then thop_emit_table TH_VLDR_SP
                (args0\<lparr>a_rd := vd, a_rn := rn, a_imm := imm8, a_imm2 := u\<rparr>)
         else thop_emit_table TH_VLDR_DP
                (args0\<lparr>a_rd := vd, a_rn := rn, a_imm := imm8, a_imm2 := u\<rparr>))"

definition th_vstr :: "u32 \<Rightarrow> u32 \<Rightarrow> int \<Rightarrow> u32 \<Rightarrow> thumb_opcode emit" where
  "th_vstr vd rn offset is_double =
     (let u = (if offset \<ge> 0 then 1 else 0);
          imm8 = drop_bit 2 (word_of_int (if offset < 0 then - offset else offset)) AND 0xff
      in if is_double = 0
         then thop_emit_table TH_VSTR_SP
                (args0\<lparr>a_rd := vd, a_rn := rn, a_imm := imm8, a_imm2 := u\<rparr>)
         else thop_emit_table TH_VSTR_DP
                (args0\<lparr>a_rd := vd, a_rn := rn, a_imm := imm8, a_imm2 := u\<rparr>))"

definition th_vmov_register :: "u16 \<Rightarrow> u16 \<Rightarrow> u32 \<Rightarrow> thumb_opcode emit" where
  "th_vmov_register vd vm sz =
     (if sz = 0 then thop_emit_table TH_VMOV_REG_SP (args0\<lparr>a_rd := ucast vd,
       a_rm := ucast vm\<rparr>)
      else thop_emit_table TH_VMOV_REG_DP (args0\<lparr>a_rd := ucast vd,
       a_rm := ucast vm\<rparr>))"

definition th_vmov_gp_sp :: "u16 \<Rightarrow> u16 \<Rightarrow> u16 \<Rightarrow> thumb_opcode emit" where
  "th_vmov_gp_sp rt sn to_arm_register =
     thop_emit_table TH_VMOV_GP_SP (args0\<lparr>a_rd := ucast rt, a_rn := ucast sn,
       a_imm2 := ucast to_arm_register\<rparr>)"

definition th_vmov_2gp_dp ::
  "u16 \<Rightarrow> u16 \<Rightarrow> u16 \<Rightarrow> u16 \<Rightarrow> thumb_opcode emit"
where
  "th_vmov_2gp_dp rt rt2 dm to_arm_register =
     thop_emit_table TH_VMOV_2GP_DP (args0\<lparr>a_rd := ucast rt, a_rn := ucast rt2,
       a_rm := ucast dm, a_imm2 := ucast to_arm_register\<rparr>)"

definition th_vmrs :: "u16 \<Rightarrow> thumb_opcode emit" where
  "th_vmrs rt =
     thop_emit_table TH_VMRS (args0\<lparr>a_rd := ucast rt\<rparr>)"

definition th_vcvt_float_to_double :: "u32 \<Rightarrow> u32 \<Rightarrow> thumb_opcode emit" where
  "th_vcvt_float_to_double vd vm =
     thop_emit_table TH_VCVT_FD (args0\<lparr>a_rd := vd, a_rm := vm\<rparr>)"

definition th_vcvt_double_to_float :: "u32 \<Rightarrow> u32 \<Rightarrow> thumb_opcode emit" where
  "th_vcvt_double_to_float vd vm =
     thop_emit_table TH_VCVT_DF (args0\<lparr>a_rd := vd, a_rm := vm\<rparr>)"

definition th_vcvt_fp_int ::
  "u32 \<Rightarrow> u32 \<Rightarrow> u32 \<Rightarrow> u32 \<Rightarrow> u32 \<Rightarrow> thumb_opcode emit"
where
  "th_vcvt_fp_int vd vm opc is_double op =
     (if is_double = 0 then thop_emit_table TH_VCVT_FP_INT_SP (args0\<lparr>a_rd := vd,
       a_rm := vm, a_imm := opc, a_imm2 := op, a_puw := 0\<rparr>)
      else thop_emit_table TH_VCVT_FP_INT_DP (args0\<lparr>a_rd := vd, a_rm := vm, a_imm := opc,
       a_imm2 := op, a_puw := 1\<rparr>))"

definition th_vcvt_convert :: "u32 \<Rightarrow> u32 \<Rightarrow> string \<Rightarrow> string \<Rightarrow> thumb_opcode emit" where
  "th_vcvt_convert vd vm dest_type src_type =
     (if (dest_type = ''s32'' \<or> dest_type = ''u32'') \<and> src_type = ''f32''
      then th_vcvt_fp_int vd vm (if dest_type = ''u32'' then 4 else 5) 0 1
      else if (dest_type = ''s32'' \<or> dest_type = ''u32'') \<and> src_type = ''f64''
      then th_vcvt_fp_int vd vm (if dest_type = ''u32'' then 4 else 5) 1 1
      else if (dest_type = ''f32'' \<or> dest_type = ''f64'') \<and> (src_type = ''s32'' \<or> src_type = ''u32'')
      then th_vcvt_fp_int vd vm 0 (if dest_type = ''f64'' then 1 else 0)
             (if src_type = ''u32'' then 0 else 1)
      else if dest_type = ''f64'' \<and> src_type = ''f32'' then th_vcvt_float_to_double (vd div 2) vm
      else if dest_type = ''f32'' \<and> src_type = ''f64'' then th_vcvt_double_to_float vd (vm div 2)
      else (\<lambda>st. Inr (no_opcode, st)))"

definition tables_vfp :: "thop_table list" where
  "tables_vfp = [TH_VADD_F_SP, TH_VADD_F_DP, TH_VSUB_F_SP, TH_VSUB_F_DP, TH_VMUL_F_SP,
     TH_VMUL_F_DP, TH_VDIV_F_SP, TH_VDIV_F_DP, TH_VNEG_F_SP, TH_VNEG_F_DP, TH_VCMP_F_SP,
     TH_VCMP_F_DP, TH_VPUSH_SP, TH_VPUSH_DP, TH_VPOP_SP, TH_VPOP_DP, TH_VLDR_SP, TH_VLDR_DP,
     TH_VSTR_SP, TH_VSTR_DP, TH_VMOV_REG_SP, TH_VMOV_REG_DP, TH_VMOV_GP_SP, TH_VMOV_2GP_DP,
     TH_VMRS, TH_VCVT_FD, TH_VCVT_DF, TH_VCVT_FP_INT_SP, TH_VCVT_FP_INT_DP]"

lemmas Thumb_Vfp_tables [table_simps] =
  tables_vfp_def TH_VADD_F_SP_def TH_VADD_F_DP_def TH_VSUB_F_SP_def TH_VSUB_F_DP_def
  TH_VMUL_F_SP_def TH_VMUL_F_DP_def TH_VDIV_F_SP_def TH_VDIV_F_DP_def TH_VNEG_F_SP_def
  TH_VNEG_F_DP_def TH_VCMP_F_SP_def TH_VCMP_F_DP_def TH_VPUSH_SP_def TH_VPUSH_DP_def
  TH_VPOP_SP_def TH_VPOP_DP_def TH_VLDR_SP_def TH_VLDR_DP_def TH_VSTR_SP_def TH_VSTR_DP_def
  TH_VMOV_REG_SP_def TH_VMOV_REG_DP_def TH_VMOV_GP_SP_def TH_VMOV_2GP_DP_def TH_VMRS_def
  TH_VCVT_FD_def TH_VCVT_DF_def TH_VCVT_FP_INT_SP_def TH_VCVT_FP_INT_DP_def

end
