(* ===== verification/Thumb_Features.thy ===== *)
theory Thumb_Features
  imports Thumb_Defs
begin

section \<open>Target features\<close>

text \<open>
  How \<^verbatim>\<open>-march\<close>, \<^verbatim>\<open>-mfpu\<close> and the extra feature bits become the feature set the emit engine
  consults (\<^verbatim>\<open>thumb.c\<close>), the target initialisation and the capability query of the generic code
  (\<^verbatim>\<open>arm.c\<close>) and the \<^verbatim>\<open>.fpu\<close> directive.  A C string is a \<open>string\<close>, a pointer to one that may be
  null a \<open>string option\<close>.  A warning does not stop the compiler: the names of the ignored
  extensions are returned beside the feature set.
\<close>

subsection \<open>Profiles\<close>

definition THOP_PROFILE_ARMV6M_CORE :: thop_feat where
  "THOP_PROFILE_ARMV6M_CORE = feats [F_t16]"

definition THOP_PROFILE_ARMV7M_CORE :: thop_feat where
  "THOP_PROFILE_ARMV7M_CORE =
     feats [F_t16, F_t32, F_it, F_mod_imm, F_movw_movt, F_bfx, F_clz_rbit, F_tbb_tbh, F_cbz, F_sat,
       F_div, F_coproc]"

definition THOP_PROFILE_ARMV7EM_CORE :: thop_feat where
  "THOP_PROFILE_ARMV7EM_CORE =
     feats [F_t16, F_t32, F_it, F_mod_imm, F_movw_movt, F_bfx, F_clz_rbit, F_tbb_tbh, F_cbz, F_sat,
       F_div, F_dsp, F_coproc]"

definition THOP_PROFILE_ARMV8M_BASE_CORE :: thop_feat where
  "THOP_PROFILE_ARMV8M_BASE_CORE = feats [F_t16, F_movw_movt, F_cbz, F_ldaex]"

definition THOP_PROFILE_ARMV8M_MAIN_CORE :: thop_feat where
  "THOP_PROFILE_ARMV8M_MAIN_CORE =
     feats [F_t16, F_t32, F_it, F_mod_imm, F_movw_movt, F_bfx, F_clz_rbit, F_tbb_tbh, F_cbz, F_sat,
       F_div, F_dsp, F_ldaex, F_fp_armv8, F_coproc]"

definition THOP_PROFILE_ARMV81M_MAIN_CORE :: thop_feat where
  "THOP_PROFILE_ARMV81M_MAIN_CORE =
     feats [F_t16, F_t32, F_it, F_mod_imm, F_movw_movt, F_bfx, F_clz_rbit, F_tbb_tbh, F_cbz, F_sat,
       F_div, F_dsp, F_ldaex, F_fp_armv8, F_lob, F_coproc]"

definition THOP_FPU_NONE :: thop_feat where "THOP_FPU_NONE = 0"
definition THOP_FPU_VFPV4_SP_D16 :: thop_feat where "THOP_FPU_VFPV4_SP_D16 = feats [F_vfp_sp]"
definition THOP_FPU_FPV5_SP_D16 :: thop_feat where "THOP_FPU_FPV5_SP_D16 = feats [F_vfp_sp, F_fp_armv8]"
definition THOP_FPU_FPV5_D16 :: thop_feat where
  "THOP_FPU_FPV5_D16 = feats [F_vfp_sp, F_vfp_dp, F_fp_armv8]"
definition THOP_FPU_FPV5_D32 :: thop_feat where
  "THOP_FPU_FPV5_D32 = feats [F_vfp_sp, F_vfp_dp, F_fp_armv8, F_fp_dp_d32]"
definition THOP_FPU_FP_ARMV8_FULL :: thop_feat where
  "THOP_FPU_FP_ARMV8_FULL = feats [F_vfp_sp, F_vfp_dp, F_fp_armv8, F_fp_dp_d32, F_fp16]"

subsection \<open>Resolution\<close>

definition march_archs :: "(string \<times> thop_feat) list" where
  "march_archs =
     [(''armv6-m'', THOP_PROFILE_ARMV6M_CORE),
      (''armv7-m'', THOP_PROFILE_ARMV7M_CORE),
      (''armv7e-m'', THOP_PROFILE_ARMV7EM_CORE),
      (''armv8-m.base'', THOP_PROFILE_ARMV8M_BASE_CORE),
      (''armv8-m.main'', THOP_PROFILE_ARMV8M_MAIN_CORE),
      (''armv8.1-m.main'', THOP_PROFILE_ARMV81M_MAIN_CORE)]"

text \<open>The bits of one extension, \<open>None\<close> when it is unknown.\<close>

definition march_extension :: "string \<Rightarrow> thop_feat option" where
  "march_extension ext =
     (if ext = ''dsp'' then Some (feats [F_dsp])
      else if ext = ''fpu'' then Some (feats [F_vfp_sp])
      else if ext = ''fp'' then Some (feats [F_vfp_sp])
      else if ext = ''fp.dp'' then Some (feats [F_vfp_sp, F_vfp_dp])
      else if ext = ''mve'' then Some (feats [F_mve_int])
      else if ext = ''mve.fp'' then Some (feats [F_mve_int, F_mve_fp])
      else if ext = ''pacbti'' then Some (feats [F_pacbti])
      else if ext = ''sec'' then Some (feats [F_sec])
      else if ext = ''lob'' then Some (feats [F_lob])
      else None)"

text \<open>
  The loop over the extensions: \<open>pos\<close> is the rest of the argument from the next \<^verbatim>\<open>+\<close> on (empty
  for the null pointer that \<^verbatim>\<open>strchr\<close> returns when there is none).
\<close>

function march_extensions :: "string \<Rightarrow> thop_feat \<Rightarrow> thop_feat \<times> string list" where
  "march_extensions pos feat =
     (case pos of
        [] \<Rightarrow> (feat, [])
      | c # rest \<Rightarrow>
          if c \<noteq> CHR ''+'' then (feat, [])
          else let ext = takeWhile (\<lambda>x. x \<noteq> CHR ''+'') rest;
                   after = dropWhile (\<lambda>x. x \<noteq> CHR ''+'') rest
               in case march_extension ext of
                    Some bits \<Rightarrow> march_extensions after (feat OR bits)
                  | None \<Rightarrow> (let (f, ign) = march_extensions after feat in (f, ext # ign)))"
  by pat_completeness auto
termination
  by (relation "measure (\<lambda>(pos, _). length pos)") (auto simp: less_Suc_eq_le length_dropWhile_le)

declare march_extensions.simps [simp del]

definition thop_feats_from_march :: "string option \<Rightarrow> tcc_failure + thop_feat \<times> string list" where
  "thop_feats_from_march march =
     (case march of
        None \<Rightarrow> Inr (THOP_PROFILE_ARMV8M_MAIN_CORE, [])
      | Some s \<Rightarrow>
          (let base = takeWhile (\<lambda>x. x \<noteq> CHR ''+'') s; pos = dropWhile (\<lambda>x. x \<noteq> CHR ''+'') s
           in case map_of march_archs base of
                None \<Rightarrow> Inl (TccError ''unknown -march'')
              | Some feat \<Rightarrow> Inr (march_extensions pos feat)))"

definition thop_feats_from_mfpu :: "string option \<Rightarrow> tcc_failure + thop_feat" where
  "thop_feats_from_mfpu mfpu =
     (case mfpu of
        None \<Rightarrow> Inr THOP_FPU_NONE
      | Some s \<Rightarrow>
          if s = ''none'' then Inr THOP_FPU_NONE
          else if s = ''vfpv4-sp-d16'' \<or> s = ''fpv4-sp-d16'' then Inr THOP_FPU_VFPV4_SP_D16
          else if s = ''fpv5-sp-d16'' then Inr THOP_FPU_FPV5_SP_D16
          else if s = ''rp2350'' then Inr THOP_FPU_FPV5_SP_D16
          else if s = ''fpv5-d16'' then Inr THOP_FPU_FPV5_D16
          else if s = ''fpv5-d32'' then Inr THOP_FPU_FPV5_D32
          else if s = ''fp-armv8-full'' then Inr THOP_FPU_FP_ARMV8_FULL
          else Inl (TccError ''unknown -mfpu''))"

definition thumb_resolve_features ::
  "string option \<Rightarrow> string option \<Rightarrow> u64 \<Rightarrow> tcc_failure + thop_feat \<times> string list" where
  "thumb_resolve_features march mfpu extra_feat_bits =
     (case thop_feats_from_march march of
        Inl e \<Rightarrow> Inl e
      | Inr (feat0, ign) \<Rightarrow>
          (let feat1 = thop_feat_or feat0 extra_feat_bits
           in case (case mfpu of None \<Rightarrow> Inr feat1
                    | Some _ \<Rightarrow> (case thop_feats_from_mfpu mfpu of
                          Inl e \<Rightarrow> Inl e | Inr fp \<Rightarrow> Inr (thop_feat_or feat1 fp))) of
                Inl e \<Rightarrow> Inl e
              | Inr feat \<Rightarrow>
                  if bit feat F_mve_fp \<and> \<not> bit feat F_vfp_sp
                  then Inl (TccError ''-mextension=mve.fp requires an FP unit'')
                  else if (bit feat F_sec \<or> bit feat F_sec_tt) \<and> \<not> (bit feat F_t32 \<or> bit feat F_movw_movt)
                  then Inl (TccError ''-mcmse requires a mainline or v8-M baseline profile'')
                  else Inr (feat, ign)))"

definition thumb_resolve_fpu :: "string option \<Rightarrow> tcc_failure + thop_feat" where
  "thumb_resolve_fpu mfpu = thop_feats_from_mfpu mfpu"

subsection \<open>The target configuration\<close>

record target_dependent_config =
  mcpu_name :: "string option"
  td_feat :: thop_feat
  is_secure_tz :: bool

record ArchitectureConfig =
  pointer_size :: nat
  stack_align :: nat
  reg_size :: nat
  parameter_registers :: nat
  has_fpu :: bool
  static_chain_reg :: nat
  fpu :: "unit option"
  march_name :: string
  int_reg_count :: nat
  fp_reg_count :: nat
  default_align :: nat
  big_endian :: bool
  target_dependent :: target_dependent_config

definition arm_resolve_fpu :: "string \<Rightarrow> unit option" where
  "arm_resolve_fpu mfpu = None"

definition arm_target_init ::
  "string option \<Rightarrow> string option \<Rightarrow> string option \<Rightarrow> u64 \<Rightarrow> tcc_failure + ArchitectureConfig" where
  "arm_target_init march mfpu mcpu extra_feat_bits =
     (case thumb_resolve_features march mfpu extra_feat_bits of
        Inl e \<Rightarrow> Inl e
      | Inr (feat, _) \<Rightarrow>
          (let cfg = \<lparr>pointer_size = 4, stack_align = 8, reg_size = 4, parameter_registers = 4,
                 has_fpu = False, static_chain_reg = 10, fpu = None,
                 march_name = (case march of Some m \<Rightarrow> m | None \<Rightarrow> ''armv8-m.main''),
                 int_reg_count = 13,
                 fp_reg_count =
                   (if bit feat F_fp_dp_d32 then 64 else if bit feat F_vfp_dp then 32
                    else if bit feat F_vfp_sp then 32 else 0),
                 default_align = 4, big_endian = False,
                 target_dependent = \<lparr>mcpu_name = mcpu, td_feat = feat, is_secure_tz = bit feat F_sec\<rparr>\<rparr>
           in Inr (case mfpu of None \<Rightarrow> cfg
                   | Some m \<Rightarrow> cfg\<lparr>fpu := arm_resolve_fpu m, has_fpu := arm_resolve_fpu m \<noteq> None\<rparr>)))"

datatype tcc_target_cap =
    TCC_CAP_HW_DIVIDE | TCC_CAP_HW_FP_SP | TCC_CAP_HW_FP_DP | TCC_CAP_HW_FP_HP | TCC_CAP_DSP_SIMD
  | TCC_CAP_SATURATING_ARITH | TCC_CAP_BITFIELD_INSTRS | TCC_CAP_COND_EXEC | TCC_CAP_MOVE_IMM_WIDE
  | TCC_CAP_VECTOR | TCC_CAP_SECURITY | TCC_CAP_POINTER_AUTH | TCC_CAP_LOW_OVERHEAD_LOOP

definition tcc_target_has :: "thop_feat \<Rightarrow> tcc_target_cap \<Rightarrow> bool" where
  "tcc_target_has f cap =
     (case cap of
        TCC_CAP_HW_DIVIDE \<Rightarrow> bit f F_div
      | TCC_CAP_HW_FP_SP \<Rightarrow> bit f F_vfp_sp
      | TCC_CAP_HW_FP_DP \<Rightarrow> bit f F_vfp_dp
      | TCC_CAP_HW_FP_HP \<Rightarrow> bit f F_fp16
      | TCC_CAP_DSP_SIMD \<Rightarrow> bit f F_dsp
      | TCC_CAP_SATURATING_ARITH \<Rightarrow> bit f F_sat
      | TCC_CAP_BITFIELD_INSTRS \<Rightarrow> bit f F_bfx
      | TCC_CAP_COND_EXEC \<Rightarrow> bit f F_it
      | TCC_CAP_MOVE_IMM_WIDE \<Rightarrow> bit f F_movw_movt
      | TCC_CAP_VECTOR \<Rightarrow> bit f F_mve_int
      | TCC_CAP_SECURITY \<Rightarrow> bit f F_sec
      | TCC_CAP_POINTER_AUTH \<Rightarrow> bit f F_pacbti
      | TCC_CAP_LOW_OVERHEAD_LOOP \<Rightarrow> bit f F_lob)"

text \<open>The \<^verbatim>\<open>.fpu\<close> directive, on the feature set in force.\<close>

definition tcc_asm_set_fpu :: "string option \<Rightarrow> thop_feat \<Rightarrow> tcc_failure + thop_feat" where
  "tcc_asm_set_fpu name feat =
     (case thumb_resolve_fpu name of Inl e \<Rightarrow> Inl e | Inr fp \<Rightarrow> Inr (thop_feat_or feat fp))"

subsection \<open>Parsing the architecture name\<close>

text \<open>
  What \<^verbatim>\<open>-march\<close> means: the argument is a name and a list of extensions, separated by \<^verbatim>\<open>+\<close>; the
  known extensions add their bits and the others are ignored.
\<close>

definition march_string :: "string \<Rightarrow> string list \<Rightarrow> string" where
  "march_string name exts = name @ concat (map (\<lambda>e. CHR ''+'' # e) exts)"

definition extension_bits :: "string list \<Rightarrow> thop_feat" where
  "extension_bits exts = fold (\<lambda>e f. case march_extension e of None \<Rightarrow> f | Some b \<Rightarrow> f OR b) exts 0"

abbreviation plus_free :: "string \<Rightarrow> bool" where
  "plus_free s \<equiv> CHR ''+'' \<notin> set s"

lemma takeWhile_plus_free:
  "plus_free e \<Longrightarrow> takeWhile (\<lambda>x. x \<noteq> CHR ''+'') (e @ concat (map (\<lambda>e. CHR ''+'' # e) es)) = e"
  by (cases es) (auto simp: takeWhile_append intro!: takeWhile_eq_all_conv [THEN iffD2])

lemma dropWhile_plus_free:
  "plus_free e \<Longrightarrow> dropWhile (\<lambda>x. x \<noteq> CHR ''+'') (e @ concat (map (\<lambda>e. CHR ''+'' # e) es)) =
     concat (map (\<lambda>e. CHR ''+'' # e) es)"
  by (cases es) (auto simp: dropWhile_append)

lemma fold_extension_or:
  "fold (\<lambda>e f. case march_extension e of None \<Rightarrow> f | Some b \<Rightarrow> f OR b) es (a OR c) =
     a OR fold (\<lambda>e f. case march_extension e of None \<Rightarrow> f | Some b \<Rightarrow> f OR b) es c"
  by (induction es arbitrary: c) (auto simp: or.assoc split: option.splits)

lemma march_extensions_split:
  "\<forall>e\<in>set exts. plus_free e \<Longrightarrow>
   march_extensions (concat (map (\<lambda>e. CHR ''+'' # e) exts)) feat =
     (feat OR extension_bits exts, filter (\<lambda>e. march_extension e = None) exts)"
proof (induction exts arbitrary: feat)
  case Nil
  then show ?case by (simp add: march_extensions.simps [of "[]"] extension_bits_def)
next
  case (Cons e es)
  note step = march_extensions.simps [of "CHR ''+'' # e @ concat (map (\<lambda>e. CHR ''+'' # e) es)"]
  have "extension_bits (e # es) = (case march_extension e of None \<Rightarrow> 0 | Some b \<Rightarrow> b) OR extension_bits es"
  proof (cases "march_extension e")
    case (Some b)
    then show ?thesis using fold_extension_or [of es b 0] by (simp add: extension_bits_def)
  qed (simp add: extension_bits_def)
  then show ?case using Cons
    by (auto simp: step takeWhile_plus_free dropWhile_plus_free or.assoc split: option.splits)
qed

lemma march_archs_plus_free: "(name, p) \<in> set march_archs \<Longrightarrow> plus_free name"
  by (auto simp: march_archs_def)

lemma march_archs_map_of: "(name, p) \<in> set march_archs \<Longrightarrow> map_of march_archs name = Some p"
  by (auto simp: march_archs_def)

lemma march_archs_base: "(name, p) \<in> set march_archs \<Longrightarrow> bit p F_t16 \<and> \<not> bit p F_vfp_sp \<and> \<not> bit p F_sec"
  by (auto simp: march_archs_def THOP_PROFILE_ARMV6M_CORE_def THOP_PROFILE_ARMV7M_CORE_def
    THOP_PROFILE_ARMV7EM_CORE_def THOP_PROFILE_ARMV8M_BASE_CORE_def THOP_PROFILE_ARMV8M_MAIN_CORE_def
    THOP_PROFILE_ARMV81M_MAIN_CORE_def bit_simps)

lemma from_march_cases:
  assumes "thop_feats_from_march march = Inr (feat, ign)"
  obtains name p where "(name, p) \<in> set march_archs" "\<And>n. bit p n \<Longrightarrow> bit feat n"
proof -
  have grows: "bit f n \<Longrightarrow> bit (fst (march_extensions s f)) n" for s f n
    by (induction s f rule: march_extensions.induct, subst march_extensions.simps)
       (auto simp: Let_def split_def bit_simps split: list.split option.split)
  show thesis
  proof (cases march)
    case None
    then show thesis using that [of "''armv8-m.main''" feat] assms
      by (auto simp: thop_feats_from_march_def march_archs_def)
  next
    case (Some s)
    then obtain p where "map_of march_archs (takeWhile (\<lambda>x. x \<noteq> CHR ''+'') s) = Some p"
      "march_extensions (dropWhile (\<lambda>x. x \<noteq> CHR ''+'') s) p = (feat, ign)"
      using assms by (auto simp: thop_feats_from_march_def Let_def split: option.splits)
    then show thesis using that grows by (metis fst_conv map_of_SomeD)
  qed
qed

subsection \<open>Properties\<close>

text \<open>
  C14: \<^verbatim>\<open>-march\<close>.  For each of the six architecture names, any list of extension names yields that
  profile with exactly the bits of the known extensions added, and the unknown ones are reported
  (each by a warning, which \<^verbatim>\<open>-Werror\<close> turns into an error outside this function);
  a name that is none of the six is an error, whatever follows it.
\<close>

theorem march_parsed:
  assumes "plus_free name" "\<forall>e\<in>set exts. plus_free e"
  shows "thop_feats_from_march (Some (march_string name exts)) =
     (case map_of march_archs name of
        None \<Rightarrow> Inl (TccError ''unknown -march'')
      | Some p \<Rightarrow> Inr (p OR extension_bits exts, filter (\<lambda>e. march_extension e = None) exts))"
  using assms
  by (auto simp: thop_feats_from_march_def march_string_def Let_def takeWhile_plus_free dropWhile_plus_free
    march_extensions_split split: option.split)

theorem march_parsed_witness:
  "thop_feats_from_march (Some ''armv7e-m+fp+xyz'') = Inr (THOP_PROFILE_ARMV7EM_CORE OR feats [F_vfp_sp], [''xyz''])"
proof -
  have "''armv7e-m+fp+xyz'' = march_string ''armv7e-m'' [''fp'', ''xyz'']" by (simp add: march_string_def)
  then show ?thesis using march_parsed [of "''armv7e-m''" "[''fp'', ''xyz'']"]
    by (simp add: march_archs_def extension_bits_def march_extension_def)
qed

text \<open>
  C15: resolution.  The resolution succeeds exactly when \<^verbatim>\<open>-march\<close> and \<^verbatim>\<open>-mfpu\<close> are known and the
  union of their bits with the extra bits has neither vector floating point without an FP unit,
  nor the security extension (\<^verbatim>\<open>sec\<close>) or its test-target instructions (\<^verbatim>\<open>sec_tt\<close>) without the
  32-bit instructions or MOVW/MOVT; the result is that union.  It always has the 16-bit
  instructions.
\<close>

theorem features_resolved:
  "thumb_resolve_features march mfpu extra = Inr (feat, ign) \<longleftrightarrow>
     (\<exists>core fp. thop_feats_from_march march = Inr (core, ign) \<and> thop_feats_from_mfpu mfpu = Inr fp \<and>
      feat = core OR extra OR fp \<and> bit feat F_t16 \<and>
      (bit feat F_mve_fp \<longrightarrow> tcc_target_has feat TCC_CAP_HW_FP_SP) \<and>
      (tcc_target_has feat TCC_CAP_SECURITY \<or> bit feat F_sec_tt \<longrightarrow>
         bit feat F_t32 \<or> tcc_target_has feat TCC_CAP_MOVE_IMM_WIDE))"
proof -
  define good where "good f \<longleftrightarrow> (bit f F_mve_fp \<longrightarrow> bit f F_vfp_sp) \<and>
      (bit f F_sec \<or> bit f F_sec_tt \<longrightarrow> bit f F_t32 \<or> bit f F_movw_movt)" for f :: thop_feat
  have "thumb_resolve_features march mfpu extra = Inr (feat, ign) \<longleftrightarrow>
     (\<exists>core fp. thop_feats_from_march march = Inr (core, ign) \<and> thop_feats_from_mfpu mfpu = Inr fp \<and>
      feat = core OR extra OR fp \<and> good feat)"
  proof (cases "thop_feats_from_march march")
    case (Inr c)
    obtain core i where c: "c = (core, i)" by (cases c)
    show ?thesis
      by (cases mfpu) (auto simp: Inr c thop_feats_from_mfpu_def [of None] THOP_FPU_NONE_def good_def or.assoc
        thumb_resolve_features_def thop_feat_or_def Let_def simp del: bit_0 split: sum.split if_splits)
  qed (simp add: thumb_resolve_features_def)
  moreover have "bit (core OR extra OR fp) F_t16" if "thop_feats_from_march march = Inr (core, ign)" for core fp
    using that march_archs_base by (auto simp: bit_or_iff simp del: bit_0 elim: from_march_cases)
  ultimately show ?thesis unfolding good_def tcc_target_has_def tcc_target_cap.case by blast
qed

theorem features_resolved_witness:
  "thumb_resolve_features (Some ''armv8-m.main'') (Some ''rp2350'') 0 =
     Inr (THOP_PROFILE_ARMV8M_MAIN_CORE OR THOP_FPU_FPV5_SP_D16, []) \<and>
   bit (THOP_PROFILE_ARMV8M_MAIN_CORE OR THOP_FPU_FPV5_SP_D16) F_t16"
proof -
  have "thumb_resolve_features (Some ''armv8-m.main'') (Some ''rp2350'') 0 =
     Inr (THOP_PROFILE_ARMV8M_MAIN_CORE OR THOP_FPU_FPV5_SP_D16, [])" by code_simp
  with iffD1 [OF features_resolved this] show ?thesis by blast
qed

end
