(* ===== verification/Thumb_Stream.thy ===== *)
theory Thumb_Stream
  imports Thumb_Alu Thumb_Mem Thumb_Sys Thumb_Vfp Thumb_Features
begin

section \<open>The emitted stream\<close>

text \<open>
  Properties that hold of every instruction table of the encoder: an emitted opcode has the
  size its first halfword announces, respects a forced encoding and the features of the
  target.  They are proved once for the engine from a decidable condition on a variant,
  \<open>variant_wf\<close>, which is then evaluated on all the tables.
\<close>

subsection \<open>All the tables\<close>

definition alu_tables :: "thop_table list" where
  "alu_tables = tables_alu_imm @ tables_alu_reg @ tables_adr @ tables_bitfield @ tables_cmp @
     tables_dsp @ tables_extend @ tables_mov @ tables_mul @ tables_mvn @ tables_rev @
     tables_shift_imm @ tables_shift_reg"

definition mem_tables :: "thop_table list" where
  "mem_tables = tables_mem_imm @ tables_block @ tables_ldaex @ tables_ldr_literal @ tables_ldrd @
     tables_ldrex @ tables_mem_exclusive @ tables_mem_reg @ tables_mem_unpriv"

definition sys_tables :: "thop_table list" where
  "sys_tables = tables_branch @ tables_coproc @ tables_mrs @ tables_system @ tables_tbb"

definition vfp_tables :: "thop_table list" where
  "vfp_tables = tables_vfp"

definition all_tables :: "thop_table list" where
  "all_tables = alu_tables @ mem_tables @ sys_tables @ vfp_tables"

subsection \<open>Bits an encoding can set\<close>

text \<open>The bits an engine-encoded variant may set besides its base.\<close>

definition bf_mask :: "bitfield \<Rightarrow> u32" where
  "bf_mask bf = push_bit (bf_shift bf) (mask (bf_width bf))"

definition imm_mask :: "thop_variant_shape \<Rightarrow> u32" where
  "imm_mask s =
     (case is_kind (sh_imm s) of
        IMM_NONE \<Rightarrow> 0
      | IMM_RAW \<Rightarrow> bf_mask (imm_place s)
      | IMM_PACK_CONST \<Rightarrow> 0x040070FF
      | IMM_PACK_3_8_1 \<Rightarrow> 0x040F70FF
      | IMM_PACK_10_11_0 \<Rightarrow> 0x07FF2FFF
      | IMM_SIGNED_PUW \<Rightarrow> 0)"

definition place_mask :: "thop_variant_shape \<Rightarrow> u32" where
  "place_mask s =
     bf_mask (rd_place s) OR (if has_rd_hi s then 0x80 else 0) OR bf_mask (rn_place s) OR
     bf_mask (rm_place s) OR bf_mask (ra_place s) OR imm_mask s OR
     (if bf_width (dn_rd_split s) \<noteq> 0 then 0x80 OR bf_mask (dn_rd_split s) else 0) OR
     (if has_s_bit s then 0x100000 else 0) OR bf_mask (shift_type_bits s) OR
     bf_mask (shift_imm2_bits s) OR bf_mask (shift_imm3_bits s) OR bf_mask (imm2_place s) OR
     bf_mask (split_imm2_place s) OR bf_mask (split_imm3_place s) OR bf_mask (puw_bits s) OR
     bf_mask (rm_raw_place s)"

definition within :: "u32 \<Rightarrow> u32 \<Rightarrow> bool" where
  "within w m \<longleftrightarrow> w AND NOT m = 0"

lemma within_iff: "within w m \<longleftrightarrow> (\<forall>n. bit w n \<longrightarrow> bit m n)"
  by (simp add: within_def and_not_eq_0_iff)

lemma within_0 [simp]: "within 0 m"
  by (simp add: within_def)

lemma within_refl [simp]: "within w w"
  by (simp add: within_def)

lemma within_or: "within v m \<Longrightarrow> within w m' \<Longrightarrow> within (v OR w) (m OR m')"
  by (auto simp: within_iff bit_or_iff)

lemma within_or_left: "within v m \<Longrightarrow> within v (m OR m')"
  by (auto simp: within_iff bit_or_iff)

lemma within_le: "within w m \<Longrightarrow> w \<le> m"
proof -
  assume "within w m"
  then have "w AND m = w"
    by (auto simp: within_iff intro!: bit_word_eqI simp: bit_and_iff)
  then show ?thesis by (metis and.commute word_and_le1)
qed

lemma within_place: "within (thop_place val bf) (bf_mask bf)"
proof -
  have "push_bit (bf_width bf) (1::u32) - 1 = mask (bf_width bf)"
    by (simp add: mask_eq_exp_minus_1 push_bit_eq_mult)
  then show ?thesis
    by (auto simp: thop_place_def bf_mask_def within_iff bit_simps)
qed

lemma within_try_imm:
  assumes "is_kind (sh_imm s) \<noteq> IMM_NONE" "try_imm_spec s imm = Some b"
  shows "within b (imm_mask s)"
proof -
  have "within (th_packimm_3_8_1 x) 0x040F70FF" "within (th_packimm_10_11_0 x) 0x07FF2FFF" for x
    unfolding within_def th_packimm_3_8_1_def th_packimm_10_11_0_def Let_def by (simp_all add: bits32)
  moreover have "within (pack_const_value x) 0x040070FF" for x
    using pack_const_value_fields [of x] by (simp only: within_def)
  ultimately show ?thesis using assms
    by (cases "is_kind (sh_imm s)")
      (auto simp: try_imm_spec_def thop_try_imm_def imm_mask_def Let_def within_place
        split: option.splits if_splits)
qed

lemma within_encode:
  assumes "within imm_bits (imm_mask s)"
  shows "within (thop_encode s base a imm_bits) (base OR place_mask s)"
proof -
  have "bf_mask (BF 7 (Suc 0)) = 0x80" by (simp add: bf_mask_def mask_eq_exp_minus_1)
  then have pl: "within (thop_place v (BF 7 (Suc 0))) 0x80" for v
    using within_place [of v "BF 7 (Suc 0)"] by simp
  show ?thesis
    unfolding thop_encode_def place_mask_def or.assoc
    by (intro within_or within_refl assms within_place) (auto intro: within_or within_place pl)
qed

lemma encode_ge: "base \<le> thop_encode s base a imm_bits"
  unfolding thop_encode_def or.assoc by (rule le_word_or2)

text \<open>
  A Thumb instruction stream is parsed halfword by halfword: a first halfword whose top five
  bits are 11101, 11110 or 11111 starts a 32-bit instruction, any other is a 16-bit one.
\<close>

definition delimited :: "thumb_opcode \<Rightarrow> bool" where
  "delimited r \<longleftrightarrow>
     op_size r = 2 \<and> op_code r < 0xE800 \<or> op_size r = 4 \<and> 0xE8000000 \<le> op_code r"

definition custom_size :: "thop_custom_id \<Rightarrow> nat" where
  "custom_size cid =
     (if cid \<in> {CUSTOM_b_t2_emit, CUSTOM_cbz_emit, CUSTOM_cmp_reg_t2_custom_emit,
        CUSTOM_mov_reg_t1_shift_emit, CUSTOM_mov_imm_t1_emit, CUSTOM_mov_reg_shift_t1_emit,
        CUSTOM_mul_t16_emit, CUSTOM_shift_reg_t1_emit} then 2 else 4)"

definition custom_base_ok :: "thop_custom_id \<Rightarrow> u32 \<Rightarrow> bool" where
  "custom_base_ok cid base =
     (case cid of
        CUSTOM_bl_t1_emit \<Rightarrow> True
      | CUSTOM_b_t3_emit \<Rightarrow> True
      | CUSTOM_b_t4_emit \<Rightarrow> True
      | CUSTOM_ldr_literal_emit \<Rightarrow> True
      | CUSTOM_mov_reg_t1_shift_emit \<Rightarrow> True
      | CUSTOM_mov_reg_shift_t1_emit \<Rightarrow> True
      | CUSTOM_b_t2_emit \<Rightarrow> base OR 0x7ff < 0xE800
      | CUSTOM_cbz_emit \<Rightarrow> base OR 0x2ff < 0xE800
      | CUSTOM_cmp_reg_t2_custom_emit \<Rightarrow> base OR 0xff < 0xE800
      | CUSTOM_mov_imm_t1_emit \<Rightarrow> base OR 0x7ff < 0xE800
      | CUSTOM_mul_t16_emit \<Rightarrow> base OR 0x3f < 0xE800
      | CUSTOM_shift_reg_t1_emit \<Rightarrow> base OR 0x7f < 0xE800
      | CUSTOM_vfp_ldst_emit \<Rightarrow> base AND 0xE8000000 = 0xE8000000
      | _ \<Rightarrow> 0xE8000000 \<le> base)"

definition variant_wf :: "thop_variant \<Rightarrow> bool" where
  "variant_wf v \<longleftrightarrow>
     (let s = thop_shapes ! v_shape v
      in (sh_size s = 2 \<and> bit (sh_feat s) F_t16 \<or> sh_size s = 4 \<and> bit (sh_feat s) F_t32) \<and>
         (if v_custom v = CUSTOM_NONE then
            (if sh_size s = 2 then v_base v OR place_mask s < 0xE800 else 0xE8000000 \<le> v_base v)
          else custom_size (v_custom v) = sh_size s \<and> custom_base_ok (v_custom v) (v_base v) \<and>
            (v_custom v = CUSTOM_shift_reg_t1_emit \<longrightarrow> con_has (rm_con s) REG_LOW_ONLY)))"

lemma le_or_trans: "(c::u32) \<le> b \<Longrightarrow> c \<le> b OR x"
  by (meson le_word_or2 order.trans)

lemma within_le_trans: "within w m \<Longrightarrow> m < c \<Longrightarrow> w < c"
  using within_le by (metis order.strict_trans1)

lemma take_bit_self_word: "unat x < 2 ^ n \<Longrightarrow> take_bit n (x::'a::len word) = x"
  by (rule unsigned_word_eqI [where 'a = nat]) (simp add: unsigned_take_bit_eq take_bit_nat_eq_self)

lemma and_mask_self: "unat x < 2 ^ n \<Longrightarrow> x AND mask n = (x::'a::len word)"
  by (simp add: take_bit_self_word flip: take_bit_eq_mask)

lemmas wf_eval = variant_wf_def place_mask_def imm_mask_def bf_mask_def Let_def custom_size_def
  custom_base_ok_def con_has_def mask_eq_exp_minus_1


lemma within_low:
  "unat x < 2 ^ n \<Longrightarrow> within x (mask n)"
  using and_mask_self [of x n] by (simp add: within_iff and_eq_right_iff) (metis bit_and_iff)

lemma within_push: "within w m \<Longrightarrow> within (push_bit n w) (push_bit n m)"
  by (auto simp: within_iff bit_simps)

lemma within_and: "within (w AND m) m"
  by (auto simp: within_iff bit_simps)

lemma within_mono: "within w m \<Longrightarrow> within m m' \<Longrightarrow> within w m'"
  by (auto simp: within_iff)

lemma within_or_lub: "within v m \<Longrightarrow> within w m \<Longrightarrow> within (v OR w) m"
  by (auto simp: within_iff bit_or_iff)

lemma within_num:
  "x \<le> 7 \<Longrightarrow> within x 7" "x < 8 \<Longrightarrow> within x 7" "x \<le> 15 \<Longrightarrow> within x 15" "x \<le> 255 \<Longrightarrow> within x 255" "x \<le> 126 \<Longrightarrow> within x 127"
  using within_low [of x 3] within_low [of x 4] within_low [of x 8] within_low [of x 7]
  by (simp_all add: mask_eq_exp_minus_1 word_le_nat_alt word_less_nat_alt)

text \<open>A small operand lies within any mask that covers its range.\<close>

lemma within_trans: "within x m \<Longrightarrow> m AND NOT M = 0 \<Longrightarrow> within x M"
  by (rule within_mono [of x m]) (simp_all add: within_def)

lemma within_push_trans: "within x m \<Longrightarrow> push_bit k m AND NOT M = 0 \<Longrightarrow> within (push_bit k x) M"
  by (rule within_trans [OF within_push])

lemmas within_small =
  within_or_lub
  within_trans [OF within_num(1)] within_trans [OF within_num(2)] within_trans [OF within_num(3)]
  within_trans [OF within_num(4)] within_trans [OF within_and]
  within_push_trans [OF within_num(1)] within_push_trans [OF within_num(2)]
  within_push_trans [OF within_num(3)] within_push_trans [OF within_and]

lemma prefix_literal:
  "0xE8000000 \<le> push_bit 16 (0xf85f OR x) OR (y::u32)"
  "0xE8000000 \<le> push_bit 16 (0xf000 OR x) OR (y::u32)"
  "0xE8000000 \<le> 0xf0008000 OR (y::u32)"
  by (simp_all add: push_bit_or le_or_trans)

lemma prefix_clear_23:
  assumes "base AND 0xE8000000 = 0xE8000000"
  shows "0xE8000000 \<le> (base OR x) AND - 8388609" and "0xE8000000 \<le> base OR (x::u32)"
proof -
  have "(base OR x) AND - 8388609 = 0xE8000000 OR ((base OR x) AND - 8388609)"
    using assms by (simp add: bits32)
  then show "0xE8000000 \<le> (base OR x) AND - 8388609" by (metis le_word_or2)
  show "0xE8000000 \<le> base OR x" using assms by (metis word_and_le2 le_or_trans)
qed

text \<open>Every 32-bit emitter keeps the prefix of its base.\<close>

lemma custom32_delimited:
  assumes "call_custom_spec cid base a = Inr r" "op_size r \<noteq> 0" "cid \<noteq> CUSTOM_NONE"
    and "custom_base_ok cid base" "custom_size cid = 4"
  shows "op_size r = 4 \<and> 0xE8000000 \<le> op_code r"
  using assms
  by (cases cid)
    (simp_all add: call_custom_spec_def thop_call_custom_def custom_size_def custom_base_ok_def,
     (hypsubst, simp add: custom_emit_defs case_prod_unfold Let_def or.assoc le_or_trans prefix_literal
       prefix_clear_23 split: if_splits)+)

lemma within_sr_type: "within (th_shift_value_to_sr_type sh) 3"
  by (cases "sft_type sh") (simp_all add: th_shift_value_to_sr_type_def within_def)

lemma within_shift_op: "th_shift_type_to_op sh = Inr op \<Longrightarrow> within op 7"
  by (cases "sft_type sh") (auto simp: th_shift_type_to_op_def within_def)

lemma within_field: "within w m \<Longrightarrow> within (push_bit k m) M \<Longrightarrow> within (push_bit k w) M"
  by (blast intro: within_mono within_push)

lemma less_E800: "within x m \<Longrightarrow> base OR m < 0xE800 \<Longrightarrow> base OR x < 0xE800"
  using within_le_trans within_or within_refl by blast

lemma b_t2_delimited: "op_size (b_t2_emit base a) \<noteq> 0 \<Longrightarrow> base OR 0x7ff < 0xE800 \<Longrightarrow>
    op_size (b_t2_emit base a) = 2 \<and> op_code (b_t2_emit base a) < 0xE800"
  using less_E800 [OF within_and [of "signed_drop_bit 1 (a_imm a)" "0x7ff"], of base]
  by (simp add: b_t2_emit_def Let_def split: if_splits)

lemma cbz_delimited:
  assumes "op_size (cbz_emit base a) \<noteq> 0" "base OR 0x2ff < 0xE800"
  shows "op_size (cbz_emit base a) = 2 \<and> op_code (cbz_emit base a) < 0xE800"
proof -
  from assms(1) have c: "a_rd a \<le> 7" "cbz_emit base a = \<lparr>op_size = 2, op_code = base OR
      (push_bit 9 (drop_bit 5 (a_imm a) AND 1) OR push_bit 3 (drop_bit 1 (a_imm a) AND 31) OR a_rd a)\<rparr>"
    by (simp_all add: cbz_emit_def Let_def not_less or.assoc split: if_splits)
  have "within (push_bit 9 (drop_bit 5 (a_imm a) AND 1) OR push_bit 3 (drop_bit 1 (a_imm a) AND 31) OR a_rd a) 0x2ff"
    using c(1) by (simp add: within_small)
  from less_E800 [OF this assms(2)] show ?thesis by (simp add: c(2) thumb_opcode.simps)
qed

lemma cmp_reg_t2_delimited:
  assumes "a_rm a \<le> 15" "base OR 0xff < 0xE800"
  shows "op_size (cmp_reg_t2_custom_emit base a) = 2 \<and> op_code (cmp_reg_t2_custom_emit base a) < 0xE800"
proof -
  have "within (push_bit 7 (drop_bit 3 (a_rn a) AND 1) OR push_bit 3 (a_rm a) OR (a_rn a AND 7)) 0xff"
    using assms(1) by (simp add: within_small)
  from less_E800 [OF this assms(2)] show ?thesis by (simp add: cmp_reg_t2_custom_emit_def Let_def or.assoc)
qed

lemma mov_reg_t1_shift_delimited:
  assumes "op_size (mov_reg_t1_shift_emit base a) \<noteq> 0"
  shows "op_size (mov_reg_t1_shift_emit base a) = 2 \<and> op_code (mov_reg_t1_shift_emit base a) < 0xE800"
proof -
  from assms have c: "a_rm a < 8" "a_rd a < 8" "mov_reg_t1_shift_emit base a = \<lparr>op_size = 2,
      op_code = push_bit 11 (th_shift_value_to_sr_type (a_shift a)) OR
         (push_bit 6 (sft_value (a_shift a) AND 31) OR push_bit 3 (a_rm a) OR a_rd a)\<rparr>"
    by (simp_all add: mov_reg_t1_shift_emit_def or.assoc split: if_splits)
  have "within (push_bit 11 (th_shift_value_to_sr_type (a_shift a)) OR
         (push_bit 6 (sft_value (a_shift a) AND 31) OR push_bit 3 (a_rm a) OR a_rd a)) 0x1fff"
    using c(1,2) by (simp add: within_small within_push_trans [OF within_sr_type])
  then show ?thesis using within_le_trans [of _ "0x1fff" "0xE800"] by (simp add: c(3) thumb_opcode.simps)
qed

lemma mov_imm_t1_delimited:
  assumes "op_size (mov_imm_t1_emit base a) \<noteq> 0" "base OR 0x7ff < 0xE800"
  shows "op_size (mov_imm_t1_emit base a) = 2 \<and> op_code (mov_imm_t1_emit base a) < 0xE800"
proof -
  from assms(1) have c: "a_rd a \<le> 7" "a_imm a \<le> 255"
      "mov_imm_t1_emit base a = \<lparr>op_size = 2, op_code = base OR (push_bit 8 (a_rd a) OR a_imm a)\<rparr>"
    by (simp_all add: mov_imm_t1_emit_def or.assoc split: if_splits)
  have "within (push_bit 8 (a_rd a) OR a_imm a) 0x7ff"
    using c(1,2) by (simp add: within_small)
  from less_E800 [OF this assms(2)] show ?thesis by (simp add: c(3) thumb_opcode.simps)
qed

lemma mov_reg_shift_t1_delimited:
  assumes "mov_reg_shift_t1_emit base a = Inr r" "op_size r \<noteq> 0"
  shows "op_size r = 2 \<and> op_code r < 0xE800"
proof -
  from assms obtain op where c: "a_ra a < 8" "a_rd a < 8" "th_shift_type_to_op (a_shift a) = Inr op"
      "r = \<lparr>op_size = 2, op_code = 0x4000 OR (push_bit 3 (a_ra a) OR push_bit 6 op OR a_rd a)\<rparr>"
    by (auto simp: mov_reg_shift_t1_emit_def or.assoc split: if_splits sum.splits)
  have "within (push_bit 3 (a_ra a) OR push_bit 6 op OR a_rd a) 0x1ff"
    using c(1,2) within_shift_op [OF c(3)]
    by (simp add: within_small within_push_trans [of op 7])
  from less_E800 [OF this, of "0x4000"] show ?thesis by (simp add: c(4) thumb_opcode.simps)
qed

lemma mul_t16_delimited:
  assumes "base OR 0x3f < 0xE800"
  shows "op_size (mul_t16_emit base a) = 2 \<and> op_code (mul_t16_emit base a) < 0xE800"
proof -
  have "within ((a_rd a AND 7) OR push_bit 3 (a_rm a AND 7)) 0x3f"
    by (simp add: within_small)
  from less_E800 [OF this assms] show ?thesis by (simp add: mul_t16_emit_def or.assoc thumb_opcode.simps)
qed

lemma shift_reg_t1_delimited:
  assumes "a_rm a \<le> 7" "base OR 0x7f < 0xE800"
  shows "op_size (shift_reg_t1_emit base a) = 2 \<and> op_code (shift_reg_t1_emit base a) < 0xE800"
proof -
  have "within (push_bit 3 (a_rm a) OR (a_rd a AND 7)) 0x7f"
    using assms(1) by (simp add: within_small)
  from less_E800 [OF this assms(2)] show ?thesis by (simp add: shift_reg_t1_emit_def or.assoc thumb_opcode.simps)
qed

lemma custom16_delimited:
  assumes r: "call_custom_spec cid base a = Inr r" and sz: "op_size r \<noteq> 0" "custom_size cid = 2"
    and base: "custom_base_ok cid base"
    and rm: "cid = CUSTOM_cmp_reg_t2_custom_emit \<Longrightarrow> a_rm a \<le> 15"
      "cid = CUSTOM_shift_reg_t1_emit \<Longrightarrow> a_rm a \<le> 7"
  shows "op_size r = 2 \<and> op_code r < 0xE800"
proof -
  from sz have "cid \<in> {CUSTOM_b_t2_emit, CUSTOM_cbz_emit, CUSTOM_cmp_reg_t2_custom_emit,
        CUSTOM_mov_reg_t1_shift_emit, CUSTOM_mov_imm_t1_emit, CUSTOM_mov_reg_shift_t1_emit,
        CUSTOM_mul_t16_emit, CUSTOM_shift_reg_t1_emit}"
    by (simp add: custom_size_def split: if_splits)
  with r sz base rm show ?thesis
    using b_t2_delimited [of base a] cbz_delimited [of base a] cmp_reg_t2_delimited [of a base]
      mov_reg_t1_shift_delimited [of base a] mov_imm_t1_delimited [of base a]
      mov_reg_shift_t1_delimited [of base a r] mul_t16_delimited [of base a] shift_reg_t1_delimited [of a base]
    by (auto simp: call_custom_spec_def thop_call_custom_def custom_base_ok_def split: sum.splits)
qed

subsection \<open>Outcomes of the engine\<close>

lemma emit_spec_cases:
  assumes "emit_spec tf vs a = Inr r"
  obtains "r = no_opcode" | v where "v \<in> set vs" "variant_result tf v a = Some (Inr r)"
  using assms by (induction vs) (auto split: option.splits)

lemma variant_result_SomeD:
  assumes "variant_result tf v a = Some (Inr r)"
  defines "s \<equiv> thop_shapes ! v_shape v"
  shows "thop_guards tf s a \<and> thop_regset_ok s a \<and>
    (v_custom v \<noteq> CUSTOM_NONE \<and> call_custom_spec (v_custom v) (v_base v) a = Inr r \<and> op_size r \<noteq> 0 \<or>
     v_custom v = CUSTOM_NONE \<and>
       (\<exists>b. within b (imm_mask s) \<and> r = \<lparr>op_size = sh_size s, op_code = thop_encode s (v_base v) a b\<rparr>))"
proof -
  define i where "i = (if is_kind (sh_imm s) \<noteq> IMM_NONE then try_imm_spec s (a_imm a) else Some 0)"
  note vr = assms(1) [unfolded variant_result_def s_def [symmetric] Let_def, folded i_def]
  then have g: "thop_guards tf s a" by (simp split: if_splits)
  with vr obtain b where b: "i = Some b" by (cases i) auto
  then have w: "within b (imm_mask s)"
    using within_try_imm [of s "a_imm a" b] by (simp add: i_def split: if_splits)
  from vr g b have "thop_regset_ok s a" by (simp split: if_splits)
  with vr g b w show ?thesis by (simp split: if_splits sum.splits) blast+
qed

lemma variant_result_delimited:
  assumes v: "variant_wf v" and r: "variant_result tf v a = Some (Inr r)"
    and rm: "v_custom v = CUSTOM_cmp_reg_t2_custom_emit \<Longrightarrow> a_rm a \<le> 15"
  shows "delimited r \<and> op_size r = sh_size (thop_shapes ! v_shape v)"
proof -
  define s where "s = thop_shapes ! v_shape v"
  note vr = variant_result_SomeD [OF r, folded s_def]
  show ?thesis
  proof (cases "v_custom v = CUSTOM_NONE")
    case True
    with vr obtain b where b: "within b (imm_mask s)"
      "r = \<lparr>op_size = sh_size s, op_code = thop_encode s (v_base v) a b\<rparr>" by auto
    from v True have "sh_size s = 2 \<and> v_base v OR place_mask s < 0xE800 \<or> sh_size s = 4 \<and> 0xE8000000 \<le> v_base v"
      by (auto simp: variant_wf_def s_def [symmetric] Let_def split: if_splits)
    then show ?thesis
      using within_le_trans [OF within_encode [OF b(1)]] encode_ge [of "v_base v" s a b]
      by (auto simp: delimited_def b(2) s_def [symmetric])
  next
    case False
    with vr have c: "call_custom_spec (v_custom v) (v_base v) a = Inr r" "op_size r \<noteq> 0" by auto
    from v False have w: "custom_size (v_custom v) = sh_size s" "custom_base_ok (v_custom v) (v_base v)"
      "v_custom v = CUSTOM_shift_reg_t1_emit \<Longrightarrow> con_has (rm_con s) REG_LOW_ONLY" "sh_size s = 2 \<or> sh_size s = 4"
      by (auto simp: variant_wf_def s_def [symmetric] Let_def)
    have low: "a_rm a \<le> 7" if "con_has (rm_con s) REG_LOW_ONLY"
    proof -
      have "rm_con s \<noteq> 0" using that by (auto simp: con_has_def)
      with vr that show ?thesis by (auto simp: thop_guards_def thop_regs_ok_def thop_reg_ok_def not_less split: if_splits)
    qed
    from w(4) show ?thesis
      using custom16_delimited [OF c _ w(2) rm] custom32_delimited [OF c False w(2)] w low
      by (auto simp: delimited_def s_def [symmetric])
  qed
qed

lemma alu_tables_wf: "list_all (\<lambda>t. list_all variant_wf (butlast (tbl_variants t))) alu_tables"
  by (simp add: alu_tables_def table_simps TH_TABLE_def, simp add: wf_eval shape_simps)


lemma mem_tables_wf: "list_all (\<lambda>t. list_all variant_wf (butlast (tbl_variants t))) mem_tables"
  by (simp add: mem_tables_def table_simps TH_TABLE_def, simp add: wf_eval shape_simps)

lemma sys_tables_wf: "list_all (\<lambda>t. list_all variant_wf (butlast (tbl_variants t))) sys_tables"
  by (simp add: sys_tables_def table_simps TH_TABLE_def, simp add: wf_eval shape_simps)

lemma vfp_tables_wf: "list_all (\<lambda>t. list_all variant_wf (butlast (tbl_variants t))) vfp_tables"
  by (simp add: vfp_tables_def table_simps TH_TABLE_def, simp add: wf_eval shape_simps)

text \<open>The variants the engine walks.\<close>

definition table_variants :: "thop_table \<Rightarrow> thop_variant list" where
  "table_variants t = takeWhile (\<lambda>v. v_shape v \<noteq> THOP_SHAPE_END) (tbl_variants t)"

lemma emits_emit_table: "emits (thop_emit_table t a) (\<lambda>tf. emit_spec tf (table_variants t) a)"
  unfolding emits_def thop_emit_table_def thop_emit_def thop_emit_in_def table_variants_def
  using emit_loop_refines by blast

definition ends_table :: "thop_table \<Rightarrow> bool" where
  "ends_table t \<longleftrightarrow> v_shape (last (tbl_variants t)) = THOP_SHAPE_END \<and> tbl_variants t \<noteq> []"

lemma all_tables_end: "list_all ends_table all_tables"
  by (simp add: all_tables_def alu_tables_def mem_tables_def sys_tables_def vfp_tables_def table_simps
      TH_TABLE_def ends_table_def)

lemma variant_wf_table:
  assumes "t \<in> set all_tables" "v \<in> set (table_variants t)"
  shows "variant_wf v"
proof -
  have "ends_table t" "list_all variant_wf (butlast (tbl_variants t))"
    using assms(1) all_tables_end alu_tables_wf mem_tables_wf sys_tables_wf vfp_tables_wf
    by (auto simp: list_all_iff all_tables_def)
  moreover have "v \<in> set (butlast (tbl_variants t))"
  proof -
    have v: "v \<in> set (tbl_variants t)" "v_shape v \<noteq> THOP_SHAPE_END"
      using assms(2) by (auto simp: table_variants_def dest: set_takeWhileD)
    from calculation(1) have "tbl_variants t = butlast (tbl_variants t) @ [last (tbl_variants t)]"
      "v_shape (last (tbl_variants t)) = THOP_SHAPE_END"
      by (auto simp: ends_table_def)
    with v show ?thesis by (metis Un_iff set_ConsD set_append empty_iff empty_set)
  qed
  ultimately show ?thesis by (auto simp: list_all_iff)
qed

definition cmp_custom_free :: "thop_table \<Rightarrow> bool" where
  "cmp_custom_free t \<longleftrightarrow> list_all (\<lambda>v. v_custom v \<noteq> CUSTOM_cmp_reg_t2_custom_emit) (tbl_variants t)"

lemma all_tables_cmp: "list_all (\<lambda>t. t = TH_CMP_REG \<or> cmp_custom_free t) all_tables"
  by (simp add: all_tables_def alu_tables_def mem_tables_def sys_tables_def vfp_tables_def
      cmp_custom_free_def, simp add: table_simps TH_TABLE_def)

text \<open>What a successful emission from a table of the encoder tells.\<close>

lemma emit_table_result:
  assumes "t \<in> set all_tables" "state_ok st" "t = TH_CMP_REG \<Longrightarrow> a_rm a \<le> 15"
    and "thop_emit_table t a st = Inr (r, st')" "r \<noteq> no_opcode"
  obtains v s where "v \<in> set (table_variants t)" "s = thop_shapes ! v_shape v" "variant_wf v" "delimited r"
    "op_size r = sh_size s" "thop_guards (target_feat st) s a" "thop_regset_ok s a"
proof -
  have "emit_spec (target_feat st) (table_variants t) a = Inr r"
    using emits_emit_table [of t a] assms(2,4) by (auto simp: emits_def dest!: spec [of _ st])
  then show thesis
  proof (cases rule: emit_spec_cases)
    case (2 v)
    have "v_custom v = CUSTOM_cmp_reg_t2_custom_emit \<Longrightarrow> a_rm a \<le> 15"
      using assms(1,3) all_tables_cmp 2(1)
      by (auto simp: list_all_iff cmp_custom_free_def table_variants_def dest: set_takeWhileD)
    with variant_wf_table [OF assms(1) 2(1)] 2 show thesis
      using variant_result_delimited [of v] variant_result_SomeD [OF 2(2)] that by blast
  qed (use assms(5) in simp)
qed

text \<open>The engine runs to what its specification says.\<close>

lemma emit_run:
  assumes "state_ok st" "emit_spec (target_feat st) (table_variants t) a = Inr r"
  obtains st' where "thop_emit_table t a st = Inr (r, st')"
proof -
  have "outcome (target_feat st) (Inr r) (thop_emit_table t a st)"
    using emits_emit_table [of t a] assms by (auto simp: emits_def)
  then show thesis using that by (cases "thop_emit_table t a st") auto
qed

abbreviation mainline_state :: thumb_state where
  "mainline_state \<equiv> \<lparr>target_feat = THOP_PROFILE_ARMV8M_MAIN_CORE, pack_cache = th_pack_const_cache0\<rparr>"

lemma mainline_state_ok: "state_ok mainline_state"
  by (simp add: state_ok_def pack_cache0_ok)

lemma feat32_subset_bit: "thop_feat32_subset sub tf \<Longrightarrow> bit sub n \<Longrightarrow> bit tf n"
  unfolding thop_feat32_subset_def by (metis bit_and_iff bit_ucast_iff)

subsection \<open>Properties\<close>

text \<open>
  C11: every opcode emitted from a table is self-delimiting.  For every instruction table (the two
  local ones of \<^verbatim>\<open>th_addw\<close> and \<^verbatim>\<open>th_subw\<close> included), any target and any arguments, a successful
  emission is a 16-bit opcode below 0xE800 or a 32-bit one from 0xE8000000 on, so its length can
  be read off its first halfword, as the processor does.  The one condition is on the register
  form of CMP, whose \<^verbatim>\<open>cmp_reg_t2_custom_emit\<close> shifts \<^verbatim>\<open>rm\<close> into place without a mask: there
  \<^verbatim>\<open>rm\<close> has to be a register number.
\<close>

theorem emit_delimited:
  assumes "t \<in> set all_tables" "state_ok st" "t = TH_CMP_REG \<Longrightarrow> a_rm a \<le> 15"
    and "thop_emit_table t a st = Inr (r, st')" "r \<noteq> no_opcode"
  shows "delimited r"
  by (rule emit_table_result [OF assms])

theorem emit_delimited_witness:
  "TH_ADD_REG \<in> set all_tables \<and> state_ok mainline_state \<and>
   (\<exists>r st'. thop_emit_table TH_ADD_REG (args0\<lparr>a_rd := 0, a_rn := 1, a_rm := 2\<rparr>) mainline_state = Inr (r, st') \<and>
      r \<noteq> no_opcode \<and> delimited r)"
proof -
  let ?a = "args0\<lparr>a_rd := 0, a_rn := 1, a_rm := 2\<rparr>"
  have 1: "TH_ADD_REG \<in> set all_tables" by (simp add: all_tables_def alu_tables_def tables_alu_reg_def)
  have "emit_spec (target_feat mainline_state) (table_variants TH_ADD_REG) ?a =
      Inr \<lparr>op_size = 2, op_code = 0x1888\<rparr>" by code_simp
  then obtain st' where e: "thop_emit_table TH_ADD_REG ?a mainline_state = Inr (\<lparr>op_size = 2, op_code = 0x1888\<rparr>, st')"
    using emit_run [OF mainline_state_ok] by blast
  have "delimited \<lparr>op_size = 2, op_code = 0x1888\<rparr>"
    by (rule emit_delimited [OF 1 mainline_state_ok _ e]) (simp_all add: args0_def)
  with 1 mainline_state_ok e show ?thesis by (auto intro!: exI)
qed

text \<open>
  C12: a forced encoding and the target's instruction sets are respected.  For every table (for
  CMP with a register number in \<^verbatim>\<open>rm\<close>, as above), a successful emission under \<^verbatim>\<open>ENFORCE_ENCODING_16BIT\<close> (\<open>32BIT\<close>) is 16 (32) bits long, a
  16-bit opcode is only emitted for a target with Thumb-1 and a 32-bit one only for a target
  with Thumb-2.
\<close>

theorem emit_encoding_respected:
  assumes "t \<in> set all_tables" "state_ok st" "t = TH_CMP_REG \<Longrightarrow> a_rm a \<le> 15"
    and "thop_emit_table t a st = Inr (r, st')" "r \<noteq> no_opcode"
  shows "(a_enc a = ENFORCE_ENCODING_16BIT \<longrightarrow> op_size r = 2) \<and>
    (a_enc a = ENFORCE_ENCODING_32BIT \<longrightarrow> op_size r = 4) \<and>
    (op_size r = 2 \<longrightarrow> bit (target_feat st) F_t16) \<and> (op_size r = 4 \<longrightarrow> bit (target_feat st) F_t32)"
proof (rule emit_table_result [OF assms])
  fix v s assume "variant_wf v" "s = thop_shapes ! v_shape v" "op_size r = sh_size s"
    "thop_guards (target_feat st) s a"
  then have "sh_size s = 2 \<and> bit (sh_feat s) F_t16 \<or> sh_size s = 4 \<and> bit (sh_feat s) F_t32"
    "thop_feat32_subset (sh_feat s) (target_feat st)" "thop_enc_ok s a" "op_size r = sh_size s"
    by (simp_all only: variant_wf_def Let_def thop_guards_def)
  then show ?thesis using feat32_subset_bit by (auto simp: thop_enc_ok_def)
qed

theorem emit_encoding_respected_witness:
  "\<exists>r st'. thop_emit_table TH_ADD_REG (args0\<lparr>a_rm := 2, a_enc := ENFORCE_ENCODING_32BIT\<rparr>) mainline_state =
     Inr (r, st') \<and> op_size r = 4"
proof -
  let ?a = "args0\<lparr>a_rm := 2, a_enc := ENFORCE_ENCODING_32BIT\<rparr>"
  have 1: "TH_ADD_REG \<in> set all_tables" by (simp add: all_tables_def alu_tables_def tables_alu_reg_def)
  have "emit_spec (target_feat mainline_state) (table_variants TH_ADD_REG) ?a =
      Inr \<lparr>op_size = 4, op_code = 0xEB000002\<rparr>" by code_simp
  then obtain st' where e: "thop_emit_table TH_ADD_REG ?a mainline_state = Inr (\<lparr>op_size = 4, op_code = 0xEB000002\<rparr>, st')"
    using emit_run [OF mainline_state_ok] by blast
  from emit_encoding_respected [OF 1 mainline_state_ok _ e] e show ?thesis by (auto simp: args0_def)
qed

end
