(* ===== verification/Arm_Decode.thy ===== *)
theory Arm_Decode
  imports Thumb_Pack
begin

section \<open>A decoder for Thumb instructions\<close>

text \<open>
  The reference the encoder is compared with: a decoder for the integer core of the
  instruction set, written from the encoding tables of the architecture manual (data
  processing, moves, comparisons, shifts, extensions, transfers, branches) and not
  from the encoder.  \<open>decode\<close> reads an opcode as it stands outside an IT block, where the
  16-bit data-processing instructions set the flags, and \<open>decode_at\<close> also inside one.  An
  undefined encoding, or one outside the part covered, decodes to \<open>None\<close>.
\<close>

subsection \<open>Instructions\<close>

datatype alu_op =
    ALU_AND | ALU_BIC | ALU_ORR | ALU_ORN | ALU_EOR
  | ALU_ADD | ALU_ADC | ALU_SBC | ALU_SUB | ALU_RSB

datatype cmp_op = CMP_TST | CMP_TEQ | CMP_CMN | CMP_CMP

text \<open>A second operand: a constant, or a register with an immediate shift.\<close>

datatype operand = OpImm u32 | OpReg u32 "thumb_shift_type \<times> u32"

datatype mem_width = MemByte | MemHalf | MemWord

datatype mem_addr = AddrOffset int | AddrPre int | AddrPost int | AddrReg u32 u32

datatype instr =
    Alu alu_op bool u32 u32 operand \<comment> \<open>sets flags, Rd, Rn\<close>
  | Mov bool u32 operand
  | Mvn bool u32 operand
  | Cmp cmp_op u32 operand
  | Movw u32 u32
  | Movt u32 u32
  | ShiftReg thumb_shift_type bool u32 u32 u32 \<comment> \<open>sets flags, Rd, Rn, Rm\<close>
  | Mul bool u32 u32 u32
  | Adr u32 int
  | Mem bool bool mem_width u32 u32 mem_addr \<comment> \<open>load, sign extended, Rt, Rn\<close>
  | Block bool bool bool u32 u32 \<comment> \<open>load, decrement before, write back, Rn, list\<close>
  | Branch int
  | BranchCond u32 int
  | BranchLink int
  | BranchReg u32
  | BranchLinkReg u32
  | CompareBranch bool u32 u32 \<comment> \<open>nonzero, Rn, offset\<close>
  | Extend bool mem_width u32 u32 \<comment> \<open>signed, Rd, Rm\<close>
  | Nop

subsection \<open>16-bit encodings\<close>

definition dp16 :: "u32 \<Rightarrow> u32 \<Rightarrow> u32 \<Rightarrow> instr option" where
  "dp16 opc rm rdn =
     (if opc = 0 then Some (Alu ALU_AND True rdn rdn (OpReg rm (THUMB_SHIFT_LSL, 0)))
      else if opc = 1 then Some (Alu ALU_EOR True rdn rdn (OpReg rm (THUMB_SHIFT_LSL, 0)))
      else if opc = 2 then Some (ShiftReg THUMB_SHIFT_LSL True rdn rdn rm)
      else if opc = 3 then Some (ShiftReg THUMB_SHIFT_LSR True rdn rdn rm)
      else if opc = 4 then Some (ShiftReg THUMB_SHIFT_ASR True rdn rdn rm)
      else if opc = 5 then Some (Alu ALU_ADC True rdn rdn (OpReg rm (THUMB_SHIFT_LSL, 0)))
      else if opc = 6 then Some (Alu ALU_SBC True rdn rdn (OpReg rm (THUMB_SHIFT_LSL, 0)))
      else if opc = 7 then Some (ShiftReg THUMB_SHIFT_ROR True rdn rdn rm)
      else if opc = 8 then Some (Cmp CMP_TST rdn (OpReg rm (THUMB_SHIFT_LSL, 0)))
      else if opc = 9 then Some (Alu ALU_RSB True rdn rm (OpImm 0))
      else if opc = 10 then Some (Cmp CMP_CMP rdn (OpReg rm (THUMB_SHIFT_LSL, 0)))
      else if opc = 11 then Some (Cmp CMP_CMN rdn (OpReg rm (THUMB_SHIFT_LSL, 0)))
      else if opc = 12 then Some (Alu ALU_ORR True rdn rdn (OpReg rm (THUMB_SHIFT_LSL, 0)))
      else if opc = 13 then Some (Mul True rdn rm rdn)
      else if opc = 14 then Some (Alu ALU_BIC True rdn rdn (OpReg rm (THUMB_SHIFT_LSL, 0)))
      else Some (Mvn True rdn (OpReg rm (THUMB_SHIFT_LSL, 0))))"

text \<open>Top bits 00: shift by immediate, add, subtract, move, compare.\<close>

definition shift_add16 :: "u32 \<Rightarrow> instr option" where
  "shift_add16 w =
     (let rd = field w 0 3; rn = field w 3 3; rm = field w 6 3;
          rdn = field w 8 3; imm8 = field w 0 8
      in if field w 13 1 = 0 then
           if field w 11 2 \<noteq> 3
           then Some (Mov True rd (OpReg rn (decode_imm_shift (field w 11 2) (field w 6 5))))
           else if field w 9 2 = 0 then Some (Alu ALU_ADD True rd rn (OpReg rm (THUMB_SHIFT_LSL, 0)))
           else if field w 9 2 = 1 then Some (Alu ALU_SUB True rd rn (OpReg rm (THUMB_SHIFT_LSL, 0)))
           else if field w 9 2 = 2 then Some (Alu ALU_ADD True rd rn (OpImm rm))
           else Some (Alu ALU_SUB True rd rn (OpImm rm))
         else if field w 11 2 = 0 then Some (Mov True rdn (OpImm imm8))
         else if field w 11 2 = 1 then Some (Cmp CMP_CMP rdn (OpImm imm8))
         else if field w 11 2 = 2 then Some (Alu ALU_ADD True rdn rdn (OpImm imm8))
         else Some (Alu ALU_SUB True rdn rdn (OpImm imm8)))"

text \<open>010001: the high-register forms and the branches through a register.\<close>

definition special16 :: "u32 \<Rightarrow> instr option" where
  "special16 w =
     (let rdn = push_bit 3 (field w 7 1) OR field w 0 3; rm = field w 3 4
      in if field w 8 2 = 0 then Some (Alu ALU_ADD False rdn rdn (OpReg rm (THUMB_SHIFT_LSL, 0)))
         else if field w 8 2 = 1 then Some (Cmp CMP_CMP rdn (OpReg rm (THUMB_SHIFT_LSL, 0)))
         else if field w 8 2 = 2 then Some (Mov False rdn (OpReg rm (THUMB_SHIFT_LSL, 0)))
         else if field w 7 1 = 0 then Some (BranchReg rm) else Some (BranchLinkReg rm))"

definition loadstore16 :: "u32 \<Rightarrow> instr option" where
  "loadstore16 w =
     (let opA = field w 12 4; l = bit w 11; rt = field w 0 3; rn = field w 3 3;
          imm5 = field w 6 5; opB = field w 9 3; rm = field w 6 3
      in if opA = 5 then
           (if opB = 0 then Some (Mem False False MemWord rt rn (AddrReg rm 0))
            else if opB = 1 then Some (Mem False False MemHalf rt rn (AddrReg rm 0))
            else if opB = 2 then Some (Mem False False MemByte rt rn (AddrReg rm 0))
            else if opB = 3 then Some (Mem True True MemByte rt rn (AddrReg rm 0))
            else if opB = 4 then Some (Mem True False MemWord rt rn (AddrReg rm 0))
            else if opB = 5 then Some (Mem True False MemHalf rt rn (AddrReg rm 0))
            else if opB = 6 then Some (Mem True False MemByte rt rn (AddrReg rm 0))
            else Some (Mem True True MemHalf rt rn (AddrReg rm 0)))
         else if opA = 6 then Some (Mem l False MemWord rt rn (AddrOffset (4 * uint imm5)))
         else if opA = 7 then Some (Mem l False MemByte rt rn (AddrOffset (uint imm5)))
         else if opA = 8 then Some (Mem l False MemHalf rt rn (AddrOffset (2 * uint imm5)))
         else if opA = 9
         then Some (Mem l False MemWord (field w 8 3) 13 (AddrOffset (4 * uint (field w 0 8))))
         else None)"

definition misc16 :: "u32 \<Rightarrow> instr option" where
  "misc16 w =
     (if field w 10 1 = 0 then
        if field w 8 1 = 1
        then Some (CompareBranch (bit w 11) (field w 0 3)
               (push_bit 6 (field w 9 1) OR push_bit 1 (field w 3 5)))
        else if field w 8 4 = 0 then
          Some (Alu (if field w 7 1 = 0 then ALU_ADD else ALU_SUB) False 13 13
            (OpImm (push_bit 2 (field w 0 7))))
        else if field w 8 4 = 2 then
          Some (Extend (field w 7 1 = 0) (if field w 6 1 = 0 then MemHalf else MemByte)
            (field w 0 3) (field w 3 3))
        else None
      else if field w 9 3 = 2
      then Some (Block False True True 13 (push_bit 14 (field w 8 1) OR field w 0 8))
      else if field w 9 3 = 6
      then Some (Block True False True 13 (push_bit 15 (field w 8 1) OR field w 0 8))
      else if field w 0 12 = 0xF00 then Some Nop
      else None)"

definition decode16 :: "u32 \<Rightarrow> instr option" where
  "decode16 w =
     (let opA = field w 12 4; hi = field w 11 1
      in if field w 14 2 = 0 then shift_add16 w
         else if opA = 4 then
           if hi = 1
           then Some (Mem True False MemWord (field w 8 3) 15 (AddrOffset (4 * uint (field w 0 8))))
           else if field w 10 1 = 0 then dp16 (field w 6 4) (field w 3 3) (field w 0 3)
           else special16 w
         else if opA = 5 \<or> opA = 6 \<or> opA = 7 \<or> opA = 8 \<or> opA = 9 then loadstore16 w
         else if opA = 10 then
           if hi = 0 then Some (Adr (field w 8 3) (4 * uint (field w 0 8)))
           else Some (Alu ALU_ADD False (field w 8 3) 13 (OpImm (push_bit 2 (field w 0 8))))
         else if opA = 11 then misc16 w
         else if opA = 12 then
           Some (Block (hi = 1) False (hi = 0 \<or> \<not> bit (field w 0 8) (unat (field w 8 3)))
             (field w 8 3) (field w 0 8))
         else if opA = 13 then
           if field w 8 4 = 14 \<or> field w 8 4 = 15 then None
           else Some (BranchCond (field w 8 4) (2 * sint (signed_take_bit 7 (field w 0 8))))
         else if opA = 14 \<and> hi = 0 then Some (Branch (2 * sint (signed_take_bit 10 (field w 0 11))))
         else None)"

subsection \<open>32-bit encodings\<close>

text \<open>The operation of the modified-immediate and shifted-register groups.\<close>

definition dp32 :: "u32 \<Rightarrow> bool \<Rightarrow> u32 \<Rightarrow> u32 \<Rightarrow> operand \<Rightarrow> instr option" where
  "dp32 opc S rn rd op2 =
     (if opc = 0 then if rd = 15 \<and> S then Some (Cmp CMP_TST rn op2) else Some (Alu ALU_AND S rd rn op2)
      else if opc = 1 then Some (Alu ALU_BIC S rd rn op2)
      else if opc = 2 then if rn = 15 then Some (Mov S rd op2) else Some (Alu ALU_ORR S rd rn op2)
      else if opc = 3 then if rn = 15 then Some (Mvn S rd op2) else Some (Alu ALU_ORN S rd rn op2)
      else if opc = 4 then if rd = 15 \<and> S then Some (Cmp CMP_TEQ rn op2) else Some (Alu ALU_EOR S rd rn op2)
      else if opc = 8 then if rd = 15 \<and> S then Some (Cmp CMP_CMN rn op2) else Some (Alu ALU_ADD S rd rn op2)
      else if opc = 10 then Some (Alu ALU_ADC S rd rn op2)
      else if opc = 11 then Some (Alu ALU_SBC S rd rn op2)
      else if opc = 13 then if rd = 15 \<and> S then Some (Cmp CMP_CMP rn op2) else Some (Alu ALU_SUB S rd rn op2)
      else if opc = 14 then Some (Alu ALU_RSB S rd rn op2)
      else None)"

text \<open>The 12-bit immediate i:imm3:imm8 and the 16-bit imm4:i:imm3:imm8.\<close>

definition imm12_of :: "u32 \<Rightarrow> u32" where
  "imm12_of w = push_bit 11 (field w 26 1) OR push_bit 8 (field w 12 3) OR field w 0 8"

definition plain32 :: "u32 \<Rightarrow> instr option" where
  "plain32 w =
     (let opc = field w 20 5; rn = field w 16 4; rd = field w 8 4
      in if opc = 0 then if rn = 15 then Some (Adr rd (uint (imm12_of w)))
           else Some (Alu ALU_ADD False rd rn (OpImm (imm12_of w)))
         else if opc = 4 then Some (Movw rd (unpack_3_8_1 w))
         else if opc = 10 then if rn = 15 then Some (Adr rd (- uint (imm12_of w)))
           else Some (Alu ALU_SUB False rd rn (OpImm (imm12_of w)))
         else if opc = 12 then Some (Movt rd (unpack_3_8_1 w))
         else None)"

definition branch32 :: "u32 \<Rightarrow> instr option" where
  "branch32 w =
     (if field w 14 1 = 0 \<and> field w 12 1 = 0 then
        if field w 23 3 \<noteq> 7 then Some (BranchCond (field w 22 4) (sint (unpack_b_t3 w))) else None
      else if field w 14 1 = 0 then Some (Branch (sint (unpack_10_11_0 w)))
      else if field w 12 1 = 1 then Some (BranchLink (sint (unpack_10_11_0 w)))
      else None)"

definition block32 :: "u32 \<Rightarrow> instr option" where
  "block32 w =
     (if field w 23 2 = 1 then Some (Block (bit w 20) False (bit w 21) (field w 16 4) (field w 0 16))
      else if field w 23 2 = 2 then Some (Block (bit w 20) True (bit w 21) (field w 16 4) (field w 0 16))
      else None)"

definition mem_width32 :: "u32 \<Rightarrow> mem_width option" where
  "mem_width32 sz =
     (if sz = 0 then Some MemByte else if sz = 1 then Some MemHalf
      else if sz = 2 then Some MemWord else None)"

definition loadstore32 :: "u32 \<Rightarrow> instr option" where
  "loadstore32 w =
     (let rn = field w 16 4; rt = field w 12 4; l = bit w 20; sx = bit w 24;
          off8 = (if bit w 9 then uint (field w 0 8) else - uint (field w 0 8))
      in case mem_width32 (field w 21 2) of
           None \<Rightarrow> None
         | Some sz \<Rightarrow>
             if rn = 15 then
               if l then Some (Mem l sx sz rt rn
                   (AddrOffset (if bit w 23 then uint (field w 0 12) else - uint (field w 0 12))))
               else None
             else if bit w 23 then Some (Mem l sx sz rt rn (AddrOffset (uint (field w 0 12))))
             else if field w 6 6 = 0 then Some (Mem l sx sz rt rn (AddrReg (field w 0 4) (field w 4 2)))
             else if bit w 11 \<and> field w 8 3 \<noteq> 6 then
               if bit w 10 then
                 Some (Mem l sx sz rt rn (if bit w 8 then AddrPre off8 else AddrOffset off8))
               else if bit w 8 then Some (Mem l sx sz rt rn (AddrPost off8)) else None
             else None)"

definition shift_reg32 :: "u32 \<Rightarrow> instr option" where
  "shift_reg32 w =
     (if field w 12 4 = 15 \<and> field w 4 4 = 0 \<and> field w 23 1 = 0 then
        Some (ShiftReg
          (if field w 21 2 = 0 then THUMB_SHIFT_LSL else if field w 21 2 = 1 then THUMB_SHIFT_LSR
           else if field w 21 2 = 2 then THUMB_SHIFT_ASR else THUMB_SHIFT_ROR)
          (bit w 20) (field w 8 4) (field w 16 4) (field w 0 4))
      else if field w 12 4 = 15 \<and> field w 4 4 = 8 \<and> field w 16 4 = 15 \<and> field w 23 1 = 0 \<and> field w 21 1 = 0 then
        Some (Extend (field w 20 1 = 0) (if field w 22 1 = 0 then MemHalf else MemByte)
          (field w 8 4) (field w 0 4))
      else None)"

definition decode32 :: "u32 \<Rightarrow> instr option" where
  "decode32 w =
     (if field w 27 5 = 0x1D then
        if field w 25 2 = 0 \<and> field w 22 1 = 0 then block32 w
        else if field w 25 2 = 1 \<and> field w 15 1 = 0 then
          dp32 (field w 21 4) (bit w 20) (field w 16 4) (field w 8 4)
            (OpReg (field w 0 4)
               (decode_imm_shift (field w 4 2) (push_bit 2 (field w 12 3) OR field w 6 2)))
        else None
      else if field w 27 5 = 0x1E then
        if field w 15 1 = 1 then branch32 w
        else if field w 25 1 = 0 then
          dp32 (field w 21 4) (bit w 20) (field w 16 4) (field w 8 4) (OpImm (thumb_expand_imm w))
        else plain32 w
      else if field w 25 7 = 0x7C then loadstore32 w
      else if field w 24 8 = 0xFA then shift_reg32 w
      else if field w 20 12 = 0xFB0 \<and> field w 12 4 = 15 \<and> field w 4 4 = 0
      then Some (Mul False (field w 8 4) (field w 16 4) (field w 0 4))
      else None)"

definition decode :: "thumb_opcode \<Rightarrow> instr option" where
  "decode r =
     (if op_size r = 2 then decode16 (op_code r)
      else if op_size r = 4 then decode32 (op_code r) else None)"

text \<open>
  Inside an IT block the 16-bit data-processing instructions leave the flags alone;
  comparisons still set them.
\<close>

fun keeps_flags :: "instr \<Rightarrow> instr" where
  "keeps_flags (Alu op S rd rn x) = Alu op False rd rn x"
| "keeps_flags (Mov S rd x) = Mov False rd x"
| "keeps_flags (Mvn S rd x) = Mvn False rd x"
| "keeps_flags (ShiftReg t S rd rn rm) = ShiftReg t False rd rn rm"
| "keeps_flags (Mul S rd rn rm) = Mul False rd rn rm"
| "keeps_flags i = i"

definition decode_at :: "bool \<Rightarrow> thumb_opcode \<Rightarrow> instr option" where
  "decode_at in_it r =
     (if in_it \<and> op_size r = 2 then map_option keeps_flags (decode r) else decode r)"

subsection \<open>Reading fields back\<close>

lemma field_eq_take_bit: "field w s n = take_bit n (drop_bit s w)"
  by (simp add: field_def take_bit_eq_mask)

lemma field_or [word_fields]: "field (v OR w) s n = field v s n OR field w s n"
  by (simp add: field_eq_take_bit drop_bit_or take_bit_or)

lemma field_0 [word_fields]: "field 0 s n = 0"
  by (simp add: field_eq_take_bit)

lemma field_above [word_fields]: "s + n \<le> k \<Longrightarrow> field (push_bit k x) s n = 0"
  by (rule bit_word_eqI) (auto simp: field_eq_take_bit bit_simps)

lemma field_below [word_fields]: "k + m \<le> s \<Longrightarrow> field (push_bit k (take_bit m x)) s n = 0"
  by (rule bit_word_eqI) (auto simp: field_eq_take_bit bit_simps)

lemma field_below_0 [word_fields]: "m \<le> s \<Longrightarrow> field (take_bit m x) s n = 0"
  by (rule bit_word_eqI) (auto simp: field_eq_take_bit bit_simps)

lemma field_here [word_fields]:
  "m \<le> n \<Longrightarrow> k + m \<le> 32 \<Longrightarrow> field (push_bit k (take_bit m x)) k n = take_bit m x"
  by (rule bit_word_eqI) (auto simp: field_eq_take_bit bit_simps)

lemma field_here_0 [word_fields]: "m \<le> n \<Longrightarrow> field (take_bit m x) 0 n = take_bit m x"
  by (rule bit_word_eqI) (auto simp: field_eq_take_bit bit_simps)

lemma field_inside [word_fields]:
  "s < k \<Longrightarrow> k + m \<le> s + n \<Longrightarrow> k + m \<le> 32 \<Longrightarrow>
   field (push_bit k (take_bit m x)) s n = push_bit (k - s) (take_bit m x)"
  by (rule bit_word_eqI) (auto simp: field_eq_take_bit bit_simps ac_simps)

lemma field_numeral [word_fields]:
  "field (numeral v) s n = take_bit n (drop_bit s (numeral v))"
  by (rule field_eq_take_bit)

lemma bit_push_take [word_fields]:
  "bit (push_bit k (take_bit m x) :: u32) i \<longleftrightarrow> i < 32 \<and> k \<le> i \<and> i < k + m \<and> bit x (i - k)"
  by (auto simp: bit_simps)

end
