(* ===== verification/Thumb_Roundtrip.thy ===== *)
theory Thumb_Roundtrip
  imports Thumb_Stream Arm_Decode
begin

section \<open>Arithmetic instructions decode to what was asked for\<close>

text \<open>
  Encoder against decoder for the arithmetic and logic instructions of
  \<^verbatim>\<open>thop_alu_imm.c\<close> and \<^verbatim>\<open>thop_alu_reg.c\<close>: whatever variant the engine picks, the opcode it
  emits decodes to the operation, registers and operand of the call.  The first part holds what
  the other round-trip theories share: what each shape yields, and the two 32-bit
  data-processing groups.
\<close>

subsection \<open>The instructions of a group\<close>

definition alu_imm :: "alu_op \<Rightarrow> u32 \<Rightarrow> u32 \<Rightarrow> u32 \<Rightarrow> thumb_flags_behaviour \<Rightarrow> thumb_enforce_encoding \<Rightarrow> thumb_opcode emit" where
  "alu_imm op =
     (case op of
        ALU_AND \<Rightarrow> th_and_imm | ALU_BIC \<Rightarrow> th_bic_imm | ALU_ORR \<Rightarrow> th_orr_imm | ALU_ORN \<Rightarrow> th_orn_imm
      | ALU_EOR \<Rightarrow> th_eor_imm | ALU_ADD \<Rightarrow> th_add_imm | ALU_ADC \<Rightarrow> th_adc_imm | ALU_SBC \<Rightarrow> th_sbc_imm
      | ALU_SUB \<Rightarrow> th_sub_imm | ALU_RSB \<Rightarrow> th_rsb_imm)"

definition alu_imm_table :: "alu_op \<Rightarrow> thop_table" where
  "alu_imm_table op =
     (case op of
        ALU_AND \<Rightarrow> TH_AND_IMM | ALU_BIC \<Rightarrow> TH_BIC_IMM | ALU_ORR \<Rightarrow> TH_ORR_IMM | ALU_ORN \<Rightarrow> TH_ORN_IMM
      | ALU_EOR \<Rightarrow> TH_EOR_IMM | ALU_ADD \<Rightarrow> TH_ADD_IMM | ALU_ADC \<Rightarrow> TH_ADC_IMM | ALU_SBC \<Rightarrow> TH_SBC_IMM
      | ALU_SUB \<Rightarrow> TH_SUB_IMM | ALU_RSB \<Rightarrow> TH_RSB_IMM)"

definition alu_reg ::
  "alu_op \<Rightarrow> u32 \<Rightarrow> u32 \<Rightarrow> u32 \<Rightarrow> thumb_flags_behaviour \<Rightarrow> thumb_shift \<Rightarrow> thumb_enforce_encoding \<Rightarrow>
   thumb_opcode emit" where
  "alu_reg op =
     (case op of
        ALU_AND \<Rightarrow> th_and_reg | ALU_BIC \<Rightarrow> th_bic_reg | ALU_ORR \<Rightarrow> th_orr_reg | ALU_ORN \<Rightarrow> th_orn_reg
      | ALU_EOR \<Rightarrow> th_eor_reg | ALU_ADD \<Rightarrow> th_add_reg | ALU_ADC \<Rightarrow> th_adc_reg | ALU_SBC \<Rightarrow> th_sbc_reg
      | ALU_SUB \<Rightarrow> th_sub_reg | ALU_RSB \<Rightarrow> th_rsb_reg)"

definition alu_reg_table :: "alu_op \<Rightarrow> thop_table" where
  "alu_reg_table op =
     (case op of
        ALU_AND \<Rightarrow> TH_AND_REG | ALU_BIC \<Rightarrow> TH_BIC_REG | ALU_ORR \<Rightarrow> TH_ORR_REG | ALU_ORN \<Rightarrow> TH_ORN_REG
      | ALU_EOR \<Rightarrow> TH_EOR_REG | ALU_ADD \<Rightarrow> TH_ADD_REG | ALU_ADC \<Rightarrow> TH_ADC_REG | ALU_SBC \<Rightarrow> TH_SBC_REG
      | ALU_SUB \<Rightarrow> TH_SUB_REG | ALU_RSB \<Rightarrow> TH_RSB_REG)"

definition cmp_imm :: "cmp_op \<Rightarrow> u32 \<Rightarrow> u32 \<Rightarrow> thumb_flags_behaviour \<Rightarrow> thumb_enforce_encoding \<Rightarrow> thumb_opcode emit" where
  "cmp_imm op =
     (case op of CMP_TST \<Rightarrow> th_tst_imm | CMP_TEQ \<Rightarrow> th_teq_imm | CMP_CMN \<Rightarrow> th_cmn_imm | CMP_CMP \<Rightarrow> th_cmp_imm)"

definition cmp_reg ::
  "cmp_op \<Rightarrow> u32 \<Rightarrow> u32 \<Rightarrow> thumb_flags_behaviour \<Rightarrow> thumb_shift \<Rightarrow> thumb_enforce_encoding \<Rightarrow> thumb_opcode emit" where
  "cmp_reg op =
     (case op of CMP_TST \<Rightarrow> th_tst_reg | CMP_TEQ \<Rightarrow> th_teq_reg | CMP_CMN \<Rightarrow> th_cmn_reg | CMP_CMP \<Rightarrow> th_cmp_reg 0)"

definition shift_imm ::
  "thumb_shift_type \<Rightarrow> u32 \<Rightarrow> u32 \<Rightarrow> u32 \<Rightarrow> thumb_flags_behaviour \<Rightarrow> thumb_enforce_encoding \<Rightarrow> thumb_opcode emit" where
  "shift_imm t =
     (case t of THUMB_SHIFT_LSR \<Rightarrow> th_lsr_imm | THUMB_SHIFT_ASR \<Rightarrow> th_asr_imm | THUMB_SHIFT_ROR \<Rightarrow> th_ror_imm
      | _ \<Rightarrow> th_lsl_imm)"

definition shift_reg ::
  "thumb_shift_type \<Rightarrow> u32 \<Rightarrow> u32 \<Rightarrow> u32 \<Rightarrow> thumb_flags_behaviour \<Rightarrow> thumb_shift \<Rightarrow> thumb_enforce_encoding \<Rightarrow>
   thumb_opcode emit" where
  "shift_reg t =
     (case t of THUMB_SHIFT_LSR \<Rightarrow> th_lsr_reg | THUMB_SHIFT_ASR \<Rightarrow> th_asr_reg | THUMB_SHIFT_ROR \<Rightarrow> th_ror_reg
      | _ \<Rightarrow> th_lsl_reg)"

text \<open>The \<open>opcode\<close> field of the 32-bit data-processing groups.\<close>

primrec alu_opc :: "alu_op \<Rightarrow> u32" where
  "alu_opc ALU_AND = 0" | "alu_opc ALU_BIC = 1" | "alu_opc ALU_ORR = 2" | "alu_opc ALU_ORN = 3"
| "alu_opc ALU_EOR = 4" | "alu_opc ALU_ADD = 8" | "alu_opc ALU_ADC = 10" | "alu_opc ALU_SBC = 11"
| "alu_opc ALU_SUB = 13" | "alu_opc ALU_RSB = 14"

primrec cmp_opc :: "cmp_op \<Rightarrow> u32" where
  "cmp_opc CMP_TST = 0" | "cmp_opc CMP_TEQ = 4" | "cmp_opc CMP_CMN = 8" | "cmp_opc CMP_CMP = 13"

text \<open>The flags the caller asked for: set, left alone, or either.\<close>

definition flags_honoured :: "thumb_flags_behaviour \<Rightarrow> bool \<Rightarrow> bool" where
  "flags_honoured flags S \<longleftrightarrow>
     (flags = FLAGS_BEHAVIOUR_SET \<longrightarrow> S) \<and> (flags = FLAGS_BEHAVIOUR_BLOCK \<longrightarrow> \<not> S)"

text \<open>
  An immediate shift the fields of a register operand can hold, by the architecture: LSL by 0 to
  31, LSR and ASR by 1 to 32, ROR by 1 to 31, and no amount for RRX or no shift.
\<close>

definition shift_encodable :: "thumb_shift \<Rightarrow> bool" where
  "shift_encodable s \<longleftrightarrow>
     sft_mode s = THUMB_SHIFT_IMMEDIATE \<and>
     (case sft_type s of
        THUMB_SHIFT_NONE \<Rightarrow> sft_value s = 0
      | THUMB_SHIFT_LSL \<Rightarrow> sft_value s \<le> 31
      | THUMB_SHIFT_LSR \<Rightarrow> 1 \<le> sft_value s \<and> sft_value s \<le> 32
      | THUMB_SHIFT_ASR \<Rightarrow> 1 \<le> sft_value s \<and> sft_value s \<le> 32
      | THUMB_SHIFT_ROR \<Rightarrow> 1 \<le> sft_value s \<and> sft_value s \<le> 31
      | THUMB_SHIFT_RRX \<Rightarrow> sft_value s = 0)"

text \<open>
  The code does not check this in most places, so every other shift is encoded too.  The operand
  then holds the amount modulo 32 and the mode is lost: LSR and ASR by 0 become shifts by 32, ROR
  by 0 becomes RRX, RRX with an amount becomes ROR, and an amount without a shift type may be
  dropped (16-bit encodings) or become an LSL (32-bit ones).
\<close>

definition held_shifts :: "thumb_shift \<Rightarrow> (thumb_shift_type \<times> u32) set" where
  "held_shifts s =
     (let v = sft_value s AND 31; v32 = (if v = 0 then 32 else v); ror = (if v = 0 then (THUMB_SHIFT_RRX, 0) else (THUMB_SHIFT_ROR, v))
      in case sft_type s of
           THUMB_SHIFT_NONE \<Rightarrow> {(THUMB_SHIFT_LSL, 0), (THUMB_SHIFT_LSL, v)}
         | THUMB_SHIFT_LSL \<Rightarrow> {(THUMB_SHIFT_LSL, v)}
         | THUMB_SHIFT_LSR \<Rightarrow> {(THUMB_SHIFT_LSR, v32)}
         | THUMB_SHIFT_ASR \<Rightarrow> {(THUMB_SHIFT_ASR, v32)}
         | THUMB_SHIFT_ROR \<Rightarrow> {ror}
         | THUMB_SHIFT_RRX \<Rightarrow> {ror})"

text \<open>The shift of a register operand: the requested one wherever an operand can hold it.\<close>

definition operand_shifts :: "thumb_shift \<Rightarrow> (thumb_shift_type \<times> u32) set" where
  "operand_shifts s = (if shift_encodable s then {(sft_type s, sft_value s)} else held_shifts s)"

text \<open>A decoded shift computes what the requested one does, for every carry and operand.\<close>

definition same_shift :: "thumb_shift_type \<times> u32 \<Rightarrow> thumb_shift_type \<times> u32 \<Rightarrow> bool" where
  "same_shift sh sh' \<longleftrightarrow> (\<forall>c x. apply_shift c sh x = apply_shift c sh' x)"

text \<open>What an operation computes from the carry and its two operands.\<close>

primrec alu_value :: "alu_op \<Rightarrow> bool \<Rightarrow> u32 \<Rightarrow> u32 \<Rightarrow> u32" where
  "alu_value ALU_AND c x y = x AND y"
| "alu_value ALU_BIC c x y = x AND NOT y"
| "alu_value ALU_ORR c x y = x OR y"
| "alu_value ALU_ORN c x y = x OR NOT y"
| "alu_value ALU_EOR c x y = x XOR y"
| "alu_value ALU_ADD c x y = x + y"
| "alu_value ALU_ADC c x y = x + y + of_bool c"
| "alu_value ALU_SBC c x y = x - y - of_bool (\<not> c)"
| "alu_value ALU_SUB c x y = x - y"
| "alu_value ALU_RSB c x y = y - x"

text \<open>
  The instruction computes the operation on \<open>rn\<close> and the constant and treats the flags as
  requested.  With PC as the source there is only the PC-relative address ADR, the architecture's
  name for an ADD or SUB of a constant to the aligned PC; it leaves the flags alone.
\<close>

definition computes_imm :: "instr option \<Rightarrow> alu_op \<Rightarrow> thumb_flags_behaviour \<Rightarrow> u32 \<Rightarrow> u32 \<Rightarrow> u32 \<Rightarrow> bool" where
  "computes_imm i op flags rd rn imm \<longleftrightarrow>
     (if rn = 15
      then (op = ALU_ADD \<and> i = Some (Adr rd (uint imm)) \<or> op = ALU_SUB \<and> i = Some (Adr rd (- uint imm))) \<and>
        flags_honoured flags False
      else \<exists>S. i = Some (Alu op S rd rn (OpImm imm)) \<and> flags_honoured flags S)"

text \<open>
  The instruction computes the operation on the two source registers, the second one shifted
  as requested (ADD may have its operands exchanged), and treats the flags as requested.
\<close>

definition computes_reg ::
  "instr option \<Rightarrow> alu_op \<Rightarrow> thumb_flags_behaviour \<Rightarrow> u32 \<Rightarrow> u32 \<Rightarrow> u32 \<Rightarrow> thumb_shift_type \<times> u32 \<Rightarrow> bool" where
  "computes_reg i op flags rd rn rm shift \<longleftrightarrow>
     (\<exists>S n m sh. i = Some (Alu op S rd n (OpReg m sh)) \<and> flags_honoured flags S \<and>
       (\<forall>regs c. alu_value op c (regs n) (apply_shift c sh (regs m)) =
          alu_value op c (regs rn) (apply_shift c shift (regs rm))))"

subsection \<open>What a shape yields\<close>

lemma place_eq: "thop_place val bf = push_bit (bf_shift bf) (take_bit (bf_width bf) val)"
proof -
  have "push_bit (bf_width bf) (1::u32) - 1 = mask (bf_width bf)"
    by (simp add: mask_eq_exp_minus_1 push_bit_eq_mult)
  then show ?thesis by (auto simp: thop_place_def take_bit_eq_mask)
qed

lemmas shape_eval =
  variant_result_def Let_def thop_guards_def thop_enc_ok_def
  thop_regs_ok_def thop_reg_ok_def con_has_def thop_shift_ok_def thop_puw_ok_def
  thop_regset_ok_def thop_try_imm_def try_imm_spec_def try_imm_scale_def thop_encode_def thop_rm_for_place_def
  place_eq not_less not_le

text \<open>A successful emission comes from one of the variants of its table.\<close>

lemma emit_variant:
  assumes "state_ok st" "thop_emit_table t a st = Inr (r, st')" "r \<noteq> no_opcode"
  obtains v where "v \<in> set (table_variants t)" "variant_result (target_feat st) v a = Some (Inr r)"
proof -
  have "emit_spec (target_feat st) (table_variants t) a = Inr r"
    using emits_emit_table [of t a] assms(1,2) by (auto simp: emits_def dest!: spec [of _ st])
  then show thesis using assms(3) that by (cases rule: emit_spec_cases) auto
qed

lemma mainline_run:
  "emit_spec (target_feat mainline_state) (table_variants t) a = Inr r \<Longrightarrow>
   \<exists>st'. thop_emit_table t a mainline_state = Inr (r, st')"
  using emit_run [OF mainline_state_ok] by blast

lemma narrow_reg: "(x::u32) \<le> 15 \<Longrightarrow> take_bit 4 x = x" "(x::u32) \<le> 7 \<Longrightarrow> take_bit 3 x = x"
  by (rule take_bit_self_word, simp add: word_le_nat_alt)+

lemma narrow_imm:
  "(x::u32) < 256 \<Longrightarrow> take_bit 8 x = x" "(x::u32) < 8 \<Longrightarrow> take_bit 3 x = x" "(x::u32) < 128 \<Longrightarrow> take_bit 7 x = x"
  "(x::u32) < 32 \<Longrightarrow> take_bit 5 x = x" "(x::u32) < 4096 \<Longrightarrow> take_bit 12 x = x" "(x::u32) < 65536 \<Longrightarrow> take_bit 16 x = x"
  "(x::u32) \<le> 255 \<Longrightarrow> take_bit 8 x = x" 
  by (rule take_bit_self_word, simp add: word_less_nat_alt word_le_nat_alt)+

lemmas narrow = narrow_reg narrow_imm

lemma scaled_by_4: "(x::u32) AND 3 = 0 \<Longrightarrow> push_bit 2 (drop_bit 2 x) = x"
  by (simp add: bits32)

lemma field_within: "within w m \<Longrightarrow> field m s n = 0 \<Longrightarrow> field w s n = 0"
proof (rule bit_word_eqI)
  fix i assume w: "within w m" and m: "field m s n = 0"
  have "\<not> bit (field m s n) i" by (simp add: m)
  with w show "bit (field w s n) i = bit 0 i"
    by (auto simp: within_iff field_eq_take_bit bit_simps)
qed

lemma within_pack_const: "within (pack_const_value x) 0x040070FF"
  using pack_const_value_fields [of x] by (simp only: within_def)

lemma field_pack_const [word_fields]:
  "field (pack_const_value x) 27 5 = 0" "field (pack_const_value x) 8 4 = 0"
  "field (pack_const_value x) 15 (Suc 0) = 0" "field (pack_const_value x) 25 (Suc 0) = 0"
  "field (pack_const_value x) 21 4 = 0" "field (pack_const_value x) 16 4 = 0"
  "\<not> bit (pack_const_value x) 20"
proof -
  show "\<not> bit (pack_const_value x) 20"
    using within_pack_const [of x] by (auto simp: within_iff)
qed (rule field_within [OF within_pack_const], simp add: word_fields)+

lemma field_packimm_3_8_1 [word_fields]:
  "field (th_packimm_3_8_1 x) 27 5 = 0" "field (th_packimm_3_8_1 x) 8 4 = 0"
  "field (th_packimm_3_8_1 x) 15 (Suc 0) = 0" "field (th_packimm_3_8_1 x) 25 (Suc 0) = 0"
  "field (th_packimm_3_8_1 x) 20 5 = 0" "\<not> bit (th_packimm_3_8_1 x) 20"
  "field (th_packimm_3_8_1 x) 16 4 = field x 12 4" "field (th_packimm_3_8_1 x) 26 (Suc 0) = field x 11 (Suc 0)"
  "field (th_packimm_3_8_1 x) 12 3 = field x 8 3" "field (th_packimm_3_8_1 x) 0 8 = field x 0 8"
  by (simp_all add: th_packimm_3_8_1_def Let_def field_def bits32)

subsection \<open>The 32-bit data-processing groups\<close>

lemma expand_cong:
  "field w 0 8 = field p 0 8 \<Longrightarrow> field w 12 3 = field p 12 3 \<Longrightarrow> field w 26 1 = field p 26 1 \<Longrightarrow>
   thumb_expand_imm w = thumb_expand_imm p"
  by (simp add: thumb_expand_imm_def)

lemma mod_imm_decodes:
  assumes "pack_const_value imm \<noteq> 0 \<or> imm = 0"
  shows "decode \<lparr>op_size = 4, op_code = 0xF0000000 OR push_bit 21 (take_bit 4 opc) OR push_bit 8 (take_bit 4 rd) OR
      push_bit 16 (take_bit 4 rn) OR pack_const_value imm OR push_bit 20 (of_bool S)\<rparr> =
    dp32 (take_bit 4 opc) S (take_bit 4 rn) (take_bit 4 rd) (OpImm imm)"
proof -
  define w where "w = 0xF0000000 OR push_bit 21 (take_bit 4 opc) OR push_bit 8 (take_bit 4 rd) OR
      push_bit 16 (take_bit 4 rn) OR pack_const_value imm OR push_bit 20 (of_bool S)"
  have ob: "of_bool S = take_bit 1 (of_bool S :: u32)" by simp
  have "thumb_expand_imm w = thumb_expand_imm (pack_const_value imm)"
    unfolding w_def by (rule expand_cong; subst ob; simp only: word_fields; simp add: word_fields)
  also have "\<dots> = imm" using assms by (rule pack_const_value_sound)
  finally have e: "thumb_expand_imm w = imm" .
  have f: "field w 27 5 = 0x1E" "field w 15 (Suc 0) = 0" "field w 25 (Suc 0) = 0" "field w 21 4 = take_bit 4 opc"
    "field w 16 4 = take_bit 4 rn" "field w 8 4 = take_bit 4 rd" "bit w 20 = S"
    unfolding w_def by (subst ob; simp add: word_fields bit_simps)+
  show ?thesis unfolding w_def [symmetric] by (simp add: decode_def decode32_def f e)
qed

lemma imm5_pack:
  "push_bit 2 (take_bit 3 (drop_bit 2 v AND 7)) OR take_bit 2 (v AND 3) = (v::u32) AND 31"
  by (simp add: bits32)

lemma reg_shift_decodes:
  "decode \<lparr>op_size = 4, op_code = 0xEA000000 OR push_bit 21 (take_bit 4 opc) OR push_bit 8 (take_bit 4 rd) OR
      push_bit 16 (take_bit 4 rn) OR take_bit 4 rm OR push_bit 20 (of_bool S) OR push_bit 4 (take_bit 2 sr) OR
      push_bit 6 (take_bit 2 (v AND 3)) OR push_bit 12 (take_bit 3 (drop_bit 2 v AND 7))\<rparr> =
    dp32 (take_bit 4 opc) S (take_bit 4 rn) (take_bit 4 rd) (OpReg (take_bit 4 rm) (decode_imm_shift (take_bit 2 sr) (v AND 31)))"
proof -
  define w where "w = 0xEA000000 OR push_bit 21 (take_bit 4 opc) OR push_bit 8 (take_bit 4 rd) OR
      push_bit 16 (take_bit 4 rn) OR take_bit 4 rm OR push_bit 20 (of_bool S) OR push_bit 4 (take_bit 2 sr) OR
      push_bit 6 (take_bit 2 (v AND 3)) OR push_bit 12 (take_bit 3 (drop_bit 2 v AND 7))"
  have ob: "of_bool S = take_bit 1 (of_bool S :: u32)" by simp
  have f: "field w 27 5 = 0x1D" "field w 15 (Suc 0) = 0" "field w 25 2 = 1" "field w 21 4 = take_bit 4 opc"
    "field w 16 4 = take_bit 4 rn" "field w 8 4 = take_bit 4 rd" "field w 0 4 = take_bit 4 rm"
    "field w 4 2 = take_bit 2 sr" "field w 6 2 = take_bit 2 (v AND 3)" "field w 12 3 = take_bit 3 (drop_bit 2 v AND 7)"
    unfolding w_def by (subst ob; simp only: word_fields; simp add: word_fields)+
  have b: "bit w 20 = S" unfolding w_def by (subst ob) (simp add: word_fields bit_simps)
  have "push_bit 2 (field w 12 3) OR field w 6 2 = v AND 31" by (simp only: f imm5_pack)
  then show ?thesis unfolding w_def [symmetric] by (simp add: decode_def decode32_def f(1-8) b)
qed

lemma imm12_pack: "x < 4096 \<Longrightarrow> push_bit 11 (field x 11 1) OR push_bit 8 (field x 8 3) OR field x 0 8 = x"
proof -
  assume "x < 4096"
  moreover have "push_bit 11 (field x 11 1) OR push_bit 8 (field x 8 3) OR field x 0 8 = take_bit 12 x"
    by (simp add: field_def bits32)
  ultimately show ?thesis by (simp add: narrow)
qed

lemma field_high_0: "x < 4096 \<Longrightarrow> field x 12 4 = 0"
  using field_below_0 [of 12 12 x 4] by (simp add: narrow)

lemma imm12_decodes:
  assumes "imm < 4096" "base = 0xF2000000 \<or> base = 0xF2A00000"
  shows "decode \<lparr>op_size = 4, op_code = base OR push_bit 8 (take_bit 4 rd) OR
      push_bit 16 (take_bit 4 rn) OR th_packimm_3_8_1 imm\<rparr> =
    Some (if take_bit 4 rn = 15 then Adr (take_bit 4 rd) (if base = 0xF2000000 then uint imm else - uint imm)
      else Alu (if base = 0xF2000000 then ALU_ADD else ALU_SUB) False (take_bit 4 rd) (take_bit 4 rn) (OpImm imm))"
proof -
  define w where "w = base OR push_bit 8 (take_bit 4 rd) OR push_bit 16 (take_bit 4 rn) OR th_packimm_3_8_1 imm"
  note z = field_high_0 [OF assms(1)]
  have f: "field w 27 5 = 0x1E" "field w 15 (Suc 0) = 0" "field w 25 (Suc 0) = 1"
    "field w 20 5 = (if base = 0xF2000000 then 0 else 10)"
    "field w 16 4 = take_bit 4 rn" "field w 8 4 = take_bit 4 rd" "field w 26 (Suc 0) = field imm 11 (Suc 0)"
    "field w 12 3 = field imm 8 3" "field w 0 8 = field imm 0 8"
    using assms(2) unfolding w_def by (elim disjE; simp add: word_fields z)+
  have "imm12_of w = imm" using imm12_pack [OF assms(1)] by (simp add: imm12_of_def f)
  then show ?thesis unfolding w_def [symmetric] using assms(2)
    by (auto simp: decode_def decode32_def plain32_def Let_def f)
qed

lemma dp32_alu: "rn \<noteq> 15 \<Longrightarrow> rd \<noteq> 15 \<Longrightarrow> dp32 (take_bit 4 (alu_opc op)) S rn rd x = Some (Alu op S rd rn x)"
  by (cases op) (simp_all add: dp32_def)

lemma dp32_cmp: "dp32 (take_bit 4 (cmp_opc op)) True rn 15 x = Some (Cmp op rn x)"
  by (cases op) (simp_all add: dp32_def)

subsection \<open>Arithmetic and logic with an immediate\<close>

lemma T16_IMM8_result:
  assumes "variant_result tf (V THOP_SHAPE_T16_IMM8 base) a = Some (Inr r)"
  shows "a_rd a \<le> 7 \<and> a_rd a = a_rn a \<and> a_imm a < 256 \<and> a_flags a \<noteq> FLAGS_BEHAVIOUR_BLOCK \<and>
    r = \<lparr>op_size = 2, op_code = base OR push_bit 8 (take_bit 3 (a_rd a)) OR take_bit 8 (a_imm a)\<rparr>"
  using assms by (simp add: shape_eval shape_simps split: if_splits)

lemma T16_IMM3_result:
  assumes "variant_result tf (V THOP_SHAPE_T16_IMM3 base) a = Some (Inr r)"
  shows "a_rd a \<le> 7 \<and> a_rn a \<le> 7 \<and> a_imm a < 8 \<and> a_flags a \<noteq> FLAGS_BEHAVIOUR_BLOCK \<and>
    r = \<lparr>op_size = 2, op_code = base OR take_bit 3 (a_rd a) OR push_bit 3 (take_bit 3 (a_rn a)) OR push_bit 6 (take_bit 3 (a_imm a))\<rparr>"
  using assms by (simp add: shape_eval shape_simps split: if_splits)

lemma T32_MOD_IMM_result:
  assumes "variant_result tf (V THOP_SHAPE_T32_MOD_IMM base) a = Some (Inr r)"
  shows "a_rd a \<noteq> 15 \<and> a_rn a \<noteq> 15 \<and> (pack_const_value (a_imm a) \<noteq> 0 \<or> a_imm a = 0) \<and>
    r = \<lparr>op_size = 4, op_code = base OR push_bit 8 (take_bit 4 (a_rd a)) OR push_bit 16 (take_bit 4 (a_rn a)) OR
      pack_const_value (a_imm a) OR push_bit 20 (of_bool (a_flags a = FLAGS_BEHAVIOUR_SET))\<rparr>"
  using assms by (simp add: shape_eval shape_simps or.assoc split: if_splits)

lemma T32_IMM12_result:
  assumes "variant_result tf (V THOP_SHAPE_T32_IMM12 base) a = Some (Inr r)"
  shows "a_rd a \<noteq> 15 \<and> a_imm a < 4096 \<and> a_flags a \<noteq> FLAGS_BEHAVIOUR_SET \<and>
    r = \<lparr>op_size = 4, op_code = base OR push_bit 8 (take_bit 4 (a_rd a)) OR push_bit 16 (take_bit 4 (a_rn a)) OR
      th_packimm_3_8_1 (a_imm a)\<rparr>"
  using assms by (simp add: shape_eval shape_simps or.assoc split: if_splits)

lemma T16_ADD_SP_IMM_result:
  assumes "variant_result tf (V THOP_SHAPE_T16_ADD_SP_IMM base) a = Some (Inr r) \<or>
    variant_result tf (V THOP_SHAPE_T16_SUB_SP_IMM base) a = Some (Inr r)"
  shows "a_rd a = 13 \<and> a_rn a = 13 \<and> a_imm a AND 3 = 0 \<and> drop_bit 2 (a_imm a) < 128 \<and> a_flags a \<noteq> FLAGS_BEHAVIOUR_SET \<and>
    r = \<lparr>op_size = 2, op_code = base OR take_bit 7 (drop_bit 2 (a_imm a))\<rparr>"
  using assms by (elim disjE; simp add: shape_eval shape_simps or.assoc split: if_splits)

lemma T16_ADD_SP_IMM8_result:
  assumes "variant_result tf (V THOP_SHAPE_T16_ADD_SP_IMM8 base) a = Some (Inr r)"
  shows "a_rd a \<le> 7 \<and> a_rn a = 13 \<and> a_imm a AND 3 = 0 \<and> drop_bit 2 (a_imm a) < 256 \<and> a_flags a \<noteq> FLAGS_BEHAVIOUR_SET \<and>
    r = \<lparr>op_size = 2, op_code = base OR push_bit 8 (take_bit 3 (a_rd a)) OR take_bit 8 (drop_bit 2 (a_imm a))\<rparr>"
  using assms by (simp add: shape_eval shape_simps or.assoc split: if_splits)

lemma alu_imm_eq: "alu_imm op rd rn imm flags enc = thop_emit_table (alu_imm_table op)
   (args0\<lparr>a_rd := rd, a_rn := rn, a_imm := imm, a_flags := flags, a_enc := enc\<rparr>)"
  by (cases op) (simp_all add: alu_imm_def alu_imm_table_def THOP_ALU_IMM_FN_def th_and_imm_def th_bic_imm_def th_orr_imm_def
   th_orn_imm_def th_eor_imm_def th_add_imm_def th_adc_imm_def th_sbc_imm_def th_sub_imm_def th_rsb_imm_def)

lemma alu_imm_variants:
  "table_variants (alu_imm_table op) =
    (if op = ALU_ADD then [V THOP_SHAPE_T16_IMM8 0x3000, V THOP_SHAPE_T16_IMM3 0x1C00,
       V THOP_SHAPE_T16_ADD_SP_IMM 0xb000, V THOP_SHAPE_T16_ADD_SP_IMM8 0xa800]
     else if op = ALU_SUB then [V THOP_SHAPE_T16_IMM8 0x3800, V THOP_SHAPE_T16_IMM3 0x1E00, V THOP_SHAPE_T16_SUB_SP_IMM 0xb080]
     else []) @ [V THOP_SHAPE_T32_MOD_IMM (0xF0000000 OR push_bit 21 (take_bit 4 (alu_opc op)))] @
    (if op = ALU_ADD then [V THOP_SHAPE_T32_IMM12 0xF2000000]
     else if op = ALU_SUB then [V THOP_SHAPE_T32_IMM12 0xF2A00000] else [])"
  by (cases op) (simp_all add: alu_imm_table_def table_variants_def table_simps TH_TABLE_def)

lemmas args_simps = args0_def THUMB_SHIFT_DEFAULT_def

lemma alu16_decodes:
  "decode \<lparr>op_size = 2, op_code = 0x3000 OR push_bit 8 (take_bit 3 rd) OR take_bit 8 imm\<rparr> =
     Some (Alu ALU_ADD True (take_bit 3 rd) (take_bit 3 rd) (OpImm (take_bit 8 imm)))"
  "decode \<lparr>op_size = 2, op_code = 0x3800 OR push_bit 8 (take_bit 3 rd) OR take_bit 8 imm\<rparr> =
     Some (Alu ALU_SUB True (take_bit 3 rd) (take_bit 3 rd) (OpImm (take_bit 8 imm)))"
  "decode \<lparr>op_size = 2, op_code = 0x1C00 OR take_bit 3 rd OR push_bit 3 (take_bit 3 rn) OR push_bit 6 (take_bit 3 imm)\<rparr> =
     Some (Alu ALU_ADD True (take_bit 3 rd) (take_bit 3 rn) (OpImm (take_bit 3 imm)))"
  "decode \<lparr>op_size = 2, op_code = 0x1E00 OR take_bit 3 rd OR push_bit 3 (take_bit 3 rn) OR push_bit 6 (take_bit 3 imm)\<rparr> =
     Some (Alu ALU_SUB True (take_bit 3 rd) (take_bit 3 rn) (OpImm (take_bit 3 imm)))"
  "decode \<lparr>op_size = 2, op_code = 0xb000 OR take_bit 7 x\<rparr> = Some (Alu ALU_ADD False 13 13 (OpImm (push_bit 2 (take_bit 7 x))))"
  "decode \<lparr>op_size = 2, op_code = 0xb080 OR take_bit 7 x\<rparr> = Some (Alu ALU_SUB False 13 13 (OpImm (push_bit 2 (take_bit 7 x))))"
  "decode \<lparr>op_size = 2, op_code = 0xa800 OR push_bit 8 (take_bit 3 rd) OR take_bit 8 x\<rparr> =
     Some (Alu ALU_ADD False (take_bit 3 rd) 13 (OpImm (push_bit 2 (take_bit 8 x))))"
  by (simp_all add: decode_def decode16_def shift_add16_def misc16_def Let_def word_fields)

lemma computes_immI:
  "i = Some (Alu op S rd rn (OpImm imm)) \<Longrightarrow> flags_honoured flags S \<Longrightarrow> rn \<noteq> 15 \<Longrightarrow> computes_imm i op flags rd rn imm"
  by (auto simp: computes_imm_def)

lemma alu_imm_variant_decodes:
  assumes v: "v \<in> set (table_variants (alu_imm_table op))" and r: "variant_result tf v a = Some (Inr r)"
    and regs: "a_rd a \<le> 15" "a_rn a \<le> 15"
  shows "computes_imm (decode r) op (a_flags a) (a_rd a) (a_rn a) (a_imm a)"
proof -
  consider (mod) "v = V THOP_SHAPE_T32_MOD_IMM (0xF0000000 OR push_bit 21 (take_bit 4 (alu_opc op)))"
    | (imm12) "v = V THOP_SHAPE_T32_IMM12 0xF2000000 \<and> op = ALU_ADD \<or> v = V THOP_SHAPE_T32_IMM12 0xF2A00000 \<and> op = ALU_SUB"
    | (imm8) "v = V THOP_SHAPE_T16_IMM8 0x3000 \<and> op = ALU_ADD \<or> v = V THOP_SHAPE_T16_IMM8 0x3800 \<and> op = ALU_SUB"
    | (imm3) "v = V THOP_SHAPE_T16_IMM3 0x1C00 \<and> op = ALU_ADD \<or> v = V THOP_SHAPE_T16_IMM3 0x1E00 \<and> op = ALU_SUB"
    | (sp) "v = V THOP_SHAPE_T16_ADD_SP_IMM 0xb000 \<and> op = ALU_ADD \<or> v = V THOP_SHAPE_T16_SUB_SP_IMM 0xb080 \<and> op = ALU_SUB"
    | (sp8) "v = V THOP_SHAPE_T16_ADD_SP_IMM8 0xa800" "op = ALU_ADD"
    using v unfolding alu_imm_variants by (auto split: if_splits)
  then show ?thesis
  proof cases
    case mod
    note q = T32_MOD_IMM_result [OF r [unfolded mod]]
    then show ?thesis
      using mod_imm_decodes [of "a_imm a" "alu_opc op" "a_rd a" "a_rn a" "a_flags a = FLAGS_BEHAVIOUR_SET"] regs
      by (simp add: narrow dp32_alu computes_imm_def flags_honoured_def or.assoc)
  next
    case imm12
    then obtain b where b: "v = V THOP_SHAPE_T32_IMM12 b" "b = 0xF2000000 \<or> b = 0xF2A00000"
      "op = (if b = 0xF2000000 then ALU_ADD else ALU_SUB)" by auto
    note q = T32_IMM12_result [OF r [unfolded b(1)]]
    then show ?thesis
      using imm12_decodes [OF _ b(2), of "a_imm a" "a_rd a" "a_rn a"] regs b(3)
      by (auto simp: narrow computes_imm_def flags_honoured_def)
  next
    case imm8
    then obtain b where b: "variant_result tf (V THOP_SHAPE_T16_IMM8 b) a = Some (Inr r)"
      "b = 0x3000 \<and> op = ALU_ADD \<or> b = 0x3800 \<and> op = ALU_SUB" using r by auto
    from T16_IMM8_result [OF b(1)] b(2) show ?thesis using alu16_decodes(1,2) [of "a_rd a" "a_imm a"]
      by (intro computes_immI [where S = True]) (elim disjE conjE; auto simp: narrow flags_honoured_def)+
  next
    case imm3
    then obtain b where b: "variant_result tf (V THOP_SHAPE_T16_IMM3 b) a = Some (Inr r)"
      "b = 0x1C00 \<and> op = ALU_ADD \<or> b = 0x1E00 \<and> op = ALU_SUB" using r by auto
    from T16_IMM3_result [OF b(1)] b(2) show ?thesis using alu16_decodes(3,4) [of "a_rd a" "a_rn a" "a_imm a"]
      by (intro computes_immI [where S = True]) (elim disjE conjE; auto simp: narrow flags_honoured_def)+
  next
    case sp
    then obtain b where b: "variant_result tf (V THOP_SHAPE_T16_ADD_SP_IMM b) a = Some (Inr r) \<or>
        variant_result tf (V THOP_SHAPE_T16_SUB_SP_IMM b) a = Some (Inr r)"
      "b = 0xb000 \<and> op = ALU_ADD \<or> b = 0xb080 \<and> op = ALU_SUB" using r by auto
    from T16_ADD_SP_IMM_result [OF b(1)] b(2) show ?thesis using alu16_decodes(5,6) [of "drop_bit 2 (a_imm a)"]
      by (intro computes_immI [where S = False]) (elim disjE conjE; simp add: narrow scaled_by_4 flags_honoured_def)+
  next
    case sp8
    with T16_ADD_SP_IMM8_result [of tf "0xa800" a r] r alu16_decodes(7) [of "a_rd a" "drop_bit 2 (a_imm a)"] show ?thesis
      by (intro computes_immI [where S = False]) (simp_all add: narrow scaled_by_4 flags_honoured_def)
  qed
qed

subsection \<open>Arithmetic and logic with a register\<close>

lemma T16_REG3_result:
  assumes "variant_result tf (V THOP_SHAPE_T16_REG3 base) a = Some (Inr r)"
  shows "a_rd a \<le> 7 \<and> a_rn a \<le> 7 \<and> a_rm a \<le> 7 \<and> a_flags a \<noteq> FLAGS_BEHAVIOUR_BLOCK \<and>
    sft_type (a_shift a) = THUMB_SHIFT_NONE \<and>
    r = \<lparr>op_size = 2, op_code = base OR take_bit 3 (a_rd a) OR push_bit 3 (take_bit 3 (a_rn a)) OR
      push_bit 6 (take_bit 3 (a_rm a))\<rparr>"
  using assms by (simp add: shape_eval shape_simps or.assoc split: if_splits)

lemma T16_REG_RDN_RM_result:
  assumes "variant_result tf (V THOP_SHAPE_T16_REG_RDN_RM base) a = Some (Inr r)"
  shows "a_rd a \<le> 7 \<and> a_rn a = a_rd a \<and> a_rm a \<le> 7 \<and> a_flags a \<noteq> FLAGS_BEHAVIOUR_BLOCK \<and>
    sft_type (a_shift a) = THUMB_SHIFT_NONE \<and>
    r = \<lparr>op_size = 2, op_code = base OR take_bit 3 (a_rd a) OR push_bit 3 (take_bit 3 (a_rm a))\<rparr>"
  using assms by (simp add: shape_eval shape_simps or.assoc split: if_splits)

lemma T16_ADD_SP_REG_result:
  assumes "variant_result tf (V THOP_SHAPE_T16_ADD_SP_REG base) a = Some (Inr r)"
  shows "a_rd a = a_rm a \<and> a_rn a = 13 \<and> a_flags a \<noteq> FLAGS_BEHAVIOUR_SET \<and>
    sft_type (a_shift a) = THUMB_SHIFT_NONE \<and>
    r = \<lparr>op_size = 2, op_code = base OR take_bit 3 (a_rm a) OR push_bit 7 (take_bit 1 (drop_bit 3 (a_rm a))) OR 0x68\<rparr>"
  using assms by (simp add: shape_eval shape_simps or.assoc split: if_splits)

lemma T16_ADD_T2_result:
  assumes "variant_result tf (V THOP_SHAPE_T16_ADD_T2 base) a = Some (Inr r)"
  shows "a_rd a = a_rn a \<and> a_flags a \<noteq> FLAGS_BEHAVIOUR_SET \<and> sft_type (a_shift a) = THUMB_SHIFT_NONE \<and>
    r = \<lparr>op_size = 2, op_code = base OR take_bit 3 (a_rn a) OR push_bit 7 (take_bit 1 (drop_bit 3 (a_rn a))) OR
      take_bit 3 (a_rn a) OR push_bit 3 (take_bit 4 (a_rm a))\<rparr>"
  using assms by (simp add: shape_eval shape_simps or.assoc split: if_splits)

lemma T32_REG_SHIFT_result:
  assumes "variant_result tf (V THOP_SHAPE_T32_REG_SHIFT base) a = Some (Inr r)"
  shows "a_rd a \<noteq> 15 \<and> a_rn a \<noteq> 15 \<and> a_rm a \<noteq> 13 \<and> a_rm a \<noteq> 15 \<and>
    r = \<lparr>op_size = 4, op_code = base OR push_bit 8 (take_bit 4 (a_rd a)) OR push_bit 16 (take_bit 4 (a_rn a)) OR
      take_bit 4 (a_rm a) OR push_bit 20 (of_bool (a_flags a = FLAGS_BEHAVIOUR_SET)) OR
      push_bit 4 (take_bit 2 (th_shift_value_to_sr_type (a_shift a))) OR
      push_bit 6 (take_bit 2 (sft_value (a_shift a) AND 3)) OR
      push_bit 12 (take_bit 3 (drop_bit 2 (sft_value (a_shift a)) AND 7))\<rparr>"
  using assms by (simp add: shape_eval shape_simps or.assoc split: if_splits)

lemma alu_reg_eq: "alu_reg op rd rn rm flags shift enc = thop_emit_table (alu_reg_table op)
   (args0\<lparr>a_rd := rd, a_rn := rn, a_rm := rm, a_flags := flags, a_shift := shift, a_enc := enc\<rparr>)"
  by (cases op) (simp_all add: alu_reg_def alu_reg_table_def THOP_ALU_REG_FN_def thop_alu_reg_def th_and_reg_def th_bic_reg_def
   th_orr_reg_def th_orn_reg_def th_eor_reg_def th_add_reg_def th_adc_reg_def th_sbc_reg_def th_sub_reg_def th_rsb_reg_def)

lemma alu_reg_variants:
  "v \<in> set (table_variants (alu_reg_table op)) \<Longrightarrow>
     v = V THOP_SHAPE_T32_REG_SHIFT (0xEA000000 OR push_bit 21 (take_bit 4 (alu_opc op))) \<or>
     (v, op) \<in> {(V THOP_SHAPE_T16_REG3 0x1800, ALU_ADD), (V THOP_SHAPE_T16_REG3 0x1a00, ALU_SUB)} \<or>
     (v, op) = (V THOP_SHAPE_T16_ADD_SP_REG 0x4400, ALU_ADD) \<or> (v, op) = (V THOP_SHAPE_T16_ADD_T2 0x4400, ALU_ADD) \<or>
     (\<exists>opc. v = V THOP_SHAPE_T16_REG_RDN_RM (0x4000 OR push_bit 6 (take_bit 4 opc)) \<and>
        (opc, op) \<in> {(0, ALU_AND), (1, ALU_EOR), (5, ALU_ADC), (6, ALU_SBC), (12, ALU_ORR), (14, ALU_BIC)})"
  by (cases op) (auto simp add: alu_reg_table_def table_variants_def table_simps TH_TABLE_def)

text \<open>The shift a 32-bit operand is decoded with, and the absent one of the 16-bit forms.\<close>

abbreviation decoded_shift :: "thumb_shift \<Rightarrow> thumb_shift_type \<times> u32" where
  "decoded_shift s \<equiv> decode_imm_shift (take_bit 2 (th_shift_value_to_sr_type s)) (sft_value s AND 31)"

lemma shift_encodable_normal: "shift_encodable s \<Longrightarrow> th_shift_imm_normalize s = (True, s)"
  by (cases "sft_type s") (auto simp: shift_encodable_def th_shift_imm_normalize_def)

lemma sr_type_take_bit: "take_bit 2 (th_shift_value_to_sr_type s) = th_shift_value_to_sr_type s"
  by (cases "sft_type s") (simp_all add: th_shift_value_to_sr_type_def)

lemma shift_held: "\<exists>sh \<in> operand_shifts s. same_shift (decoded_shift s) sh"
proof (cases "shift_encodable s")
  case True
  have "sft_type s \<in> {THUMB_SHIFT_NONE, THUMB_SHIFT_RRX} \<Longrightarrow> sft_value s = 0"
    using True by (auto simp: shift_encodable_def)
  with True shift_normalize_sound [OF shift_encodable_normal [OF True]] show ?thesis
    by (auto simp: operand_shifts_def same_shift_def sr_type_take_bit)
next
  case False
  then show ?thesis
    by (cases "sft_type s") (auto simp: operand_shifts_def held_shifts_def same_shift_def Let_def
      th_shift_value_to_sr_type_def decode_imm_shift_def apply_shift_def)
qed

lemma no_shift_held:
  "sft_type s = THUMB_SHIFT_NONE \<Longrightarrow> \<exists>sh \<in> operand_shifts s. same_shift (THUMB_SHIFT_LSL, 0) sh"
  by (auto simp: operand_shifts_def held_shifts_def same_shift_def shift_encodable_def apply_shift_def Let_def)

lemma high_reg: "push_bit 3 (take_bit 1 (drop_bit 3 x)) OR take_bit 3 x = take_bit 4 (x :: u32)"
proof (rule bit_word_eqI)
  fix i :: nat assume "i < LENGTH(32)"
  consider "i < 3" | "i = 3" | "i > 3" by linarith
  then show "bit (push_bit 3 (take_bit 1 (drop_bit 3 x)) OR take_bit 3 x) i = bit (take_bit 4 x) i"
    by cases (simp_all only: bit_or_iff bit_push_bit_iff bit_take_bit_iff bit_drop_bit_eq o_apply possible_bit_word, simp_all)
qed

lemma alu_reg16_decodes:
  "decode \<lparr>op_size = 2, op_code = 0x1800 OR take_bit 3 rd OR push_bit 3 (take_bit 3 rn) OR push_bit 6 (take_bit 3 rm)\<rparr> =
     Some (Alu ALU_ADD True (take_bit 3 rd) (take_bit 3 rn) (OpReg (take_bit 3 rm) (THUMB_SHIFT_LSL, 0)))"
  "decode \<lparr>op_size = 2, op_code = 0x1a00 OR take_bit 3 rd OR push_bit 3 (take_bit 3 rn) OR push_bit 6 (take_bit 3 rm)\<rparr> =
     Some (Alu ALU_SUB True (take_bit 3 rd) (take_bit 3 rn) (OpReg (take_bit 3 rm) (THUMB_SHIFT_LSL, 0)))"
  by (simp_all add: decode_def decode16_def shift_add16_def Let_def word_fields)

lemma dp16_decodes:
  "decode \<lparr>op_size = 2, op_code = 0x4000 OR push_bit 6 (take_bit 4 opc) OR take_bit 3 rd OR push_bit 3 (take_bit 3 rm)\<rparr> =
     dp16 (take_bit 4 opc) (take_bit 3 rm) (take_bit 3 rd)"
  by (simp add: decode_def decode16_def Let_def word_fields)

lemma special16_decodes:
  "decode \<lparr>op_size = 2, op_code = 0x4400 OR take_bit 3 rm OR push_bit 7 (take_bit 1 (drop_bit 3 rm)) OR 0x68\<rparr> =
     Some (Alu ALU_ADD False (take_bit 4 rm) (take_bit 4 rm) (OpReg 13 (THUMB_SHIFT_LSL, 0)))"
  "decode \<lparr>op_size = 2, op_code = 0x4400 OR take_bit 3 rn OR push_bit 7 (take_bit 1 (drop_bit 3 rn)) OR
      take_bit 3 rn OR push_bit 3 (take_bit 4 rm)\<rparr> =
     Some (Alu ALU_ADD False (take_bit 4 rn) (take_bit 4 rn) (OpReg (take_bit 4 rm) (THUMB_SHIFT_LSL, 0)))"
proof -
  define w1 where "w1 = 0x4400 OR take_bit 3 rm OR push_bit 7 (take_bit 1 (drop_bit 3 rm)) OR 0x68"
  define w2 where "w2 = 0x4400 OR take_bit 3 rn OR push_bit 7 (take_bit 1 (drop_bit 3 rn)) OR
      take_bit 3 rn OR push_bit 3 (take_bit 4 rm)"
  have f1: "field w1 14 2 = 1" "field w1 12 4 = 4" "field w1 11 (Suc 0) = 0" "field w1 10 (Suc 0) = 1" "field w1 8 2 = 0"
     "field w1 3 4 = 13" "field w1 7 (Suc 0) = take_bit (Suc 0) (drop_bit 3 rm)" "field w1 0 3 = take_bit 3 rm"
    unfolding w1_def One_nat_def [symmetric] by (simp only: word_fields, simp add: word_fields)+
  have f2: "field w2 14 2 = 1" "field w2 12 4 = 4" "field w2 11 (Suc 0) = 0" "field w2 10 (Suc 0) = 1" "field w2 8 2 = 0"
     "field w2 3 4 = take_bit 4 rm" "field w2 7 (Suc 0) = take_bit (Suc 0) (drop_bit 3 rn)" "field w2 0 3 = take_bit 3 rn"
    unfolding w2_def One_nat_def [symmetric] by (simp only: word_fields, simp add: word_fields)+
  have h: "push_bit 3 (field w1 7 1) OR field w1 0 3 = take_bit 4 rm" "push_bit 3 (field w2 7 1) OR field w2 0 3 = take_bit 4 rn"
    by (simp_all only: One_nat_def f1 f2 high_reg [unfolded One_nat_def])
  show "decode \<lparr>op_size = 2, op_code = w1\<rparr> = Some (Alu ALU_ADD False (take_bit 4 rm) (take_bit 4 rm) (OpReg 13 (THUMB_SHIFT_LSL, 0)))"
    "decode \<lparr>op_size = 2, op_code = w2\<rparr> =
     Some (Alu ALU_ADD False (take_bit 4 rn) (take_bit 4 rn) (OpReg (take_bit 4 rm) (THUMB_SHIFT_LSL, 0)))"
    using h by (simp_all add: decode_def decode16_def special16_def Let_def f1(1-6) f2(1-6))
qed

lemma computes_regI:
  "i = Some (Alu op S rd rn (OpReg rm sh)) \<Longrightarrow> flags_honoured flags S \<Longrightarrow>
   \<exists>s \<in> X. same_shift sh s \<Longrightarrow> \<exists>s \<in> X. computes_reg i op flags rd rn rm s"
  by (auto simp: computes_reg_def same_shift_def)

lemma alu_reg_variant_decodes:
  assumes v: "v \<in> set (table_variants (alu_reg_table op))" and r: "variant_result tf v a = Some (Inr r)"
    and regs: "a_rd a \<le> 15" "a_rn a \<le> 15" "a_rm a \<le> 15"
  shows "\<exists>sh \<in> operand_shifts (a_shift a). computes_reg (decode r) op (a_flags a) (a_rd a) (a_rn a) (a_rm a) sh"
proof -
  consider (t32) "v = V THOP_SHAPE_T32_REG_SHIFT (0xEA000000 OR push_bit 21 (take_bit 4 (alu_opc op)))"
    | (reg3) b where "v = V THOP_SHAPE_T16_REG3 b" "b = 0x1800 \<and> op = ALU_ADD \<or> b = 0x1a00 \<and> op = ALU_SUB"
    | (sp) "v = V THOP_SHAPE_T16_ADD_SP_REG 0x4400" "op = ALU_ADD"
    | (t2) "v = V THOP_SHAPE_T16_ADD_T2 0x4400" "op = ALU_ADD"
    | (rdn) opc where "v = V THOP_SHAPE_T16_REG_RDN_RM (0x4000 OR push_bit 6 (take_bit 4 opc))"
        "(opc, op) \<in> {(0, ALU_AND), (1, ALU_EOR), (5, ALU_ADC), (6, ALU_SBC), (12, ALU_ORR), (14, ALU_BIC)}"
    using alu_reg_variants [OF v] by blast
  then show ?thesis
  proof cases
    case t32
    from T32_REG_SHIFT_result [OF r [unfolded t32]]
    have "decode r = Some (Alu op (a_flags a = FLAGS_BEHAVIOUR_SET) (a_rd a) (a_rn a) (OpReg (a_rm a)
        (decode_imm_shift (take_bit 2 (th_shift_value_to_sr_type (a_shift a))) (sft_value (a_shift a) AND 31))))"
      using reg_shift_decodes [of "alu_opc op" "a_rd a" "a_rn a" "a_rm a" "a_flags a = FLAGS_BEHAVIOUR_SET"
        "th_shift_value_to_sr_type (a_shift a)" "sft_value (a_shift a)"]
      by (simp add: narrow_reg(1) [OF regs(1)] narrow_reg(1) [OF regs(2)] narrow_reg(1) [OF regs(3)] dp32_alu or.assoc)
    then show ?thesis by (rule computes_regI [OF _ _ shift_held]) (simp add: flags_honoured_def)
  next
    case reg3
    from T16_REG3_result [OF r [unfolded reg3(1)]] reg3(2)
    show ?thesis using alu_reg16_decodes [of "a_rd a" "a_rn a" "a_rm a"] no_shift_held [of "a_shift a"]
      by (intro computes_regI [where S = True]) (elim disjE conjE; simp add: narrow flags_honoured_def)+
  next
    case sp
    note q = T16_ADD_SP_REG_result [OF r [unfolded sp(1)]]
    then obtain s where s: "s \<in> operand_shifts (a_shift a)" "same_shift (THUMB_SHIFT_LSL, 0) s" using no_shift_held by blast
    have "computes_reg (decode r) op (a_flags a) (a_rd a) (a_rn a) (a_rm a) s"
      unfolding computes_reg_def using q sp(2) special16_decodes(1) [of "a_rm a"] regs s(2)
      by (intro exI [of _ False] exI [of _ "a_rm a"] exI [of _ 13] exI [of _ "(THUMB_SHIFT_LSL, 0)"])
         (simp add: narrow flags_honoured_def same_shift_def apply_shift_def ac_simps)
    with s(1) show ?thesis by blast
  next
    case t2
    from T16_ADD_T2_result [OF r [unfolded t2(1)]] t2(2) special16_decodes(2) [of "a_rn a" "a_rm a"] no_shift_held [of "a_shift a"] regs
    show ?thesis
      by (intro computes_regI [where S = False]) (simp_all add: narrow flags_honoured_def)
  next
    case rdn
    from T16_REG_RDN_RM_result [OF r [unfolded rdn(1)]]
      dp16_decodes [of opc "a_rd a" "a_rm a"] no_shift_held [of "a_shift a"]
    have q: "decode r = dp16 (take_bit 4 opc) (a_rm a) (a_rd a)" "a_rn a = a_rd a" "flags_honoured (a_flags a) True"
      "\<exists>sh \<in> operand_shifts (a_shift a). same_shift (THUMB_SHIFT_LSL, 0) sh"
      by (simp_all add: narrow flags_honoured_def or.assoc)
    have "dp16 (take_bit 4 opc) (a_rm a) (a_rd a) = Some (Alu op True (a_rd a) (a_rd a) (OpReg (a_rm a) (THUMB_SHIFT_LSL, 0)))"
      using rdn(2) by (auto simp: dp16_def)
    with q show ?thesis by (intro computes_regI) simp_all
  qed
qed

subsection \<open>Properties\<close>

text \<open>
  C1: arithmetic and logic with an immediate.  For each of the ten operations and all register
  numbers, a successful emission of \<^verbatim>\<open>th_<op>_imm\<close> decodes, outside an IT block, to that operation
  on \<^verbatim>\<open>rd\<close>, \<^verbatim>\<open>rn\<close> and the very constant that was passed, whichever of the up to six encodings was
  chosen, and it sets the flags or leaves them alone as the caller demanded.  With PC as \<^verbatim>\<open>rn\<close> only
  ADD and SUB succeed, as the PC-relative address ADR with that offset, which leaves the flags alone.
\<close>

theorem alu_imm_roundtrip:
  assumes "state_ok st" "alu_imm op rd rn imm flags enc st = Inr (r, st')" "r \<noteq> no_opcode"
    and "rd \<le> 15" "rn \<le> 15"
  shows "computes_imm (decode r) op flags rd rn imm"
proof -
  let ?a = "args0\<lparr>a_rd := rd, a_rn := rn, a_imm := imm, a_flags := flags, a_enc := enc\<rparr>"
  obtain v where "v \<in> set (table_variants (alu_imm_table op))" "variant_result (target_feat st) v ?a = Some (Inr r)"
    using emit_variant [OF assms(1) assms(2) [unfolded alu_imm_eq] assms(3)] .
  from alu_imm_variant_decodes [OF this] assms(4,5) show ?thesis by (simp add: args_simps)
qed

theorem alu_imm_roundtrip_witness:
  "\<exists>r st'. alu_imm ALU_SUB 13 13 0x208 FLAGS_BEHAVIOUR_BLOCK ENFORCE_ENCODING_NONE mainline_state = Inr (r, st') \<and>
     r \<noteq> no_opcode \<and> decode r = Some (Alu ALU_SUB False 13 13 (OpImm 0x208))"
proof -
  let ?r = "\<lparr>op_size = 4, op_code = 0xF5AD7D02\<rparr>"
  have "emit_spec (target_feat mainline_state) (table_variants TH_SUB_IMM)
      (args0\<lparr>a_rd := 13, a_rn := 13, a_imm := 0x208, a_flags := FLAGS_BEHAVIOUR_BLOCK,
        a_enc := ENFORCE_ENCODING_NONE\<rparr>) = Inr ?r" by code_simp
  then obtain st' where "alu_imm ALU_SUB 13 13 0x208 FLAGS_BEHAVIOUR_BLOCK ENFORCE_ENCODING_NONE mainline_state = Inr (?r, st')"
    unfolding alu_imm_eq alu_imm_table_def alu_op.case by (blast dest: mainline_run)
  from this alu_imm_roundtrip [OF mainline_state_ok this] show ?thesis by (auto simp: computes_imm_def flags_honoured_def)
qed



end
