(* ===== verification/Thumb_Roundtrip_Mov.thy ===== *)
theory Thumb_Roundtrip_Mov
  imports Thumb_Roundtrip
begin

section \<open>Comparisons, moves and shifts decode to what was asked for\<close>

text \<open>
  Encoder against decoder for \<^verbatim>\<open>thop_cmp.c\<close>, \<^verbatim>\<open>thop_mov.c\<close>, \<^verbatim>\<open>thop_mvn.c\<close>,
  \<^verbatim>\<open>thop_shift_imm.c\<close> and \<^verbatim>\<open>thop_shift_reg.c\<close>.  The shift operands go through
  \<^verbatim>\<open>th_shift_imm_normalize\<close>, so the statements speak of what the shift computes and not of the
  bits that hold it.
\<close>

subsection \<open>The tables of a group\<close>

definition cmp_imm_table :: "cmp_op \<Rightarrow> thop_table" where
  "cmp_imm_table op =
     (case op of CMP_TST \<Rightarrow> TH_TST_IMM | CMP_TEQ \<Rightarrow> TH_TEQ_IMM | CMP_CMN \<Rightarrow> TH_CMN_IMM | CMP_CMP \<Rightarrow> TH_CMP_IMM)"

definition cmp_reg_table :: "cmp_op \<Rightarrow> thop_table" where
  "cmp_reg_table op =
     (case op of CMP_TST \<Rightarrow> TH_TST_REG | CMP_TEQ \<Rightarrow> TH_TEQ_REG | CMP_CMN \<Rightarrow> TH_CMN_REG | CMP_CMP \<Rightarrow> TH_CMP_REG)"

definition shift_imm_table :: "thumb_shift_type \<Rightarrow> thop_table" where
  "shift_imm_table t =
     (case t of THUMB_SHIFT_LSR \<Rightarrow> TH_LSR_IMM | THUMB_SHIFT_ASR \<Rightarrow> TH_ASR_IMM | THUMB_SHIFT_ROR \<Rightarrow> TH_ROR_IMM
      | _ \<Rightarrow> TH_LSL_IMM)"

definition shift_reg_table :: "thumb_shift_type \<Rightarrow> thop_table" where
  "shift_reg_table t =
     (case t of THUMB_SHIFT_LSR \<Rightarrow> TH_LSR_REG | THUMB_SHIFT_ASR \<Rightarrow> TH_ASR_REG | THUMB_SHIFT_ROR \<Rightarrow> TH_ROR_REG
      | _ \<Rightarrow> TH_LSL_REG)"

text \<open>A register moved or complemented after a shift.\<close>

definition moves_reg :: "(bool \<Rightarrow> operand \<Rightarrow> instr) \<Rightarrow> instr option \<Rightarrow> thumb_flags_behaviour \<Rightarrow> u32 \<Rightarrow> thumb_shift_type \<times> u32 \<Rightarrow> bool" where
  "moves_reg mk i flags rm shift \<longleftrightarrow>
     (\<exists>S sh. i = Some (mk S (OpReg rm sh)) \<and> flags_honoured flags S \<and> same_shift sh shift)"

text \<open>
  The shift of a register move: \<^verbatim>\<open>th_mov_reg\<close> normalizes the requested one and rejects it when
  out of range, but does not look at an amount given without a shift type or with RRX.
\<close>

definition mov_shifts :: "thumb_shift \<Rightarrow> (thumb_shift_type \<times> u32) set" where
  "mov_shifts s =
     (if sft_type s \<in> {THUMB_SHIFT_NONE, THUMB_SHIFT_RRX} \<and> sft_value s \<noteq> 0 then held_shifts s
      else {(sft_type s, sft_value s)})"

subsection \<open>The groups\<close>

lemma mod_imm_decodesI:
  assumes "pack_const_value imm \<noteq> 0 \<or> imm = 0"
    and "field w 27 5 = 0x1E" "field w 15 1 = 0" "field w 25 1 = 0"
    and "field w 0 8 = field (pack_const_value imm) 0 8" "field w 12 3 = field (pack_const_value imm) 12 3"
      "field w 26 1 = field (pack_const_value imm) 26 1"
  shows "decode \<lparr>op_size = 4, op_code = w\<rparr> =
    dp32 (field w 21 4) (bit w 20) (field w 16 4) (field w 8 4) (OpImm imm)"
proof -
  have "thumb_expand_imm w = imm"
    using expand_cong [OF assms(5-7)] pack_const_value_sound [OF assms(1)] by simp
  then show ?thesis using assms(2-4) by (simp add: decode_def decode32_def)
qed

subsection \<open>What the comparison shapes yield\<close>

lemma T16_CMP_IMM_result:
  assumes "variant_result tf (V THOP_SHAPE_T16_CMP_IMM base) a = Some (Inr r)"
  shows "a_rn a \<le> 7 \<and> a_imm a < 256 \<and>
    r = \<lparr>op_size = 2, op_code = base OR push_bit 8 (take_bit 3 (a_rn a)) OR take_bit 8 (a_imm a)\<rparr>"
  using assms by (simp add: shape_eval shape_simps or.assoc split: if_splits)

lemma T32_CMP_IMM_result:
  assumes "variant_result tf (V THOP_SHAPE_T32_CMP_IMM base) a = Some (Inr r)"
  shows "a_rn a \<noteq> 15 \<and> (pack_const_value (a_imm a) \<noteq> 0 \<or> a_imm a = 0) \<and>
    r = \<lparr>op_size = 4, op_code = base OR push_bit 16 (take_bit 4 (a_rn a)) OR pack_const_value (a_imm a)\<rparr>"
  using assms by (simp add: shape_eval shape_simps or.assoc split: if_splits)

lemma T16_CMP_REG_result:
  assumes "variant_result tf (V THOP_SHAPE_T16_CMP_REG base) a = Some (Inr r)"
  shows "a_rn a \<le> 7 \<and> a_rm a \<le> 7 \<and> sft_type (a_shift a) = THUMB_SHIFT_NONE \<and>
    r = \<lparr>op_size = 2, op_code = base OR take_bit 3 (a_rn a) OR push_bit 3 (take_bit 3 (a_rm a))\<rparr>"
  using assms by (simp add: shape_eval shape_simps or.assoc split: if_splits)

lemma T16_CMP_REG_T2_result:
  assumes "variant_result tf (VC THOP_SHAPE_T16_CMP_REG_T2 base CUSTOM_cmp_reg_t2_custom_emit) a = Some (Inr r)"
  shows "a_rn a \<noteq> 15 \<and> sft_type (a_shift a) = THUMB_SHIFT_NONE \<and>
    r = \<lparr>op_size = 2, op_code = base OR push_bit 7 (drop_bit 3 (a_rn a) AND 1) OR push_bit 3 (a_rm a) OR (a_rn a AND 7)\<rparr>"
  using assms by (auto simp: shape_eval shape_simps call_custom_spec_def thop_call_custom_def cmp_reg_t2_custom_emit_def or.assoc split: if_splits)

lemma T32_CMP_REG_result:
  assumes "variant_result tf (V THOP_SHAPE_T32_CMP_REG base) a = Some (Inr r)"
  shows "a_rn a \<noteq> 15 \<and>
    r = \<lparr>op_size = 4, op_code = base OR push_bit 16 (take_bit 4 (a_rn a)) OR take_bit 4 (a_rm a) OR
      push_bit 4 (take_bit 2 (th_shift_value_to_sr_type (a_shift a))) OR
      push_bit 6 (take_bit 2 (sft_value (a_shift a) AND 3)) OR
      push_bit 12 (take_bit 3 (drop_bit 2 (sft_value (a_shift a)) AND 7))\<rparr>"
  using assms by (simp add: shape_eval shape_simps or.assoc split: if_splits)

subsection \<open>What the move shapes yield\<close>

lemma MOV_REG_T1_HIGH_result:
  assumes "variant_result tf (V THOP_SHAPE_MOV_REG_T1_HIGH base) a = Some (Inr r)"
  shows "a_rd a \<noteq> 15 \<and> a_flags a \<noteq> FLAGS_BEHAVIOUR_SET \<and> sft_type (a_shift a) = THUMB_SHIFT_NONE \<and>
    r = \<lparr>op_size = 2, op_code = base OR take_bit 3 (a_rd a) OR push_bit 3 (take_bit 4 (a_rm a)) OR
      push_bit 7 (take_bit 1 (drop_bit 3 (a_rd a) AND 1)) OR take_bit 3 (a_rd a AND 7)\<rparr>"
  using assms by (simp add: shape_eval shape_simps or.assoc split: if_splits)

lemma MOV_REG_T1_SHIFT_result:
  assumes "variant_result tf (VC THOP_SHAPE_MOV_REG_T1_SHIFT base CUSTOM_mov_reg_t1_shift_emit) a = Some (Inr r)"
  shows "a_rd a < 8 \<and> a_rm a < 8 \<and> (a_flags a = FLAGS_BEHAVIOUR_SET) = (\<not> a_in_it_block a) \<and>
    sft_type (a_shift a) \<noteq> THUMB_SHIFT_RRX \<and> sft_type (a_shift a) \<noteq> THUMB_SHIFT_ROR \<and>
    r = \<lparr>op_size = 2, op_code = push_bit 11 (th_shift_value_to_sr_type (a_shift a)) OR
              push_bit 6 (sft_value (a_shift a) AND 0x1f) OR push_bit 3 (a_rm a) OR a_rd a\<rparr>"
  using assms by (auto simp: shape_eval shape_simps call_custom_spec_def thop_call_custom_def mov_reg_t1_shift_emit_def or.assoc split: if_splits)

lemma MOV_REG_T3_result:
  assumes "variant_result tf (V THOP_SHAPE_MOV_REG_T3 base) a = Some (Inr r)"
  shows "r = \<lparr>op_size = 4, op_code = base OR push_bit 8 (take_bit 4 (a_rd a)) OR push_bit 16 (take_bit 4 (a_rn a)) OR
      take_bit 4 (a_rm a) OR push_bit 20 (of_bool (a_flags a = FLAGS_BEHAVIOUR_SET)) OR
      push_bit 4 (take_bit 2 (th_shift_value_to_sr_type (a_shift a))) OR
      push_bit 6 (take_bit 2 (sft_value (a_shift a) AND 3)) OR
      push_bit 12 (take_bit 3 (drop_bit 2 (sft_value (a_shift a)) AND 7))\<rparr>"
  using assms by (simp add: shape_eval shape_simps or.assoc split: if_splits)

lemma MOV_IMM_T1_result:
  assumes "variant_result tf (VC THOP_SHAPE_MOV_IMM_T1 base CUSTOM_mov_imm_t1_emit) a = Some (Inr r)"
  shows "a_rd a \<le> 7 \<and> a_imm a \<le> 255 \<and> a_flags a \<noteq> FLAGS_BEHAVIOUR_BLOCK \<and>
    r = \<lparr>op_size = 2, op_code = base OR push_bit 8 (a_rd a) OR a_imm a\<rparr>"
  using assms by (auto simp: shape_eval shape_simps call_custom_spec_def thop_call_custom_def mov_imm_t1_emit_def or.assoc split: if_splits)

lemma MOV_IMM_T3_result:
  assumes "variant_result tf (V THOP_SHAPE_MOV_IMM_T3 base) a = Some (Inr r)"
  shows "(pack_const_value (a_imm a) \<noteq> 0 \<or> a_imm a = 0) \<and>
    r = \<lparr>op_size = 4, op_code = base OR push_bit 8 (take_bit 4 (a_rd a)) OR pack_const_value (a_imm a) OR
      push_bit 20 (of_bool (a_flags a = FLAGS_BEHAVIOUR_SET))\<rparr>"
  using assms by (simp add: shape_eval shape_simps or.assoc split: if_splits)

lemma MOVW_result:
  assumes "variant_result tf (V THOP_SHAPE_MOV_IMM_T4 base) a = Some (Inr r) \<or>
    variant_result tf (V THOP_SHAPE_MOVT base) a = Some (Inr r)"
  shows "a_imm a \<le> 0xFFFF \<and> a_flags a \<noteq> FLAGS_BEHAVIOUR_SET \<and>
    r = \<lparr>op_size = 4, op_code = base OR push_bit 8 (take_bit 4 (a_rd a)) OR th_packimm_3_8_1 (a_imm a)\<rparr>"
  using assms by (elim disjE; simp add: shape_eval shape_simps or.assoc split: if_splits)

lemma MVN_REG_T1_result:
  assumes "variant_result tf (V THOP_SHAPE_MVN_REG_T1 base) a = Some (Inr r)"
  shows "a_rd a \<le> 7 \<and> a_rm a \<le> 7 \<and> a_flags a \<noteq> FLAGS_BEHAVIOUR_BLOCK \<and> sft_type (a_shift a) = THUMB_SHIFT_NONE \<and>
    r = \<lparr>op_size = 2, op_code = base OR take_bit 3 (a_rd a) OR push_bit 3 (take_bit 3 (a_rm a))\<rparr>"
  using assms by (simp add: shape_eval shape_simps or.assoc split: if_splits)

lemma MVN_REG_T3_result:
  assumes "variant_result tf (V THOP_SHAPE_MVN_REG_T3 base) a = Some (Inr r)"
  shows "a_rd a \<noteq> 15 \<and>
    r = \<lparr>op_size = 4, op_code = base OR push_bit 8 (take_bit 4 (a_rd a)) OR push_bit 16 (take_bit 4 (a_rn a)) OR
      take_bit 4 (a_rm a) OR push_bit 20 (of_bool (a_flags a = FLAGS_BEHAVIOUR_SET)) OR
      push_bit 4 (take_bit 2 (th_shift_value_to_sr_type (a_shift a))) OR
      push_bit 6 (take_bit 2 (sft_value (a_shift a) AND 3)) OR
      push_bit 12 (take_bit 3 (drop_bit 2 (sft_value (a_shift a)) AND 7))\<rparr>"
  using assms by (simp add: shape_eval shape_simps or.assoc split: if_splits)

lemma MVN_IMM_result:
  assumes "variant_result tf (VC THOP_SHAPE_MVN_IMM_T3 base CUSTOM_mvn_imm_emit) a = Some (Inr r)"
  shows "(pack_const_value (a_imm a) \<noteq> 0 \<or> a_imm a = 0) \<and>
    r = \<lparr>op_size = 4, op_code = base OR push_bit 20 (of_bool (a_flags a = FLAGS_BEHAVIOUR_SET)) OR
      push_bit 8 (a_rd a) OR pack_const_value (a_imm a)\<rparr>"
  using assms by (auto simp: shape_eval shape_simps call_custom_spec_def or.assoc split: if_splits)

subsection \<open>What the shift shapes yield\<close>

lemma T16_SHIFT_IMM_result:
  assumes "variant_result tf (V THOP_SHAPE_T16_SHIFT_IMM base) a = Some (Inr r)"
  shows "a_rd a \<le> 7 \<and> a_rm a \<le> 7 \<and> a_imm a < 32 \<and> a_flags a \<noteq> FLAGS_BEHAVIOUR_BLOCK \<and>
    r = \<lparr>op_size = 2, op_code = base OR take_bit 3 (a_rd a) OR push_bit 3 (take_bit 3 (a_rm a)) OR push_bit 6 (take_bit 5 (a_imm a)) OR
      push_bit 11 (take_bit 2 (th_shift_value_to_sr_type (a_shift a)))\<rparr>"
  using assms by (simp add: shape_eval shape_simps or.assoc split: if_splits)

lemma T32_SHIFT_IMM_result:
  assumes "variant_result tf (V THOP_SHAPE_T32_SHIFT_IMM base) a = Some (Inr r)"
  shows "a_rd a \<noteq> 15 \<and>
    r = \<lparr>op_size = 4, op_code = base OR push_bit 8 (take_bit 4 (a_rd a)) OR 
      take_bit 4 (a_rm a) OR push_bit 20 (of_bool (a_flags a = FLAGS_BEHAVIOUR_SET)) OR
      push_bit 4 (take_bit 2 (th_shift_value_to_sr_type (a_shift a))) OR
      push_bit 6 (take_bit 2 (sft_value (a_shift a) AND 3)) OR
      push_bit 12 (take_bit 3 (drop_bit 2 (sft_value (a_shift a)) AND 7))\<rparr>"
  using assms by (simp add: shape_eval shape_simps or.assoc split: if_splits)

lemma T16_SHIFT_REG_result:
  assumes "variant_result tf (VC THOP_SHAPE_T16_SHIFT_REG base CUSTOM_shift_reg_t1_emit) a = Some (Inr r)"
  shows "a_rd a \<le> 7 \<and> a_rm a \<le> 7 \<and> a_rn a = a_rd a \<and> a_flags a \<noteq> FLAGS_BEHAVIOUR_BLOCK \<and>
    r = \<lparr>op_size = 2, op_code = base OR push_bit 3 (a_rm a) OR (a_rd a AND 7)\<rparr>"
  using assms by (auto simp: shape_eval shape_simps call_custom_spec_def thop_call_custom_def shift_reg_t1_emit_def or.assoc split: if_splits)

lemma T32_SHIFT_REG_result:
  assumes "variant_result tf (V THOP_SHAPE_T32_SHIFT_REG base) a = Some (Inr r)"
  shows "r = \<lparr>op_size = 4, op_code = base OR push_bit 8 (take_bit 4 (a_rd a)) OR push_bit 16 (take_bit 4 (a_rn a)) OR
      take_bit 4 (a_rm a) OR push_bit 20 (of_bool (a_flags a = FLAGS_BEHAVIOUR_SET))\<rparr>"
  using assms by (simp add: shape_eval shape_simps or.assoc split: if_splits)

lemma MOV_REG_SHIFT_T1_result:
  assumes "variant_result tf (VC THOP_SHAPE_MOV_REG_SHIFT_T1 base CUSTOM_mov_reg_shift_t1_emit) a = Some (Inr r)"
  shows "\<exists>opc. th_shift_type_to_op (a_shift a) = Inr opc \<and> a_rd a = a_rm a \<and> a_rd a \<le> 7 \<and> a_ra a \<le> 7 \<and>
     a_flags a \<noteq> FLAGS_BEHAVIOUR_BLOCK \<and>
     r = \<lparr>op_size = 2, op_code = 0x4000 OR push_bit 3 (a_ra a) OR push_bit 6 opc OR a_rd a\<rparr>"
  using assms by (auto simp: shape_eval shape_simps call_custom_spec_def thop_call_custom_def mov_reg_shift_t1_emit_def or.assoc
    split: if_splits sum.splits)

lemma MOV_REG_SHIFT_T3_result:
  assumes "variant_result tf (V THOP_SHAPE_MOV_REG_SHIFT_T3 base) a = Some (Inr r)"
  shows "r = \<lparr>op_size = 4, op_code = base OR push_bit 8 (take_bit 4 (a_rd a)) OR push_bit 16 (take_bit 4 (a_rm a)) OR
      take_bit 4 (a_ra a) OR push_bit 20 (of_bool (a_flags a = FLAGS_BEHAVIOUR_SET)) OR
      push_bit 21 (take_bit 2 (th_shift_value_to_sr_type (a_shift a)))\<rparr> \<and>
      sft_type (a_shift a) \<noteq> THUMB_SHIFT_RRX"
  using assms by (cases "sft_type (a_shift a)") (simp_all add: shape_eval shape_simps or.assoc split: if_splits)

subsection \<open>Decoding\<close>

lemma field_flag [word_fields]:
  "k < s \<Longrightarrow> field (push_bit k (of_bool S)) s n = 0"
  "bit (push_bit k (of_bool S :: u32)) i \<longleftrightarrow> i < 32 \<and> i = k \<and> S"
  using field_below [of k 1 s "of_bool S" n] by (auto simp: bit_simps)

lemma reg_shift_decodesI:
  assumes "field w 27 5 = 0x1D" "field w 25 2 = 1" "field w 15 1 = 0"
  shows "decode \<lparr>op_size = 4, op_code = w\<rparr> =
    dp32 (field w 21 4) (bit w 20) (field w 16 4) (field w 8 4)
      (OpReg (field w 0 4) (decode_imm_shift (field w 4 2) (push_bit 2 (field w 12 3) OR field w 6 2)))"
  using assms by (simp add: decode_def decode32_def)

lemma cmp_imm_decodes:
  assumes "pack_const_value imm \<noteq> 0 \<or> imm = 0"
  shows "decode \<lparr>op_size = 4, op_code = (0xF0100F00 OR push_bit 21 (take_bit 4 opc)) OR push_bit 16 (take_bit 4 rn) OR pack_const_value imm\<rparr> =
    dp32 (take_bit 4 opc) True (take_bit 4 rn) 15 (OpImm imm)"
  by (subst mod_imm_decodesI [OF assms]) (simp_all add: word_fields bit_simps)

lemma cmp_reg_decodes:
  "decode \<lparr>op_size = 4, op_code = (0xEA100F00 OR push_bit 21 (take_bit 4 opc)) OR push_bit 16 (take_bit 4 rn) OR take_bit 4 rm OR
      push_bit 4 (take_bit 2 sr) OR push_bit 6 (take_bit 2 p) OR push_bit 12 (take_bit 3 q)\<rparr> =
    dp32 (take_bit 4 opc) True (take_bit 4 rn) 15
      (OpReg (take_bit 4 rm) (decode_imm_shift (take_bit 2 sr) (push_bit 2 (take_bit 3 q) OR take_bit 2 p)))"
  by (subst reg_shift_decodesI) (simp_all add: word_fields bit_simps)

lemma mov_imm_decodes:
  assumes "pack_const_value imm \<noteq> 0 \<or> imm = 0"
  shows "decode \<lparr>op_size = 4, op_code = 0xf04f0000 OR push_bit 8 (take_bit 4 rd) OR pack_const_value imm OR push_bit 20 (of_bool S)\<rparr> =
    Some (Mov S (take_bit 4 rd) (OpImm imm))"
  by (subst mod_imm_decodesI [OF assms]) (simp_all add: word_fields bit_simps dp32_def)

lemma mvn_imm_decodes:
  assumes "pack_const_value imm \<noteq> 0 \<or> imm = 0"
  shows "decode \<lparr>op_size = 4, op_code = 0xf06f0000 OR push_bit 20 (of_bool S) OR push_bit 8 (take_bit 4 rd) OR pack_const_value imm\<rparr> =
    Some (Mvn S (take_bit 4 rd) (OpImm imm))"
  by (subst mod_imm_decodesI [OF assms]) (simp_all add: word_fields bit_simps dp32_def)

lemma or_15: "15 OR take_bit 4 x = (15 :: u32)"
proof -
  have "mask 4 OR take_bit 4 x = mask 4" by (rule bit_word_eqI) (auto simp: bit_simps)
  then show ?thesis by (simp add: mask_eq_exp_minus_1)
qed

lemma mov_reg_decodes:
  "decode \<lparr>op_size = 4, op_code = 0xea4f0000 OR push_bit 8 (take_bit 4 rd) OR push_bit 16 (take_bit 4 rn) OR take_bit 4 rm OR
      push_bit 20 (of_bool S) OR
      push_bit 4 (take_bit 2 sr) OR push_bit 6 (take_bit 2 p) OR push_bit 12 (take_bit 3 q)\<rparr> =
    Some (Mov S (take_bit 4 rd) (OpReg (take_bit 4 rm) (decode_imm_shift (take_bit 2 sr) (push_bit 2 (take_bit 3 q) OR take_bit 2 p))))"
  "decode \<lparr>op_size = 4, op_code = 0xea6f0000 OR push_bit 8 (take_bit 4 rd) OR push_bit 16 (take_bit 4 rn) OR take_bit 4 rm OR
      push_bit 20 (of_bool S) OR
      push_bit 4 (take_bit 2 sr) OR push_bit 6 (take_bit 2 p) OR push_bit 12 (take_bit 3 q)\<rparr> =
    Some (Mvn S (take_bit 4 rd) (OpReg (take_bit 4 rm) (decode_imm_shift (take_bit 2 sr) (push_bit 2 (take_bit 3 q) OR take_bit 2 p))))"
  by (subst reg_shift_decodesI; simp add: word_fields bit_simps or_15 dp32_def)+

lemma shift_imm_decodes:
  "decode \<lparr>op_size = 4, op_code = 0xEA4F0000 OR push_bit 8 (take_bit 4 rd) OR take_bit 4 rm OR
      push_bit 20 (of_bool S) OR
      push_bit 4 (take_bit 2 sr) OR push_bit 6 (take_bit 2 p) OR push_bit 12 (take_bit 3 q)\<rparr> =
    Some (Mov S (take_bit 4 rd) (OpReg (take_bit 4 rm) (decode_imm_shift (take_bit 2 sr) (push_bit 2 (take_bit 3 q) OR take_bit 2 p))))"
  by (subst reg_shift_decodesI; simp add: word_fields bit_simps dp32_def)

lemma imm16_pack:
  "push_bit 12 (field x 12 4) OR push_bit 11 (field x 11 1) OR push_bit 8 (field x 8 3) OR field x 0 8 = take_bit 16 (x :: u32)"
  by (simp add: field_def bits32)

lemma movw_decodes:
  "decode \<lparr>op_size = 4, op_code = 0xf2400000 OR push_bit 8 (take_bit 4 rd) OR th_packimm_3_8_1 x\<rparr> =
     Some (Movw (take_bit 4 rd) (take_bit 16 x))"
  "decode \<lparr>op_size = 4, op_code = 0xf2c00000 OR push_bit 8 (take_bit 4 rd) OR th_packimm_3_8_1 x\<rparr> =
     Some (Movt (take_bit 4 rd) (take_bit 16 x))"
  by (simp_all add: decode_def decode32_def plain32_def Let_def unpack_3_8_1_def word_fields flip: imm16_pack)

lemma mov16_decodes:
  "decode \<lparr>op_size = 2, op_code = 0x2000 OR push_bit 8 (take_bit 3 rd) OR take_bit 8 imm\<rparr> =
     Some (Mov True (take_bit 3 rd) (OpImm (take_bit 8 imm)))"
  "decode \<lparr>op_size = 2, op_code = 0x2800 OR push_bit 8 (take_bit 3 rd) OR take_bit 8 imm\<rparr> =
     Some (Cmp CMP_CMP (take_bit 3 rd) (OpImm (take_bit 8 imm)))"
  by (simp_all add: decode_def decode16_def shift_add16_def Let_def word_fields)

lemma shift16_decodes:
  "take_bit 2 sr \<noteq> 3 \<Longrightarrow>
   decode \<lparr>op_size = 2, op_code = take_bit 3 rd OR push_bit 3 (take_bit 3 rm) OR push_bit 6 (take_bit 5 v) OR push_bit 11 (take_bit 2 sr)\<rparr> =
     Some (Mov True (take_bit 3 rd) (OpReg (take_bit 3 rm) (decode_imm_shift (take_bit 2 sr) (take_bit 5 v))))"
  by (simp add: decode_def decode16_def shift_add16_def Let_def word_fields)

lemma special16_cmp_decodes:
  "decode \<lparr>op_size = 2, op_code = 0x4500 OR push_bit 7 (take_bit 1 d) OR push_bit 3 (take_bit 4 rm) OR take_bit 3 rn\<rparr> =
     Some (Cmp CMP_CMP (push_bit 3 (take_bit 1 d) OR take_bit 3 rn) (OpReg (take_bit 4 rm) (THUMB_SHIFT_LSL, 0)))"
  "decode \<lparr>op_size = 2, op_code = 0x4600 OR take_bit 3 rn OR push_bit 3 (take_bit 4 rm) OR push_bit 7 (take_bit 1 d) OR take_bit 3 rn\<rparr> =
     Some (Mov False (push_bit 3 (take_bit 1 d) OR take_bit 3 rn) (OpReg (take_bit 4 rm) (THUMB_SHIFT_LSL, 0)))"
proof -
  define w1 where "w1 = 0x4500 OR push_bit 7 (take_bit 1 d) OR push_bit 3 (take_bit 4 rm) OR take_bit 3 rn"
  define w2 where "w2 = 0x4600 OR take_bit 3 rn OR push_bit 3 (take_bit 4 rm) OR push_bit 7 (take_bit 1 d) OR take_bit 3 rn"
  have f: "field w1 14 2 = 1" "field w1 12 4 = 4" "field w1 11 1 = 0" "field w1 10 1 = 1" "field w1 8 2 = 1"
     "field w1 3 4 = take_bit 4 rm" "field w1 7 1 = take_bit 1 d" "field w1 0 3 = take_bit 3 rn"
     "field w2 14 2 = 1" "field w2 12 4 = 4" "field w2 11 1 = 0" "field w2 10 1 = 1" "field w2 8 2 = 2"
     "field w2 3 4 = take_bit 4 rm" "field w2 7 1 = take_bit 1 d" "field w2 0 3 = take_bit 3 rn"
    unfolding w1_def w2_def by (simp only: word_fields, simp add: word_fields)+
  show "decode \<lparr>op_size = 2, op_code = w1\<rparr> = Some (Cmp CMP_CMP (push_bit 3 (take_bit 1 d) OR take_bit 3 rn) (OpReg (take_bit 4 rm) (THUMB_SHIFT_LSL, 0)))"
   "decode \<lparr>op_size = 2, op_code = w2\<rparr> = Some (Mov False (push_bit 3 (take_bit 1 d) OR take_bit 3 rn) (OpReg (take_bit 4 rm) (THUMB_SHIFT_LSL, 0)))"
    unfolding decode_def decode16_def special16_def Let_def by (simp_all only: thumb_opcode.select_convs f) simp_all
qed

lemma shift_reg_decodes:
  "decode \<lparr>op_size = 4, op_code = (0xFA00F000 OR push_bit 21 (take_bit 2 sr)) OR push_bit 8 (take_bit 4 rd) OR push_bit 16 (take_bit 4 rn) OR
      take_bit 4 rm OR push_bit 20 (of_bool S)\<rparr> =
   Some (ShiftReg (if take_bit 2 sr = 0 then THUMB_SHIFT_LSL else if take_bit 2 sr = 1 then THUMB_SHIFT_LSR
      else if take_bit 2 sr = 2 then THUMB_SHIFT_ASR else THUMB_SHIFT_ROR) S (take_bit 4 rd) (take_bit 4 rn) (take_bit 4 rm))"
  by (simp add: decode_def decode32_def shift_reg32_def word_fields bit_simps)

lemma and_masks: "(x::u32) AND 1 = take_bit 1 x" "(x::u32) AND 3 = take_bit 2 x" "(x::u32) AND 7 = take_bit 3 x"
  "(x::u32) AND 31 = take_bit 5 x"
  by (simp_all add: take_bit_eq_mask mask_eq_exp_minus_1)

lemma narrow_less8: "(x::u32) < 8 \<Longrightarrow> x \<le> 7" by uint_arith

lemma flags_exact [simp]: "flags_honoured f (f = FLAGS_BEHAVIOUR_SET)"
  by (simp add: flags_honoured_def)

lemma moves_regI:
  "i = Some (mk S (OpReg rm sh)) \<Longrightarrow> flags_honoured flags S \<Longrightarrow> same_shift sh shift \<Longrightarrow> moves_reg mk i flags rm shift"
  unfolding moves_reg_def by blast

lemma moves_reg_heldI:
  "i = Some (mk S (OpReg rm sh)) \<Longrightarrow> flags_honoured flags S \<Longrightarrow> \<exists>s \<in> X. same_shift sh s \<Longrightarrow>
   \<exists>s \<in> X. moves_reg mk i flags rm s"
  unfolding moves_reg_def by blast

subsection \<open>Comparisons\<close>

lemma cmp_imm_eq: "cmp_imm op rn imm flags enc = thop_emit_table (cmp_imm_table op)
   (args0\<lparr>a_rd := 0xf, a_rn := rn, a_imm := imm, a_flags := flags, a_enc := enc\<rparr>)"
  by (cases op) (simp_all add: cmp_imm_def cmp_imm_table_def THOP_CMP_IMM_FN_def thop_cmp_imm_def th_cmp_imm_def
    th_cmn_imm_def th_tst_imm_def th_teq_imm_def)

lemma cmp_reg_eq: "cmp_reg op rn rm flags shift enc = thop_emit_table (cmp_reg_table op)
   (args0\<lparr>a_rd := 0xf, a_rn := rn, a_rm := rm, a_flags := flags, a_shift := shift, a_enc := enc\<rparr>)"
  by (cases op) (simp_all add: cmp_reg_def cmp_reg_table_def THOP_CMP_REG_FN_def thop_cmp_reg_def th_cmp_reg_def
    th_cmn_reg_def th_tst_reg_def th_teq_reg_def)

lemma cmp_imm_variants:
  "v \<in> set (table_variants (cmp_imm_table op)) \<Longrightarrow>
     v = V THOP_SHAPE_T32_CMP_IMM (0xF0100F00 OR push_bit 21 (take_bit 4 (cmp_opc op))) \<or>
     v = V THOP_SHAPE_T16_CMP_IMM 0x2800 \<and> op = CMP_CMP"
  by (cases op) (auto simp add: cmp_imm_table_def table_variants_def table_simps TH_TABLE_def)

lemma cmp_reg_variants:
  "v \<in> set (table_variants (cmp_reg_table op)) \<Longrightarrow>
     v = V THOP_SHAPE_T32_CMP_REG (0xEA100F00 OR push_bit 21 (take_bit 4 (cmp_opc op))) \<or>
     v = VC THOP_SHAPE_T16_CMP_REG_T2 0x4500 CUSTOM_cmp_reg_t2_custom_emit \<and> op = CMP_CMP \<or>
     (\<exists>opc. v = V THOP_SHAPE_T16_CMP_REG (0x4000 OR push_bit 6 (take_bit 4 opc)) \<and>
        (opc, op) \<in> {(8, CMP_TST), (10, CMP_CMP), (11, CMP_CMN)})"
  by (cases op) (auto simp add: cmp_reg_table_def table_variants_def table_simps TH_TABLE_def)

lemma cmp_imm_variant_decodes:
  assumes v: "v \<in> set (table_variants (cmp_imm_table op))" and r: "variant_result tf v a = Some (Inr r)"
    and rn: "a_rn a \<le> 15"
  shows "decode r = Some (Cmp op (a_rn a) (OpImm (a_imm a)))"
  using cmp_imm_variants [OF v]
proof
  assume "v = V THOP_SHAPE_T32_CMP_IMM (0xF0100F00 OR push_bit 21 (take_bit 4 (cmp_opc op)))"
  from T32_CMP_IMM_result [OF r [unfolded this]] cmp_imm_decodes [of "a_imm a" "cmp_opc op" "a_rn a"] rn
  show ?thesis by (simp add: narrow dp32_cmp or.assoc)
next
  assume "v = V THOP_SHAPE_T16_CMP_IMM 0x2800 \<and> op = CMP_CMP"
  with T16_CMP_IMM_result [of tf "0x2800" a r] r mov16_decodes(2) [of "a_rn a" "a_imm a"]
  show ?thesis by (simp add: narrow)
qed

lemma cmp_reg_variant_decodes:
  assumes v: "v \<in> set (table_variants (cmp_reg_table op))" and r: "variant_result tf v a = Some (Inr r)"
    and regs: "a_rn a \<le> 15" "a_rm a \<le> 15"
  shows "\<exists>sh' \<in> operand_shifts (a_shift a). \<exists>sh. decode r = Some (Cmp op (a_rn a) (OpReg (a_rm a) sh)) \<and> same_shift sh sh'"
proof -
  let ?s = "decoded_shift (a_shift a)"
  have *: "decode r = Some (Cmp op (a_rn a) (OpReg (a_rm a) sh)) \<Longrightarrow>
     \<exists>sh' \<in> operand_shifts (a_shift a). same_shift sh sh' \<Longrightarrow> ?thesis" for sh by blast
  consider (t32) "v = V THOP_SHAPE_T32_CMP_REG (0xEA100F00 OR push_bit 21 (take_bit 4 (cmp_opc op)))"
    | (t2) "v = VC THOP_SHAPE_T16_CMP_REG_T2 0x4500 CUSTOM_cmp_reg_t2_custom_emit" "op = CMP_CMP"
    | (t1) opc where "v = V THOP_SHAPE_T16_CMP_REG (0x4000 OR push_bit 6 (take_bit 4 opc))"
        "(opc, op) \<in> {(8, CMP_TST), (10, CMP_CMP), (11, CMP_CMN)}"
    using cmp_reg_variants [OF v] by blast
  then show ?thesis
  proof cases
    case t32
    have "decode r = dp32 (take_bit 4 (cmp_opc op)) True (take_bit 4 (a_rn a)) 15 (OpReg (take_bit 4 (a_rm a)) ?s)"
      using T32_CMP_REG_result [OF r [unfolded t32]] by (simp only: cmp_reg_decodes imm5_pack)
    then have "decode r = Some (Cmp op (a_rn a) (OpReg (a_rm a) ?s))" by (simp only: narrow regs dp32_cmp)
    then show ?thesis by (rule *) (rule shift_held)
  next
    case t2
    note q = T16_CMP_REG_T2_result [OF r [unfolded t2(1)]]
    have "push_bit 3 (a_rm a) = push_bit 3 (take_bit 4 (a_rm a))" using regs by (simp add: narrow)
    then have "decode r = Some (Cmp op (take_bit 4 (a_rn a)) (OpReg (take_bit 4 (a_rm a)) (THUMB_SHIFT_LSL, 0)))"
      using q t2(2) by (simp only: and_masks special16_cmp_decodes high_reg)
    then show ?thesis using q no_shift_held [of "a_shift a"] regs by (intro *) (simp_all add: narrow)
  next
    case t1
    note q = T16_CMP_REG_result [OF r [unfolded t1(1)]]
    have "decode r = dp16 (take_bit 4 opc) (a_rm a) (a_rn a)"
      using q dp16_decodes [of opc "a_rn a" "a_rm a"] by (simp add: narrow or.assoc)
    also have "\<dots> = Some (Cmp op (a_rn a) (OpReg (a_rm a) (THUMB_SHIFT_LSL, 0)))"
      using t1(2) by (auto simp: dp16_def)
    finally show ?thesis using q no_shift_held [of "a_shift a"] by (intro *) simp_all
  qed
qed

subsection \<open>Moves\<close>

lemma mov_imm_variant_decodes:
  assumes v: "v \<in> set (table_variants TH_MOV_IMM)" and r: "variant_result tf v a = Some (Inr r)"
    and rd: "a_rd a \<le> 15"
  shows "(\<exists>S. decode r = Some (Mov S (a_rd a) (OpImm (a_imm a))) \<and> flags_honoured (a_flags a) S) \<or>
     decode r = Some (Movw (a_rd a) (a_imm a)) \<and> flags_honoured (a_flags a) False"
proof -
  consider (t1) "v = VC THOP_SHAPE_MOV_IMM_T1 0x2000 CUSTOM_mov_imm_t1_emit" | (t3) "v = V THOP_SHAPE_MOV_IMM_T3 0xf04f0000"
    | (t4) "v = V THOP_SHAPE_MOV_IMM_T4 0xf2400000"
    using v by (auto simp add: table_variants_def table_simps TH_TABLE_def)
  then show ?thesis
  proof cases
    case t1
    with MOV_IMM_T1_result [OF r [unfolded t1]] mov16_decodes(1) [of "a_rd a" "a_imm a"]
    show ?thesis by (intro disjI1 exI [of _ True]) (simp add: narrow flags_honoured_def)
  next
    case t3
    with MOV_IMM_T3_result [OF r [unfolded t3]] mov_imm_decodes [of "a_imm a" "a_rd a" "a_flags a = FLAGS_BEHAVIOUR_SET"] rd
    show ?thesis by (simp add: narrow flags_honoured_def)
  next
    case t4
    note q = MOVW_result [OF disjI1, OF r [unfolded t4]]
    then have "a_imm a < 65536" by (auto simp: word_le_nat_alt word_less_nat_alt)
    with q movw_decodes(1) [of "a_rd a" "a_imm a"] rd show ?thesis by (simp add: narrow flags_honoured_def)
  qed
qed

lemma mov_reg_variant_decodes:
  assumes v: "v \<in> set (table_variants TH_MOV_REG)" and r: "variant_result tf v a = Some (Inr r)"
    and regs: "a_rd a \<le> 15" "a_rm a \<le> 15"
    and sh: "\<exists>s \<in> X. same_shift (decoded_shift (a_shift a)) s"
    and none: "sft_type (a_shift a) = THUMB_SHIFT_NONE \<Longrightarrow> \<exists>s \<in> X. same_shift (THUMB_SHIFT_LSL, 0) s"
  shows "\<exists>s \<in> X. moves_reg (\<lambda>S. Mov S (a_rd a)) (decode_at (a_in_it_block a) r) (a_flags a) (a_rm a) s"
proof -
  consider (t1) "v = V THOP_SHAPE_MOV_REG_T1_HIGH 0x4600" | (t2) "v = VC THOP_SHAPE_MOV_REG_T1_SHIFT 0 CUSTOM_mov_reg_t1_shift_emit"
    | (t3) "v = V THOP_SHAPE_MOV_REG_T3 0xea4f0000"
    using v by (auto simp add: table_variants_def table_simps TH_TABLE_def)
  then show ?thesis
  proof cases
    case t1
    note q = MOV_REG_T1_HIGH_result [OF r [unfolded t1]]
    have "take_bit 1 (drop_bit 3 (a_rd a) AND 1) = take_bit 1 (drop_bit 3 (a_rd a))" "take_bit 3 (a_rd a AND 7) = take_bit 3 (a_rd a)"
      by (simp_all only: and_masks take_bit_take_bit) simp_all
    then have "decode r = Some (Mov False (take_bit 4 (a_rd a)) (OpReg (take_bit 4 (a_rm a)) (THUMB_SHIFT_LSL, 0)))"
      using q by (simp only: special16_cmp_decodes high_reg)
    then show ?thesis using q none regs
      by (intro moves_reg_heldI [where S = False and sh = "(THUMB_SHIFT_LSL, 0)"]) (simp_all add: narrow flags_honoured_def decode_at_def)
  next
    case t2
    note q = MOV_REG_T1_SHIFT_result [OF r [unfolded t2]]
    let ?sr = "th_shift_value_to_sr_type (a_shift a)" and ?v = "sft_value (a_shift a)"
    have "?sr \<noteq> 3" using q by (cases "sft_type (a_shift a)") (simp_all add: th_shift_value_to_sr_type_def)
    moreover have "op_code r = take_bit 3 (a_rd a) OR push_bit 3 (take_bit 3 (a_rm a)) OR push_bit 6 (take_bit 5 ?v) OR push_bit 11 (take_bit 2 ?sr)"
      using q by (simp add: narrow narrow_less8 sr_type_take_bit and_masks ac_simps)
    ultimately have "decode r = Some (Mov True (take_bit 3 (a_rd a)) (OpReg (take_bit 3 (a_rm a)) (decode_imm_shift (take_bit 2 ?sr) (take_bit 5 ?v))))"
      using q shift16_decodes [of ?sr "a_rd a" "a_rm a" ?v] by (simp add: sr_type_take_bit)
    then have "decode_at (a_in_it_block a) r = Some (Mov (\<not> a_in_it_block a) (a_rd a) (OpReg (a_rm a) (decoded_shift (a_shift a))))"
      using q by (simp add: decode_at_def narrow narrow_less8 and_masks)
    then show ?thesis using q sh by (intro moves_reg_heldI) (auto simp: flags_honoured_def)
  next
    case t3
    from MOV_REG_T3_result [OF r [unfolded t3]] have "decode r = Some (Mov (a_flags a = FLAGS_BEHAVIOUR_SET) (take_bit 4 (a_rd a)) (OpReg (take_bit 4 (a_rm a))
         (decode_imm_shift (take_bit 2 (th_shift_value_to_sr_type (a_shift a))) (sft_value (a_shift a) AND 31))))"
      by (simp only: mov_reg_decodes imm5_pack)
    moreover have "op_size r = 4" using MOV_REG_T3_result [OF r [unfolded t3]] by simp
    ultimately show ?thesis using sh regs
      by (intro moves_reg_heldI [where S = "a_flags a = FLAGS_BEHAVIOUR_SET"]) (simp_all add: narrow decode_at_def)
  qed
qed

lemma mvn_reg_variant_decodes:
  assumes v: "v \<in> set (table_variants TH_MVN_REG)" and r: "variant_result tf v a = Some (Inr r)"
    and regs: "a_rd a \<le> 15" "a_rm a \<le> 15"
  shows "\<exists>s \<in> operand_shifts (a_shift a). moves_reg (\<lambda>S. Mvn S (a_rd a)) (decode r) (a_flags a) (a_rm a) s"
proof -
  consider (t1) "v = V THOP_SHAPE_MVN_REG_T1 0x43c0" | (t3) "v = V THOP_SHAPE_MVN_REG_T3 0xea6f0000"
    using v by (auto simp add: table_variants_def table_simps TH_TABLE_def)
  then show ?thesis
  proof cases
    case t1
    note q = MVN_REG_T1_result [OF r [unfolded t1]]
    then have "decode r = Some (Mvn True (a_rd a) (OpReg (a_rm a) (THUMB_SHIFT_LSL, 0)))"
      using dp16_decodes [of 15 "a_rd a" "a_rm a"] by (simp add: narrow dp16_def flip: or.assoc)
    then show ?thesis using q no_shift_held [of "a_shift a"] by (intro moves_reg_heldI [where S = True]) (simp_all add: flags_honoured_def)
  next
    case t3
    from MVN_REG_T3_result [OF r [unfolded t3]] have "decode r = Some (Mvn (a_flags a = FLAGS_BEHAVIOUR_SET) (take_bit 4 (a_rd a)) (OpReg (take_bit 4 (a_rm a))
         (decode_imm_shift (take_bit 2 (th_shift_value_to_sr_type (a_shift a))) (sft_value (a_shift a) AND 31))))"
      by (simp only: mov_reg_decodes imm5_pack)
    then show ?thesis using shift_held [of "a_shift a"] regs by (intro moves_reg_heldI [where S = "a_flags a = FLAGS_BEHAVIOUR_SET"]) (simp_all add: narrow)
  qed
qed

lemma mvn_imm_variant_decodes:
  assumes v: "v \<in> set (table_variants TH_MVN_IMM)" and r: "variant_result tf v a = Some (Inr r)" and rd: "a_rd a \<le> 15"
  shows "\<exists>S. decode r = Some (Mvn S (a_rd a) (OpImm (a_imm a))) \<and> flags_honoured (a_flags a) S"
proof -
  have "v = VC THOP_SHAPE_MVN_IMM_T3 0xf06f0000 CUSTOM_mvn_imm_emit"
    using v by (auto simp add: table_variants_def table_simps TH_TABLE_def)
  with MVN_IMM_result [of tf "0xf06f0000" a r] r mvn_imm_decodes [of "a_imm a" "a_flags a = FLAGS_BEHAVIOUR_SET" "a_rd a"] rd
  show ?thesis by (simp add: narrow flags_honoured_def)
qed

subsection \<open>Shifts\<close>

lemma shift_imm_variants:
  "v \<in> set (table_variants (shift_imm_table t)) \<Longrightarrow>
     v = V THOP_SHAPE_T32_SHIFT_IMM 0xEA4F0000 \<or> v = V THOP_SHAPE_T16_SHIFT_IMM 0 \<and> t \<noteq> THUMB_SHIFT_ROR"
  by (cases t) (auto simp add: shift_imm_table_def table_variants_def table_simps TH_TABLE_def)

lemma shift_imm_variant_decodes:
  assumes v: "v \<in> set (table_variants (shift_imm_table t))" and r: "variant_result tf v a = Some (Inr r)"
    and regs: "a_rd a \<le> 15" "a_rm a \<le> 15" and imm: "a_imm a = sft_value (a_shift a) AND 31"
    and t: "t \<noteq> THUMB_SHIFT_ROR \<Longrightarrow> th_shift_value_to_sr_type (a_shift a) \<noteq> 3"
    and sh: "same_shift (decode_imm_shift (th_shift_value_to_sr_type (a_shift a)) (sft_value (a_shift a) AND 31)) want"
  shows "moves_reg (\<lambda>S. Mov S (a_rd a)) (decode r) (a_flags a) (a_rm a) want"
  using shift_imm_variants [OF v]
proof
  assume "v = V THOP_SHAPE_T32_SHIFT_IMM 0xEA4F0000"
  from T32_SHIFT_IMM_result [OF r [unfolded this]]
  have "decode r = Some (Mov (a_flags a = FLAGS_BEHAVIOUR_SET) (take_bit 4 (a_rd a)) (OpReg (take_bit 4 (a_rm a))
         (decode_imm_shift (take_bit 2 (th_shift_value_to_sr_type (a_shift a))) (sft_value (a_shift a) AND 31))))"
    by (simp only: shift_imm_decodes imm5_pack)
  then show ?thesis using sh regs by (intro moves_regI [where S = "a_flags a = FLAGS_BEHAVIOUR_SET"]) (simp_all add: narrow sr_type_take_bit)
next
  assume "v = V THOP_SHAPE_T16_SHIFT_IMM 0 \<and> t \<noteq> THUMB_SHIFT_ROR"
  with t T16_SHIFT_IMM_result [of tf 0 a r] r
    shift16_decodes [of "th_shift_value_to_sr_type (a_shift a)" "a_rd a" "a_rm a" "a_imm a"]
  show ?thesis using sh [folded imm]
    by (intro moves_regI [where S = True]) (simp_all add: narrow sr_type_take_bit flags_honoured_def)
qed

lemma shift_reg_variants:
  assumes "t \<in> {THUMB_SHIFT_LSL, THUMB_SHIFT_LSR, THUMB_SHIFT_ASR, THUMB_SHIFT_ROR}"
    "v \<in> set (table_variants (shift_reg_table t))"
  shows "\<exists>sr opc. (t, sr, opc) \<in> {(THUMB_SHIFT_LSL, 0, 2), (THUMB_SHIFT_LSR, 1, 3), (THUMB_SHIFT_ASR, 2, 4), (THUMB_SHIFT_ROR, 3, 7)} \<and>
     (v = V THOP_SHAPE_T32_SHIFT_REG (0xFA00F000 OR push_bit 21 (take_bit 2 sr)) \<or>
      v = VC THOP_SHAPE_T16_SHIFT_REG (0x4000 OR push_bit 6 (take_bit 4 opc)) CUSTOM_shift_reg_t1_emit)"
  using assms by (elim insertE) (auto simp add: shift_reg_table_def table_variants_def table_simps TH_TABLE_def)

lemma shift_reg_variant_decodes:
  assumes t: "t \<in> {THUMB_SHIFT_LSL, THUMB_SHIFT_LSR, THUMB_SHIFT_ASR, THUMB_SHIFT_ROR}"
    and v: "v \<in> set (table_variants (shift_reg_table t))" and r: "variant_result tf v a = Some (Inr r)"
    and regs: "a_rd a \<le> 15" "a_rn a \<le> 15" "a_rm a \<le> 15"
  shows "\<exists>S. decode r = Some (ShiftReg t S (a_rd a) (a_rn a) (a_rm a)) \<and> flags_honoured (a_flags a) S"
proof -
  obtain sr opc where o: "(t, sr, opc) \<in> {(THUMB_SHIFT_LSL, 0, 2), (THUMB_SHIFT_LSR, 1, 3), (THUMB_SHIFT_ASR, 2, 4), (THUMB_SHIFT_ROR, 3, 7)}"
    and v': "v = V THOP_SHAPE_T32_SHIFT_REG (0xFA00F000 OR push_bit 21 (take_bit 2 sr)) \<or>
      v = VC THOP_SHAPE_T16_SHIFT_REG (0x4000 OR push_bit 6 (take_bit 4 opc)) CUSTOM_shift_reg_t1_emit"
    using shift_reg_variants [OF t v] by blast
  from v' show ?thesis
  proof
    assume "v = V THOP_SHAPE_T32_SHIFT_REG (0xFA00F000 OR push_bit 21 (take_bit 2 sr))"
    from T32_SHIFT_REG_result [OF r [unfolded this]]
    have "decode r = Some (ShiftReg (if take_bit 2 sr = 0 then THUMB_SHIFT_LSL else if take_bit 2 sr = 1 then THUMB_SHIFT_LSR
      else if take_bit 2 sr = 2 then THUMB_SHIFT_ASR else THUMB_SHIFT_ROR) (a_flags a = FLAGS_BEHAVIOUR_SET)
       (take_bit 4 (a_rd a)) (take_bit 4 (a_rn a)) (take_bit 4 (a_rm a)))"
      by (simp only: shift_reg_decodes)
    then show ?thesis using o regs by (intro exI [of _ "a_flags a = FLAGS_BEHAVIOUR_SET"]) (auto simp: narrow)
  next
    assume "v = VC THOP_SHAPE_T16_SHIFT_REG (0x4000 OR push_bit 6 (take_bit 4 opc)) CUSTOM_shift_reg_t1_emit"
    note q = T16_SHIFT_REG_result [OF r [unfolded this]]
    have "op_code r = 0x4000 OR push_bit 6 (take_bit 4 opc) OR take_bit 3 (a_rd a) OR push_bit 3 (take_bit 3 (a_rm a))"
      using q by (simp add: and_masks narrow ac_simps)
    with dp16_decodes [of opc "a_rd a" "a_rm a"] q
    have "decode r = dp16 (take_bit 4 opc) (take_bit 3 (a_rm a)) (take_bit 3 (a_rd a))" by simp
    then show ?thesis using o q by (intro exI [of _ True]) (auto simp: narrow dp16_def flags_honoured_def)
  qed
qed

lemma table_decodes:
  assumes "\<And>v. v \<in> set (table_variants t) \<Longrightarrow> variant_result (target_feat st) v a = Some (Inr r) \<Longrightarrow> P"
    and "state_ok st" "thop_emit_table t a st = Inr (r, st')" "r \<noteq> no_opcode"
  shows P
  using emit_variant [OF assms(2-4)] assms(1) by blast

lemma mov_shifts_held:
  assumes "th_shift_imm_normalize shift = (True, s')"
  shows "\<exists>s \<in> mov_shifts shift. same_shift (decoded_shift s') s"
    and "sft_type s' = THUMB_SHIFT_NONE \<Longrightarrow> \<exists>s \<in> mov_shifts shift. same_shift (THUMB_SHIFT_LSL, 0) s"
proof -
  consider (plain) "sft_type shift \<in> {THUMB_SHIFT_NONE, THUMB_SHIFT_RRX} \<Longrightarrow> sft_value shift = 0"
    | (amount) "sft_type shift \<in> {THUMB_SHIFT_NONE, THUMB_SHIFT_RRX}" "sft_value shift \<noteq> 0" by blast
  then show "\<exists>s \<in> mov_shifts shift. same_shift (decoded_shift s') s"
  proof cases
    case plain
    then show ?thesis using shift_normalize_sound [OF assms plain] by (auto simp: mov_shifts_def same_shift_def sr_type_take_bit)
  next
    case amount
    then have "\<not> shift_encodable shift" "s' = shift" using assms by (auto simp: shift_encodable_def th_shift_imm_normalize_def)
    then show ?thesis using amount shift_held [of shift] by (simp add: mov_shifts_def operand_shifts_def)
  qed
  show "\<exists>s \<in> mov_shifts shift. same_shift (THUMB_SHIFT_LSL, 0) s" if "sft_type s' = THUMB_SHIFT_NONE"
    using assms that by (cases "sft_type shift")
      (auto simp: th_shift_imm_normalize_def mov_shifts_def held_shifts_def same_shift_def apply_shift_def Let_def split: if_splits)
qed

lemma mov_reg_decodes_shift:
  assumes "state_ok st" "th_mov_reg rd rm flags shift enc in_it st = Inr (r, st')" "r \<noteq> no_opcode"
    and "rd \<le> 15" "rm \<le> 15" "sft_mode shift = THUMB_SHIFT_IMMEDIATE \<or> sft_type shift = THUMB_SHIFT_NONE"
  shows "\<exists>s \<in> mov_shifts shift. moves_reg (\<lambda>S. Mov S rd) (decode_at in_it r) flags rm s"
proof -
  obtain s' where s': "th_shift_imm_normalize shift = (True, s')"
    using assms(2,3,6) by (cases "th_shift_imm_normalize shift") (auto simp: th_mov_reg_def th_shift_imm_normalize_def split: if_splits)
  let ?a = "args0\<lparr>a_rd := rd, a_rm := rm, a_flags := flags, a_shift := s', a_enc := enc, a_in_it_block := in_it\<rparr>"
  have "sft_type shift = THUMB_SHIFT_NONE \<Longrightarrow> s' = shift" using s' by (simp add: th_shift_imm_normalize_def)
  then have e: "thop_emit_table TH_MOV_REG ?a st = Inr (r, st')"
    using assms(2,6) s' by (auto simp add: th_mov_reg_def split: if_splits)
  show ?thesis
    by (rule table_decodes [OF _ assms(1) e assms(3)])
       (use mov_reg_variant_decodes [of _ _ ?a r "mov_shifts shift"] mov_shifts_held [OF s'] assms(4,5) in \<open>simp add: args_simps\<close>)
qed

lemma mov_reg_shift_decodes:
  assumes "state_ok st" "th_mov_reg_shift rd rm rs flags shift enc st = Inr (r, st')" "r \<noteq> no_opcode"
    and regs: "rd \<le> 15" "rm \<le> 15" "rs \<le> 15"
  shows "\<exists>S. decode r = Some (ShiftReg (if sft_type shift = THUMB_SHIFT_NONE then THUMB_SHIFT_LSL else sft_type shift) S rd rm rs) \<and>
     flags_honoured flags S"
proof -
  let ?a = "args0\<lparr>a_rd := rd, a_rm := rm, a_ra := rs, a_flags := flags, a_shift := shift, a_enc := enc\<rparr>"
  have a: "a_rd ?a = rd" "a_rm ?a = rm" "a_ra ?a = rs" "a_flags ?a = flags" "a_shift ?a = shift" by simp_all
  obtain v where v: "v \<in> set (table_variants TH_MOV_REG_SHIFT)" "variant_result (target_feat st) v ?a = Some (Inr r)"
    using emit_variant [OF assms(1) assms(2) [unfolded th_mov_reg_shift_def] assms(3)] .
  then consider (t1) "variant_result (target_feat st) (VC THOP_SHAPE_MOV_REG_SHIFT_T1 0 CUSTOM_mov_reg_shift_t1_emit) ?a = Some (Inr r)"
    | (t3) "variant_result (target_feat st) (V THOP_SHAPE_MOV_REG_SHIFT_T3 0xfa00f000) ?a = Some (Inr r)"
    by (auto simp: table_variants_def table_simps TH_TABLE_def)
  then show ?thesis
  proof cases
    case t1
    from MOV_REG_SHIFT_T1_result [OF t1, unfolded a] obtain opc where q: "th_shift_type_to_op shift = Inr opc"
      "rd = rm" "rd \<le> 7" "rs \<le> 7" "flags \<noteq> FLAGS_BEHAVIOUR_BLOCK" "r = \<lparr>op_size = 2, op_code = 0x4000 OR push_bit 3 rs OR push_bit 6 opc OR rd\<rparr>"
      by blast
    have o: "(sft_type shift, opc) \<in> {(THUMB_SHIFT_LSL, 2), (THUMB_SHIFT_LSR, 3), (THUMB_SHIFT_ASR, 4), (THUMB_SHIFT_ROR, 7)}"
      using q(1) by (cases "sft_type shift") (simp_all add: th_shift_type_to_op_def)
    have "take_bit 4 opc = opc" using o by (elim insertE) auto
    then have "decode r = dp16 opc rs rd"
      using dp16_decodes [of opc rd rs] q(3,4,6) by (simp add: narrow ac_simps)
    then show ?thesis using o q(2,5) by (intro exI [of _ True]) (elim insertE; simp add: dp16_def flags_honoured_def)
  next
    case t3
    note q = MOV_REG_SHIFT_T3_result [OF t3, unfolded a]
    have "decode r = Some (ShiftReg (if take_bit 2 (th_shift_value_to_sr_type shift) = 0 then THUMB_SHIFT_LSL
        else if take_bit 2 (th_shift_value_to_sr_type shift) = 1 then THUMB_SHIFT_LSR
        else if take_bit 2 (th_shift_value_to_sr_type shift) = 2 then THUMB_SHIFT_ASR else THUMB_SHIFT_ROR)
        (flags = FLAGS_BEHAVIOUR_SET) rd rm rs)"
      using q shift_reg_decodes [of "th_shift_value_to_sr_type shift" rd rm rs "flags = FLAGS_BEHAVIOUR_SET"] regs
      by (simp add: narrow ac_simps)
    then show ?thesis using q by (cases "sft_type shift") (auto simp: th_shift_value_to_sr_type_def)
  qed
qed

lemma shift_imm_eq:
  assumes "t \<in> {THUMB_SHIFT_LSL, THUMB_SHIFT_LSR, THUMB_SHIFT_ASR, THUMB_SHIFT_ROR}"
  shows "shift_imm t rd rm imm flags enc = THOP_SHIFT_IMM_FN (shift_imm_table t) t rd rm imm flags enc"
  using assms by (auto simp: shift_imm_def shift_imm_table_def th_lsl_imm_def th_lsr_imm_def th_asr_imm_def th_ror_imm_def)

lemma shift_imm_decodes_shift:
  assumes "state_ok st" "shift_imm t rd rm imm flags enc st = Inr (r, st')" "r \<noteq> no_opcode"
    and "rd \<le> 15" "rm \<le> 15" and t: "t \<in> {THUMB_SHIFT_LSL, THUMB_SHIFT_LSR, THUMB_SHIFT_ASR, THUMB_SHIFT_ROR}"
  shows "moves_reg (\<lambda>S. Mov S rd) (decode r) flags rm (t, imm)"
proof -
  let ?s = "\<lparr>sft_type = t, sft_value = imm, sft_mode = THUMB_SHIFT_IMMEDIATE\<rparr>"
  obtain s' where s': "th_shift_imm_normalize ?s = (True, s')"
    using assms(2,3) by (cases "th_shift_imm_normalize ?s") (auto simp: shift_imm_eq [OF t] THOP_SHIFT_IMM_FN_def split: bool.splits)
  let ?a = "args0\<lparr>a_rd := rd, a_rm := rm, a_imm := sft_value s' AND 0x1f, a_flags := flags, a_shift := s', a_enc := enc\<rparr>"
  have e: "thop_emit_table (shift_imm_table t) ?a st = Inr (r, st')"
    using assms(2) s' by (simp add: shift_imm_eq [OF t] THOP_SHIFT_IMM_FN_def thop_shift_imm_def)
  have sh: "same_shift (decode_imm_shift (th_shift_value_to_sr_type s') (sft_value s' AND 31)) (t, imm)"
    using shift_normalize_sound [OF s'] t by (auto simp: same_shift_def)
  have sr: "t \<noteq> THUMB_SHIFT_ROR \<Longrightarrow> th_shift_value_to_sr_type s' \<noteq> 3"
    using s' t by (auto simp: th_shift_imm_normalize_def th_shift_value_to_sr_type_def split: if_splits)
  show ?thesis
    by (rule table_decodes [OF _ assms(1) e assms(3)])
       (use shift_imm_variant_decodes [of _ t _ ?a r "(t, imm)"] sh sr assms(4,5) in \<open>simp add: args_simps\<close>)
qed

lemma shift_reg_eq:
  "t \<in> {THUMB_SHIFT_LSL, THUMB_SHIFT_LSR, THUMB_SHIFT_ASR, THUMB_SHIFT_ROR} \<Longrightarrow>
   shift_reg t rd rn rm flags shift enc = thop_emit_table (shift_reg_table t)
     (args0\<lparr>a_rd := rd, a_rn := rn, a_rm := rm, a_flags := flags, a_enc := enc\<rparr>)"
  by (auto simp: shift_reg_def shift_reg_table_def th_lsl_reg_def th_lsr_reg_def th_asr_reg_def th_ror_reg_def
     THOP_SHIFT_REG_FN_def thop_shift_reg_def)

subsection \<open>Properties\<close>



text \<open>
  C4: constants.  For all register numbers, a successful \<^verbatim>\<open>th_mov_imm\<close> decodes, outside an IT block,
  to a MOV or MOVW of the very constant to \<^verbatim>\<open>rd\<close> that honours the flags request; a successful
  \<^verbatim>\<open>th_movt\<close> decodes to MOVT of the 16 bits that were passed; a successful \<^verbatim>\<open>th_mvn_imm\<close> decodes to
  MVN of the very constant, so that \<^verbatim>\<open>rd\<close> receives its complement, and honours the flags request.
\<close>

theorem mov_imm_roundtrip:
  assumes "state_ok st" "r \<noteq> no_opcode" "rd \<le> 15"
  shows "(th_mov_imm rd imm flags enc st = Inr (r, st') \<longrightarrow>
       (\<exists>S. decode r = Some (Mov S (ucast rd) (OpImm imm)) \<and> flags_honoured flags S) \<or>
       decode r = Some (Movw (ucast rd) imm) \<and> flags_honoured flags False) \<and>
    (th_movt (ucast rd) imm st = Inr (r, st') \<longrightarrow> imm \<le> 0xFFFF \<and> decode r = Some (Movt (ucast rd) imm)) \<and>
    (th_mvn_imm (ucast rd) rm imm flags enc st = Inr (r, st') \<longrightarrow>
       (\<exists>S. decode r = Some (Mvn S (ucast rd) (OpImm imm)) \<and> flags_honoured flags S))"
proof (intro conjI impI)
  have rd: "ucast rd \<le> (15 :: u32)" using assms(3) by transfer simp
  { assume e: "th_mov_imm rd imm flags enc st = Inr (r, st')"
    show "(\<exists>S. decode r = Some (Mov S (ucast rd) (OpImm imm)) \<and> flags_honoured flags S) \<or>
       decode r = Some (Movw (ucast rd) imm) \<and> flags_honoured flags False"
      by (rule table_decodes [OF _ assms(1) e [unfolded th_mov_imm_def] assms(2)], drule (1) mov_imm_variant_decodes)
         (use rd in \<open>simp_all add: args_simps\<close>) }
  { assume e: "th_mvn_imm (ucast rd) rm imm flags enc st = Inr (r, st')"
    show "\<exists>S. decode r = Some (Mvn S (ucast rd) (OpImm imm)) \<and> flags_honoured flags S"
      by (rule table_decodes [OF _ assms(1) e [unfolded th_mvn_imm_def] assms(2)], drule (1) mvn_imm_variant_decodes)
         (use rd in \<open>simp_all add: args_simps\<close>) }
  assume e: "th_movt (ucast rd) imm st = Inr (r, st')"
  let ?a = "args0\<lparr>a_rd := ucast rd, a_imm := imm\<rparr>"
  have "variant_result (target_feat st) (V THOP_SHAPE_MOVT 0xf2c00000) ?a = Some (Inr r)"
    by (rule table_decodes [OF _ assms(1) e [unfolded th_movt_def] assms(2)])
       (simp add: table_variants_def table_simps TH_TABLE_def)
  from MOVW_result [OF disjI2, OF this] have q: "imm \<le> 0xFFFF"
    "decode r = Some (Movt (take_bit 4 (ucast rd)) (take_bit 16 imm))"
    by (simp_all add: args_simps movw_decodes)
  then have "imm < 65536" by (auto simp: word_le_nat_alt word_less_nat_alt)
  with q rd show "imm \<le> 0xFFFF" "decode r = Some (Movt (ucast rd) imm)" by (simp_all add: narrow)
qed

theorem mov_imm_roundtrip_witness:
  "\<exists>r st'. th_movt (ucast (7::u16)) 0x2000 mainline_state = Inr (r, st') \<and> r \<noteq> no_opcode \<and> decode r = Some (Movt 7 0x2000)"
proof -
  let ?r = "\<lparr>op_size = 4, op_code = 0xF2C20700\<rparr>"
  have "emit_spec (target_feat mainline_state) (table_variants TH_MOVT) (args0\<lparr>a_rd := ucast (7::u16), a_imm := 0x2000\<rparr>) =
      Inr ?r" by code_simp
  then obtain st' where "th_movt (ucast (7::u16)) 0x2000 mainline_state = Inr (?r, st')"
    unfolding th_movt_def by (blast dest: mainline_run)
  with mov_imm_roundtrip [OF mainline_state_ok, of ?r 7 "0x2000" FLAGS_BEHAVIOUR_SET ENFORCE_ENCODING_NONE st'] show ?thesis by auto
qed





end
