(* ===== verification/Thumb_Roundtrip_Mem.thy ===== *)
theory Thumb_Roundtrip_Mem
  imports Thumb_Roundtrip_Mov
begin

section \<open>Loads and stores decode to what was asked for\<close>

text \<open>
  Encoder against decoder for \<^verbatim>\<open>thop_mem_imm.c\<close>, \<^verbatim>\<open>thop_mem_reg.c\<close> and
  \<^verbatim>\<open>thop_block.c\<close>.  The immediate forms depend on the order of a table: the indexed variant
  would encode the plain positive offset as an unprivileged access, and never does because an
  earlier variant takes that case.
\<close>

subsection \<open>The instructions of a group\<close>

datatype mem_op = OP_LDR | OP_LDRB | OP_LDRH | OP_LDRSB | OP_LDRSH | OP_STR | OP_STRB | OP_STRH

primrec mem_load :: "mem_op \<Rightarrow> bool" where
  "mem_load OP_LDR = True" | "mem_load OP_LDRB = True" | "mem_load OP_LDRH = True" | "mem_load OP_LDRSB = True"
| "mem_load OP_LDRSH = True" | "mem_load OP_STR = False" | "mem_load OP_STRB = False" | "mem_load OP_STRH = False"

primrec mem_sext :: "mem_op \<Rightarrow> bool" where
  "mem_sext OP_LDR = False" | "mem_sext OP_LDRB = False" | "mem_sext OP_LDRH = False" | "mem_sext OP_LDRSB = True"
| "mem_sext OP_LDRSH = True" | "mem_sext OP_STR = False" | "mem_sext OP_STRB = False" | "mem_sext OP_STRH = False"

primrec mem_width :: "mem_op \<Rightarrow> mem_width" where
  "mem_width OP_LDR = MemWord" | "mem_width OP_LDRB = MemByte" | "mem_width OP_LDRH = MemHalf" | "mem_width OP_LDRSB = MemByte"
| "mem_width OP_LDRSH = MemHalf" | "mem_width OP_STR = MemWord" | "mem_width OP_STRB = MemByte" | "mem_width OP_STRH = MemHalf"

primrec width_code :: "mem_width \<Rightarrow> u32" where
  "width_code MemByte = 0" | "width_code MemHalf = 1" | "width_code MemWord = 2"

definition mem_instr :: "mem_op \<Rightarrow> u32 \<Rightarrow> u32 \<Rightarrow> mem_addr \<Rightarrow> instr" where
  "mem_instr op = Mem (mem_load op) (mem_sext op) (mem_width op)"

definition mem_imm :: "mem_op \<Rightarrow> u32 \<Rightarrow> u32 \<Rightarrow> int \<Rightarrow> u32 \<Rightarrow> thumb_enforce_encoding \<Rightarrow> thumb_opcode emit" where
  "mem_imm op =
     (case op of OP_LDR \<Rightarrow> th_ldr_imm | OP_LDRB \<Rightarrow> th_ldrb_imm | OP_LDRH \<Rightarrow> th_ldrh_imm | OP_LDRSB \<Rightarrow> th_ldrsb_imm
      | OP_LDRSH \<Rightarrow> th_ldrsh_imm | OP_STR \<Rightarrow> th_str_imm | OP_STRB \<Rightarrow> th_strb_imm | OP_STRH \<Rightarrow> th_strh_imm)"

definition mem_imm_table :: "mem_op \<Rightarrow> thop_table" where
  "mem_imm_table op =
     (case op of OP_LDR \<Rightarrow> TH_LDR_IMM | OP_LDRB \<Rightarrow> TH_LDRB_IMM | OP_LDRH \<Rightarrow> TH_LDRH_IMM | OP_LDRSB \<Rightarrow> TH_LDRSB_IMM
      | OP_LDRSH \<Rightarrow> TH_LDRSH_IMM | OP_STR \<Rightarrow> TH_STR_IMM | OP_STRB \<Rightarrow> TH_STRB_IMM | OP_STRH \<Rightarrow> TH_STRH_IMM)"

definition mem_reg :: "mem_op \<Rightarrow> u32 \<Rightarrow> u32 \<Rightarrow> u32 \<Rightarrow> thumb_shift \<Rightarrow> thumb_enforce_encoding \<Rightarrow> thumb_opcode emit" where
  "mem_reg op =
     (case op of OP_LDR \<Rightarrow> th_ldr_reg | OP_LDRB \<Rightarrow> th_ldrb_reg | OP_LDRH \<Rightarrow> th_ldrh_reg | OP_LDRSB \<Rightarrow> th_ldrsb_reg
      | OP_LDRSH \<Rightarrow> th_ldrsh_reg | OP_STR \<Rightarrow> th_str_reg | OP_STRB \<Rightarrow> th_strb_reg | OP_STRH \<Rightarrow> th_strh_reg)"

definition mem_reg_table :: "mem_op \<Rightarrow> thop_table" where
  "mem_reg_table op =
     (case op of OP_LDR \<Rightarrow> TH_LDR_REG | OP_LDRB \<Rightarrow> TH_LDRB_REG | OP_LDRH \<Rightarrow> TH_LDRH_REG | OP_LDRSB \<Rightarrow> TH_LDRSB_REG
      | OP_LDRSH \<Rightarrow> TH_LDRSH_REG | OP_STR \<Rightarrow> TH_STR_REG | OP_STRB \<Rightarrow> TH_STRB_REG | OP_STRH \<Rightarrow> TH_STRH_REG)"

text \<open>
  The addressing mode of the \<^verbatim>\<open>puw\<close> argument: bit 2 adds the offset before the access (P), bit
  1 says up (U), bit 0 writes the address back (W).
\<close>

definition puw_addr :: "u32 \<Rightarrow> int \<Rightarrow> mem_addr" where
  "puw_addr puw imm =
     (let off = (if bit puw 1 then imm else - imm)
      in if \<not> bit puw 2 then AddrPost off else if bit puw 0 then AddrPre off else AddrOffset off)"

text \<open>
  Two corners are accepted without being encodable.  With neither P nor W the access is undefined.
  With PC as the base there are only the literal loads (puw 6 and 4); the indexed forms take PC
  too, but in a literal load the bits of \<^verbatim>\<open>puw\<close> and of the form's opcode are part of the offset.
\<close>

definition mem_held :: "mem_op \<Rightarrow> u32 \<Rightarrow> u32 \<Rightarrow> u32 \<Rightarrow> int \<Rightarrow> instr option" where
  "mem_held op rt rn puw imm =
     (if rn = 15 \<and> puw \<noteq> 6 \<and> puw \<noteq> 4 then Some (mem_instr op rt 15 (AddrOffset (- (2048 + 256 * uint puw + imm))))
      else if rn \<noteq> 15 \<and> (puw = 0 \<or> puw = 2) then None
      else Some (mem_instr op rt rn (puw_addr puw imm)))"

text \<open>
  The left shift of the index register in a register form: 0 to 3, as requested; a larger amount is
  taken modulo 4, and one that comes without a shift type may be dropped.
\<close>

definition index_shifts :: "thumb_shift \<Rightarrow> u32 set" where
  "index_shifts s =
     (if sft_mode s = THUMB_SHIFT_IMMEDIATE \<and> sft_value s \<le> 3 \<and> (sft_type s = THUMB_SHIFT_NONE \<longrightarrow> sft_value s = 0)
      then {sft_value s}
      else if sft_type s = THUMB_SHIFT_NONE then {0, sft_value s AND 3} else {sft_value s AND 3})"

text \<open>The operation bits of the 32-bit load/store group.\<close>

definition mem32_base :: "mem_op \<Rightarrow> u32" where
  "mem32_base op = 0xF8000000 OR push_bit 24 (of_bool (mem_sext op)) OR push_bit 21 (take_bit 2 (width_code (mem_width op))) OR
     push_bit 20 (of_bool (mem_load op))"

text \<open>
  A push or pop of a register list: the block transfer on SP with write-back, or the load or
  store of a single register that moves SP by 4 the same way.
\<close>

definition pushes :: "instr option \<Rightarrow> u32 \<Rightarrow> bool" where
  "pushes i regs \<longleftrightarrow>
     i = Some (Block False True True 13 regs) \<or>
     (\<exists>t<16. regs = push_bit t 1 \<and> i = Some (mem_instr OP_STR (word_of_nat t) 13 (AddrPre (-4))))"

definition pops :: "instr option \<Rightarrow> u32 \<Rightarrow> bool" where
  "pops i regs \<longleftrightarrow>
     i = Some (Block True False True 13 regs) \<or>
     (\<exists>t<16. regs = push_bit t 1 \<and> i = Some (mem_instr OP_LDR (word_of_nat t) 13 (AddrPost 4)))"

subsection \<open>The first variant that matches\<close>

lemma emit_spec_first:
  assumes "emit_spec tf vs a = Inr r" "r \<noteq> no_opcode"
  obtains us v ws where "vs = us @ v # ws" "\<forall>u\<in>set us. variant_result tf u a = None" "variant_result tf v a = Some (Inr r)"
  using assms
proof (induction vs arbitrary: thesis)
  case (Cons w vs)
  show ?case
  proof (cases "variant_result tf w a")
    case None
    with Cons obtain us v ws where "vs = us @ v # ws" "\<forall>u\<in>set us. variant_result tf u a = None" "variant_result tf v a = Some (Inr r)"
      by auto
    with None Cons.prems(1) [of "w # us" v ws] show ?thesis by simp
  next
    case Some
    with Cons.prems Cons.prems(1) [of "[]" w vs] show ?thesis by simp
  qed
qed simp

lemma table_first:
  assumes "state_ok st" "thop_emit_table t a st = Inr (r, st')" "r \<noteq> no_opcode"
  obtains us v ws where "table_variants t = us @ v # ws" "\<forall>u\<in>set us. variant_result (target_feat st) u a = None"
    "variant_result (target_feat st) v a = Some (Inr r)"
proof -
  have "emit_spec (target_feat st) (table_variants t) a = Inr r"
    using emits_emit_table [of t a] assms(1,2) by (auto simp: emits_def dest!: spec [of _ st])
  then show thesis using assms(3) that by (rule emit_spec_first)
qed

subsection \<open>What the shapes yield\<close>

lemma T16_MEM_result:
  assumes "variant_result tf (V THOP_SHAPE_T16_MEM_IMM4 base) a = Some (Inr r) \<and> k = 2 \<or>
    variant_result tf (V THOP_SHAPE_T16_MEM_IMM1 base) a = Some (Inr r) \<and> k = 1 \<or>
    variant_result tf (V THOP_SHAPE_T16_MEM_IMM0 base) a = Some (Inr r) \<and> k = 0"
  shows "a_rd a \<le> 7 \<and> a_rn a \<le> 7 \<and> a_puw a = 6 \<and> drop_bit k (a_imm a) < 32 \<and> push_bit k (drop_bit k (a_imm a)) = a_imm a \<and>
    r = \<lparr>op_size = 2, op_code = base OR take_bit 3 (a_rd a) OR push_bit 3 (take_bit 3 (a_rn a)) OR
      push_bit 6 (take_bit 5 (drop_bit k (a_imm a)))\<rparr>"
proof -
  have 1: "x AND 1 = 0 \<Longrightarrow> push_bit 1 (drop_bit 1 x) = x" for x :: u32 by (simp add: bits32)
  show ?thesis using assms
    by (elim disjE conjE; simp add: shape_eval shape_simps or.assoc scaled_by_4 1 [simplified] split: if_splits)
qed

lemma T16_MEM_SP_IMM4_result:
  assumes "variant_result tf (V THOP_SHAPE_T16_MEM_SP_IMM4 base) a = Some (Inr r)"
  shows "a_rd a \<le> 7 \<and> a_rn a = 13 \<and> a_puw a = 6 \<and> drop_bit 2 (a_imm a) < 256 \<and> push_bit 2 (drop_bit 2 (a_imm a)) = a_imm a \<and>
    r = \<lparr>op_size = 2, op_code = base OR push_bit 8 (take_bit 3 (a_rd a)) OR take_bit 8 (drop_bit 2 (a_imm a))\<rparr>"
  using assms by (simp add: shape_eval shape_simps or.assoc scaled_by_4 split: if_splits)

lemma T32_MEM_POS_result:
  assumes "variant_result tf (V THOP_SHAPE_T32_MEM_POS_ANY_NOTPC base) a = Some (Inr r) \<or>
    variant_result tf (V THOP_SHAPE_T32_MEM_POS_NOSP_NOTPC base) a = Some (Inr r)"
  shows "a_rn a \<noteq> 15 \<and> a_puw a = 6 \<and> a_imm a < 4096 \<and>
    r = \<lparr>op_size = 4, op_code = base OR push_bit 12 (take_bit 4 (a_rd a)) OR push_bit 16 (take_bit 4 (a_rn a)) OR take_bit 12 (a_imm a)\<rparr>"
  using assms by (elim disjE; simp add: shape_eval shape_simps or.assoc split: if_splits)

lemma T32_MEM_PC_result:
  assumes "variant_result tf (V THOP_SHAPE_T32_MEM_PC_POS base) a = Some (Inr r) \<and> p = 6 \<or>
    variant_result tf (V THOP_SHAPE_T32_MEM_PC_NEG base) a = Some (Inr r) \<and> p = 4"
  shows "a_rn a = 15 \<and> a_puw a = p \<and> a_imm a < 4096 \<and>
    r = \<lparr>op_size = 4, op_code = base OR push_bit 12 (take_bit 4 (a_rd a)) OR push_bit 16 (take_bit 4 (a_rn a)) OR take_bit 12 (a_imm a)\<rparr>"
  using assms by (elim disjE conjE; simp add: shape_eval shape_simps or.assoc split: if_splits)

lemma T32_MEM_IDX_NOTPC:
  assumes "variant_result tf (V THOP_SHAPE_T32_MEM_IDX_ANY_NOTPC base) a = Some (Inr r) \<or>
    variant_result tf (V THOP_SHAPE_T32_MEM_IDX_NOSP_NOTPC base) a = Some (Inr r)"
  shows "a_rn a \<noteq> 15"
  using assms by (elim disjE; simp add: shape_eval shape_simps split: if_splits)

lemma T32_MEM_IDX_result:
  assumes "variant_result tf (V THOP_SHAPE_T32_MEM_IDX_ANY base) a = Some (Inr r) \<or>
    variant_result tf (V THOP_SHAPE_T32_MEM_IDX_ANY_NOTPC base) a = Some (Inr r) \<or>
    variant_result tf (V THOP_SHAPE_T32_MEM_IDX_NOSP base) a = Some (Inr r) \<or>
    variant_result tf (V THOP_SHAPE_T32_MEM_IDX_NOSP_NOTPC base) a = Some (Inr r)"
  shows "a_imm a < 256 \<and>
    r = \<lparr>op_size = 4, op_code = base OR push_bit 12 (take_bit 4 (a_rd a)) OR push_bit 16 (take_bit 4 (a_rn a)) OR take_bit 8 (a_imm a) OR
      push_bit 8 (take_bit 3 (ucast (a_puw a AND 7)))\<rparr>"
  using assms by (elim disjE; simp add: shape_eval shape_simps or.assoc split: if_splits)

lemma pos_before_idx:
  assumes "variant_result tf (V THOP_SHAPE_T32_MEM_POS_ANY_NOTPC b) a = None \<and>
       (variant_result tf (V THOP_SHAPE_T32_MEM_IDX_ANY base) a = Some (Inr r) \<or>
        variant_result tf (V THOP_SHAPE_T32_MEM_IDX_ANY_NOTPC base) a = Some (Inr r)) \<or>
     variant_result tf (V THOP_SHAPE_T32_MEM_POS_NOSP_NOTPC b) a = None \<and>
       (variant_result tf (V THOP_SHAPE_T32_MEM_IDX_NOSP base) a = Some (Inr r) \<or>
        variant_result tf (V THOP_SHAPE_T32_MEM_IDX_NOSP_NOTPC base) a = Some (Inr r))"
    and "a_rn a \<noteq> 15"
  shows "a_puw a \<noteq> 6"
proof
  assume "a_puw a = 6"
  moreover have "\<not> (x < 256 \<and> 4096 \<le> x)" for x :: u32 by (simp add: word_less_nat_alt word_le_nat_alt)
  ultimately show False using assms
    by (elim disjE conjE; simp add: shape_eval shape_simps or.assoc split: if_splits; blast)
qed

lemma pc_before_idx:
  assumes "variant_result tf (V THOP_SHAPE_T32_MEM_PC_POS b) a = None" "variant_result tf (V THOP_SHAPE_T32_MEM_PC_NEG c) a = None"
    "variant_result tf (V THOP_SHAPE_T32_MEM_IDX_ANY base) a = Some (Inr r) \<or>
     variant_result tf (V THOP_SHAPE_T32_MEM_IDX_NOSP base) a = Some (Inr r)" "a_rn a = 15"
  shows "a_puw a \<noteq> 6 \<and> a_puw a \<noteq> 4"
proof -
  have "\<not> (x < 256 \<and> 4096 \<le> x)" for x :: u32 by (simp add: word_less_nat_alt word_le_nat_alt)
  then have "a_puw a \<noteq> 6" "a_puw a \<noteq> 4" using assms
    by (elim disjE; simp add: shape_eval shape_simps or.assoc split: if_splits; blast)+
  then show ?thesis ..
qed

subsection \<open>Decoding\<close>

lemma mem_width32: "mem_width32 (take_bit 2 (width_code w)) = Some w"
  by (cases w) (simp_all add: mem_width32_def)

lemma pos_decodes:
  assumes "take_bit 4 rn \<noteq> 15"
  shows "decode \<lparr>op_size = 4, op_code = (mem32_base op OR 0x800000) OR push_bit 12 (take_bit 4 rt) OR push_bit 16 (take_bit 4 rn) OR
      take_bit 12 imm\<rparr> =
    Some (mem_instr op (take_bit 4 rt) (take_bit 4 rn) (AddrOffset (uint (take_bit 12 imm))))"
proof -
  define w where "w = (mem32_base op OR 0x800000) OR push_bit 12 (take_bit 4 rt) OR push_bit 16 (take_bit 4 rn) OR take_bit 12 imm"
  have f: "field w 27 5 = 0x1F" "field w 25 7 = 0x7C" "field w 16 4 = take_bit 4 rn" "field w 12 4 = take_bit 4 rt"
    "field w 0 12 = take_bit 12 imm" "field w 21 2 = take_bit 2 (width_code (mem_width op))"
    unfolding w_def mem32_base_def by (simp_all add: word_fields)
  have b: "bit w 20 = mem_load op" "bit w 24 = mem_sext op" "bit w 23"
    unfolding w_def mem32_base_def by (simp_all add: word_fields bit_simps)
  show ?thesis unfolding w_def [symmetric] using assms
    by (simp add: decode_def decode32_def loadstore32_def Let_def f b mem_width32 mem_instr_def)
qed

lemma field_nonzero: "bit w 11 \<Longrightarrow> field w 6 6 \<noteq> 0"
proof
  assume "bit w 11" "field w 6 6 = 0"
  moreover have "bit (field w 6 6) 5 = bit w 11" by (simp add: field_eq_take_bit bit_simps)
  ultimately show False by simp
qed

lemma idx_decodes:
  assumes "take_bit 4 rn \<noteq> 15" "take_bit 3 puw \<noteq> 6" "bit puw 0 \<or> bit puw 2"
  shows "decode \<lparr>op_size = 4, op_code = (mem32_base op OR 0x800) OR push_bit 12 (take_bit 4 rt) OR push_bit 16 (take_bit 4 rn) OR
      take_bit 8 imm OR push_bit 8 (take_bit 3 puw)\<rparr> =
    Some (mem_instr op (take_bit 4 rt) (take_bit 4 rn) (puw_addr puw (uint (take_bit 8 imm))))"
proof -
  define w where "w = (mem32_base op OR 0x800) OR push_bit 12 (take_bit 4 rt) OR push_bit 16 (take_bit 4 rn) OR
      take_bit 8 imm OR push_bit 8 (take_bit 3 puw)"
  have f: "field w 27 5 = 0x1F" "field w 25 7 = 0x7C" "field w 16 4 = take_bit 4 rn" "field w 12 4 = take_bit 4 rt"
    "field w 0 8 = take_bit 8 imm" "field w 21 2 = take_bit 2 (width_code (mem_width op))" "field w 8 3 = take_bit 3 puw"
    unfolding w_def mem32_base_def by (simp_all add: word_fields)
  have b: "bit w 20 = mem_load op" "bit w 24 = mem_sext op" "\<not> bit w 23" "bit w 11" "bit w 10 = bit puw 2"
    "bit w 9 = bit puw 1" "bit w 8 = bit puw 0"
    unfolding w_def mem32_base_def by (simp_all add: word_fields bit_simps)
  show ?thesis unfolding w_def [symmetric] using assms field_nonzero [OF b(4)]
    by (auto simp: decode_def decode32_def loadstore32_def Let_def f b mem_width32 mem_instr_def puw_addr_def)
qed

lemma idx_undefined:
  assumes "take_bit 4 rn \<noteq> 15" "\<not> bit puw 0" "\<not> bit puw 2"
  shows "decode \<lparr>op_size = 4, op_code = (mem32_base op OR 0x800) OR push_bit 12 (take_bit 4 rt) OR push_bit 16 (take_bit 4 rn) OR
      take_bit 8 imm OR push_bit 8 (take_bit 3 puw)\<rparr> = None"
proof -
  define w where "w = (mem32_base op OR 0x800) OR push_bit 12 (take_bit 4 rt) OR push_bit 16 (take_bit 4 rn) OR
      take_bit 8 imm OR push_bit 8 (take_bit 3 puw)"
  have f: "field w 27 5 = 0x1F" "field w 25 7 = 0x7C" "field w 16 4 = take_bit 4 rn"
    "field w 21 2 = take_bit 2 (width_code (mem_width op))"
    unfolding w_def mem32_base_def by (simp_all add: word_fields)
  have b: "\<not> bit w 23" "bit w 11" "bit w 10 = bit puw 2" "bit w 8 = bit puw 0"
    unfolding w_def mem32_base_def by (simp_all add: word_fields bit_simps)
  show ?thesis unfolding w_def [symmetric] using assms field_nonzero [OF b(2)]
    by (simp add: decode_def decode32_def loadstore32_def Let_def f b mem_width32)
qed

text \<open>Loads with PC as the base: every one is a literal load with a 12-bit offset.\<close>

lemma literal_decodes:
  assumes "field w 27 5 = 0x1F" "field w 25 7 = 0x7C" "field w 16 4 = 15" "field w 21 2 = take_bit 2 (width_code (mem_width op))"
    and "bit w 20" "mem_load op" "bit w 24 = mem_sext op"
  shows "decode \<lparr>op_size = 4, op_code = w\<rparr> = Some (mem_instr op (field w 12 4) 15
      (AddrOffset (if bit w 23 then uint (field w 0 12) else - uint (field w 0 12))))"
  using assms by (simp add: decode_def decode32_def loadstore32_def Let_def mem_width32 mem_instr_def)

lemma pc_decodes:
  assumes "mem_load op"
  shows "decode \<lparr>op_size = 4, op_code = (mem32_base op OR 0x8F0000) OR push_bit 12 (take_bit 4 rt) OR push_bit 16 (take_bit 4 rn) OR
      take_bit 12 imm\<rparr> = Some (mem_instr op (take_bit 4 rt) 15 (AddrOffset (uint (take_bit 12 imm))))"
    "decode \<lparr>op_size = 4, op_code = (mem32_base op OR 0xF0000) OR push_bit 12 (take_bit 4 rt) OR push_bit 16 (take_bit 4 rn) OR
      take_bit 12 imm\<rparr> = Some (mem_instr op (take_bit 4 rt) 15 (AddrOffset (- uint (take_bit 12 imm))))"
proof -
  define v w where "v = (mem32_base op OR 0x8F0000) OR push_bit 12 (take_bit 4 rt) OR push_bit 16 (take_bit 4 rn) OR take_bit 12 imm"
    and "w = (mem32_base op OR 0xF0000) OR push_bit 12 (take_bit 4 rt) OR push_bit 16 (take_bit 4 rn) OR take_bit 12 imm"
  have v: "field v 27 5 = 0x1F" "field v 25 7 = 0x7C" "field v 16 4 = 15" "field v 21 2 = take_bit 2 (width_code (mem_width op))"
    "field v 12 4 = take_bit 4 rt" "field v 0 12 = take_bit 12 imm" "bit v 20" "bit v 24 = mem_sext op" "bit v 23"
    unfolding v_def mem32_base_def using assms by (simp_all add: word_fields bit_simps or_15)
  have w: "field w 27 5 = 0x1F" "field w 25 7 = 0x7C" "field w 16 4 = 15" "field w 21 2 = take_bit 2 (width_code (mem_width op))"
    "field w 12 4 = take_bit 4 rt" "field w 0 12 = take_bit 12 imm" "bit w 20" "bit w 24 = mem_sext op" "\<not> bit w 23"
    unfolding w_def mem32_base_def using assms by (simp_all add: word_fields bit_simps or_15)
  show "decode \<lparr>op_size = 4, op_code = v\<rparr> = Some (mem_instr op (take_bit 4 rt) 15 (AddrOffset (uint (take_bit 12 imm))))"
    "decode \<lparr>op_size = 4, op_code = w\<rparr> = Some (mem_instr op (take_bit 4 rt) 15 (AddrOffset (- uint (take_bit 12 imm))))"
    using literal_decodes [OF v(1-4,7) assms v(8)] literal_decodes [OF w(1-4,7) assms w(8)] v w by simp_all
qed

lemma uint_or_fields:
  "uint (0x800 OR take_bit 8 x OR push_bit 8 (take_bit 3 y) :: u32) = 2048 + 256 * uint (take_bit 3 y) + uint (take_bit 8 x)"
proof -
  have "take_bit 8 x OR push_bit 8 (take_bit 3 y) = take_bit 8 x + push_bit 8 (take_bit 3 y :: u32)"
    by (rule disjunctive_add [symmetric]) (auto simp: bit_simps)
  moreover have "push_bit k 1 OR (take_bit 8 x OR push_bit 8 (take_bit 3 y)) = push_bit k 1 + (take_bit 8 x OR push_bit 8 (take_bit 3 y :: u32))"
    if "11 \<le> k" for k by (rule disjunctive_add [symmetric]) (use that in \<open>auto simp: bit_simps\<close>)
  from this [of 11] have "0x800 OR (take_bit 8 x OR push_bit 8 (take_bit 3 y)) = 0x800 + (take_bit 8 x OR push_bit 8 (take_bit 3 y :: u32))"
    by simp
  ultimately have "0x800 OR take_bit 8 x OR push_bit 8 (take_bit 3 y) = 0x800 + (take_bit 8 x + push_bit 8 (take_bit 3 y :: u32))"
    by (simp add: or.assoc)
  moreover have "uint (take_bit 8 x) < 256" "uint (take_bit 3 y) < 8"
    using take_bit_int_less_exp [of 8 "uint x"] take_bit_int_less_exp [of 3 "uint y"] by (simp_all add: unsigned_take_bit_eq)
  ultimately show ?thesis by (simp add: push_bit_eq_mult uint_word_ariths)
qed

lemma pc_idx_decodes:
  assumes "mem_load op"
  shows "decode \<lparr>op_size = 4, op_code = (mem32_base op OR 0x800) OR push_bit 12 (take_bit 4 rt) OR push_bit 16 15 OR
      take_bit 8 imm OR push_bit 8 (take_bit 3 puw)\<rparr> =
    Some (mem_instr op (take_bit 4 rt) 15 (AddrOffset (- (2048 + 256 * uint (take_bit 3 puw) + uint (take_bit 8 imm)))))"
proof -
  define w where "w = (mem32_base op OR 0x800) OR push_bit 12 (take_bit 4 rt) OR push_bit 16 (take_bit 4 15) OR
      take_bit 8 imm OR push_bit 8 (take_bit 3 puw)"
  have f: "field w 27 5 = 0x1F" "field w 25 7 = 0x7C" "field w 16 4 = 15" "field w 21 2 = take_bit 2 (width_code (mem_width op))"
    "field w 12 4 = take_bit 4 rt" "field w 0 12 = 0x800 OR take_bit 8 imm OR push_bit 8 (take_bit 3 puw)"
    unfolding w_def mem32_base_def by (simp_all add: word_fields or.assoc)
  have b: "bit w 20" "bit w 24 = mem_sext op" "\<not> bit w 23"
    unfolding w_def mem32_base_def using assms by (simp_all add: word_fields bit_simps)
  have "decode \<lparr>op_size = 4, op_code = w\<rparr> = Some (mem_instr op (take_bit 4 rt) 15
      (AddrOffset (- (2048 + 256 * uint (take_bit 3 puw) + uint (take_bit 8 imm)))))"
    using literal_decodes [OF f(1-4) b(1) assms b(2)] b(3) f(5,6) by (simp only: uint_or_fields if_False)
  then show ?thesis by (simp add: w_def)
qed

lemma mem16_decodes:
  "decode \<lparr>op_size = 2, op_code = 0x6800 OR take_bit 3 rt OR push_bit 3 (take_bit 3 rn) OR push_bit 6 (take_bit 5 x)\<rparr> =
     Some (mem_instr OP_LDR (take_bit 3 rt) (take_bit 3 rn) (AddrOffset (4 * uint (take_bit 5 x))))"
  "decode \<lparr>op_size = 2, op_code = 0x6000 OR take_bit 3 rt OR push_bit 3 (take_bit 3 rn) OR push_bit 6 (take_bit 5 x)\<rparr> =
     Some (mem_instr OP_STR (take_bit 3 rt) (take_bit 3 rn) (AddrOffset (4 * uint (take_bit 5 x))))"
  "decode \<lparr>op_size = 2, op_code = 0x8800 OR take_bit 3 rt OR push_bit 3 (take_bit 3 rn) OR push_bit 6 (take_bit 5 x)\<rparr> =
     Some (mem_instr OP_LDRH (take_bit 3 rt) (take_bit 3 rn) (AddrOffset (2 * uint (take_bit 5 x))))"
  "decode \<lparr>op_size = 2, op_code = 0x8000 OR take_bit 3 rt OR push_bit 3 (take_bit 3 rn) OR push_bit 6 (take_bit 5 x)\<rparr> =
     Some (mem_instr OP_STRH (take_bit 3 rt) (take_bit 3 rn) (AddrOffset (2 * uint (take_bit 5 x))))"
  "decode \<lparr>op_size = 2, op_code = 0x7800 OR take_bit 3 rt OR push_bit 3 (take_bit 3 rn) OR push_bit 6 (take_bit 5 x)\<rparr> =
     Some (mem_instr OP_LDRB (take_bit 3 rt) (take_bit 3 rn) (AddrOffset (uint (take_bit 5 x))))"
  "decode \<lparr>op_size = 2, op_code = 0x7000 OR take_bit 3 rt OR push_bit 3 (take_bit 3 rn) OR push_bit 6 (take_bit 5 x)\<rparr> =
     Some (mem_instr OP_STRB (take_bit 3 rt) (take_bit 3 rn) (AddrOffset (uint (take_bit 5 x))))"
  "decode \<lparr>op_size = 2, op_code = 0x9800 OR push_bit 8 (take_bit 3 rt) OR take_bit 8 y\<rparr> =
     Some (mem_instr OP_LDR (take_bit 3 rt) 13 (AddrOffset (4 * uint (take_bit 8 y))))"
  "decode \<lparr>op_size = 2, op_code = 0x9000 OR push_bit 8 (take_bit 3 rt) OR take_bit 8 y\<rparr> =
     Some (mem_instr OP_STR (take_bit 3 rt) 13 (AddrOffset (4 * uint (take_bit 8 y))))"
  by (simp_all add: decode_def decode16_def loadstore16_def Let_def word_fields mem_instr_def bit_simps)

lemma mem_imm_eq: "mem_imm op rt rn imm puw enc = thop_emit_table (mem_imm_table op)
    (args0\<lparr>a_rd := rt, a_rn := rn, a_imm := word_of_int imm, a_puw := ucast puw, a_enc := enc\<rparr>)"
  by (cases op) (simp_all add: mem_imm_def mem_imm_table_def fun_eq_iff th_ldr_imm_def th_ldrb_imm_def th_ldrh_imm_def th_ldrsb_imm_def
    th_ldrsh_imm_def th_str_imm_def th_strb_imm_def th_strh_imm_def)

lemma mem_imm_variants:
  "table_variants (mem_imm_table op) =
     (case op of
        OP_LDR \<Rightarrow> [V THOP_SHAPE_T16_MEM_IMM4 0x6800, V THOP_SHAPE_T16_MEM_SP_IMM4 0x9800, V THOP_SHAPE_T32_MEM_POS_ANY_NOTPC (mem32_base op OR 0x800000),
          V THOP_SHAPE_T32_MEM_PC_POS (mem32_base op OR 0x8F0000), V THOP_SHAPE_T32_MEM_PC_NEG (mem32_base op OR 0xF0000),
          V THOP_SHAPE_T32_MEM_IDX_ANY (mem32_base op OR 0x800)]
      | OP_STR \<Rightarrow> [V THOP_SHAPE_T16_MEM_IMM4 0x6000, V THOP_SHAPE_T16_MEM_SP_IMM4 0x9000, V THOP_SHAPE_T32_MEM_POS_ANY_NOTPC (mem32_base op OR 0x800000),
          V THOP_SHAPE_T32_MEM_IDX_ANY_NOTPC (mem32_base op OR 0x800)]
      | _ \<Rightarrow> (case op of OP_LDRB \<Rightarrow> [V THOP_SHAPE_T16_MEM_IMM0 0x7800] | OP_LDRH \<Rightarrow> [V THOP_SHAPE_T16_MEM_IMM1 0x8800]
             | OP_STRB \<Rightarrow> [V THOP_SHAPE_T16_MEM_IMM0 0x7000] | OP_STRH \<Rightarrow> [V THOP_SHAPE_T16_MEM_IMM1 0x8000] | _ \<Rightarrow> []) @
          [V THOP_SHAPE_T32_MEM_POS_NOSP_NOTPC (mem32_base op OR 0x800000)] @
          (if mem_load op then [V THOP_SHAPE_T32_MEM_PC_POS (mem32_base op OR 0x8F0000), V THOP_SHAPE_T32_MEM_PC_NEG (mem32_base op OR 0xF0000),
             V THOP_SHAPE_T32_MEM_IDX_NOSP (mem32_base op OR 0x800)]
           else [V THOP_SHAPE_T32_MEM_IDX_NOSP_NOTPC (mem32_base op OR 0x800)]))"
  by (cases op) (simp_all add: mem_imm_table_def table_variants_def table_simps TH_TABLE_def mem32_base_def)

lemma mem_imm_first:
  assumes "table_variants (mem_imm_table op) = us @ v # ws" "\<forall>u\<in>set us. variant_result tf u a = None"
    "variant_result tf v a = Some (Inr r)"
  obtains
    (t16) b k where "variant_result tf (V THOP_SHAPE_T16_MEM_IMM4 b) a = Some (Inr r) \<and> k = 2 \<or>
        variant_result tf (V THOP_SHAPE_T16_MEM_IMM1 b) a = Some (Inr r) \<and> k = 1 \<or>
        variant_result tf (V THOP_SHAPE_T16_MEM_IMM0 b) a = Some (Inr r) \<and> k = 0"
      "(b, op, k :: nat) \<in> {(0x6800, OP_LDR, 2), (0x6000, OP_STR, 2), (0x8800, OP_LDRH, 1), (0x8000, OP_STRH, 1), (0x7800, OP_LDRB, 0), (0x7000, OP_STRB, 0)}"
  | (sp) b where "variant_result tf (V THOP_SHAPE_T16_MEM_SP_IMM4 b) a = Some (Inr r)" "(b, op) \<in> {(0x9800, OP_LDR), (0x9000, OP_STR)}"
  | (pos) "variant_result tf (V THOP_SHAPE_T32_MEM_POS_ANY_NOTPC (mem32_base op OR 0x800000)) a = Some (Inr r) \<or>
       variant_result tf (V THOP_SHAPE_T32_MEM_POS_NOSP_NOTPC (mem32_base op OR 0x800000)) a = Some (Inr r)"
  | (pcpos) p b where "variant_result tf (V THOP_SHAPE_T32_MEM_PC_POS b) a = Some (Inr r) \<and> p = 6 \<or>
       variant_result tf (V THOP_SHAPE_T32_MEM_PC_NEG b) a = Some (Inr r) \<and> p = 4" "mem_load op"
       "(p, b) \<in> {(6::u8, mem32_base op OR 0x8F0000), (4, mem32_base op OR 0xF0000)}"
  | (idx) "variant_result tf (V THOP_SHAPE_T32_MEM_IDX_ANY (mem32_base op OR 0x800)) a = Some (Inr r) \<or>
      variant_result tf (V THOP_SHAPE_T32_MEM_IDX_ANY_NOTPC (mem32_base op OR 0x800)) a = Some (Inr r) \<or>
      variant_result tf (V THOP_SHAPE_T32_MEM_IDX_NOSP (mem32_base op OR 0x800)) a = Some (Inr r) \<or>
      variant_result tf (V THOP_SHAPE_T32_MEM_IDX_NOSP_NOTPC (mem32_base op OR 0x800)) a = Some (Inr r)"
      "if a_rn a = 15 then mem_load op \<and> a_puw a \<noteq> 6 \<and> a_puw a \<noteq> 4 else a_puw a \<noteq> 6"
proof -
  have load: thesis if "mem_load op" "(variant_result tf (V THOP_SHAPE_T32_MEM_POS_ANY_NOTPC b) a = None \<and>
        variant_result tf (V THOP_SHAPE_T32_MEM_IDX_ANY (mem32_base op OR 0x800)) a = Some (Inr r)) \<or>
      (variant_result tf (V THOP_SHAPE_T32_MEM_POS_NOSP_NOTPC b) a = None \<and>
        variant_result tf (V THOP_SHAPE_T32_MEM_IDX_NOSP (mem32_base op OR 0x800)) a = Some (Inr r))"
     "variant_result tf (V THOP_SHAPE_T32_MEM_PC_POS c) a = None" "variant_result tf (V THOP_SHAPE_T32_MEM_PC_NEG d) a = None" for b c d
  proof (rule idx)
    show "if a_rn a = 15 then mem_load op \<and> a_puw a \<noteq> 6 \<and> a_puw a \<noteq> 4 else a_puw a \<noteq> 6"
      using that pc_before_idx [OF that(3,4), of "mem32_base op OR 0x800" r] pos_before_idx [of tf b a "mem32_base op OR 0x800" r] by auto
  qed (use that in blast)
  have store: thesis if "(variant_result tf (V THOP_SHAPE_T32_MEM_POS_ANY_NOTPC b) a = None \<and>
        variant_result tf (V THOP_SHAPE_T32_MEM_IDX_ANY_NOTPC (mem32_base op OR 0x800)) a = Some (Inr r)) \<or>
      (variant_result tf (V THOP_SHAPE_T32_MEM_POS_NOSP_NOTPC b) a = None \<and>
        variant_result tf (V THOP_SHAPE_T32_MEM_IDX_NOSP_NOTPC (mem32_base op OR 0x800)) a = Some (Inr r))" for b
  proof (rule idx)
    have "a_rn a \<noteq> 15" using that T32_MEM_IDX_NOTPC by blast
    then show "if a_rn a = 15 then mem_load op \<and> a_puw a \<noteq> 6 \<and> a_puw a \<noteq> 4 else a_puw a \<noteq> 6"
      using that pos_before_idx [of tf b a "mem32_base op OR 0x800" r] by auto
  qed (use that in blast)
  note load' = load [OF _ disjI1, OF _ conjI] load [OF _ disjI2, OF _ conjI]
  note store' = store [OF disjI1, OF conjI] store [OF disjI2, OF conjI]
  show thesis using assms
    by (cases op) (auto simp: mem_imm_variants Cons_eq_append_conv intro: t16 sp pos pcpos load' store')
qed

lemma uint_push_bit:
  assumes "(y::u32) < 256" "k \<le> 2"
  shows "uint (push_bit k y) = 2 ^ k * uint y" "push_bit k y < 4096"
proof -
  have y: "uint y < 256" using assms(1) by (simp add: word_less_def)
  have "k = 0 \<or> k = 1 \<or> k = 2" using assms(2) by auto
  then show 1: "uint (push_bit k y) = 2 ^ k * uint y"
    using y by (elim disjE) (simp_all add: push_bit_eq_mult uint_word_ariths)
  have "(2::int) ^ k \<le> 2 ^ 2" using assms(2) by (intro power_increasing) auto
  then have "2 ^ k * uint y \<le> 4 * uint y" by (intro mult_right_mono) simp_all
  then show "push_bit k y < 4096" using y 1 by (simp add: word_less_def)
qed

lemma puw_cases:
  assumes "(p::u8) \<le> 7"
  shows "p AND 7 = p" "take_bit 3 (ucast p) = (ucast p :: u32)"
    "(bit (ucast p :: u32) 0 \<or> bit (ucast p :: u32) 2) = (p \<noteq> 0 \<and> p \<noteq> 2)" "ucast p = (6::u32) \<longleftrightarrow> p = 6"
    "ucast p = (4::u32) \<longleftrightarrow> p = 4" "ucast p = (0::u32) \<longleftrightarrow> p = 0" "ucast p = (2::u32) \<longleftrightarrow> p = 2"
proof -
  have "p \<in> {0, 1, 2, 3, 4, 5, 6, 7}" using assms by (simp add: insert_iff) uint_arith
  then show "p AND 7 = p" "take_bit 3 (ucast p) = (ucast p :: u32)"
    "(bit (ucast p :: u32) 0 \<or> bit (ucast p :: u32) 2) = (p \<noteq> 0 \<and> p \<noteq> 2)" "ucast p = (6::u32) \<longleftrightarrow> p = 6"
    "ucast p = (4::u32) \<longleftrightarrow> p = 4" "ucast p = (0::u32) \<longleftrightarrow> p = 0" "ucast p = (2::u32) \<longleftrightarrow> p = 2"
    by (elim insertE; simp)+
qed

lemma mem_imm_decodes:
  assumes "state_ok st" "thop_emit_table (mem_imm_table op) a st = Inr (r, st')" "r \<noteq> no_opcode"
    and regs: "a_rd a \<le> 15" "a_rn a \<le> 15" and puw: "a_puw a \<le> 7"
  shows "a_imm a < 4096 \<and> (a_rn a = 15 \<longrightarrow> mem_load op) \<and>
    decode r = mem_held op (a_rd a) (a_rn a) (ucast (a_puw a)) (uint (a_imm a))"
proof -
  have six: "puw_addr 6 i = AddrOffset i" "puw_addr 4 i = AddrOffset (- i)" for i by (simp_all add: puw_addr_def)
  note p = puw_cases [OF puw]
  obtain us v ws where o: "table_variants (mem_imm_table op) = us @ v # ws"
    "\<forall>u\<in>set us. variant_result (target_feat st) u a = None" "variant_result (target_feat st) v a = Some (Inr r)"
    using table_first [OF assms(1-3)] .
  show ?thesis
  proof (cases rule: mem_imm_first [OF o, case_names t16 sp pos pcpos idx])
    case (t16 b k)
    note q = T16_MEM_result [OF t16(1)]
    have "k \<le> 2" "drop_bit k (a_imm a) < 256" "a_rn a \<noteq> 15" using t16(2) q by (auto simp: word_less_nat_alt)
    moreover from this have k: "uint (a_imm a) = 2 ^ k * uint (drop_bit k (a_imm a))" "a_imm a < 4096"
      using uint_push_bit [of "drop_bit k (a_imm a)" k] q by simp_all
    ultimately show ?thesis using q t16(2) mem16_decodes(1-6) [of "a_rd a" "a_rn a" "drop_bit k (a_imm a)"]
      by (elim insertE; simp add: narrow six mem_held_def)
  next
    case (sp b)
    note q = T16_MEM_SP_IMM4_result [OF sp(1)]
    have k: "uint (a_imm a) = 4 * uint (drop_bit 2 (a_imm a))" "a_imm a < 4096"
      using uint_push_bit [of "drop_bit 2 (a_imm a)" 2] q by simp_all
    show ?thesis using q sp(2) k mem16_decodes(7,8) [of "a_rd a" "drop_bit 2 (a_imm a)"]
      by (elim insertE; simp add: narrow six mem_held_def)
  next
    case pos
    note q = T32_MEM_POS_result [OF pos]
    then show ?thesis using pos_decodes [of "a_rn a" op "a_rd a" "a_imm a"] regs by (simp add: narrow six mem_held_def)
  next
    case (pcpos p b)
    note q = T32_MEM_PC_result [OF pcpos(1)]
    then show ?thesis using pcpos(2,3) pc_decodes [OF pcpos(2), of "a_rd a" "a_rn a" "a_imm a"] regs
      by (elim insertE; simp add: narrow six mem_held_def)
  next
    case idx
    note q = T32_MEM_IDX_result [OF idx(1)]
    have "a_imm a < 4096" using q by (auto simp: word_less_nat_alt)
    moreover consider "a_rn a = 15" | "a_rn a \<noteq> 15" "a_puw a \<noteq> 0 \<and> a_puw a \<noteq> 2" | "a_rn a \<noteq> 15" "a_puw a = 0 \<or> a_puw a = 2" by blast
    then have "decode r = mem_held op (a_rd a) (a_rn a) (ucast (a_puw a)) (uint (a_imm a))"
    proof cases
      case 1
      then show ?thesis using q idx(2) pc_idx_decodes [of op "a_rd a" "a_imm a" "ucast (a_puw a)"] regs p(1,2,4,5)
        by (simp add: narrow mem_held_def)
    next
      case 2
      then show ?thesis using q idx(2) idx_decodes [of "a_rn a" "ucast (a_puw a)" op "a_rd a" "a_imm a"] regs p
        by (simp add: narrow mem_held_def)
    next
      case 3
      then show ?thesis using q idx_undefined [of "a_rn a" "ucast (a_puw a)" op "a_rd a" "a_imm a"] regs p
        by (auto simp: narrow mem_held_def)
    qed
    ultimately show ?thesis using idx(2) by simp
  qed
qed

subsection \<open>Register offsets\<close>

lemma T16_MEM_REG_result:
  assumes "variant_result tf (V THOP_SHAPE_T16_MEM_REG base) a = Some (Inr r)"
  shows "a_rd a \<le> 7 \<and> a_rn a \<le> 7 \<and> a_rm a \<le> 7 \<and> sft_type (a_shift a) = THUMB_SHIFT_NONE \<and>
    r = \<lparr>op_size = 2, op_code = base OR take_bit 3 (a_rd a) OR push_bit 3 (take_bit 3 (a_rn a)) OR push_bit 6 (take_bit 3 (a_rm a))\<rparr>"
  using assms by (simp add: shape_eval shape_simps or.assoc split: if_splits)

lemma T32_MEM_REG_result:
  assumes "variant_result tf (V THOP_SHAPE_T32_MEM_REG base) a = Some (Inr r)"
  shows "a_rn a \<noteq> 15 \<and> sft_type (a_shift a) \<in> {THUMB_SHIFT_NONE, THUMB_SHIFT_LSL} \<and>
    r = \<lparr>op_size = 4, op_code = base OR push_bit 12 (take_bit 4 (a_rd a)) OR push_bit 16 (take_bit 4 (a_rn a)) OR take_bit 4 (a_rm a) OR
      push_bit 4 (take_bit 2 (sft_value (a_shift a) AND 3))\<rparr>"
  using assms by (cases "sft_type (a_shift a)") (simp_all add: shape_eval shape_simps or.assoc split: if_splits)

lemma mem_reg_eq: "mem_reg op rt rn rm shift enc = thop_emit_table (mem_reg_table op)
    (args0\<lparr>a_rd := rt, a_rn := rn, a_rm := rm, a_flags := FLAGS_BEHAVIOUR_NOT_IMPORTANT, a_shift := shift, a_enc := enc\<rparr>)"
  by (cases op) (simp_all add: mem_reg_def mem_reg_table_def THOP_MEM_REG_FN_def th_ldr_reg_def th_ldrb_reg_def th_ldrh_reg_def
    th_ldrsb_reg_def th_ldrsh_reg_def th_str_reg_def th_strb_reg_def th_strh_reg_def)

lemma mem_reg_variants:
  "v \<in> set (table_variants (mem_reg_table op)) \<Longrightarrow>
     v = V THOP_SHAPE_T32_MEM_REG (mem32_base op) \<or>
     (\<exists>opb. v = V THOP_SHAPE_T16_MEM_REG (0x5000 OR push_bit 9 (take_bit 3 opb)) \<and>
       (opb, op) \<in> {(0, OP_STR), (1, OP_STRH), (2, OP_STRB), (3, OP_LDRSB), (4, OP_LDR), (5, OP_LDRH), (6, OP_LDRB), (7, OP_LDRSH)})"
  by (cases op) (auto simp: mem_reg_table_def table_variants_def table_simps TH_TABLE_def mem32_base_def)

lemma mem_reg32_decodes:
  assumes "take_bit 4 rn \<noteq> 15"
  shows "decode \<lparr>op_size = 4, op_code = mem32_base op OR push_bit 12 (take_bit 4 rt) OR push_bit 16 (take_bit 4 rn) OR
      take_bit 4 rm OR push_bit 4 (take_bit 2 s)\<rparr> =
    Some (mem_instr op (take_bit 4 rt) (take_bit 4 rn) (AddrReg (take_bit 4 rm) (take_bit 2 s)))"
proof -
  define w where "w = mem32_base op OR push_bit 12 (take_bit 4 rt) OR push_bit 16 (take_bit 4 rn) OR take_bit 4 rm OR push_bit 4 (take_bit 2 s)"
  have f: "field w 27 5 = 0x1F" "field w 25 7 = 0x7C" "field w 16 4 = take_bit 4 rn" "field w 12 4 = take_bit 4 rt"
    "field w 0 4 = take_bit 4 rm" "field w 21 2 = take_bit 2 (width_code (mem_width op))" "field w 6 6 = 0" "field w 4 2 = take_bit 2 s"
    unfolding w_def mem32_base_def by (simp_all add: word_fields)
  have b: "bit w 20 = mem_load op" "bit w 24 = mem_sext op" "\<not> bit w 23"
    unfolding w_def mem32_base_def by (simp_all add: word_fields bit_simps)
  show ?thesis unfolding w_def [symmetric] using assms
    by (simp add: decode_def decode32_def loadstore32_def Let_def f b mem_width32 mem_instr_def)
qed

lemma mem_reg16_decodes:
  assumes "(opb, op) \<in> {(0, OP_STR), (1, OP_STRH), (2, OP_STRB), (3, OP_LDRSB), (4, OP_LDR), (5, OP_LDRH), (6, OP_LDRB), (7, OP_LDRSH)}"
  shows "decode \<lparr>op_size = 2, op_code = (0x5000 OR push_bit 9 (take_bit 3 opb)) OR take_bit 3 rt OR push_bit 3 (take_bit 3 rn) OR
      push_bit 6 (take_bit 3 rm)\<rparr> = Some (mem_instr op (take_bit 3 rt) (take_bit 3 rn) (AddrReg (take_bit 3 rm) 0))"
  using assms by (elim insertE)
    (simp_all add: decode_def decode16_def loadstore16_def Let_def word_fields mem_instr_def)

lemma mem_reg_variant_decodes:
  assumes v: "v \<in> set (table_variants (mem_reg_table op))" and r: "variant_result tf v a = Some (Inr r)"
    and regs: "a_rd a \<le> 15" "a_rn a \<le> 15" "a_rm a \<le> 15"
  shows "sft_type (a_shift a) \<in> {THUMB_SHIFT_NONE, THUMB_SHIFT_LSL} \<and>
    (\<exists>k \<in> index_shifts (a_shift a). decode r = Some (mem_instr op (a_rd a) (a_rn a) (AddrReg (a_rm a) k)))"
  using mem_reg_variants [OF v]
proof (elim disjE exE conjE)
  assume "v = V THOP_SHAPE_T32_MEM_REG (mem32_base op)"
  note q = T32_MEM_REG_result [OF r [unfolded this]]
  have m: "take_bit 2 (sft_value (a_shift a) AND 3) = sft_value (a_shift a) AND 3"
    by (simp only: and_masks take_bit_take_bit) simp
  have "sft_value (a_shift a) AND 3 \<in> index_shifts (a_shift a)"
    using take_bit_self_word [of "sft_value (a_shift a)" 2] by (auto simp: index_shifts_def and_masks word_le_nat_alt)
  with m q mem_reg32_decodes [of "a_rn a" op "a_rd a" "a_rm a" "sft_value (a_shift a) AND 3"] regs
  show ?thesis by (intro conjI bexI) (simp_all add: narrow)
next
  fix opb assume "v = V THOP_SHAPE_T16_MEM_REG (0x5000 OR push_bit 9 (take_bit 3 opb))"
    and o: "(opb, op) \<in> {(0, OP_STR), (1, OP_STRH), (2, OP_STRB), (3, OP_LDRSB), (4, OP_LDR), (5, OP_LDRH), (6, OP_LDRB), (7, OP_LDRSH)}"
  then have "variant_result tf (V THOP_SHAPE_T16_MEM_REG (0x5000 OR push_bit 9 (take_bit 3 opb))) a = Some (Inr r)" using r by simp
  note q = T16_MEM_REG_result [OF this]
  from q have "0 \<in> index_shifts (a_shift a)" by (auto simp: index_shifts_def)
  moreover from q mem_reg16_decodes [OF o, of "a_rd a" "a_rn a" "a_rm a"]
  have "decode r = Some (mem_instr op (a_rd a) (a_rn a) (AddrReg (a_rm a) 0))" by (simp add: narrow)
  ultimately show ?thesis using q by blast
qed

subsection \<open>Single set bits\<close>

lemma ctz_bit:
  assumes "w \<noteq> 0" shows "bit w (ctz w)" "\<And>i. i < ctz w \<Longrightarrow> \<not> bit w i" "ctz w < 32"
proof -
  have "\<exists>i\<in>set [0..<32]. bit w i" using assms by (auto simp: word32_eq_iff)
  then obtain i where i: "List.find (bit w) [0..<32] = Some i" by (metis find_None_iff not_None_eq)
  then have "ctz w = i" by (simp add: ctz_def)
  then show "bit w (ctz w)" "\<And>i. i < ctz w \<Longrightarrow> \<not> bit w i" "ctz w < 32"
    using i by (auto simp: find_Some_iff)
qed

lemma one_bit:
  assumes "w \<noteq> 0" "w AND (w - 1) = 0"
  shows "w = push_bit (ctz w) 1"
proof -
  define i where "i = ctz w"
  define h where "h = w AND NOT (mask (Suc i))"
  note i = ctz_bit [OF assms(1), folded i_def]
  have w: "w = h OR push_bit i 1"
    using i by (intro bit_word_eqI) (auto simp: h_def bit_simps less_Suc_eq not_less intro: linorder_neqE_nat)
  also have "\<dots> = h + push_bit i 1"
    by (rule disjunctive_add [symmetric]) (auto simp: h_def bit_simps)
  finally have "w - 1 = h + mask i" by (simp add: mask_eq_exp_minus_1 push_bit_eq_mult)
  also have "\<dots> = h OR mask i"
    by (rule disjunctive_add) (auto simp: h_def bit_simps)
  finally have "h = (w AND (w - 1)) AND h" using w by (intro bit_word_eqI) (auto simp: bit_simps)
  with assms(2) have "h = 0" by simp
  with w show ?thesis by (simp add: i_def)
qed

subsection \<open>Block transfers\<close>

lemma PUSH_T1_result:
  assumes "variant_result tf (V THOP_SHAPE_PUSH_T1 base) a = Some (Inr r) \<or> variant_result tf (V THOP_SHAPE_POP_T1 base) a = Some (Inr r)"
    "a_exclude_bit a = 0"
  shows "a_rm a AND NOT 0xff = 0 \<and> r = \<lparr>op_size = 2, op_code = base OR push_bit 8 (take_bit 1 (a_imm a)) OR take_bit 8 (a_rm a)\<rparr>"
  using assms by (elim disjE; simp add: shape_eval shape_simps or.assoc split: if_splits)

lemma PUSH_T2_result:
  assumes "variant_result tf (V THOP_SHAPE_PUSH_T2 base) a = Some (Inr r)"
  shows "r = \<lparr>op_size = 4, op_code = base OR take_bit 13 (a_rm a) OR push_bit 14 (take_bit 1 (a_imm a))\<rparr>"
  using assms by (simp add: shape_eval shape_simps or.assoc split: if_splits)

lemma POP_T2_result:
  assumes "variant_result tf (V THOP_SHAPE_POP_T2 base) a = Some (Inr r)"
  shows "\<not> bit (a_rm a) 13 \<and> r = \<lparr>op_size = 4, op_code = base OR take_bit 15 (a_rm a) OR push_bit 15 (take_bit 1 (a_imm a))\<rparr>"
  using assms by (simp add: shape_eval shape_simps or.assoc bit_iff_and_push_bit_not_eq_0 split: if_splits)

lemma LDM_T1_result:
  assumes "variant_result tf (V THOP_SHAPE_LDM_T1 base) a = Some (Inr r) \<or> variant_result tf (V THOP_SHAPE_STM_T1 base) a = Some (Inr r)"
    "a_exclude_bit a = 0"
  shows "a_rd a \<le> 7 \<and> a_enc a \<noteq> ENFORCE_ENCODING_32BIT \<and> a_rm a AND NOT 0xff = 0 \<and>
     r = \<lparr>op_size = 2, op_code = base OR push_bit 8 (take_bit 3 (a_rd a)) OR take_bit 8 (a_rm a)\<rparr>"
  using assms by (elim disjE; simp add: shape_eval shape_simps or.assoc split: if_splits)

lemma LDM_T3_result:
  assumes "variant_result tf (V THOP_SHAPE_LDM_T3 base) a = Some (Inr r) \<or> variant_result tf (V THOP_SHAPE_LDMDB base) a = Some (Inr r)"
  shows "a_imm a < 2 \<and>
     r = \<lparr>op_size = 4, op_code = base OR push_bit 16 (take_bit 4 (a_rd a)) OR take_bit 16 (a_rm a) OR push_bit 21 (take_bit 1 (a_imm a))\<rparr>"
  using assms by (elim disjE; simp add: shape_eval shape_simps or.assoc split: if_splits)

lemma STM_T3_result:
  assumes "variant_result tf (V THOP_SHAPE_STM_T3 base) a = Some (Inr r) \<or> variant_result tf (V THOP_SHAPE_STMDB base) a = Some (Inr r)"
  shows "a_imm a < 2 \<and>
     r = \<lparr>op_size = 4, op_code = base OR push_bit 16 (take_bit 4 (a_rd a)) OR take_bit 15 (a_rm a) OR push_bit 21 (take_bit 1 (a_imm a))\<rparr>"
  using assms by (elim disjE; simp add: shape_eval shape_simps or.assoc split: if_splits)

lemma push16_decodes:
  "decode \<lparr>op_size = 2, op_code = 0xb400 OR push_bit 8 (take_bit 1 x) OR take_bit 8 y\<rparr> =
     Some (Block False True True 13 (push_bit 14 (take_bit 1 x) OR take_bit 8 y))"
  "decode \<lparr>op_size = 2, op_code = 0xbc00 OR push_bit 8 (take_bit 1 x) OR take_bit 8 y\<rparr> =
     Some (Block True False True 13 (push_bit 15 (take_bit 1 x) OR take_bit 8 y))"
proof -
  define v w where "v = 0xb400 OR push_bit 8 (take_bit 1 x) OR take_bit 8 y"
    and "w = 0xbc00 OR push_bit 8 (take_bit 1 x) OR take_bit 8 y"
  have f: "field v 14 2 = 2" "field v 12 4 = 11" "field v 10 1 = 1" "field v 9 3 = 2" "field v 8 1 = take_bit 1 x" "field v 0 8 = take_bit 8 y"
    "field w 14 2 = 2" "field w 12 4 = 11" "field w 10 1 = 1" "field w 9 3 = 6" "field w 8 1 = take_bit 1 x" "field w 0 8 = take_bit 8 y"
    unfolding v_def w_def by (simp only: word_fields, simp add: word_fields)+
  show "decode \<lparr>op_size = 2, op_code = v\<rparr> = Some (Block False True True 13 (push_bit 14 (take_bit 1 x) OR take_bit 8 y))"
    "decode \<lparr>op_size = 2, op_code = w\<rparr> = Some (Block True False True 13 (push_bit 15 (take_bit 1 x) OR take_bit 8 y))"
    unfolding decode_def decode16_def misc16_def Let_def by (simp_all only: thumb_opcode.select_convs f) simp_all
qed

lemma block32_decodes:
  assumes "base \<in> {0xe8900000, 0xe8800000, 0xe9100000, 0xe9000000}"
  shows "decode \<lparr>op_size = 4, op_code = base OR push_bit 16 (take_bit 4 rn) OR take_bit 16 y OR push_bit 21 (take_bit 1 x)\<rparr> =
     Some (Block (bit base 20) (bit base 24) (bit x 0) (take_bit 4 rn) (take_bit 16 y))"
proof -
  define w where "w = base OR push_bit 16 (take_bit 4 rn) OR take_bit 16 y OR push_bit 21 (take_bit 1 x)"
  have f: "field w 27 5 = 0x1D" "field w 25 2 = 0" "field w 22 1 = 0" "field w 23 2 = (if bit base 24 then 2 else 1)"
    "field w 16 4 = take_bit 4 rn" "field w 0 16 = take_bit 16 y"
    using assms unfolding w_def by (elim insertE; simp only: word_fields; simp add: word_fields)+
  have b: "bit w 20 = bit base 20" "bit w 21 = bit x 0"
    using assms unfolding w_def by (elim insertE; simp only: bit_or_iff bit_push_take bit_take_bit_iff; simp)+
  show ?thesis unfolding w_def [symmetric] decode_def decode32_def block32_def
    by (simp only: thumb_opcode.select_convs f b) simp
qed

lemma push32_decodes:
  "decode \<lparr>op_size = 4, op_code = 0xe92d0000 OR take_bit 13 y OR push_bit 14 (take_bit 1 x)\<rparr> =
     Some (Block False True True 13 (take_bit 13 y OR push_bit 14 (take_bit 1 x)))"
  "decode \<lparr>op_size = 4, op_code = 0xe8bd0000 OR take_bit 15 y OR push_bit 15 (take_bit 1 x)\<rparr> =
     Some (Block True False True 13 (take_bit 15 y OR push_bit 15 (take_bit 1 x)))"
proof -
  define v w where "v = 0xe92d0000 OR take_bit 13 y OR push_bit 14 (take_bit 1 x)"
    and "w = 0xe8bd0000 OR take_bit 15 y OR push_bit 15 (take_bit 1 x)"
  have f: "field v 27 5 = 0x1D" "field v 25 2 = 0" "field v 22 1 = 0" "field v 23 2 = 2"
    "field v 16 4 = 13" "field v 0 16 = take_bit 13 y OR push_bit 14 (take_bit 1 x)"
    "field w 27 5 = 0x1D" "field w 25 2 = 0" "field w 22 1 = 0" "field w 23 2 = 1"
    "field w 16 4 = 13" "field w 0 16 = take_bit 15 y OR push_bit 15 (take_bit 1 x)"
    unfolding v_def w_def by (simp only: word_fields, simp add: word_fields)+
  have b: "\<not> bit v 20" "bit v 21" "bit w 20" "bit w 21"
    unfolding v_def w_def by (simp_all only: bit_or_iff bit_push_take bit_take_bit_iff) simp_all
  show "decode \<lparr>op_size = 4, op_code = v\<rparr> = Some (Block False True True 13 (take_bit 13 y OR push_bit 14 (take_bit 1 x)))"
    "decode \<lparr>op_size = 4, op_code = w\<rparr> = Some (Block True False True 13 (take_bit 15 y OR push_bit 15 (take_bit 1 x)))"
    unfolding decode_def decode32_def block32_def by (simp_all only: thumb_opcode.select_convs f b) simp_all
qed

lemma ldm16_decodes:
  "decode \<lparr>op_size = 2, op_code = 0xc800 OR push_bit 8 (take_bit 3 rn) OR take_bit 8 y\<rparr> =
     Some (Block True False (\<not> bit (take_bit 8 y) (unat (take_bit 3 rn))) (take_bit 3 rn) (take_bit 8 y))"
  "decode \<lparr>op_size = 2, op_code = 0xc000 OR push_bit 8 (take_bit 3 rn) OR take_bit 8 y\<rparr> =
     Some (Block False False True (take_bit 3 rn) (take_bit 8 y))"
  by (simp_all add: decode_def decode16_def Let_def word_fields)

lemma low_list: "(y::u32) AND NOT 0xff = 0 \<Longrightarrow> take_bit 8 y = y"
proof -
  assume "y AND NOT 0xff = 0"
  moreover have "y = take_bit 8 y OR (y AND NOT 0xff)" by (simp add: bits32)
  ultimately show ?thesis by simp
qed

lemma lr_bits: "push_bit 14 (take_bit 1 (drop_bit 14 w AND 1)) OR (w AND NOT (push_bit 14 1 OR push_bit 15 1)) = w AND NOT (0x8000::u32)"
proof -
  have "take_bit 1 (drop_bit 14 w AND 1) = drop_bit 14 w AND 1" by (simp only: and_masks take_bit_take_bit) simp
  then show ?thesis by (simp only:) (simp add: bits32)
qed

lemma lr_bits13:
  assumes "w < 65536"
  shows "take_bit 13 (w AND NOT (push_bit 14 1 OR push_bit 15 1)) = (w AND NOT (push_bit 14 1 OR push_bit 15 (1::u32))) AND NOT 0x2000"
proof -
  have "take_bit 13 (take_bit 16 w AND NOT (push_bit 14 1 OR push_bit 15 1)) = (take_bit 16 w AND NOT (push_bit 14 1 OR push_bit 15 1)) AND NOT 0x2000"
    by (simp add: bits32)
  then show ?thesis using assms by (simp add: narrow)
qed

text \<open>
  What a push can store: not PC, and SP only on its own (by the single store).
\<close>

definition pushable :: "u32 \<Rightarrow> u32" where
  "pushable regs = (if regs AND NOT 0x8000 = 0x2000 then 0x2000 else regs AND NOT 0xA000)"

lemma without_pc_sp: "(regs AND NOT 0x8000) AND NOT 0x2000 = regs AND NOT (0xA000::u32)"
  by (simp add: and.assoc)

lemma other_bit: "k \<noteq> m \<Longrightarrow> push_bit k 1 AND NOT (push_bit m 1) = (push_bit k 1 :: u32)"
  by (auto intro!: bit_word_eqI simp: bit_simps)

lemma pushable_single:
  assumes "w \<noteq> 0" "w AND (w - 1) = 0" "regs AND NOT 0x8000 = w"
  shows "pushable regs = w"
proof -
  have r: "regs AND NOT 0xA000 = w AND NOT 0x2000" unfolding assms(3) [symmetric] by (rule without_pc_sp [symmetric])
  have w: "w = push_bit (ctz w) 1" using one_bit [OF assms(1,2)] .
  have "w AND NOT 0x2000 = w" if "w \<noteq> 0x2000"
  proof -
    have "ctz w \<noteq> 13"
    proof
      assume "ctz w = 13"
      then have "w = push_bit 13 1" using w by simp
      then show False using that by simp
    qed
    then have "push_bit (ctz w) 1 AND NOT (push_bit 13 1) = (push_bit (ctz w) 1 :: u32)" by (rule other_bit)
    then show ?thesis unfolding w [symmetric] by simp
  qed
  then show ?thesis using r assms(3) by (simp add: pushable_def)
qed

lemma lr_not_sp: "push_bit 14 (take_bit 1 lr) AND NOT 0x2000 = push_bit 14 (take_bit 1 (lr::u32))"
  by (simp add: bits32)

lemma pushable_list:
  assumes "regs AND NOT 0x8000 = low OR push_bit 14 (take_bit 1 lr)" "regs AND NOT 0x8000 \<noteq> 0x2000"
  shows "pushable regs = (low AND NOT 0x2000) OR push_bit 14 (take_bit 1 lr)"
proof -
  have "regs AND NOT 0xA000 = (regs AND NOT 0x8000) AND NOT 0x2000" by (rule without_pc_sp [symmetric])
  also have "\<dots> = (low AND NOT 0x2000) OR push_bit 14 (take_bit 1 lr)"
    unfolding assms(1) by (simp only: bit.conj_disj_distrib2 lr_not_sp)
  finally show ?thesis using assms(2) by (simp add: pushable_def)
qed

lemma pc_bits:
  "w < 65536 \<Longrightarrow> push_bit 15 (take_bit 1 (drop_bit 15 w AND 1)) OR (w AND NOT (push_bit 15 1)) = (w::u32)"
proof -
  assume w: "w < 65536"
  have "take_bit 1 (drop_bit 15 w AND 1) = drop_bit 15 w AND 1" by (simp only: and_masks take_bit_take_bit) simp
  then show ?thesis by (simp only:) (simp add: bits32)
qed

lemma pc_bits15:
  assumes "w < 65536"
  shows "take_bit 15 (w AND NOT (push_bit 15 1)) = w AND NOT (push_bit 15 (1::u32))"
proof -
  have "take_bit 15 (take_bit 16 w AND NOT (push_bit 15 1)) = take_bit 16 w AND NOT (push_bit 15 1)" by (simp add: bits32)
  then show ?thesis using assms by (simp add: narrow)
qed

lemma single_reg:
  assumes "w \<noteq> 0" "w AND (w - 1) = 0" "w < 65536"
  shows "ctz w < 16" "w = push_bit (ctz w) 1"
proof -
  show "w = push_bit (ctz w) 1" using one_bit assms by simp
  have "bit (take_bit 16 w) (ctz w)" using ctz_bit(1) [OF assms(1)] assms(3) by (simp add: narrow)
  then show "ctz w < 16" by (simp add: bit_take_bit_iff)
qed

lemma push_decodes:
  assumes "state_ok st" "th_push regs st = Inr (r, st')" "r \<noteq> no_opcode" "regs < 65536"
  shows "pushes (decode r) (pushable regs)"
proof -
  define low where "low = regs AND NOT (push_bit 14 1 OR push_bit 15 1)"
  define lr where "lr = drop_bit 14 regs AND 1"
  have low: "low < 65536" using assms(4) word_and_le2 [of regs "NOT (push_bit 14 1 OR push_bit 15 1)"]
    by (auto simp: low_def)
  have list: "push_bit 14 (take_bit 1 lr) OR low = regs AND NOT 0x8000" unfolding low_def lr_def by (rule lr_bits)
  show ?thesis
  proof (cases "low \<noteq> 0 \<and> low AND (low - 1) = 0 \<and> lr = 0 \<and> low AND NOT 0xff \<noteq> 0")
    case True
    then have e: "thop_emit_table (mem_imm_table OP_STR) (args0\<lparr>a_rd := word_of_nat (ctz low), a_rn := R_SP, a_imm := word_of_int 4,
        a_puw := ucast (5::u32), a_enc := ENFORCE_ENCODING_32BIT\<rparr>) st = Inr (r, st')"
      using assms(2) by (simp add: th_push_def Let_def low_def lr_def th_str_imm_def mem_imm_table_def)
    have "word_of_nat (ctz low) \<le> (15 :: u32)" using single_reg(1) [of low] True low by (simp add: word_le_nat_alt unat_of_nat)
    from mem_imm_decodes [OF assms(1) e assms(3)] this
    have "decode r = Some (mem_instr OP_STR (word_of_nat (ctz low)) 13 (AddrPre (-4)))"
      by (simp add: args_simps puw_addr_def mem_held_def)
    moreover have "pushable regs = low" using True list by (intro pushable_single) auto
    ultimately show ?thesis using single_reg [of low] True low by (auto simp: pushes_def intro: exI [of _ "ctz low"])
  next
    case False
    let ?a = "args0\<lparr>a_rm := low, a_imm := lr\<rparr>"
    have e: "thop_emit_table TH_PUSH ?a st = Inr (r, st')"
      using assms(2) False by (auto simp: th_push_def Let_def low_def lr_def split: if_splits)
    obtain v where v: "v \<in> set (table_variants TH_PUSH)" "variant_result (target_feat st) v ?a = Some (Inr r)"
      using emit_variant [OF assms(1) e assms(3)] .
    then consider "variant_result (target_feat st) (V THOP_SHAPE_PUSH_T1 0xb400) ?a = Some (Inr r)"
      | "variant_result (target_feat st) (V THOP_SHAPE_PUSH_T2 0xe92d0000) ?a = Some (Inr r)"
      by (auto simp: table_variants_def table_simps TH_TABLE_def)
    then have "decode r = Some (Block False True True 13 ((low AND NOT 0x2000) OR push_bit 14 (take_bit 1 lr)))"
    proof cases
      case 1
      from PUSH_T1_result [OF disjI1, OF 1] have q: "low AND NOT 0xff = 0"
         "r = \<lparr>op_size = 2, op_code = 0xb400 OR push_bit 8 (take_bit 1 lr) OR take_bit 8 low\<rparr>"
        by (simp_all add: args_simps)
      have "take_bit 8 low AND NOT 0x2000 = take_bit 8 low" by (simp add: bits32)
      with q show ?thesis using push16_decodes(1) [of lr low] low_list [OF q(1)] by (simp only: or.commute)
    next
      case 2
      from PUSH_T2_result [OF 2] have q: "r = \<lparr>op_size = 4, op_code = 0xe92d0000 OR take_bit 13 low OR push_bit 14 (take_bit 1 lr)\<rparr>"
        by (simp add: args_simps)
      have "take_bit 13 low = low AND NOT 0x2000" unfolding low_def by (rule lr_bits13 [OF assms(4)])
      with q show ?thesis using push32_decodes(1) [of low lr] by (simp only:)
    qed
    moreover have "regs AND NOT 0x8000 \<noteq> 0x2000"
    proof
      assume s: "regs AND NOT 0x8000 = 0x2000"
      have "low = (regs AND NOT 0x8000) AND NOT 0x4000" "lr = drop_bit 14 (regs AND NOT 0x8000) AND 1"
        unfolding low_def lr_def by (simp_all add: bits32)
      then show False using False unfolding s by simp
    qed
    ultimately show ?thesis using pushable_list [of regs low lr] list by (simp only: or.commute pushes_def) simp
  qed
qed

lemma pop_decodes:
  assumes "state_ok st" "th_pop regs st = Inr (r, st')" "r \<noteq> no_opcode"
  shows "pops (decode r) (ucast regs)"
proof -
  define w where "w = (ucast regs :: u32)"
  define low where "low = w AND NOT (push_bit 15 1)"
  define pc where "pc = drop_bit 15 w AND 1"
  have w: "w < 65536" unfolding w_def using uint_lt2p [of regs] by (simp add: word_less_def unsigned_ucast_eq take_bit_int_def)
  then have low: "low < 65536" using word_and_le2 [of w "NOT (push_bit 15 1)"] by (auto simp: low_def)
  have list: "push_bit 15 (take_bit 1 pc) OR low = w" unfolding low_def pc_def by (rule pc_bits [OF w])
  show ?thesis
  proof (cases "pc = 0 \<and> low \<noteq> 0 \<and> low AND (low - 1) = 0 \<and> low AND NOT 0xff \<noteq> 0")
    case True
    then have e: "thop_emit_table (mem_imm_table OP_LDR) (args0\<lparr>a_rd := word_of_nat (ctz low), a_rn := R_SP, a_imm := word_of_int 4,
        a_puw := ucast (3::u32), a_enc := ENFORCE_ENCODING_32BIT\<rparr>) st = Inr (r, st')"
      using assms(2) by (simp add: th_pop_def Let_def low_def pc_def w_def th_ldr_imm_def mem_imm_table_def)
    have "word_of_nat (ctz low) \<le> (15 :: u32)" using single_reg(1) [of low] True low by (simp add: word_le_nat_alt unat_of_nat)
    from mem_imm_decodes [OF assms(1) e assms(3)] this
    have "decode r = Some (mem_instr OP_LDR (word_of_nat (ctz low)) 13 (AddrPost 4))"
      by (simp add: args_simps puw_addr_def mem_held_def)
    then show ?thesis using single_reg [of low] True low list by (auto simp: pops_def w_def [symmetric] intro: exI [of _ "ctz low"])
  next
    case False
    let ?a = "args0\<lparr>a_rm := low, a_imm := pc\<rparr>"
    have e: "thop_emit_table TH_POP ?a st = Inr (r, st')"
      using assms(2) False by (auto simp: th_pop_def Let_def low_def pc_def w_def split: if_splits)
    obtain v where v: "v \<in> set (table_variants TH_POP)" "variant_result (target_feat st) v ?a = Some (Inr r)"
      using emit_variant [OF assms(1) e assms(3)] .
    then consider "variant_result (target_feat st) (V THOP_SHAPE_POP_T1 0xbc00) ?a = Some (Inr r)"
      | "variant_result (target_feat st) (V THOP_SHAPE_POP_T2 0xe8bd0000) ?a = Some (Inr r)"
      by (auto simp: table_variants_def table_simps TH_TABLE_def)
    then have "decode r = Some (Block True False True 13 (push_bit 15 (take_bit 1 pc) OR low))"
    proof cases
      case 1
      from PUSH_T1_result [OF disjI2, OF 1] have q: "low AND NOT 0xff = 0"
         "r = \<lparr>op_size = 2, op_code = 0xbc00 OR push_bit 8 (take_bit 1 pc) OR take_bit 8 low\<rparr>"
        by (simp_all add: args_simps)
      then show ?thesis using push16_decodes(2) [of pc low] low_list [OF q(1)] by (simp only:)
    next
      case 2
      from POP_T2_result [OF 2] have q: "r = \<lparr>op_size = 4, op_code = 0xe8bd0000 OR take_bit 15 low OR push_bit 15 (take_bit 1 pc)\<rparr>"
        by (simp add: args_simps)
      have "take_bit 15 low = low" unfolding low_def by (rule pc_bits15 [OF w])
      with q show ?thesis using push32_decodes(2) [of low pc] by (simp only: or.commute)
    qed
    then show ?thesis by (simp only: list pops_def w_def [symmetric]) simp
  qed
qed

lemma ldm_table_decodes:
  assumes "state_ok st" "thop_emit_table TH_LDM (args0\<lparr>a_rd := rn, a_rm := regs, a_imm := wb, a_enc := enc\<rparr>) st = Inr (r, st')"
    "r \<noteq> no_opcode" "rn \<le> 15" "regs < 65536" "enc \<noteq> ENFORCE_ENCODING_32BIT \<Longrightarrow> (wb = 0) = bit regs (unat rn)"
  shows "decode r = Some (Block True False (wb \<noteq> 0) rn regs)"
proof -
  let ?a = "args0\<lparr>a_rd := rn, a_rm := regs, a_imm := wb, a_enc := enc\<rparr>"
  obtain v where v: "v \<in> set (table_variants TH_LDM)" "variant_result (target_feat st) v ?a = Some (Inr r)"
    using emit_variant [OF assms(1-3)] .
  then consider "variant_result (target_feat st) (V THOP_SHAPE_LDM_T1 0xc800) ?a = Some (Inr r)"
    | "variant_result (target_feat st) (V THOP_SHAPE_LDM_T3 0xe8900000) ?a = Some (Inr r)"
    by (auto simp: table_variants_def table_simps TH_TABLE_def)
  then show ?thesis
  proof cases
    case 1
    from LDM_T1_result [OF disjI1, OF 1] have q: "rn \<le> 7" "enc \<noteq> ENFORCE_ENCODING_32BIT" "regs AND NOT 0xff = 0"
      "r = \<lparr>op_size = 2, op_code = 0xc800 OR push_bit 8 (take_bit 3 rn) OR take_bit 8 regs\<rparr>"
      by (simp_all add: args_simps)
    have "decode r = Some (Block True False (\<not> bit regs (unat rn)) rn regs)"
      using q ldm16_decodes(1) [of rn regs] low_list [OF q(3)] by (simp add: narrow)
    then show ?thesis using q assms(6) by auto
  next
    case 2
    from LDM_T3_result [OF disjI1, OF 2] have q: "wb < 2"
      "r = \<lparr>op_size = 4, op_code = 0xe8900000 OR push_bit 16 (take_bit 4 rn) OR take_bit 16 regs OR push_bit 21 (take_bit 1 wb)\<rparr>"
      by (simp_all add: args_simps)
    have "wb = 0 \<or> wb = 1" using q(1) by uint_arith
    then have "bit wb 0 = (wb \<noteq> 0)" by auto
    with block32_decodes [of "0xe8900000" rn regs wb] q assms(4,5) show ?thesis by (simp only:) (simp add: narrow)
  qed
qed

lemma ldm_decodes:
  assumes "state_ok st" "th_ldm rn regs wb enc st = Inr (r, st')" "r \<noteq> no_opcode" "rn \<le> 15" "regs < 65536"
  shows "decode r = Some (Block True False (wb \<noteq> 0) rn regs) \<or> rn = 13 \<and> wb \<noteq> 0 \<and> pops (decode r) regs"
proof (cases "rn = 13 \<and> wb \<noteq> 0 \<and> enc \<noteq> ENFORCE_ENCODING_32BIT")
  case True
  then have "th_pop (ucast regs) st = Inr (r, st')" using assms(2) by (simp add: th_ldm_def)
  from pop_decodes [OF assms(1) this assms(3)] have "pops (decode r) (ucast (ucast regs :: u16))" .
  moreover have "ucast (ucast regs :: u16) = take_bit 16 regs" by transfer simp
  ultimately show ?thesis using True assms(5) by (simp add: narrow)
next
  case False
  have in_list: "(drop_bit (unat rn) regs AND 1 \<noteq> 0) = bit regs (unat rn)"
    by (simp add: bit_iff_odd_drop_bit and_one_eq mod_2_eq_odd)
  obtain e where e: "thop_emit_table TH_LDM (args0\<lparr>a_rd := rn, a_rm := regs, a_imm := wb, a_enc := e\<rparr>) st = Inr (r, st')"
    "e \<noteq> ENFORCE_ENCODING_32BIT \<longrightarrow> (wb = 0) = bit regs (unat rn)"
    using assms(2,3) False in_list by (auto simp: th_ldm_def Let_def split: if_splits)
  from ldm_table_decodes [OF assms(1) e(1) assms(3-5)] e(2) show ?thesis by auto
qed

lemma list_without_pc: "take_bit 15 w = take_bit 16 (take_bit 15 (w::u32))" "w < 65536 \<Longrightarrow> take_bit 15 w = w AND NOT 0x8000"
proof -
  show "take_bit 15 w = take_bit 16 (take_bit 15 w)" by simp
  have "take_bit 15 (take_bit 16 w) = take_bit 16 w AND NOT 0x8000" by (simp add: bits32)
  then show "w < 65536 \<Longrightarrow> take_bit 15 w = w AND NOT 0x8000" by (simp add: narrow)
qed

lemma one_bit_value: "(wb::u32) < 2 \<Longrightarrow> bit wb 0 = (wb \<noteq> 0)"
proof -
  assume "wb < 2"
  then have "wb = 0 \<or> wb = 1" by uint_arith
  then show ?thesis by auto
qed

lemma stm_decodes:
  assumes "state_ok st" "th_stm rn regs wb enc st = Inr (r, st')" "r \<noteq> no_opcode" "rn \<le> 15" "regs < 65536"
  shows "decode r = Some (Block False False (wb \<noteq> 0) rn (regs AND NOT 0x8000))"
proof -
  let ?e = "if wb = 0 then ENFORCE_ENCODING_32BIT else enc"
  let ?a = "args0\<lparr>a_rd := rn, a_rm := regs, a_imm := wb, a_enc := ?e\<rparr>"
  have e: "thop_emit_table TH_STM ?a st = Inr (r, st')"
    using assms(2,3) by (simp add: th_stm_def Let_def split: if_splits)
  obtain v where v: "v \<in> set (table_variants TH_STM)" "variant_result (target_feat st) v ?a = Some (Inr r)"
    using emit_variant [OF assms(1) e assms(3)] .
  then consider "variant_result (target_feat st) (V THOP_SHAPE_STM_T1 0xc000) ?a = Some (Inr r)"
    | "variant_result (target_feat st) (V THOP_SHAPE_STM_T3 0xe8800000) ?a = Some (Inr r)"
    by (auto simp: table_variants_def table_simps TH_TABLE_def)
  then show ?thesis
  proof cases
    case 1
    from LDM_T1_result [OF disjI2, OF 1] have q: "rn \<le> 7" "wb \<noteq> 0" "regs AND NOT 0xff = 0"
      "r = \<lparr>op_size = 2, op_code = 0xc000 OR push_bit 8 (take_bit 3 rn) OR take_bit 8 regs\<rparr>"
      by (auto simp add: args_simps)
    moreover have "take_bit 8 regs AND NOT 0x8000 = take_bit 8 regs" by (simp add: bits32)
    ultimately show ?thesis using ldm16_decodes(2) [of rn regs] low_list [OF q(3)] by (simp add: narrow)
  next
    case 2
    from STM_T3_result [OF disjI1, OF 2] have q: "wb < 2"
      "r = \<lparr>op_size = 4, op_code = 0xe8800000 OR push_bit 16 (take_bit 4 rn) OR take_bit 15 regs OR push_bit 21 (take_bit 1 wb)\<rparr>"
      by (simp_all add: args_simps)
    with block32_decodes [of "0xe8800000" rn "take_bit 15 regs" wb] list_without_pc [of regs] one_bit_value [OF q(1)] assms(4,5)
    show ?thesis by (simp only:) (simp add: narrow)
  qed
qed

lemma ldmdb_decodes:
  assumes "state_ok st" "th_ldmdb rn regs wb st = Inr (r, st')" "r \<noteq> no_opcode" "rn \<le> 15" "regs < 65536"
  shows "decode r = Some (Block True True (wb \<noteq> 0) rn regs)"
proof -
  let ?a = "args0\<lparr>a_rd := rn, a_rm := regs, a_imm := wb\<rparr>"
  have "variant_result (target_feat st) (V THOP_SHAPE_LDMDB 0xe9100000) ?a = Some (Inr r)"
    by (rule table_decodes [OF _ assms(1) assms(2) [unfolded th_ldmdb_def] assms(3)])
       (simp add: table_variants_def table_simps TH_TABLE_def)
  from LDM_T3_result [OF disjI2, OF this] have q: "wb < 2"
      "r = \<lparr>op_size = 4, op_code = 0xe9100000 OR push_bit 16 (take_bit 4 rn) OR take_bit 16 regs OR push_bit 21 (take_bit 1 wb)\<rparr>"
    by (simp_all add: args_simps)
  with block32_decodes [of "0xe9100000" rn regs wb] one_bit_value [OF q(1)] assms(4,5)
  show ?thesis by (simp only:) (simp add: narrow)
qed

lemma stmdb_decodes:
  assumes "state_ok st" "th_stmdb rn regs wb enc st = Inr (r, st')" "r \<noteq> no_opcode" "rn \<le> 15" "regs < 65536"
  shows "decode r = Some (Block False True (wb \<noteq> 0) rn (regs AND NOT 0x8000))"
proof -
  let ?a = "args0\<lparr>a_rd := rn, a_rm := regs, a_imm := wb\<rparr>"
  have "variant_result (target_feat st) (V THOP_SHAPE_STMDB 0xe9000000) ?a = Some (Inr r)"
    by (rule table_decodes [OF _ assms(1) assms(2) [unfolded th_stmdb_def] assms(3)])
       (simp add: table_variants_def table_simps TH_TABLE_def)
  from STM_T3_result [OF disjI2, OF this] have q: "wb < 2"
      "r = \<lparr>op_size = 4, op_code = 0xe9000000 OR push_bit 16 (take_bit 4 rn) OR take_bit 15 regs OR push_bit 21 (take_bit 1 wb)\<rparr>"
    by (simp_all add: args_simps)
  with block32_decodes [of "0xe9000000" rn "take_bit 15 regs" wb] list_without_pc [of regs] one_bit_value [OF q(1)] assms(4,5)
  show ?thesis by (simp only:) (simp add: narrow)
qed

lemma int_offset:
  assumes "- (2 ^ 31) \<le> imm" "imm < 2 ^ 31" "(word_of_int imm :: u32) < 4096"
  shows "0 \<le> imm" "imm < 4096" "uint (word_of_int imm :: u32) = imm"
proof -
  have u: "uint (word_of_int imm :: u32) = imm mod 4294967296" by (simp add: uint_word_of_int)
  then have m: "imm mod 4294967296 < 4096" using assms(3) by (simp add: word_less_def)
  show 0: "0 \<le> imm"
  proof (rule ccontr)
    assume "\<not> 0 \<le> imm"
    then have "(imm + 4294967296) mod 4294967296 = imm + 4294967296" using assms(1) by (intro mod_pos_pos_trivial) auto
    then show False using m assms(1) by simp
  qed
  show "uint (word_of_int imm :: u32) = imm" "imm < 4096" using 0 assms(2) m u by simp_all
qed

lemma mem_imm_int:
  assumes "state_ok st" "mem_imm op rt rn imm puw enc st = Inr (r, st')" "r \<noteq> no_opcode" "rt \<le> 15" "rn \<le> 15"
    and "- (2 ^ 31) \<le> imm" "imm < 2 ^ 31" "puw \<le> 7"
  shows "0 \<le> imm \<and> imm < 4096 \<and> (rn = 15 \<longrightarrow> mem_load op) \<and> decode r = mem_held op rt rn puw imm"
proof -
  have "puw \<in> {0, 1, 2, 3, 4, 5, 6, 7}" using assms(8) by uint_arith
  then have p: "(ucast puw :: u8) \<le> 7" "ucast (ucast puw :: u8) = puw"
    by (elim insertE; simp)+
  let ?a = "args0\<lparr>a_rd := rt, a_rn := rn, a_imm := word_of_int imm, a_puw := ucast puw, a_enc := enc\<rparr>"
  have a: "a_rd ?a = rt" "a_rn ?a = rn" "a_imm ?a = word_of_int imm" "a_puw ?a = ucast puw" by simp_all
  from mem_imm_decodes [OF assms(1) assms(2) [unfolded mem_imm_eq] assms(3), unfolded a, OF assms(4,5) p(1)]
  show ?thesis using int_offset [OF assms(6,7)] by (simp add: p(2))
qed

lemma mem_reg_int:
  assumes "state_ok st" "mem_reg op rt rn rm shift enc st = Inr (r, st')" "r \<noteq> no_opcode" "rt \<le> 15" "rn \<le> 15" "rm \<le> 15"
  shows "sft_type shift \<in> {THUMB_SHIFT_NONE, THUMB_SHIFT_LSL} \<and>
    (\<exists>k \<in> index_shifts shift. decode r = Some (mem_instr op rt rn (AddrReg rm k)))"
proof -
  let ?a = "args0\<lparr>a_rd := rt, a_rn := rn, a_rm := rm, a_flags := FLAGS_BEHAVIOUR_NOT_IMPORTANT, a_shift := shift, a_enc := enc\<rparr>"
  have a: "a_rd ?a = rt" "a_rn ?a = rn" "a_rm ?a = rm" "a_shift ?a = shift" by simp_all
  obtain v where "v \<in> set (table_variants (mem_reg_table op))" "variant_result (target_feat st) v ?a = Some (Inr r)"
    using emit_variant [OF assms(1) assms(2) [unfolded mem_reg_eq] assms(3)] .
  from mem_reg_variant_decodes [OF this, unfolded a, OF assms(4-6)] show ?thesis .
qed

subsection \<open>Properties\<close>







end
