(* ===== verification/Thumb_Roundtrip_Branch.thy ===== *)
theory Thumb_Roundtrip_Branch
  imports Thumb_Roundtrip_Mem
begin

section \<open>Branch instructions decode to the branch asked for\<close>

text \<open>
  The emitters of \<^verbatim>\<open>thop_branch.c\<close> against the decoder: the words their custom emitters
  build, how the decoder reads the offsets back, and the round trip of every branch form.
\<close>

text \<open>
  The value a signed field of \<open>n + 1\<close> bits holds of an offset: the offset itself when it fits, and
  otherwise what is left of it modulo the size of the field.
\<close>

definition held_offset :: "nat \<Rightarrow> u32 \<Rightarrow> int" where
  "held_offset n imm =
     (if - (2 ^ n) \<le> sint imm \<and> sint imm < 2 ^ n then sint imm
      else (sint imm + 2 ^ n) mod 2 ^ (n + 1) - 2 ^ n)"

text \<open>The branch a condition field of four bits holds; 14 and 15 are not conditions there.\<close>

definition branch_cond :: "u32 \<Rightarrow> int \<Rightarrow> instr option" where
  "branch_cond cond off = (if cond \<le> 13 then Some (BranchCond cond off) else None)"

text \<open>
  The offset CBZ and CBNZ hold: the emitter takes the \<open>i\<close> field, which the architecture weighs
  64, from bit 5 of the offset.
\<close>

definition cbz_held :: "u32 \<Rightarrow> u32" where
  "cbz_held imm = (if 32 \<le> imm \<and> imm < 64 then imm + 64 else if 64 \<le> imm \<and> imm < 96 then imm - 64 else imm)"

subsection \<open>What the shapes yield\<close>

lemma B_COND_result:
  assumes "variant_result tf (V THOP_SHAPE_B_COND_T16 base) a = Some (Inr r)"
  shows "r = \<lparr>op_size = 2, op_code = base OR push_bit 8 (take_bit 4 (a_rd a)) OR take_bit 8 (a_imm a)\<rparr>"
  using assms by (simp add: shape_eval shape_simps or.assoc split: if_splits)

lemma BX_result:
  assumes "variant_result tf (V THOP_SHAPE_BX base) a = Some (Inr r) \<or> variant_result tf (V THOP_SHAPE_BLX_REG base) a = Some (Inr r)"
  shows "r = \<lparr>op_size = 2, op_code = base OR push_bit 3 (take_bit 4 (a_rm a))\<rparr>"
  using assms by (elim disjE; simp add: shape_eval shape_simps or.assoc split: if_splits)

lemma BL_T1_result:
  assumes "variant_result tf (VC THOP_SHAPE_BL_T1 base CUSTOM_bl_t1_emit) a = Some (Inr r)"
  shows "even (sint (a_imm a)) \<and> - 16777216 \<le> sint (a_imm a) \<and> sint (a_imm a) \<le> 16777214 \<and>
     r = bl_t1_emit base a"
  using assms by (auto simp: shape_eval shape_simps call_custom_spec_def thop_call_custom_def bl_t1_emit_def or.assoc split: if_splits)

lemma B_T4_result:
  assumes "variant_result tf (VC THOP_SHAPE_B_T4 base CUSTOM_b_t4_emit) a = Some (Inr r)"
  shows "even (sint (a_imm a)) \<and> - 16777216 \<le> sint (a_imm a) \<and> sint (a_imm a) \<le> 16777214 \<and>
     r = b_t4_emit base a"
  using assms by (auto simp: shape_eval shape_simps call_custom_spec_def thop_call_custom_def b_t4_emit_def or.assoc split: if_splits)

lemma B_T3_result:
  assumes "variant_result tf (VC THOP_SHAPE_B_T3 base CUSTOM_b_t3_emit) a = Some (Inr r)"
  shows "r = b_t3_emit base a"
  using assms by (auto simp: shape_eval shape_simps call_custom_spec_def thop_call_custom_def or.assoc split: if_splits)

lemma B_T2_result:
  assumes "variant_result tf (VC THOP_SHAPE_B_T2 base CUSTOM_b_t2_emit) a = Some (Inr r)"
  shows "sint (signed_drop_bit 1 (a_imm a)) \<le> 1023 \<and> - 1024 \<le> sint (signed_drop_bit 1 (a_imm a)) \<and> \<not> bit (a_imm a) 0 \<and>
     r = \<lparr>op_size = 2, op_code = base OR (signed_drop_bit 1 (a_imm a) AND 0x7ff)\<rparr>"
  using assms by (auto simp: shape_eval shape_simps call_custom_spec_def thop_call_custom_def b_t2_emit_def Let_def or.assoc split: if_splits)

lemma CBZ_result:
  assumes "variant_result tf (VC THOP_SHAPE_CBZ base CUSTOM_cbz_emit) a = Some (Inr r)"
  shows "a_imm a \<le> 126 \<and> a_imm a AND 1 = 0 \<and> a_rd a \<le> 7 \<and>
     r = \<lparr>op_size = 2, op_code = base OR push_bit 9 (drop_bit 5 (a_imm a) AND 1) OR push_bit 3 (drop_bit 1 (a_imm a) AND 0x1f) OR a_rd a\<rparr>"
  using assms by (auto simp: shape_eval shape_simps call_custom_spec_def thop_call_custom_def cbz_emit_def Let_def or.assoc split: if_splits)

subsection \<open>Offsets\<close>

lemma even_sint: "even (sint w) \<longleftrightarrow> \<not> bit (w::u32) 0"
proof -
  have "bit (sint w) 0 = bit w 0" by (simp only: bit_sint_iff) simp
  then show ?thesis by (simp only: bit_0) blast
qed
lemma word_of_sint: "even (sint w) \<Longrightarrow> (w::u32) AND NOT 1 = w"
  unfolding even_sint by (simp add: bits32 del: bit_0)

lemma sint_signed_take_bit:
  assumes "- (2 ^ n) \<le> sint w" "sint w < 2 ^ n" "n < 31"
  shows "sint (signed_take_bit n (w::u32)) = sint w"
  using sint_signed_take_bit_word_of_int [of n "sint w"] assms by simp

lemma held_offset_eq: "held_offset n imm = signed_take_bit n (sint imm)"
  by (auto simp: held_offset_def signed_take_bit_eq_take_bit_shift take_bit_eq_mod)

lemma sint_scaled: "n + k < 31 \<Longrightarrow> sint (signed_take_bit (n + k) (push_bit k (imm::u32))) = push_bit k (signed_take_bit n (sint imm))"
  by (intro bit_eqI) (auto simp: bit_sint_iff bit_signed_take_bit_iff bit_push_bit_iff min_def)

lemma sint_held_offset:
  assumes "n < 31"
  shows "sint (signed_take_bit n imm) = held_offset n imm"
    and "n < 30 \<Longrightarrow> sint (signed_take_bit (n + 1) (push_bit 1 imm)) = 2 * held_offset n imm"
proof -
  show "sint (signed_take_bit n imm) = held_offset n imm"
    unfolding held_offset_eq using assms
    by (intro bit_eqI) (auto simp: bit_sint_iff bit_signed_take_bit_iff min_def)
next
  assume n: "n < 30"
  have "sint (signed_take_bit (n + 1) (push_bit 1 imm)) = push_bit 1 (signed_take_bit n (sint imm))"
    using n by (intro sint_scaled) simp
  then show "sint (signed_take_bit (n + 1) (push_bit 1 imm)) = 2 * held_offset n imm"
    by (simp add: held_offset_eq push_bit_eq_mult)
qed

lemma bl_decodes:
  assumes "even (sint imm)" "- 16777216 \<le> sint imm" "sint imm \<le> 16777214"
    and that: "field w 26 1 = 0" "field w 13 1 = 0" "field w 11 1 = 0" "field w 16 10 = 0" "field w 0 11 = 0"
  shows "sint (unpack_10_11_0 (w OR th_packimm_10_11_0 imm)) = sint imm"
proof -
  have "unpack_10_11_0 (w OR th_packimm_10_11_0 imm) = unpack_10_11_0 (th_packimm_10_11_0 imm)"
    unfolding unpack_10_11_0_def field_or that Let_def by simp
  also have "\<dots> = signed_take_bit 24 imm" using assms(1) by (simp only: unpack_pack_10_11_0 word_of_sint)
  finally show ?thesis using sint_signed_take_bit [of 24 imm] assms by simp
qed

lemma bl_t1_code:
  assumes "even (sint (a_imm a))" "- 16777216 \<le> sint (a_imm a)" "sint (a_imm a) \<le> 16777214"
  shows "bl_t1_emit base a = \<lparr>op_size = 4, op_code = 0xF000D000 OR th_packimm_10_11_0 (a_imm a)\<rparr>"
    "b_t4_emit base a = \<lparr>op_size = 4, op_code = 0xF0009000 OR th_packimm_10_11_0 (a_imm a)\<rparr>"
  using assms by (simp_all add: bl_t1_emit_def b_t4_emit_def th_packimm_10_11_0_def Let_def bits32)

lemma b_t3_code:
  "b_t3_emit base a = \<lparr>op_size = 4, op_code = 0xF0008000 OR push_bit 22 (a_rd a) OR th_encbranch_b_t3 (a_imm a)\<rparr>"
  by (simp add: b_t3_emit_def th_encbranch_b_t3_def Let_def)

lemma field_packimm_10_11_0 [word_fields]:
  "field (th_packimm_10_11_0 x) 27 5 = 0" "field (th_packimm_10_11_0 x) 15 (Suc 0) = 0"
  "field (th_packimm_10_11_0 x) 14 (Suc 0) = 0" "field (th_packimm_10_11_0 x) 12 (Suc 0) = 0"
  by (simp_all add: th_packimm_10_11_0_def Let_def field_def bits32)

lemma field_encbranch_b_t3 [word_fields]:
  "field (th_encbranch_b_t3 x) 27 5 = 0" "field (th_encbranch_b_t3 x) 15 (Suc 0) = 0"
  "field (th_encbranch_b_t3 x) 14 (Suc 0) = 0" "field (th_encbranch_b_t3 x) 12 (Suc 0) = 0"
  "field (th_encbranch_b_t3 x) 22 4 = 0" "field (th_encbranch_b_t3 x) 23 3 = 0"
  by (simp_all add: th_encbranch_b_t3_def Let_def field_def bits32)

lemma bl_word_decodes:
  assumes "even (sint imm)" "- 16777216 \<le> sint imm" "sint imm \<le> 16777214"
  shows "decode \<lparr>op_size = 4, op_code = 0xF000D000 OR th_packimm_10_11_0 imm\<rparr> = Some (BranchLink (sint imm))"
    "decode \<lparr>op_size = 4, op_code = 0xF0009000 OR th_packimm_10_11_0 imm\<rparr> = Some (Branch (sint imm))"
proof -
  have "sint (unpack_10_11_0 (0xF000D000 OR th_packimm_10_11_0 imm)) = sint imm"
    "sint (unpack_10_11_0 (0xF0009000 OR th_packimm_10_11_0 imm)) = sint imm"
    by (rule bl_decodes [OF assms]; simp add: word_fields)+
  then show "decode \<lparr>op_size = 4, op_code = 0xF000D000 OR th_packimm_10_11_0 imm\<rparr> = Some (BranchLink (sint imm))"
    "decode \<lparr>op_size = 4, op_code = 0xF0009000 OR th_packimm_10_11_0 imm\<rparr> = Some (Branch (sint imm))"
    by (simp_all add: decode_def decode32_def branch32_def word_fields)
qed

lemma field_push: "k \<le> s \<Longrightarrow> s + n \<le> 32 \<Longrightarrow> field (push_bit k x) s n = field x (s - k) n"
  by (rule bit_word_eqI) (auto simp: field_eq_take_bit bit_simps)

lemma cond_top:
  assumes "c \<le> 15"
  shows "(field (c::u32) 1 3 = 7) = (\<not> c \<le> 13)"
proof -
  have u: "unat (field c 1 3) = unat c div 2 mod 8" using unat_field [of c 1 3] by simp
  have "(field c 1 3 = 7) = (unat (field c 1 3) = 7)" by (simp add: word_unat_eq_iff)
  then show ?thesis unfolding u using assms by (simp add: word_le_nat_alt) linarith
qed

lemma b_t3_word_decodes:
  assumes "cond \<le> 15"
  shows "decode \<lparr>op_size = 4, op_code = 0xF0008000 OR push_bit 22 cond OR th_encbranch_b_t3 imm\<rparr> =
     branch_cond cond (2 * held_offset 19 imm)"
proof -
  have c: "take_bit 4 cond = cond" using assms by (rule narrow)
  define w where "w = 0xF0008000 OR push_bit 22 (take_bit 4 cond) OR th_encbranch_b_t3 imm"
  have f: "field w 27 5 = 0x1E" "field w 15 (Suc 0) = 1" "field w 14 (Suc 0) = 0" "field w 12 (Suc 0) = 0"
    "field w 22 4 = take_bit 4 cond"
    unfolding w_def by (simp_all add: word_fields)
  have t: "field w 23 3 = field cond 1 3"
    unfolding w_def using field_push [of 22 23 3 cond] by (simp add: field_or c field_encbranch_b_t3) (simp add: word_fields)
  have "unpack_b_t3 w = unpack_b_t3 (th_encbranch_b_t3 imm)"
    unfolding unpack_b_t3_def w_def by (simp add: word_fields)
  then have "unpack_b_t3 w = signed_take_bit 20 (push_bit 1 imm)" by (simp only: unpack_pack_b_t3)
  then have u: "sint (unpack_b_t3 w) = 2 * held_offset 19 imm" using sint_held_offset(2) [of 19 imm] by simp
  have "decode \<lparr>op_size = 4, op_code = w\<rparr> = branch_cond (take_bit 4 cond) (2 * held_offset 19 imm)"
    unfolding c using cond_top [OF assms] by (simp add: decode_def decode32_def branch32_def branch_cond_def f [unfolded c] t u)
  then show ?thesis by (simp only: w_def c)
qed

subsection \<open>16-bit forms\<close>

lemma b_cond16_decodes:
  assumes "cond \<le> 15"
  shows "decode \<lparr>op_size = 2, op_code = 0xd000 OR push_bit 8 (take_bit 4 cond) OR take_bit 8 imm\<rparr> =
     branch_cond cond (2 * held_offset 7 imm)"
proof -
  define w where "w = 0xd000 OR push_bit 8 (take_bit 4 cond) OR take_bit 8 imm"
  have f: "field w 12 4 = 13" "field w 14 2 = 3" "field w 8 4 = take_bit 4 cond" "field w 0 8 = take_bit 8 imm"
    unfolding w_def by (simp_all add: word_fields)
  have c: "take_bit 4 cond = cond" using assms by (rule narrow)
  have "(cond = 14 \<or> cond = 15) = (\<not> cond \<le> 13)" using assms by uint_arith
  moreover have "signed_take_bit 7 (take_bit 8 imm) = signed_take_bit 7 imm" by (simp add: bits32)
  ultimately show ?thesis using sint_held_offset(1) [of 7 imm]
    by (simp add: decode_def decode16_def Let_def branch_cond_def f [unfolded c] w_def [symmetric] del: signed_take_bit_take_bit)
qed

lemma b16_decodes:
  "decode \<lparr>op_size = 2, op_code = 0xe000 OR take_bit 11 x\<rparr> = Some (Branch (2 * sint (signed_take_bit 10 x)))"
proof -
  define w where "w = 0xe000 OR take_bit 11 x"
  have f: "field w 12 4 = 14" "field w 14 2 = 3" "field w 11 1 = 0" "field w 0 11 = take_bit 11 x"
    unfolding w_def by (simp_all add: word_fields)
  have "signed_take_bit 10 (take_bit 11 x) = signed_take_bit 10 x" by (simp add: bits32)
  then show ?thesis using f(3)
    by (simp add: decode_def decode16_def Let_def f w_def [symmetric] del: signed_take_bit_take_bit)
qed

lemma bx_decodes:
  "decode \<lparr>op_size = 2, op_code = 0x4700 OR push_bit 3 (take_bit 4 rm)\<rparr> = Some (BranchReg (take_bit 4 rm))"
  "decode \<lparr>op_size = 2, op_code = 0x4780 OR push_bit 3 (take_bit 4 rm)\<rparr> = Some (BranchLinkReg (take_bit 4 rm))"
  by (simp_all add: decode_def decode16_def special16_def Let_def word_fields)

lemma cbz_offset:
  fixes imm :: u32
  assumes "imm \<le> 126" "imm AND 1 = 0"
  shows "push_bit 6 (take_bit 1 (drop_bit 5 imm)) OR push_bit 1 (take_bit 5 (drop_bit 1 imm)) = cbz_held imm"
proof -
  have "list_all (\<lambda>n. let x = word_of_nat n :: u32 in x AND 1 = 0 \<longrightarrow>
      push_bit 6 (take_bit 1 (drop_bit 5 x)) OR push_bit 1 (take_bit 5 (drop_bit 1 x)) = cbz_held x) [0..<127]"
    by code_simp
  moreover have "unat imm \<in> set [0..<127]" using assms(1) by (simp add: word_le_nat_alt)
  ultimately show ?thesis using assms(2) unfolding list_all_iff Let_def by (auto dest!: bspec [of _ _ "unat imm"])
qed

lemma cbz_decodes:
  fixes imm :: u32
  assumes "imm \<le> 126" "imm AND 1 = 0" "rn \<le> 7" "base = 0xb100 \<or> base = 0xb900"
  shows "decode \<lparr>op_size = 2, op_code = base OR push_bit 9 (drop_bit 5 imm AND 1) OR push_bit 3 (drop_bit 1 imm AND 0x1f) OR rn\<rparr> =
     Some (CompareBranch (base = 0xb900) rn (cbz_held imm))"
proof -
  have m: "drop_bit 5 imm AND 1 = take_bit 1 (drop_bit 5 imm)" "drop_bit 1 imm AND 0x1f = take_bit 5 (drop_bit 1 imm)"
    by (simp_all add: take_bit_eq_mask mask_eq_exp_minus_1)
  define w where "w = base OR push_bit 9 (take_bit 1 (drop_bit 5 imm)) OR push_bit 3 (take_bit 5 (drop_bit 1 imm)) OR take_bit 3 rn"
  have rn: "take_bit 3 rn = rn" using assms(3) by (rule narrow)
  have f: "field w 12 4 = 11" "field w 14 2 = 2" "field w 10 1 = 0" "field w 8 1 = 1" "field w 0 3 = take_bit 3 rn"
    "field w 9 1 = take_bit 1 (drop_bit 5 imm)" "field w 3 5 = take_bit 5 (drop_bit 1 imm)"
    unfolding w_def using assms(4) by (elim disjE; simp only: word_fields; simp add: word_fields)+
  have b: "bit w 11 = (base = 0xb900)"
    unfolding w_def using assms(4) by (elim disjE; simp only: bit_or_iff bit_push_take bit_take_bit_iff; simp)
  have i: "push_bit 6 (take_bit 1 (drop_bit 5 imm)) OR push_bit 1 (take_bit 5 (drop_bit 1 imm)) = cbz_held imm"
    using assms(1,2) by (rule cbz_offset)
  have "decode \<lparr>op_size = 2, op_code = w\<rparr> = Some (CompareBranch (base = 0xb900) rn (cbz_held imm))"
    using f(3,4,6) i by (simp add: decode_def decode16_def misc16_def Let_def f b rn)
  then show ?thesis unfolding w_def m rn .
qed

lemma sint_half:
  assumes "\<not> bit (x::u32) 0" "- 1024 \<le> sint (signed_drop_bit 1 x)" "sint (signed_drop_bit 1 x) \<le> 1023"
  shows "2 * sint (signed_take_bit 10 (signed_drop_bit 1 x)) = sint x"
proof -
  have "even (sint x)" using assms(1) by (simp only: even_sint not_False_eq_True)
  moreover have "sint (signed_drop_bit 1 x) = sint x div 2" by (simp add: sint_signed_drop_bit_eq drop_bit_eq_div)
  moreover have "sint (signed_take_bit 10 (signed_drop_bit 1 x)) = sint (signed_drop_bit 1 x)"
    using assms(2,3) by (intro sint_signed_take_bit) simp_all
  ultimately show ?thesis by simp
qed

lemma single_variant:
  assumes "thop_emit_table t a st = Inr (r, st')" "table_variants t = [v]" "state_ok st" "r \<noteq> no_opcode"
  shows "variant_result (target_feat st) v a = Some (Inr r)"
  using emit_variant [OF assms(3,1,4)] assms(2) by auto

lemma branch_variants:
  "table_variants TH_BX = [V THOP_SHAPE_BX 0x4700]"
  "table_variants TH_BLX_REG = [V THOP_SHAPE_BLX_REG 0x4780]"
  "table_variants TH_BL_T1 = [VC THOP_SHAPE_BL_T1 0 CUSTOM_bl_t1_emit]"
  "table_variants TH_B_COND_T16 = [V THOP_SHAPE_B_COND_T16 0xd000]"
  "table_variants TH_B_T2 = [VC THOP_SHAPE_B_T2 0xe000 CUSTOM_b_t2_emit]"
  "table_variants TH_B_T3 = [VC THOP_SHAPE_B_T3 0 CUSTOM_b_t3_emit]"
  "table_variants TH_B_T4 = [VC THOP_SHAPE_B_T4 0 CUSTOM_b_t4_emit]"
  "table_variants TH_CBZ = [VC THOP_SHAPE_CBZ 0xb100 CUSTOM_cbz_emit]"
  "table_variants TH_CBNZ = [VC THOP_SHAPE_CBZ 0xb900 CUSTOM_cbz_emit]"
  by (simp_all add: table_variants_def table_simps TH_TABLE_def)

subsection \<open>Emission\<close>

lemma bl_emits:
  assumes "state_ok st" "r \<noteq> no_opcode"
  shows "th_bl_t1 imm st = Inr (r, st') \<Longrightarrow> decode r = Some (BranchLink (sint imm))"
    "th_b_t4 off st = Inr (r, st') \<Longrightarrow> decode r = Some (Branch (sint (word_of_int off :: u32)))"
proof -
  assume e: "th_bl_t1 imm st = Inr (r, st')"
  from BL_T1_result [OF single_variant [OF e [unfolded th_bl_t1_def] branch_variants(3) assms]]
  show "decode r = Some (BranchLink (sint imm))" by (simp add: bl_t1_code bl_word_decodes)
next
  assume e: "th_b_t4 off st = Inr (r, st')"
  from B_T4_result [OF single_variant [OF e [unfolded th_b_t4_def] branch_variants(7) assms]]
  show "decode r = Some (Branch (sint (word_of_int off :: u32)))" by (simp add: bl_t1_code bl_word_decodes)
qed

lemma b_cond_emits:
  assumes "state_ok st" "r \<noteq> no_opcode" "cond \<le> 15"
  shows "th_b_t1 cond imm st = Inr (r, st') \<Longrightarrow> decode r = branch_cond cond (2 * held_offset 7 imm)"
    "th_b_t3 cond imm st = Inr (r, st') \<Longrightarrow> decode r = branch_cond cond (2 * held_offset 19 imm)"
proof -
  assume e: "th_b_t1 cond imm st = Inr (r, st')"
  have "take_bit 8 (imm AND 0xff) = take_bit 8 imm" by (simp add: bits32)
  with B_COND_result [OF single_variant [OF e [unfolded th_b_t1_def] branch_variants(4) assms(1,2)]]
  show "decode r = branch_cond cond (2 * held_offset 7 imm)"
    using b_cond16_decodes [OF assms(3), of imm] by simp
next
  assume e: "th_b_t3 cond imm st = Inr (r, st')"
  from B_T3_result [OF single_variant [OF e [unfolded th_b_t3_def] branch_variants(6) assms(1,2)]]
  show "decode r = branch_cond cond (2 * held_offset 19 imm)"
    using b_t3_word_decodes [OF assms(3), of imm] by (simp add: b_t3_code)
qed

lemma b_t2_emits:
  assumes "state_ok st" "r \<noteq> no_opcode" "th_b_t2 off st = Inr (r, st')"
  shows "decode r = Some (Branch (sint (word_of_int off :: u32)))"
proof -
  let ?x = "word_of_int off :: u32"
  have m: "(x::u32) AND 0x7ff = take_bit 11 x" for x by (simp add: take_bit_eq_mask mask_eq_exp_minus_1)
  from B_T2_result [OF single_variant [OF assms(3) [unfolded th_b_t2_def] branch_variants(5) assms(1,2)]]
  have v: "- 1024 \<le> sint (signed_drop_bit 1 ?x)" "sint (signed_drop_bit 1 ?x) \<le> 1023" "\<not> bit ?x 0"
    "r = \<lparr>op_size = 2, op_code = 0xe000 OR (signed_drop_bit 1 ?x AND 0x7ff)\<rparr>"
    by (simp_all only: thop_args.simps args_simps) simp_all
  show ?thesis unfolding v(4) m b16_decodes sint_half [OF v(3,1,2)] ..
qed

lemma bx_emits:
  assumes "state_ok st" "r \<noteq> no_opcode" "rm \<le> 15"
  shows "th_bx_reg rm st = Inr (r, st') \<Longrightarrow> decode r = Some (BranchReg (ucast rm))"
    "th_blx_reg rm st = Inr (r, st') \<Longrightarrow> decode r = Some (BranchLinkReg (ucast rm))"
proof -
  have "uint (ucast rm :: u32) = uint rm" using uint_lt2p [of rm] by (simp add: unsigned_ucast_eq take_bit_int_def)
  then have "(ucast rm :: u32) \<le> 15" using assms(3) by (simp add: word_le_def)
  then have n: "take_bit 4 (ucast rm :: u32) = ucast rm" by (rule narrow)
  show "decode r = Some (BranchReg (ucast rm))" if e: "th_bx_reg rm st = Inr (r, st')"
    using BX_result [OF disjI1, OF single_variant [OF e [unfolded th_bx_reg_def] branch_variants(1) assms(1,2)]]
    by (simp add: bx_decodes [of "ucast rm", unfolded n] n)
  show "decode r = Some (BranchLinkReg (ucast rm))" if e: "th_blx_reg rm st = Inr (r, st')"
    using BX_result [OF disjI2, OF single_variant [OF e [unfolded th_blx_reg_def] branch_variants(2) assms(1,2)]]
    by (simp add: bx_decodes [of "ucast rm", unfolded n] n)
qed

lemma cbz_emits:
  assumes "state_ok st" "r \<noteq> no_opcode" "th_cbz rn imm nonzero st = Inr (r, st')"
  shows "decode r = Some (CompareBranch (nonzero \<noteq> 0) (ucast rn) (cbz_held imm))"
proof (cases "nonzero = 0")
  case True
  then have e: "thop_emit_table TH_CBZ (args0\<lparr>a_rd := ucast rn, a_imm := imm\<rparr>) st = Inr (r, st')"
    using assms(3) by (simp add: th_cbz_def)
  from CBZ_result [OF single_variant [OF e branch_variants(8) assms(1,2)]] True show ?thesis
    using cbz_decodes [of imm "ucast rn" "0xb100"] by simp
next
  case False
  then have e: "thop_emit_table TH_CBNZ (args0\<lparr>a_rd := ucast rn, a_imm := imm\<rparr>) st = Inr (r, st')"
    using assms(3) by (simp add: th_cbz_def)
  from CBZ_result [OF single_variant [OF e branch_variants(9) assms(1,2)]] False show ?thesis
    using cbz_decodes [of imm "ucast rn" "0xb900"] by simp
qed

subsection \<open>Properties\<close>



text \<open>
  The shape of BL asks for the 32-bit instructions, which the ARMv6-M and ARMv8-M baseline
  profiles do not have, although BL is one of the few 32-bit instructions of these
  architectures: no call can be emitted for them.
\<close>

lemma baseline_no_bl:
  assumes "state_ok st" "th_bl_t1 imm st = Inr (r, st')"
    and "target_feat st \<in> {THOP_PROFILE_ARMV6M_CORE, THOP_PROFILE_ARMV8M_BASE_CORE}"
  shows "r = no_opcode"
proof (rule ccontr)
  assume "r \<noteq> no_opcode"
  with single_variant [OF assms(2) [unfolded th_bl_t1_def] branch_variants(3) assms(1)]
  have "variant_result (target_feat st) (VC THOP_SHAPE_BL_T1 0 CUSTOM_bl_t1_emit) (args0\<lparr>a_imm := imm\<rparr>) = Some (Inr r)" .
  then have "thop_feat32_subset (feats [F_t32]) (target_feat st)"
    by (simp add: shape_eval shape_simps split: if_splits)
  with assms(3) show False
    by (auto simp: thop_feat32_subset_def THOP_PROFILE_ARMV6M_CORE_def THOP_PROFILE_ARMV8M_BASE_CORE_def)
qed

end
