(* ===== verification/Thumb_Widen.thy ===== *)
theory Thumb_Widen
  imports Thumb_Roundtrip_Branch
begin


section \<open>The 32-bit form of a 16-bit instruction\<close>

text \<open>
  The text section as the back end sees it (halfwords in little-endian bytes), what the processor
  fetches from it, and \<^verbatim>\<open>th_t16_to_t32\<close> of \<^verbatim>\<open>arm-thumb-gen.c\<close>, which finds the 32-bit form of a
  16-bit instruction, with the proof that both are the same instruction.
\<close>

subsection \<open>The text section\<close>

type_synonym text_data = "int \<Rightarrow> u8"

definition ld16 :: "text_data \<Rightarrow> int \<Rightarrow> u32" where
  "ld16 d p = ucast (d p) OR push_bit 8 (ucast (d (p + 1)))"

definition st16 :: "text_data \<Rightarrow> int \<Rightarrow> u32 \<Rightarrow> text_data" where
  "st16 d p w = d(p := ucast w, p + 1 := ucast (drop_bit 8 w))"

text \<open>The instruction the processor fetches: a first halfword from 0xE800 on announces a second one.\<close>

definition fetch :: "text_data \<Rightarrow> int \<Rightarrow> thumb_opcode" where
  "fetch d p =
     (if ld16 d p < 0xE800 then \<lparr>op_size = 2, op_code = ld16 d p\<rparr>
      else \<lparr>op_size = 4, op_code = push_bit 16 (ld16 d p) OR ld16 d (p + 2)\<rparr>)"

subsection \<open>The 32-bit form of a 16-bit instruction\<close>

definition t32_dp :: "u32 list" where
  "t32_dp = [0xea10, 0xea90, 0xfa10, 0xfa30, 0xfa50, 0xeb50, 0xeb70, 0xfa70,
             0xea10, 0xf1d0, 0xebb0, 0xeb10, 0xea50, 0, 0xea30, 0xea7f]"

definition t32_ls :: "u32 list" where
  "t32_ls = [0xf840, 0xf820, 0xf800, 0xf910, 0xf850, 0xf830, 0xf810, 0xf930]"

definition t32_ext :: "u32 list" where
  "t32_ext = [0xfa0f, 0xfa4f, 0xfa1f, 0xfa5f]"

definition popcount32 :: "u32 \<Rightarrow> nat" where
  "popcount32 w = length (filter (bit w) [0..<32])"

text \<open>
  The two halfwords of \<^verbatim>\<open>th_t16_to_t32\<close>, \<open>None\<close> where it returns 0.  The halfword is held in a
  \<open>u32\<close>, as the C expressions promote it.
\<close>

definition th_t16_to_t32 :: "u32 \<Rightarrow> (u32 \<times> u32) option" where
  "th_t16_to_t32 hw =
     (let rd = hw AND 7; rn = drop_bit 3 hw AND 7; rm = drop_bit 6 hw AND 7
      in if drop_bit 13 hw = 0 \<and> drop_bit 11 hw AND 3 \<noteq> 3 then
           (let type = drop_bit 11 hw AND 3; imm5 = drop_bit 6 hw AND 31
            in Some (0xea5f, push_bit 12 (drop_bit 2 imm5) OR push_bit 8 rd OR push_bit 6 (imm5 AND 3) OR push_bit 4 type OR rn))
         else if drop_bit 11 hw = 3 then
           (let sub = drop_bit 9 hw AND 1
            in if hw AND 0x400 \<noteq> 0
               then Some ((if sub \<noteq> 0 then 0xf1b0 else 0xf110) OR rn, push_bit 8 rd OR rm)
               else Some ((if sub \<noteq> 0 then 0xebb0 else 0xeb10) OR rn, push_bit 8 rd OR rm))
         else if drop_bit 13 hw = 1 then
           (let rdn = drop_bit 8 hw AND 7; imm8 = hw AND 0xff; opc = drop_bit 11 hw AND 3
            in if opc = 0 then Some (0xf05f, push_bit 8 rdn OR imm8)
               else if opc = 1 then Some (0xf1b0 OR rdn, 0x0f00 OR imm8)
               else if opc = 2 then Some (0xf110 OR rdn, push_bit 8 rdn OR imm8)
               else Some (0xf1b0 OR rdn, push_bit 8 rdn OR imm8))
         else if drop_bit 10 hw = 0x10 then
           (let op = drop_bit 6 hw AND 15; dp = t32_dp ! unat op
            in if dp = 0 then None
               else if op = 2 \<or> op = 3 \<or> op = 4 \<or> op = 7 then Some (dp OR rd, 0xf000 OR push_bit 8 rd OR rn)
               else if op = 8 \<or> op = 10 \<or> op = 11 then Some (dp OR rd, 0x0f00 OR rn)
               else if op = 9 then Some (dp OR rn, push_bit 8 rd)
               else if op = 15 then Some (dp, push_bit 8 rd OR rn)
               else Some (dp OR rd, push_bit 8 rd OR rn))
         else if drop_bit 10 hw = 0x11 then
           (let rdn = (drop_bit 4 hw AND 8) OR rd; rm4 = drop_bit 3 hw AND 15; opc = drop_bit 8 hw AND 3
            in if rdn \<ge> 13 \<or> rm4 \<ge> 13 then None
               else if opc = 0 then Some (0xeb00 OR rdn, push_bit 8 rdn OR rm4)
               else if opc = 1 then Some (0xebb0 OR rdn, 0x0f00 OR rm4)
               else if opc = 2 then Some (0xea4f, push_bit 8 rdn OR rm4)
               else None)
         else if drop_bit 12 hw = 5 then
           Some (t32_ls ! unat (drop_bit 9 hw AND 7) OR rn, push_bit 12 rd OR rm)
         else if drop_bit 13 hw = 3 \<or> drop_bit 12 hw = 8 then
           (let imm5 = drop_bit 6 hw AND 31; load = drop_bit 11 hw AND 1;
                base = (if drop_bit 12 hw = 8 then 0xf8a0 else if hw AND 0x1000 \<noteq> 0 then 0xf880 else 0xf8c0);
                off = (if drop_bit 12 hw = 8 then imm5 * 2 else if hw AND 0x1000 \<noteq> 0 then imm5 else imm5 * 4)
            in Some (base OR push_bit 4 load OR rn, push_bit 12 rd OR off))
         else if drop_bit 12 hw = 9 then
           Some ((if hw AND 0x800 \<noteq> 0 then 0xf8d0 else 0xf8c0) OR 13,
             push_bit 12 (drop_bit 8 hw AND 7) OR (hw AND 0xff) * 4)
         else if drop_bit 11 hw = 0x15 then
           (let rdx = drop_bit 8 hw AND 7; imm = (hw AND 0xff) * 4
            in Some (0xf20d OR push_bit 10 (drop_bit 11 imm),
                 push_bit 12 (drop_bit 8 imm AND 7) OR push_bit 8 rdx OR (imm AND 0xff)))
         else if drop_bit 8 hw = 0xb2 then
           Some (t32_ext ! unat (drop_bit 6 hw AND 3), 0xf080 OR push_bit 8 rd OR rn)
         else if drop_bit 9 hw = 0x5a \<or> drop_bit 9 hw = 0x5e then
           (let pop = drop_bit 9 hw = 0x5e; extra = drop_bit 8 hw AND 1; list = hw AND 0xff
            in if pop \<and> extra \<noteq> 0 then None
               else if popcount32 list + unat extra < 2 then None
               else Some (if pop then 0xe8bd else 0xe92d, push_bit 14 extra OR list))
         else if drop_bit 12 hw = 0xd \<and> drop_bit 8 hw AND 15 < 14 \<and> hw AND 0xff = 0 then
           Some (0xf000 OR push_bit 6 (drop_bit 8 hw AND 15), 0x8000)
         else None)"


subsection \<open>Wide encodings decode to their fields\<close>

text \<open>
  A wide encoding is a first halfword \<open>b\<close> with a register in its low bits and a second halfword;
  these lemmas read the groups of 32-bit instructions that \<^verbatim>\<open>th_t16_to_t32\<close> produces.
\<close>

abbreviation (input) wide :: "u32 \<Rightarrow> u32 \<Rightarrow> u32" where
  "wide w1 w2 \<equiv> push_bit 16 w1 OR w2"

lemma wide_reg_decodes:
  fixes b rn rd rm sh ty :: u32
  assumes "field b 11 5 = 0x1D" "field b 9 2 = 1" "field b 0 4 = 0"
  defines "w \<equiv> wide (b OR take_bit 4 rn) (push_bit 12 (drop_bit 2 (take_bit 5 sh)) OR push_bit 8 (take_bit 4 rd) OR
     push_bit 6 (take_bit 2 sh) OR push_bit 4 (take_bit 2 ty) OR take_bit 4 rm)"
  shows "decode32 w =
     dp32 (field b 5 4) (bit b 4) (take_bit 4 rn) (take_bit 4 rd) (OpReg (take_bit 4 rm) (decode_imm_shift (take_bit 2 ty) (take_bit 5 sh)))"
proof -
  have "\<not> bit b 0" "\<not> bit b 1" "\<not> bit b 2" "\<not> bit b 3" using assms(3) by (simp_all add: field_def bits32)
  then have f: "field w 27 5 = field b 11 5" "field w 25 2 = field b 9 2" "field w 15 1 = 0" "field w 21 4 = field b 5 4"
    "bit w 20 = bit b 4" "field w 16 4 = take_bit 4 rn" "field w 8 4 = take_bit 4 rd" "field w 0 4 = take_bit 4 rm"
    "field w 4 2 = take_bit 2 ty" "push_bit 2 (field w 12 3) OR field w 6 2 = take_bit 5 sh"
    unfolding w_def by (simp_all add: field_def bits32)
  show ?thesis unfolding decode32_def f assms(1,2) by simp
qed

lemma wide_imm_decodes:
  fixes b rn rd imm :: u32
  assumes "field b 9 7 = 0x78" "field b 0 4 = 0"
  defines "w \<equiv> wide (b OR take_bit 4 rn) (push_bit 8 (take_bit 4 rd) OR take_bit 8 imm)"
  shows "decode32 w = dp32 (field b 5 4) (bit b 4) (take_bit 4 rn) (take_bit 4 rd) (OpImm (take_bit 8 imm))"
proof -
  have b: "\<not> bit b 0" "\<not> bit b 1" "\<not> bit b 2" "\<not> bit b 3" "\<not> bit b 9" "\<not> bit b 10" "\<not> bit b 11"
    "bit b 12" "bit b 13" "bit b 14" "bit b 15"
    using assms(1,2) by (simp_all add: field_def bits32)
  then have f: "field w 27 5 = 0x1E" "field w 25 1 = 0" "field w 15 1 = 0" "field w 21 4 = field b 5 4"
    "bit w 20 = bit b 4" "field w 16 4 = take_bit 4 rn" "field w 8 4 = take_bit 4 rd"
    "field w 26 1 = 0" "field w 12 3 = 0" "field w 0 8 = take_bit 8 imm"
    unfolding w_def by (simp_all add: field_def bits32)
  have "field (take_bit 8 imm) 10 2 = 0" "field (take_bit 8 imm) 8 2 = 0" by (simp_all add: field_def bits32)
  then have "thumb_expand_imm w = take_bit 8 imm" unfolding thumb_expand_imm_def f Let_def by simp
  then show ?thesis unfolding decode32_def f by simp
qed

lemma wide_shift_decodes:
  fixes b rn rd rm ty :: u32
  assumes "b = 0xfa10 OR push_bit 5 (take_bit 2 ty)"
  defines "w \<equiv> wide (b OR take_bit 4 rn) (0xf000 OR push_bit 8 (take_bit 4 rd) OR take_bit 4 rm)"
  shows "decode32 w = Some (ShiftReg
          (if take_bit 2 ty = 0 then THUMB_SHIFT_LSL else if take_bit 2 ty = 1 then THUMB_SHIFT_LSR
           else if take_bit 2 ty = 2 then THUMB_SHIFT_ASR else THUMB_SHIFT_ROR)
          True (take_bit 4 rd) (take_bit 4 rn) (take_bit 4 rm))"
proof -
  have f: "field w 27 5 = 0x1F" "field w 25 7 = 0x7D" "field w 24 8 = 0xFA" "field w 12 4 = 15" "field w 4 4 = 0" "field w 23 1 = 0"
    "bit w 20 = True" "field w 16 4 = take_bit 4 rn" "field w 8 4 = take_bit 4 rd" "field w 0 4 = take_bit 4 rm"
    "field w 21 2 = take_bit 2 ty"
    unfolding w_def assms(1) by (simp_all add: field_def bits32)
  show ?thesis unfolding decode32_def shift_reg32_def f by simp
qed

lemma wide_mem_reg_decodes:
  fixes rn rt rm sz :: u32 and sx l :: bool
  defines "w \<equiv> wide (0xf800 OR push_bit 8 (of_bool sx) OR push_bit 5 (take_bit 2 sz) OR push_bit 4 (of_bool l) OR take_bit 3 rn)
     (push_bit 12 (take_bit 4 rt) OR take_bit 4 rm)"
  shows "decode32 w = map_option (\<lambda>sz. Mem l sx sz (take_bit 4 rt) (take_bit 3 rn) (AddrReg (take_bit 4 rm) 0)) (mem_width32 (take_bit 2 sz))"
proof -
  have f: "field w 27 5 = 0x1F" "field w 25 7 = 0x7C" "bit w 23 = False" "field w 6 6 = 0"
    "bit w 20 = l" "bit w 24 = sx" "field w 16 4 = take_bit 3 rn" "field w 12 4 = take_bit 4 rt" "field w 0 4 = take_bit 4 rm"
    "field w 21 2 = take_bit 2 sz" "field w 4 2 = 0"
    unfolding w_def by (simp_all add: field_def bits32)
  have "take_bit 3 rn \<noteq> 15" by (simp add: bits32)
  then show ?thesis unfolding decode32_def loadstore32_def f Let_def by (cases "mem_width32 (take_bit 2 sz)") simp_all
qed

lemma wide_mem_imm_decodes:
  fixes rn rt off sz :: u32 and l :: bool
  assumes "take_bit 4 rn \<noteq> 15"
  defines "w \<equiv> wide (0xf880 OR push_bit 5 (take_bit 2 sz) OR push_bit 4 (of_bool l) OR take_bit 4 rn)
     (push_bit 12 (take_bit 4 rt) OR take_bit 12 off)"
  shows "decode32 w = map_option (\<lambda>sz. Mem l False sz (take_bit 4 rt) (take_bit 4 rn) (AddrOffset (uint (take_bit 12 off))))
     (mem_width32 (take_bit 2 sz))"
proof -
  have f: "field w 27 5 = 0x1F" "field w 25 7 = 0x7C" "bit w 23 = True" "bit w 24 = False"
    "bit w 20 = l" "field w 16 4 = take_bit 4 rn" "field w 12 4 = take_bit 4 rt" "field w 0 12 = take_bit 12 off"
    "field w 21 2 = take_bit 2 sz"
    unfolding w_def by (simp_all add: field_def bits32)
  show ?thesis using assms(1) unfolding decode32_def loadstore32_def f Let_def by (cases "mem_width32 (take_bit 2 sz)") simp_all
qed

subsection \<open>The wide form does the same\<close>

lemma as_fields:
  "(hw::u32) AND 7 = field hw 0 3" "drop_bit 3 hw AND 7 = field hw 3 3" "drop_bit 6 hw AND 7 = field hw 6 3"
  "drop_bit 8 hw AND 7 = field hw 8 3" "hw AND 0xff = field hw 0 8" "drop_bit 6 hw AND 31 = field hw 6 5"
  "drop_bit 11 hw AND 3 = field hw 11 2" "drop_bit 6 hw AND 15 = field hw 6 4" "drop_bit 3 hw AND 15 = field hw 3 4"
  "drop_bit 8 hw AND 3 = field hw 8 2" "drop_bit 9 hw AND 1 = field hw 9 1" "drop_bit 8 hw AND 1 = field hw 8 1"
  "drop_bit 9 hw AND 7 = field hw 9 3" "drop_bit 11 hw AND 1 = field hw 11 1" "drop_bit 6 hw AND 3 = field hw 6 2"
  "drop_bit 8 hw AND 15 = field hw 8 4"
  by (simp_all add: field_def mask_eq_exp_minus_1)

lemma narrow_field [simp]: "n \<le> m \<Longrightarrow> take_bit m (field w s n) = field w s n"
  by (simp add: field_eq_take_bit min_def)

lemma field_small [simp]: "field w s 3 \<noteq> 15"
  by (simp add: field_def bits32)

lemma top_fields:
  assumes "\<And>n. 16 \<le> n \<Longrightarrow> \<not> bit (hw::u32) n"
  shows "drop_bit 13 hw = field hw 13 3" "drop_bit 12 hw = field hw 12 4" "drop_bit 11 hw = field hw 11 5"
    "drop_bit 10 hw = field hw 10 6" "drop_bit 9 hw = field hw 9 7" "drop_bit 8 hw = field hw 8 8"
  using assms by (simp_all add: field_def bits32)

text \<open>The 16-bit instruction \<open>hw\<close> and the 32-bit instruction \<open>w\<close> are the same instruction.\<close>

definition same_instr :: "u32 \<Rightarrow> u32 \<Rightarrow> bool" where
  "same_instr hw w \<longleftrightarrow> decode16 hw = decode32 w \<and> decode16 hw \<noteq> None"

lemma same_instrI: "decode16 hw = Some i \<Longrightarrow> decode32 w = Some i \<Longrightarrow> same_instr hw w"
  by (simp add: same_instr_def)

lemmas top16 = decode16_def shift_add16_def Let_def

lemma widen_shift:
  assumes "field hw 13 3 = 0" "field hw 11 2 \<noteq> 3"
  shows "same_instr hw (wide 0xea5f (push_bit 12 (drop_bit 2 (field hw 6 5)) OR push_bit 8 (field hw 0 3) OR
      push_bit 6 (field hw 6 5 AND 3) OR push_bit 4 (field hw 11 2) OR field hw 3 3))"
proof (rule same_instrI)
  have "field hw 14 2 = 0" "field hw 13 1 = 0" using assms(1) by (simp_all add: field_def bits32)
  then show "decode16 hw = Some (Mov True (field hw 0 3) (OpReg (field hw 3 3) (decode_imm_shift (field hw 11 2) (field hw 6 5))))"
    using assms(2) by (simp add: top16)
  have "field hw 6 5 AND 3 = take_bit 2 (field hw 6 5)" by (simp add: take_bit_eq_mask mask_eq_exp_minus_1)
  then show "decode32 (wide 0xea5f (push_bit 12 (drop_bit 2 (field hw 6 5)) OR push_bit 8 (field hw 0 3) OR
      push_bit 6 (field hw 6 5 AND 3) OR push_bit 4 (field hw 11 2) OR field hw 3 3)) =
      Some (Mov True (field hw 0 3) (OpReg (field hw 3 3) (decode_imm_shift (field hw 11 2) (field hw 6 5))))"
    using wide_reg_decodes [of "0xea50" 15 "field hw 6 5" "field hw 0 3" "field hw 11 2" "field hw 3 3"]
    by (simp add: dp32_def field_numeral)
qed

lemma widen_add3:
  assumes "field hw 11 5 = 3"
  shows "field hw 10 1 = 1 \<Longrightarrow>
      same_instr hw (wide ((if field hw 9 1 \<noteq> 0 then 0xf1b0 else 0xf110) OR field hw 3 3) (push_bit 8 (field hw 0 3) OR field hw 6 3))"
    and "field hw 10 1 = 0 \<Longrightarrow>
      same_instr hw (wide ((if field hw 9 1 \<noteq> 0 then 0xebb0 else 0xeb10) OR field hw 3 3) (push_bit 8 (field hw 0 3) OR field hw 6 3))"
proof -
  have h: "field hw 14 2 = 0" "field hw 13 1 = 0" "field hw 11 2 = 3" using assms by (simp_all add: field_def bits32)
  have "field hw 9 2 = (if field hw 9 1 \<noteq> 0 then 3 else 2)" if "field hw 10 1 = 1"
    using that by (simp add: field_def bits32)
  then show "field hw 10 1 = 1 \<Longrightarrow>
      same_instr hw (wide ((if field hw 9 1 \<noteq> 0 then 0xf1b0 else 0xf110) OR field hw 3 3) (push_bit 8 (field hw 0 3) OR field hw 6 3))"
    using h wide_imm_decodes [of "0xf1b0" "field hw 3 3" "field hw 0 3" "field hw 6 3"]
      wide_imm_decodes [of "0xf110" "field hw 3 3" "field hw 0 3" "field hw 6 3"]
    by (simp add: same_instr_def top16 dp32_def field_numeral)
  have "field hw 9 2 = (if field hw 9 1 \<noteq> 0 then 1 else 0)" if "field hw 10 1 = 0"
    using that by (simp add: field_def bits32)
  then show "field hw 10 1 = 0 \<Longrightarrow>
      same_instr hw (wide ((if field hw 9 1 \<noteq> 0 then 0xebb0 else 0xeb10) OR field hw 3 3) (push_bit 8 (field hw 0 3) OR field hw 6 3))"
    using h wide_reg_decodes [of "0xebb0" "field hw 3 3" 0 "field hw 0 3" 0 "field hw 6 3"]
      wide_reg_decodes [of "0xeb10" "field hw 3 3" 0 "field hw 0 3" 0 "field hw 6 3"]
    by (simp add: same_instr_def top16 dp32_def field_numeral decode_imm_shift_def)
qed

lemma widen_imm8:
  assumes "field hw 13 3 = 1"
  shows "field hw 11 2 = 0 \<Longrightarrow> same_instr hw (wide 0xf05f (push_bit 8 (field hw 8 3) OR field hw 0 8))"
    and "field hw 11 2 = 1 \<Longrightarrow> same_instr hw (wide (0xf1b0 OR field hw 8 3) (0x0f00 OR field hw 0 8))"
    and "field hw 11 2 = 2 \<Longrightarrow> same_instr hw (wide (0xf110 OR field hw 8 3) (push_bit 8 (field hw 8 3) OR field hw 0 8))"
    and "field hw 11 2 = 3 \<Longrightarrow> same_instr hw (wide (0xf1b0 OR field hw 8 3) (push_bit 8 (field hw 8 3) OR field hw 0 8))"
proof -
  have h: "field hw 14 2 = 0" "field hw 13 1 = 1" using assms by (simp_all add: field_def bits32)
  show "field hw 11 2 = 0 \<Longrightarrow> same_instr hw (wide 0xf05f (push_bit 8 (field hw 8 3) OR field hw 0 8))"
    using h wide_imm_decodes [of "0xf050" 15 "field hw 8 3" "field hw 0 8"]
    by (simp add: same_instr_def top16 dp32_def field_numeral)
  show "field hw 11 2 = 1 \<Longrightarrow> same_instr hw (wide (0xf1b0 OR field hw 8 3) (0x0f00 OR field hw 0 8))"
    using h wide_imm_decodes [of "0xf1b0" "field hw 8 3" 15 "field hw 0 8"]
    by (simp add: same_instr_def top16 dp32_def field_numeral)
  show "field hw 11 2 = 2 \<Longrightarrow> same_instr hw (wide (0xf110 OR field hw 8 3) (push_bit 8 (field hw 8 3) OR field hw 0 8))"
    using h wide_imm_decodes [of "0xf110" "field hw 8 3" "field hw 8 3" "field hw 0 8"]
    by (simp add: same_instr_def top16 dp32_def field_numeral)
  show "field hw 11 2 = 3 \<Longrightarrow> same_instr hw (wide (0xf1b0 OR field hw 8 3) (push_bit 8 (field hw 8 3) OR field hw 0 8))"
    using h wide_imm_decodes [of "0xf1b0" "field hw 8 3" "field hw 8 3" "field hw 0 8"]
    by (simp add: same_instr_def top16 dp32_def field_numeral)
qed

lemma decode_dp16:
  "field hw 10 6 = 0x10 \<Longrightarrow> decode16 hw = dp16 (field hw 6 4) (field hw 3 3) (field hw 0 3)"
proof -
  assume "field hw 10 6 = 0x10"
  then have "field hw 14 2 = 1" "field hw 12 4 = 4" "field hw 11 1 = 0" "field hw 10 1 = 0" by (simp_all add: field_def bits32)
  then show ?thesis by (simp add: decode16_def Let_def)
qed

lemma widen_dp:
  assumes "field hw 10 6 = 0x10"
  shows "(field hw 6 4, b) \<in> {(0, 0xea10), (1, 0xea90), (5, 0xeb50), (6, 0xeb70), (12, 0xea50), (14, 0xea30)} \<Longrightarrow>
      same_instr hw (wide (b OR field hw 0 3) (push_bit 8 (field hw 0 3) OR field hw 3 3))"
    and "(field hw 6 4, b) \<in> {(2, 0xfa10), (3, 0xfa30), (4, 0xfa50), (7, 0xfa70)} \<Longrightarrow>
      same_instr hw (wide (b OR field hw 0 3) (0xf000 OR push_bit 8 (field hw 0 3) OR field hw 3 3))"
    and "(field hw 6 4, b) \<in> {(8, 0xea10), (10, 0xebb0), (11, 0xeb10)} \<Longrightarrow>
      same_instr hw (wide (b OR field hw 0 3) (0x0f00 OR field hw 3 3))"
    and "field hw 6 4 = 9 \<Longrightarrow> same_instr hw (wide (0xf1d0 OR field hw 3 3) (push_bit 8 (field hw 0 3)))"
    and "field hw 6 4 = 15 \<Longrightarrow> same_instr hw (wide 0xea7f (push_bit 8 (field hw 0 3) OR field hw 3 3))"
proof -
  note d = decode_dp16 [OF assms]
  show "same_instr hw (wide (b OR field hw 0 3) (push_bit 8 (field hw 0 3) OR field hw 3 3))"
    if "(field hw 6 4, b) \<in> {(0, 0xea10), (1, 0xea90), (5, 0xeb50), (6, 0xeb70), (12, 0xea50), (14, 0xea30)}"
    using that wide_reg_decodes [of b "field hw 0 3" 0 "field hw 0 3" 0 "field hw 3 3"]
    by (elim insertE; simp add: same_instr_def d dp16_def dp32_def field_numeral decode_imm_shift_def)
  show "same_instr hw (wide (b OR field hw 0 3) (0xf000 OR push_bit 8 (field hw 0 3) OR field hw 3 3))"
    if "(field hw 6 4, b) \<in> {(2, 0xfa10), (3, 0xfa30), (4, 0xfa50), (7, 0xfa70)}"
    using that wide_shift_decodes [of "0xfa10" 0 "field hw 0 3" "field hw 0 3" "field hw 3 3"]
      wide_shift_decodes [of "0xfa30" 1 "field hw 0 3" "field hw 0 3" "field hw 3 3"]
      wide_shift_decodes [of "0xfa50" 2 "field hw 0 3" "field hw 0 3" "field hw 3 3"]
      wide_shift_decodes [of "0xfa70" 3 "field hw 0 3" "field hw 0 3" "field hw 3 3"]
    by (elim insertE; simp add: same_instr_def d dp16_def)
  show "same_instr hw (wide (b OR field hw 0 3) (0x0f00 OR field hw 3 3))"
    if "(field hw 6 4, b) \<in> {(8, 0xea10), (10, 0xebb0), (11, 0xeb10)}"
    using that wide_reg_decodes [of b "field hw 0 3" 0 15 0 "field hw 3 3"]
    by (elim insertE; simp add: same_instr_def d dp16_def dp32_def field_numeral decode_imm_shift_def)
  show "same_instr hw (wide (0xf1d0 OR field hw 3 3) (push_bit 8 (field hw 0 3)))" if "field hw 6 4 = 9"
    using that wide_imm_decodes [of "0xf1d0" "field hw 3 3" "field hw 0 3" 0]
    by (simp add: same_instr_def d dp16_def dp32_def field_numeral)
  show "same_instr hw (wide 0xea7f (push_bit 8 (field hw 0 3) OR field hw 3 3))" if "field hw 6 4 = 15"
    using that wide_reg_decodes [of "0xea70" 15 0 "field hw 0 3" 0 "field hw 3 3"]
    by (simp add: same_instr_def d dp16_def dp32_def field_numeral decode_imm_shift_def)
qed

lemma widen_high:
  fixes hw rdn :: u32
  defines "rdn \<equiv> (drop_bit 4 hw AND 8) OR field hw 0 3"
  assumes "field hw 10 6 = 0x11" "\<not> 13 \<le> rdn" "\<not> 13 \<le> field hw 3 4"
  shows "field hw 8 2 = 0 \<Longrightarrow> same_instr hw (wide (0xeb00 OR rdn) (push_bit 8 rdn OR field hw 3 4))"
    and "field hw 8 2 = 1 \<Longrightarrow> same_instr hw (wide (0xebb0 OR rdn) (0x0f00 OR field hw 3 4))"
    and "field hw 8 2 = 2 \<Longrightarrow> same_instr hw (wide 0xea4f (push_bit 8 rdn OR field hw 3 4))"
proof -
  have h: "field hw 14 2 = 1" "field hw 12 4 = 4" "field hw 11 1 = 0" "field hw 10 1 = 1"
    using assms(2) by (simp_all add: field_def bits32)
  have r: "push_bit 3 (field hw 7 (Suc 0)) OR field hw 0 3 = rdn" "take_bit 4 rdn = rdn"
    unfolding rdn_def by (simp_all add: field_def bits32)
  have "rdn \<noteq> 15" using assms(3) by auto
  note s = h r this same_instr_def decode16_def special16_def Let_def dp32_def field_numeral decode_imm_shift_def
  show "field hw 8 2 = 0 \<Longrightarrow> same_instr hw (wide (0xeb00 OR rdn) (push_bit 8 rdn OR field hw 3 4))"
    using h wide_reg_decodes [of "0xeb00" rdn 0 rdn 0 "field hw 3 4"] by (simp add: s)
  show "field hw 8 2 = 1 \<Longrightarrow> same_instr hw (wide (0xebb0 OR rdn) (0x0f00 OR field hw 3 4))"
    using h wide_reg_decodes [of "0xebb0" rdn 0 15 0 "field hw 3 4"] by (simp add: s)
  show "field hw 8 2 = 2 \<Longrightarrow> same_instr hw (wide 0xea4f (push_bit 8 rdn OR field hw 3 4))"
    using h wide_reg_decodes [of "0xea40" 15 0 rdn 0 "field hw 3 4"] by (simp add: s)
qed

lemma widen_mem_reg:
  assumes "field hw 12 4 = 5"
    "(field hw 9 3, b) \<in> {(0, 0xf840), (1, 0xf820), (2, 0xf800), (3, 0xf910), (4, 0xf850), (5, 0xf830), (6, 0xf810), (7, 0xf930)}"
  shows "same_instr hw (wide (b OR field hw 3 3) (push_bit 12 (field hw 0 3) OR field hw 6 3))"
proof -
  have h: "field hw 14 2 = 1" using assms(1) by (simp add: field_def bits32)
  have w: "decode32 (wide (b OR field hw 3 3) (push_bit 12 (field hw 0 3) OR field hw 6 3)) =
     map_option (\<lambda>sz. Mem l sx sz (field hw 0 3) (field hw 3 3) (AddrReg (field hw 6 3) 0)) (mem_width32 (take_bit 2 sz))"
    if "b = 0xf800 OR push_bit 8 (of_bool sx) OR push_bit 5 (take_bit 2 sz) OR push_bit 4 (of_bool l)" for sx sz l
    using wide_mem_reg_decodes [of sx sz l "field hw 3 3" "field hw 0 3" "field hw 6 3"] unfolding that by (simp add: or.assoc)
  note s = same_instr_def decode16_def loadstore16_def Let_def h assms(1) mem_width32_def
  from assms(2) consider "field hw 9 3 = 0" "b = 0xf840"
    | "field hw 9 3 = 1" "b = 0xf820"
    | "field hw 9 3 = 2" "b = 0xf800"
    | "field hw 9 3 = 3" "b = 0xf910"
    | "field hw 9 3 = 4" "b = 0xf850"
    | "field hw 9 3 = 5" "b = 0xf830"
    | "field hw 9 3 = 6" "b = 0xf810"
    | "field hw 9 3 = 7" "b = 0xf930" by auto
  then show ?thesis
  proof cases
    case 1
    then show ?thesis using w [of False 2 False] by (simp add: s)
  next
    case 2
    then show ?thesis using w [of False 1 False] by (simp add: s)
  next
    case 3
    then show ?thesis using w [of False 0 False] by (simp add: s)
  next
    case 4
    then show ?thesis using w [of True 0 True] by (simp add: s)
  next
    case 5
    then show ?thesis using w [of False 2 True] by (simp add: s)
  next
    case 6
    then show ?thesis using w [of False 1 True] by (simp add: s)
  next
    case 7
    then show ?thesis using w [of False 0 True] by (simp add: s)
  next
    case 8
    then show ?thesis using w [of True 1 True] by (simp add: s)
  qed
qed

lemma scaled_field:
  fixes w :: u32
  assumes "n + k \<le> 12"
  shows "take_bit 12 (field w s n * 2 ^ k) = field w s n * 2 ^ k" "uint (field w s n * 2 ^ k) = 2 ^ k * uint (field w s n)"
proof -
  have "unat (field w s n) < 2 ^ n" using unat_field [of w s n] by simp
  then have "unat (field w s n) * 2 ^ k < 2 ^ n * 2 ^ k" by simp
  also have "\<dots> \<le> 2 ^ 12" using assms power_increasing [of "n + k" 12 "2::nat"] by (simp add: power_add)
  finally have b: "unat (field w s n) * 2 ^ k < 4096" by simp
  have "k < 32" using assms by simp
  then have "unat ((2::u32) ^ k) = 2 ^ k"
    using unsigned_of_nat [of "2 ^ k", where 'a = nat and 'b = 32] by simp
  then have u: "unat (field w s n * 2 ^ k) = unat (field w s n) * 2 ^ k" using b by (simp add: unat_word_ariths)
  show "take_bit 12 (field w s n * 2 ^ k) = field w s n * 2 ^ k"
    by (rule take_bit_self_word) (use u b in simp)
  show "uint (field w s n * 2 ^ k) = 2 ^ k * uint (field w s n)"
    by (simp only: uint_nat u of_nat_mult of_nat_power of_nat_numeral mult.commute)
qed

lemma widen_mem_imm:
  assumes "(field hw 12 4, sz, k) \<in> {(6, 2, 2), (7, 0, 0), (8, 1, 1)}"
    and "b = 0xf880 OR push_bit 5 (take_bit 2 sz)"
  shows "same_instr hw (wide (b OR push_bit 4 (field hw 11 1) OR field hw 3 3) (push_bit 12 (field hw 0 3) OR field hw 6 5 * 2 ^ k))"
proof -
  have h: "field hw 14 2 \<noteq> 0" using assms(1) by (auto simp: field_def bits32)
  have l: "field hw 11 (Suc 0) = of_bool (bit hw 11)" by (simp add: field_def bits32)
  have k: "5 + k \<le> 12" using assms(1) by auto
  note o = scaled_field [OF k, of hw 6]
  have w: "decode32 (wide (b OR push_bit 4 (field hw 11 1) OR field hw 3 3) (push_bit 12 (field hw 0 3) OR field hw 6 5 * 2 ^ k)) =
      map_option (\<lambda>sz. Mem (bit hw 11) False sz (field hw 0 3) (field hw 3 3) (AddrOffset (2 ^ k * uint (field hw 6 5)))) (mem_width32 (take_bit 2 sz))"
    using wide_mem_imm_decodes [of "field hw 3 3" sz "bit hw 11" "field hw 0 3" "field hw 6 5 * 2 ^ k"]
    unfolding assms(2) o by (simp add: l or.assoc)
  show ?thesis unfolding same_instr_def w using assms(1) h
    by (elim insertE; simp add: decode16_def loadstore16_def Let_def mem_width32_def)
qed

lemma widen_mem_sp:
  assumes "field hw 12 4 = 9"
  shows "same_instr hw (wide ((if bit hw 11 then 0xf8d0 else 0xf8c0) OR 13) (push_bit 12 (field hw 8 3) OR field hw 0 8 * 4))"
proof -
  have h: "field hw 14 2 \<noteq> 0" using assms by (simp add: field_def bits32)
  have o: "take_bit 12 (field hw 0 8 * 4) = field hw 0 8 * 4" "uint (field hw 0 8 * 4) = 4 * uint (field hw 0 8)"
    using scaled_field [of 8 2 hw 0] by simp_all
  show ?thesis
    using h wide_mem_imm_decodes [of 13 2 "bit hw 11" "field hw 8 3" "field hw 0 8 * 4"]
    by (cases "bit hw 11"; simp add: same_instr_def decode16_def loadstore16_def Let_def mem_width32_def o assms)
qed
lemma widen_add_sp:
  fixes hw :: u32
  assumes "field hw 11 5 = 0x15"
  defines "imm \<equiv> field hw 0 8 * 4"
  shows "same_instr hw (wide (0xf20d OR push_bit 10 (drop_bit 11 imm))
     (push_bit 12 (drop_bit 8 imm AND 7) OR push_bit 8 (field hw 8 3) OR (imm AND 0xff)))" (is "same_instr hw ?w")
proof -
  have i: "imm = push_bit 2 (field hw 0 8)" unfolding imm_def by (simp add: push_bit_eq_mult)
  have h: "field hw 14 2 = 2" "field hw 12 4 = 10" "field hw 11 (Suc 0) = 1" using assms(1) by (simp_all add: field_def bits32)
  have f: "field ?w 27 5 = 0x1E" "field ?w 25 1 = 1" "field ?w 15 1 = 0" "field ?w 20 5 = 0" "field ?w 16 4 = 13"
    "field ?w 8 4 = field hw 8 3" "imm12_of ?w = push_bit 2 (field hw 0 8)"
    unfolding i imm12_of_def by (simp_all add: field_def bits32)
  show ?thesis unfolding same_instr_def decode32_def plain32_def f Let_def by (simp add: decode16_def Let_def h)
qed

lemma widen_extend:
  assumes "field hw 8 8 = 0xb2" "(field hw 6 2, b) \<in> {(0, 0xfa0f), (1, 0xfa4f), (2, 0xfa1f), (3, 0xfa5f)}"
  shows "same_instr hw (wide b (0xf080 OR push_bit 8 (field hw 0 3) OR field hw 3 3))" (is "same_instr hw ?w")
proof -
  have h: "field hw 14 2 = 2" "field hw 12 4 = 11" "field hw 10 (Suc 0) = 0" "field hw 8 (Suc 0) = 0" "field hw 8 4 = 2"
    using assms(1) by (simp_all add: field_def bits32)
  have f: "field ?w 12 4 = 15" "field ?w 4 4 = 8" "field ?w 8 4 = field hw 0 3" "field ?w 0 4 = field hw 3 3"
    by (simp_all add: field_def bits32)
  have t: "field hw 7 (Suc 0) = drop_bit 1 (field hw 6 2)" "field hw 6 (Suc 0) = field hw 6 2 AND 1"
    by (simp_all add: field_def bits32)
  have g: "field ?w 27 5 = field b 11 5" "field ?w 25 7 = field b 9 7" "field ?w 24 8 = field b 8 8" "field ?w 16 4 = field b 0 4"
    "field ?w 23 1 = field b 7 1" "field ?w 21 1 = field b 5 1" "field ?w 20 1 = field b 4 1" "field ?w 22 1 = field b 6 1"
    by (simp_all add: field_def bits32)
  show ?thesis unfolding same_instr_def decode32_def shift_reg32_def f g using assms(2)
    by (elim insertE; simp add: decode16_def misc16_def Let_def h t field_numeral)
qed

lemma widen_push_pop:
  assumes "(field hw 9 7, b) \<in> {(0x5a, 0xe92d), (0x5e, 0xe8bd)}" "field hw 9 7 = 0x5e \<longrightarrow> field hw 8 1 = 0"
  shows "same_instr hw (wide b (push_bit 14 (field hw 8 1) OR field hw 0 8))" (is "same_instr hw ?w")
proof -
  have h: "field hw 14 2 = 2" "field hw 12 4 = 11" "field hw 10 (Suc 0) = 1" "field hw 9 3 = (if field hw 9 7 = 0x5a then 2 else 6)"
    using assms(1) by (auto simp: field_def bits32)
  have f: "field ?w 0 16 = push_bit 14 (field hw 8 1) OR field hw 0 8" "field ?w 27 5 = field b 11 5"
    "field ?w 25 2 = field b 9 2" "field ?w 22 1 = field b 6 1" "field ?w 23 2 = field b 7 2" "bit ?w 20 = bit b 4" "bit ?w 21 = bit b 5"
    "field ?w 16 4 = field b 0 4"
    by (simp_all add: field_def bits32)
  show ?thesis unfolding same_instr_def decode32_def block32_def f using assms
    by (elim insertE; simp add: decode16_def misc16_def Let_def h field_numeral)
qed

lemma widen_branch:
  assumes "field hw 12 4 = 13" "field hw 8 4 < 14" "field hw 0 8 = 0"
  shows "same_instr hw (wide (0xf000 OR push_bit 6 (field hw 8 4)) 0x8000)" (is "same_instr hw ?w")
proof -
  have h: "field hw 14 2 = 3" using assms(1) by (simp add: field_def bits32)
  have n: "field hw 8 4 \<noteq> 14" "field hw 8 4 \<noteq> 15" "field hw 8 4 \<le> 15" "field hw 8 4 \<le> 13"
    using assms(2) by (auto simp: word_less_nat_alt word_le_nat_alt)
  have f: "field ?w 27 5 = 0x1E" "field ?w 15 1 = 1" "field ?w 14 1 = 0" "field ?w 12 1 = 0" "field ?w 22 4 = field hw 8 4"
    "field ?w 23 3 = field (field hw 8 4) 1 3" "unpack_b_t3 ?w = 0"
    unfolding unpack_b_t3_def by (simp_all add: field_def bits32)
  show ?thesis unfolding same_instr_def decode32_def branch32_def f using cond_top [OF n(3)] n(4)
    by (simp add: decode16_def Let_def h n assms)
qed

lemma if_SomeE:
  "(if c then x else y) = Some z \<Longrightarrow> (c \<Longrightarrow> x = Some z \<Longrightarrow> P) \<Longrightarrow> (\<not> c \<Longrightarrow> y = Some z \<Longrightarrow> P) \<Longrightarrow> P"
  by (cases c) simp_all

lemma Some_pairE: "Some (a, b) = Some (c, d) \<Longrightarrow> (c = a \<Longrightarrow> d = b \<Longrightarrow> P) \<Longrightarrow> P"
  by simp

lemma None_SomeE: "None = Some x \<Longrightarrow> P"
  by simp

lemma field_range: "field w s n \<in> set (map word_of_nat [0..<2 ^ n])"
proof -
  have "unat (field w s n) < 2 ^ n" using unat_field [of w s n] by simp
  then show ?thesis by (auto intro!: image_eqI [of _ _ "unat (field w s n)"])
qed

lemma field_2_cases: "field w s 2 \<in> {0, 1, 2, 3}"
  using field_range [of w s 2] by (simp add: upt_rec)

lemma field_3_cases: "field w s 3 \<in> {0, 1, 2, 3, 4, 5, 6, 7}"
  using field_range [of w s 3] by (simp add: upt_rec)

lemma field_4_cases: "field w s 4 \<in> {0, 1, 2, 3, 4, 5, 6, 7, 8, 9, 10, 11, 12, 13, 14, 15}"
  using field_range [of w s 4] by (simp add: upt_rec)

text \<open>The entries of the tables for the operations they are used for.\<close>

lemma dp_entries:
  "k \<in> {2, 3, 4, 7} \<Longrightarrow> (k, t32_dp ! unat (k::u32)) \<in> {(2, 0xfa10), (3, 0xfa30), (4, 0xfa50), (7, 0xfa70)}"
  "k \<in> {8, 10, 11} \<Longrightarrow> (k, t32_dp ! unat k) \<in> {(8, 0xea10), (10, 0xebb0), (11, 0xeb10)}"
  "t32_dp ! 9 = 0xf1d0" "t32_dp ! 15 = 0xea7f"
  by (auto simp: t32_dp_def)

lemma dp_entries_rest:
  assumes "k \<in> {0, 1, 2, 3, 4, 5, 6, 7, 8, 9, 10, 11, 12, 13, 14, 15}" "t32_dp ! unat (k::u32) \<noteq> 0"
    "k \<notin> {2, 3, 4, 7}" "k \<notin> {8, 10, 11}" "k \<noteq> 9" "k \<noteq> 15"
  shows "(k, t32_dp ! unat k) \<in> {(0, 0xea10), (1, 0xea90), (5, 0xeb50), (6, 0xeb70), (12, 0xea50), (14, 0xea30)}"
  using assms by (elim insertE; simp add: t32_dp_def)

lemma ls_entries:
  "(k::u32) \<in> {0, 1, 2, 3, 4, 5, 6, 7} \<Longrightarrow> (k, t32_ls ! unat k) \<in>
     {(0, 0xf840), (1, 0xf820), (2, 0xf800), (3, 0xf910), (4, 0xf850), (5, 0xf830), (6, 0xf810), (7, 0xf930)}"
  by (elim insertE; simp add: t32_ls_def)

lemma ext_entries:
  "(k::u32) \<in> {0, 1, 2, 3} \<Longrightarrow> (k, t32_ext ! unat k) \<in> {(0, 0xfa0f), (1, 0xfa4f), (2, 0xfa1f), (3, 0xfa5f)}"
  by (elim insertE; simp add: t32_ext_def)

lemma widen_dp_table:
  assumes "field hw 10 6 = 0x10" "t32_dp ! unat (field hw 6 4) \<noteq> 0"
  shows "field hw 6 4 \<in> {2, 3, 4, 7} \<Longrightarrow>
      same_instr hw (wide (t32_dp ! unat (field hw 6 4) OR field hw 0 3) (0xf000 OR push_bit 8 (field hw 0 3) OR field hw 3 3))"
    and "field hw 6 4 \<in> {8, 10, 11} \<Longrightarrow>
      same_instr hw (wide (t32_dp ! unat (field hw 6 4) OR field hw 0 3) (0x0f00 OR field hw 3 3))"
    and "field hw 6 4 = 9 \<Longrightarrow> same_instr hw (wide (t32_dp ! unat (field hw 6 4) OR field hw 3 3) (push_bit 8 (field hw 0 3)))"
    and "field hw 6 4 = 15 \<Longrightarrow> same_instr hw (wide (t32_dp ! unat (field hw 6 4)) (push_bit 8 (field hw 0 3) OR field hw 3 3))"
    and "field hw 6 4 \<notin> {2, 3, 4, 7} \<Longrightarrow> field hw 6 4 \<notin> {8, 10, 11} \<Longrightarrow> field hw 6 4 \<noteq> 9 \<Longrightarrow> field hw 6 4 \<noteq> 15 \<Longrightarrow>
      same_instr hw (wide (t32_dp ! unat (field hw 6 4) OR field hw 0 3) (push_bit 8 (field hw 0 3) OR field hw 3 3))"
proof -
  note w = widen_dp [OF assms(1)]
  show "field hw 6 4 \<in> {2, 3, 4, 7} \<Longrightarrow>
      same_instr hw (wide (t32_dp ! unat (field hw 6 4) OR field hw 0 3) (0xf000 OR push_bit 8 (field hw 0 3) OR field hw 3 3))"
    by (rule w(2) [OF dp_entries(1)])
  show "field hw 6 4 \<in> {8, 10, 11} \<Longrightarrow>
      same_instr hw (wide (t32_dp ! unat (field hw 6 4) OR field hw 0 3) (0x0f00 OR field hw 3 3))"
    by (rule w(3) [OF dp_entries(2)])
  show "field hw 6 4 = 9 \<Longrightarrow> same_instr hw (wide (t32_dp ! unat (field hw 6 4) OR field hw 3 3) (push_bit 8 (field hw 0 3)))"
    using w(4) by (simp add: dp_entries)
  show "field hw 6 4 = 15 \<Longrightarrow> same_instr hw (wide (t32_dp ! unat (field hw 6 4)) (push_bit 8 (field hw 0 3) OR field hw 3 3))"
    using w(5) by (simp add: dp_entries)
  show "field hw 6 4 \<notin> {2, 3, 4, 7} \<Longrightarrow> field hw 6 4 \<notin> {8, 10, 11} \<Longrightarrow> field hw 6 4 \<noteq> 9 \<Longrightarrow> field hw 6 4 \<noteq> 15 \<Longrightarrow>
      same_instr hw (wide (t32_dp ! unat (field hw 6 4) OR field hw 0 3) (push_bit 8 (field hw 0 3) OR field hw 3 3))"
    by (rule w(1) [OF dp_entries_rest [OF field_4_cases assms(2)]])
qed

lemma widen_mem_imm_src:
  assumes "field hw 13 3 = 3 \<or> field hw 12 4 = 8"
  shows "same_instr hw (wide ((if field hw 12 4 = 8 then 0xf8a0 else if bit hw 12 then 0xf880 else 0xf8c0) OR
      push_bit 4 (field hw 11 1) OR field hw 3 3)
     (push_bit 12 (field hw 0 3) OR (if field hw 12 4 = 8 then field hw 6 5 * 2 else if bit hw 12 then field hw 6 5 else field hw 6 5 * 4)))"
proof -
  from assms consider (half) "field hw 12 4 = 8" | (byte) "field hw 12 4 = 7" "bit hw 12" | (word) "field hw 12 4 = 6" "\<not> bit hw 12"
    by (cases "bit hw 12") (auto simp: field_def bits32)
  then show ?thesis
  proof cases
    case half
    then show ?thesis using widen_mem_imm [of hw 1 1 "0xf8a0"] by (simp del: One_nat_def)
  next
    case byte
    then show ?thesis using widen_mem_imm [of hw 0 0 "0xf880"] by simp
  next
    case word
    then show ?thesis using widen_mem_imm [of hw 2 2 "0xf8c0"] by simp
  qed
qed

lemma t16_to_t32_same:
  assumes "th_t16_to_t32 hw = Some (w1, w2)" "\<And>n. 16 \<le> n \<Longrightarrow> \<not> bit hw n"
  shows "same_instr hw (wide w1 w2)"
proof -
  have b: "hw AND 0x400 \<noteq> 0 \<longleftrightarrow> field hw 10 1 = 1" "hw AND 0x800 \<noteq> 0 \<longleftrightarrow> bit hw 11"
    "hw AND 0x1000 \<noteq> 0 \<longleftrightarrow> bit hw 12" by (simp_all add: field_def bits32)
  have z: "field hw 10 1 \<noteq> 1 \<Longrightarrow> field hw 10 1 = 0" by (simp add: field_def bits32)
  have three: "field hw 11 2 \<noteq> 0 \<Longrightarrow> field hw 11 2 \<noteq> 1 \<Longrightarrow> field hw 11 2 \<noteq> 2 \<Longrightarrow> field hw 11 2 = 3"
    using field_2_cases [of hw 11] by blast
  note top = top_fields [of hw, OF assms(2), simplified]
  note d = assms(1) [unfolded th_t16_to_t32_def Let_def as_fields [of hw] b, unfolded top]
  from d show ?thesis
    apply (elim if_SomeE Some_pairE None_SomeE; hypsubst)
    subgoal by (rule widen_shift) simp_all
    subgoal by (rule widen_add3)
    subgoal by (rule widen_add3(2) [OF _ z])
    subgoal by (rule widen_imm8)
    subgoal by (rule widen_imm8)
    subgoal by (rule widen_imm8)
    subgoal by (rule widen_imm8(4) [OF _ three])
    subgoal by (rule widen_dp_table(1)) simp_all
    subgoal by (rule widen_dp_table(2)) simp_all
    subgoal by (rule widen_dp_table(3))
    subgoal by (rule widen_dp_table(4))
    subgoal by (rule widen_dp_table(5)) simp_all
    subgoal by (rule widen_high) simp_all
    subgoal by (rule widen_high) simp_all
    subgoal by (rule widen_high) simp_all
    subgoal by (rule widen_mem_reg [OF _ ls_entries [OF field_3_cases]])
    subgoal by (rule widen_mem_imm_src)
    subgoal by (rule widen_mem_sp)
    subgoal by (rule widen_add_sp)
    subgoal by (rule widen_extend [OF _ ext_entries [OF field_2_cases]])
    subgoal by (rule widen_push_pop) auto
    subgoal by (rule widen_branch) simp_all
    done
qed

subsection \<open>Properties\<close>

text \<open>
  C16: widening changes nothing but the size.  Whenever \<^verbatim>\<open>th_t16_to_t32\<close> has a 32-bit form for a
  halfword, that form decodes to the very instruction the halfword decodes to: same operation, same
  registers, same operands, same effect on the flags.
\<close>

theorem t16_to_t32_equivalent:
  assumes "th_t16_to_t32 hw = Some (w1, w2)" "hw < 65536"
  shows "decode \<lparr>op_size = 4, op_code = push_bit 16 w1 OR w2\<rparr> = decode \<lparr>op_size = 2, op_code = hw\<rparr> \<and>
    decode \<lparr>op_size = 2, op_code = hw\<rparr> \<noteq> None"
proof -
  have "take_bit 16 hw = hw" using assms(2) by (rule narrow)
  then have "\<not> bit hw n" if "16 \<le> n" for n using that by (metis bit_take_bit_iff not_le)
  from t16_to_t32_same [OF assms(1) this, unfolded same_instr_def] show ?thesis
    by (simp add: decode_def del: not_None_eq) metis
qed

theorem t16_to_t32_equivalent_witness:
  "th_t16_to_t32 0x2500 = Some (0xf05f, 0x0500) \<and>
   decode \<lparr>op_size = 4, op_code = push_bit 16 0xf05f OR 0x0500\<rparr> = decode \<lparr>op_size = 2, op_code = 0x2500\<rparr>"
proof -
  have "th_t16_to_t32 0x2500 = Some (0xf05f, 0x0500)" by code_simp
  with t16_to_t32_equivalent [OF this] show ?thesis by simp
qed

end
