(* ===== verification/Thumb_Align.thy ===== *)
theory Thumb_Align
  imports Thumb_Widen
begin

section \<open>Aligning branch targets\<close>

text \<open>
  The part of \<^verbatim>\<open>arm-thumb-gen.c\<close> that aligns a branch target and, instead of padding with a NOP,
  replaces the instruction before the target by its 32-bit form: the search for branches into the
  pad, the record of the widened positions, \<^verbatim>\<open>th_widen_last_insn\<close> and the alignment loop.
\<close>

subsection \<open>Branches into a position\<close>

text \<open>
  One round of the loop of \<^verbatim>\<open>th_branch_in_range_targets\<close>: the targets of the branches a 16-bit and
  a 32-bit reading of position \<open>p\<close> give.  The shifts of \<open>int\<close> values that sign-extend a field are
  the signed reading of that field.
\<close>

definition branch16_target :: "u32 \<Rightarrow> int \<Rightarrow> int" where
  "branch16_target hw p =
     (if hw AND 0xf000 = 0xd000 \<and> drop_bit 8 hw AND 15 < 14
      then p + 4 + sint (ucast (hw AND 0xff) :: u8) * 2
      else if hw AND 0xf800 = 0xe000
      then p + 4 + sint (signed_drop_bit 20 (push_bit 21 (hw AND 0x7ff)))
      else if hw AND 0xf500 = 0xb100
      then p + 4 + sint (push_bit 6 (drop_bit 9 hw AND 1) OR push_bit 1 (drop_bit 3 hw AND 31))
      else - 1)"

definition branch32_offset :: "u32 \<Rightarrow> u32 \<Rightarrow> int option" where
  "branch32_offset hw hw2 =
     (let s = drop_bit 10 hw AND 1; j1 = drop_bit 13 hw2 AND 1; j2 = drop_bit 11 hw2 AND 1
      in if hw2 AND 0xd000 = 0x8000 \<and> drop_bit 6 hw AND 15 < 14 then
           Some (sint (signed_drop_bit 11 (push_bit 11
             (push_bit 20 s OR push_bit 19 j2 OR push_bit 18 j1 OR push_bit 12 (hw AND 0x3f) OR push_bit 1 (hw2 AND 0x7ff)))))
         else if hw2 AND 0xd000 = 0x9000 then
           (let i1 = of_bool (j1 XOR s = 0); i2 = of_bool (j2 XOR s = 0)
            in Some (sint (signed_drop_bit 7 (push_bit 7
                 (push_bit 24 s OR push_bit 23 i1 OR push_bit 22 i2 OR push_bit 12 (hw AND 0x3ff) OR push_bit 1 (hw2 AND 0x7ff))))))
         else None)"

function branch_targets_from :: "text_data \<Rightarrow> int \<Rightarrow> int \<Rightarrow> int \<Rightarrow> bool" where
  "branch_targets_from d p end_pos target =
     (if p + 2 \<le> end_pos then
        (let hw = ld16 d p
         in if branch16_target hw p = target then True
            else if p + 4 > end_pos \<or> hw AND 0xf800 \<noteq> 0xf000 then branch_targets_from d (p + 2) end_pos target
            else case branch32_offset hw (ld16 d (p + 2)) of
                   None \<Rightarrow> branch_targets_from d (p + 2) end_pos target
                 | Some off \<Rightarrow> if p + 4 + off = target then True else branch_targets_from d (p + 2) end_pos target)
      else False)"
  by pat_completeness auto
termination
  by (relation "measure (\<lambda>(d, p, e, t). nat (e - p))") auto

declare branch_targets_from.simps [simp del]

definition th_branch_in_range_targets :: "text_data \<Rightarrow> int \<Rightarrow> int \<Rightarrow> int \<Rightarrow> bool" where
  "th_branch_in_range_targets d from end_pos target = branch_targets_from d (from AND NOT 1) end_pos target"

subsection \<open>The positions widened so far\<close>

text \<open>
  The array \<^verbatim>\<open>th_widened_pos\<close> with its count is a list; its capacity only matters to the allocator.
\<close>

definition th_widened_reset :: "int list" where
  "th_widened_reset = []"

function widened_search :: "int list \<Rightarrow> int \<Rightarrow> int \<Rightarrow> int \<Rightarrow> bool" where
  "widened_search ws addr lo hi =
     (if lo \<le> hi then
        (let mid = (lo + hi) div 2; m = ws ! nat mid + 2
         in if m = addr then True
            else if m < addr then widened_search ws addr (mid + 1) hi
            else widened_search ws addr lo (mid - 1))
      else False)"
  by pat_completeness auto
termination
  by (relation "measure (\<lambda>(ws, addr, lo, hi). nat (hi - lo + 1))") auto

declare widened_search.simps [simp del]

definition th_widened_contains_mid :: "int list \<Rightarrow> int \<Rightarrow> bool" where
  "th_widened_contains_mid ws addr = widened_search ws addr 0 (int (length ws) - 1)"

definition th_widened_record :: "int \<Rightarrow> int list \<Rightarrow> int list" where
  "th_widened_record pos ws = rev (dropWhile (\<lambda>p. p \<ge> pos) (rev ws)) @ [pos]"

subsection \<open>Alignment pads\<close>

text \<open>
  The state the alignment of a branch target reads and writes.  \<^verbatim>\<open>o\<close> writes a halfword at
  \<^verbatim>\<open>ind\<close>; in a dry run it only moves \<^verbatim>\<open>ind\<close>, and it does nothing when no code is wanted.  Growing
  the section's buffer is the allocator's business.
\<close>

record ThumbLastInsn =
  li_pos :: int
  li_end :: int
  li_opcode :: u32
  li_size :: nat
  li_conditional :: bool

record align_state =
  dry_run_active :: bool
  nocode_wanted :: bool
  generating_function :: bool
  has_text_section :: bool
  outline_suppressing :: bool
  mov_equiv_it_pending :: int
  pool_flush_it_pending :: int
  th_func_code_start :: int
  last_reloc_offset :: "int option"
  th_last_insn :: ThumbLastInsn
  th_dry_last_insn :: ThumbLastInsn
  th_widened :: "int list"
  align_pad_max :: int
  th_widen_armed :: bool
  th_widen_done :: bool
  text_bytes :: text_data
  ind :: int

definition emit_o :: "u32 \<Rightarrow> align_state \<Rightarrow> tcc_failure + align_state" where
  "emit_o i s =
     (if dry_run_active s then Inr (s\<lparr>ind := ind s + 2\<rparr>)
      else if nocode_wanted s then Inr s
      else if \<not> has_text_section s then Inl (TccError ''compiler error'')
      else Inr (s\<lparr>text_bytes := st16 (text_bytes s) (ind s) i, ind := ind s + 2\<rparr>))"

text \<open>An IT in one of the eight halfwords before \<open>pos\<close>.\<close>

definition it_before :: "text_data \<Rightarrow> int \<Rightarrow> bool" where
  "it_before d pos \<longleftrightarrow>
     list_ex (\<lambda>k. let back = pos - 2 - 2 * k
        in back \<ge> pos - 16 \<and> back \<ge> 0 \<and> ld16 d back AND 0xff00 = 0xbf00 \<and> ld16 d back AND 0xf \<noteq> 0)
       [0, 1, 2, 3, 4, 5, 6, 7]"

definition th_widen_last_insn :: "int \<Rightarrow> align_state \<Rightarrow> tcc_failure + bool \<times> align_state" where
  "th_widen_last_insn widen_from0 s =
     (let widen_from = (if widen_from0 = - 2 then th_func_code_start s else widen_from0);
          pos = ind s - 2; hw = ld16 (text_bytes s) pos
      in if widen_from < 0 then Inr (False, s)
         else if dry_run_active s \<or> nocode_wanted s \<or> \<not> generating_function s \<or> \<not> has_text_section s then Inr (False, s)
         else if outline_suppressing s then Inr (False, s)
         else if li_end (th_last_insn s) \<noteq> ind s \<or> li_size (th_last_insn s) \<noteq> 2 \<or> li_conditional (th_last_insn s)
         then Inr (False, s)
         else if mov_equiv_it_pending s \<noteq> 0 \<or> pool_flush_it_pending s \<noteq> 0 then Inr (False, s)
         else if hw \<noteq> take_bit 16 (li_opcode (th_last_insn s)) then Inr (False, s)
         else if it_before (text_bytes s) pos then Inr (False, s)
         else if (case last_reloc_offset s of None \<Rightarrow> False | Some r \<Rightarrow> r \<ge> pos) then Inr (False, s)
         else if widen_from > pos \<or> th_branch_in_range_targets (text_bytes s) widen_from (ind s) (ind s) then Inr (False, s)
         else case th_t16_to_t32 hw of
                None \<Rightarrow> Inr (False, s)
              | Some (w1, w2) \<Rightarrow>
                  (case emit_o w2 (s\<lparr>th_widened := th_widened_record pos (th_widened s)\<rparr>) of
                     Inl e \<Rightarrow> Inl e
                   | Inr s1 \<Rightarrow>
                       Inr (True, s1\<lparr>text_bytes := st16 (text_bytes s1) pos w1,
                         th_last_insn := (th_last_insn s1)\<lparr>li_pos := pos, li_end := ind s1, li_size := 4,
                           li_opcode := push_bit 16 w1 OR w2\<rparr>\<rparr>)))"

text \<open>
  The loop ends when the position is aligned; where \<^verbatim>\<open>o\<close> does not move the position it does not
  end, which is the result \<open>None\<close>.
\<close>

partial_function (option) align_loop :: "int \<Rightarrow> int \<Rightarrow> align_state \<Rightarrow> (tcc_failure + align_state) option" where
  "align_loop align widen_from s =
     (if ind s AND (align - 1) = 0 then Some (Inr s)
      else case (if ind s AND 2 \<noteq> 0 then th_widen_last_insn widen_from s else Inr (False, s)) of
             Inl e \<Rightarrow> Some (Inl e)
           | Inr (widened, s1) \<Rightarrow>
               if widened then align_loop align widen_from s1
               else (case emit_o 0xbf00 s1 of Inl e \<Rightarrow> Some (Inl e) | Inr s2 \<Rightarrow> align_loop align widen_from s2))"

definition tcc_gen_machine_align_branch_target ::
  "int \<Rightarrow> int \<Rightarrow> align_state \<Rightarrow> (tcc_failure + align_state) option" where
  "tcc_gen_machine_align_branch_target align widen_from s =
     (if align < 2 then Some (Inr s)
      else align_loop align widen_from
        (if align - 2 > align_pad_max s then s\<lparr>align_pad_max := align - 2\<rparr> else s))"

definition tcc_gen_machine_pad_could_widen :: "align_state \<Rightarrow> bool" where
  "tcc_gen_machine_pad_could_widen s =
     (let l = (if dry_run_active s then th_dry_last_insn s else th_last_insn s)
      in li_end l = ind s \<and> li_size l = 2 \<and> \<not> li_conditional l)"

text \<open>The number of instructions an IT instruction makes conditional, 0 for any other opcode.\<close>

definition mov_equiv_it_block_length :: "thumb_opcode \<Rightarrow> nat" where
  "mov_equiv_it_block_length op =
     (let hw = take_bit 16 (op_code op); mask = hw AND 0x0F
      in if op_size op \<noteq> 2 then 0
         else if hw AND 0xFF00 \<noteq> 0xBF00 then 0
         else if mask = 0 then 0
         else if mask AND 1 \<noteq> 0 then 4
         else if mask AND 2 \<noteq> 0 then 3
         else if mask AND 4 \<noteq> 0 then 2
         else 1)"

text \<open>The other entry point widens the first instruction of an operation before it is emitted.\<close>

definition tcc_gen_machine_widen_next_op :: "align_state \<Rightarrow> align_state" where
  "tcc_gen_machine_widen_next_op s = s\<lparr>th_widen_armed := True, th_widen_done := False\<rparr>"

definition tcc_gen_machine_widen_next_op_done :: "align_state \<Rightarrow> bool \<times> align_state" where
  "tcc_gen_machine_widen_next_op_done s = (th_widen_done s, s\<lparr>th_widen_armed := False\<rparr>)"

definition th_widen_armed_apply :: "thumb_opcode \<Rightarrow> align_state \<Rightarrow> thumb_opcode \<times> align_state" where
  "th_widen_armed_apply op s0 =
     (let s = s0\<lparr>th_widen_armed := False\<rparr>; hw = take_bit 16 (op_code op)
      in if dry_run_active s \<or> nocode_wanted s \<or> \<not> generating_function s \<or> \<not> has_text_section s \<or> op_size op \<noteq> 2
         then (op, s)
         else if outline_suppressing s then (op, s)
         else if mov_equiv_it_pending s \<noteq> 0 \<or> pool_flush_it_pending s \<noteq> 0 \<or> mov_equiv_it_block_length op > 0
         then (op, s)
         else if drop_bit 12 hw = 0xd \<or> drop_bit 11 hw = 0x1c then (op, s)
         else if it_before (text_bytes s) (ind s) then (op, s)
         else case th_t16_to_t32 hw of
                None \<Rightarrow> (op, s)
              | Some (w1, w2) \<Rightarrow>
                  (\<lparr>op_size = 4, op_code = push_bit 16 w1 OR w2\<rparr>,
                   s\<lparr>th_widened := th_widened_record (ind s) (th_widened s), th_widen_done := True\<rparr>))"

subsection \<open>The widened positions as a set\<close>

lemma widened_search_iff:
  assumes "sorted_wrt (<) ws" "0 \<le> lo" "hi < int (length ws)"
  shows "widened_search ws addr lo hi \<longleftrightarrow> (\<exists>i. lo \<le> int i \<and> int i \<le> hi \<and> ws ! i + 2 = addr)"
  using assms
proof (induction ws addr lo hi rule: widened_search.induct)
  case (1 ws addr lo hi)
  define mid where "mid = (lo + hi) div 2"
  show ?case
  proof (cases "lo \<le> hi")
    case True
    then have m: "lo \<le> mid" "mid \<le> hi" "0 \<le> mid" unfolding mid_def using 1(4) by auto
    have less: "ws ! i < ws ! j" if "i < j" "int j \<le> hi" for i j
      using that 1(3,5) by (simp add: sorted_wrt_iff_nth_less)
    have unf: "widened_search ws addr lo hi =
        (if ws ! nat mid + 2 = addr then True
         else if ws ! nat mid + 2 < addr then widened_search ws addr (mid + 1) hi
         else widened_search ws addr lo (mid - 1))"
      using True by (subst widened_search.simps) (simp add: Let_def mid_def)
    consider "ws ! nat mid + 2 = addr" | "ws ! nat mid + 2 < addr" | "ws ! nat mid + 2 > addr" by linarith
    then show ?thesis
    proof cases
      case 1
      then show ?thesis unfolding unf using m by (auto intro!: exI [of _ "nat mid"])
    next
      case 2
      have "lo \<le> int i \<and> int i \<le> hi \<and> ws ! i + 2 = addr \<longleftrightarrow> mid + 1 \<le> int i \<and> int i \<le> hi \<and> ws ! i + 2 = addr" for i
        using 2 m less [of i "nat mid"] by (cases "i = nat mid") force+
      then show ?thesis unfolding unf using 2 m 1(3-5) 1(1) [OF True refl refl, folded mid_def] by auto
    next
      case 3
      have "lo \<le> int i \<and> int i \<le> hi \<and> ws ! i + 2 = addr \<longleftrightarrow> lo \<le> int i \<and> int i \<le> mid - 1 \<and> ws ! i + 2 = addr" for i
        using 3 m less [of "nat mid" i] by (cases "i = nat mid") force+
      then show ?thesis unfolding unf using 3 m 1(3-5) 1(2) [OF True refl refl, folded mid_def] by auto
    qed
  next
    case False
    then show ?thesis by (auto simp: widened_search.simps [of ws addr lo hi])
  qed
qed

lemma widened_contains_iff:
  "sorted_wrt (<) ws \<Longrightarrow> th_widened_contains_mid ws addr \<longleftrightarrow> addr - 2 \<in> set ws"
  unfolding th_widened_contains_mid_def
  by (subst widened_search_iff) (auto simp: in_set_conv_nth)

lemma sorted_dropWhile_last:
  "sorted_wrt (<) ws \<Longrightarrow> rev (dropWhile (\<lambda>p. p \<ge> pos) (rev ws)) = filter (\<lambda>p. p < (pos::int)) ws"
proof (induction ws rule: rev_induct)
  case (snoc x xs)
  then show ?case by (cases "x \<ge> pos") (auto simp: sorted_wrt_append intro!: filter_True [symmetric] filter_False)
qed simp

lemma widened_record_sorted: "sorted_wrt (<) ws \<Longrightarrow> sorted_wrt (<) (th_widened_record pos ws)"
  unfolding th_widened_record_def
  by (simp add: sorted_dropWhile_last sorted_wrt_append sorted_wrt_filter)

lemma widened_record_set: "sorted_wrt (<) ws \<Longrightarrow> set (th_widened_record pos ws) = {p \<in> set ws. p < pos} \<union> {pos}"
  unfolding th_widened_record_def by (auto simp: sorted_dropWhile_last)

text \<open>
  The contract of the record of widened positions: a set of positions that a new position cuts off
  above itself, and a query for the address in the middle of a recorded instruction.
\<close>

locale widened_positions =
  fixes empty :: 's and add :: "int \<Rightarrow> 's \<Rightarrow> 's" and in_mid :: "'s \<Rightarrow> int \<Rightarrow> bool"
    and ok :: "'s \<Rightarrow> bool" and positions :: "'s \<Rightarrow> int set"
  assumes ok_empty: "ok empty"
    and positions_empty: "positions empty = {}"
    and ok_add: "ok s \<Longrightarrow> ok (add p s)"
    and positions_add: "ok s \<Longrightarrow> positions (add p s) = {q \<in> positions s. q < p} \<union> {p}"
    and in_mid_iff: "ok s \<Longrightarrow> in_mid s a \<longleftrightarrow> a - 2 \<in> positions s"
begin

lemma ok_run: "ok (fold add ps empty)"
  by (induction ps rule: rev_induct) (simp_all add: ok_empty ok_add)

lemma positions_run:
  "q \<in> positions (fold add ps empty) \<longleftrightarrow>
     (\<exists>i<length ps. ps ! i = q \<and> (\<forall>j. i < j \<and> j < length ps \<longrightarrow> q < ps ! j))"
proof (induction ps rule: rev_induct)
  case (snoc p ps)
  let ?last = "\<lambda>xs i. i < length xs \<and> xs ! i = q \<and> (\<forall>j. i < j \<and> j < length xs \<longrightarrow> q < xs ! j)"
  have "?last (ps @ [p]) i \<longleftrightarrow> i < length ps \<and> ?last ps i \<and> q < p \<or> i = length ps \<and> p = q" for i
    by (auto simp: nth_append less_Suc_eq)
  then show ?case using snoc by (auto simp: ok_run positions_add)
qed (simp add: positions_empty)

lemma in_mid_run:
  "in_mid (fold add ps empty) a \<longleftrightarrow>
     (\<exists>i<length ps. ps ! i + 2 = a \<and> (\<forall>j. i < j \<and> j < length ps \<longrightarrow> ps ! i < ps ! j))"
  unfolding in_mid_iff [OF ok_run] positions_run by (metis add_diff_cancel_right' diff_add_cancel)

end

interpretation widened: widened_positions th_widened_reset th_widened_record th_widened_contains_mid
  "sorted_wrt (<)" set
  by unfold_locales
    (simp_all add: th_widened_reset_def widened_record_sorted widened_record_set widened_contains_iff)

subsection \<open>Branches at a position\<close>

text \<open>The offset of a branch that is not a call, relative to the position after the fetch.\<close>

fun branch_offset :: "instr \<Rightarrow> int option" where
  "branch_offset (Branch off) = Some off"
| "branch_offset (BranchCond c off) = Some off"
| "branch_offset (CompareBranch nz rn off) = Some (uint off)"
| "branch_offset _ = None"

lemma no_branch16:
  "shift_add16 w = Some i \<Longrightarrow> branch_offset i = None"
  "dp16 opc rm rdn = Some i \<Longrightarrow> branch_offset i = None"
  "special16 w = Some i \<Longrightarrow> branch_offset i = None"
  "loadstore16 w = Some i \<Longrightarrow> branch_offset i = None"
  by (auto simp: shift_add16_def dp16_def special16_def loadstore16_def Let_def split: if_splits)

lemma no_branch32:
  "dp32 opc S rn rd op2 = Some i \<Longrightarrow> branch_offset i = None"
  "plain32 w = Some i \<Longrightarrow> branch_offset i = None"
  "block32 w = Some i \<Longrightarrow> branch_offset i = None"
  "loadstore32 w = Some i \<Longrightarrow> branch_offset i = None"
  "shift_reg32 w = Some i \<Longrightarrow> branch_offset i = None"
  by (auto simp: dp32_def plain32_def block32_def loadstore32_def shift_reg32_def Let_def split: if_splits option.splits)

text \<open>The encodings of the branches, read off the decoder.\<close>

lemma branch16_cases:
  assumes "decode16 w = Some i" "branch_offset i = Some off"
  obtains (cond) "field w 12 4 = 13" "field w 8 4 \<noteq> 14" "field w 8 4 \<noteq> 15"
      "i = BranchCond (field w 8 4) off" "off = 2 * sint (signed_take_bit 7 (field w 0 8))"
    | (uncond) "field w 12 4 = 14" "field w 11 1 = 0"
      "i = Branch off" "off = 2 * sint (signed_take_bit 10 (field w 0 11))"
    | (cbz) "field w 12 4 = 11" "field w 10 1 = 0" "field w 8 1 = 1"
      "i = CompareBranch (bit w 11) (field w 0 3) (push_bit 6 (field w 9 1) OR push_bit 1 (field w 3 5))"
      "off = uint (push_bit 6 (field w 9 1) OR push_bit 1 (field w 3 5))"
  using assms by (auto simp: decode16_def misc16_def Let_def split: if_splits dest: no_branch16)

lemma branch32_cases:
  assumes "decode32 w = Some i" "branch_offset i = Some off"
  obtains (cond) "field w 27 5 = 0x1E" "field w 15 1 = 1" "field w 14 1 = 0" "field w 12 1 = 0" "field w 23 3 \<noteq> 7"
      "i = BranchCond (field w 22 4) off" "off = sint (unpack_b_t3 w)"
    | (uncond) "field w 27 5 = 0x1E" "field w 15 1 = 1" "field w 14 1 = 0" "field w 12 1 \<noteq> 0"
      "i = Branch off" "off = sint (unpack_10_11_0 w)"
  using assms by (auto simp: decode32_def branch32_def split: if_splits dest: no_branch32)

lemma ld16_high [simp]: "16 \<le> n \<Longrightarrow> \<not> bit (ld16 d p) n"
  unfolding ld16_def by (auto simp: bit_simps dest: bit_imp_le_length)

lemma half_high: "(\<And>n. 16 \<le> n \<Longrightarrow> \<not> bit (hw::u32) n) \<Longrightarrow> bit hw n \<Longrightarrow> n < 16"
  using not_le by blast

lemma sint_low_word_of_int: "n < 31 \<Longrightarrow> sint (signed_take_bit n (word_of_int k :: u32)) = signed_take_bit n k"
  by (simp add: sint_uint signed_take_bit_of_int unsigned_of_int signed_take_bit_take_bit min_def)

lemma sint_low_field: "n < 31 \<Longrightarrow> sint (signed_take_bit n (x::u32)) = signed_take_bit n (uint x)"
  using sint_low_word_of_int [of n "uint x"] by simp

lemma sint_byte: "sint (ucast ((w::u32) AND 0xff) :: u8) = sint (signed_take_bit 7 (field w 0 8))"
  using sint_low_field [of 7 "field w 0 8"] sint_uint [of "ucast (w AND 0xff) :: u8"]
  by (simp add: unsigned_ucast_eq field_def mask_eq_exp_minus_1 signed_take_bit_take_bit)

lemma sint_double:
  assumes "n < 30"
  shows "sint (push_bit 1 (signed_take_bit n (x::u32))) = 2 * sint (signed_take_bit n x)"
proof -
  define k where "k = signed_take_bit n (uint x)"
  have k: "sint (signed_take_bit n x) = k" unfolding k_def using assms by (intro sint_low_field) simp
  have p: "(2::int) ^ n < 1073741824" using power_strict_increasing [of n 30 "2::int"] assms by simp
  have "- (2 ^ n) \<le> k" "k < 2 ^ n" unfolding k_def
    by (rule signed_take_bit_int_greater_eq_minus_exp, rule signed_take_bit_int_less_exp)
  then have "- (2 ^ 31) \<le> 2 * k" "2 * k < 2 ^ 31" using p by simp_all
  then have "sint (word_of_int (2 * k) :: u32) = 2 * k"
    using signed_take_bit_int_eq_self [of 31 "2 * k"] by (simp only: sint_sbintrunc') simp
  moreover have "push_bit 1 (signed_take_bit n x) = word_of_int (2 * k)"
    by (simp flip: k)
  ultimately show ?thesis by (simp only: k)
qed

lemma sint_low: "\<not> bit (w::u32) 31 \<Longrightarrow> sint w = uint w"
  by (rule bit_eqI) (auto simp: bit_sint_iff bit_uint_iff min_def le_less not_less dest: bit_imp_le_length)

lemma cond_below: "field (w::u32) 8 4 \<noteq> 14 \<Longrightarrow> field w 8 4 \<noteq> 15 \<Longrightarrow> drop_bit 8 w AND 15 < 14"
proof -
  assume a: "field w 8 4 \<noteq> 14" "field w 8 4 \<noteq> 15"
  have "field w 8 4 = drop_bit 8 w AND 15" by (simp add: field_def mask_eq_exp_minus_1)
  moreover have "field w 8 4 < 16" using unat_field [of w 8 4] by (simp add: word_less_nat_alt)
  ultimately show ?thesis using a by uint_arith
qed

lemma branch16_target_decoded:
  assumes "decode16 hw = Some i" "branch_offset i = Some off" "\<And>n. 16 \<le> n \<Longrightarrow> \<not> bit hw n"
  shows "branch16_target hw p = p + 4 + off"
  using assms(1,2)
proof (cases rule: branch16_cases)
  case cond
  have "hw AND 0xf000 = 0xd000" using cond(1) by (simp add: field_def bits32)
  then show ?thesis using cond(5) cond_below [OF cond(2,3)] by (simp add: branch16_target_def sint_byte)
next
  case uncond
  have "hw AND 0xf800 = 0xe000" "hw AND 0xf000 \<noteq> 0xd000" using uncond(1,2) by (simp_all add: field_def bits32)
  moreover have "signed_drop_bit 20 (push_bit 21 (hw AND 0x7ff)) = push_bit 1 (signed_take_bit 10 (field hw 0 11))"
    by (simp add: field_def bits32)
  ultimately show ?thesis using uncond(4) sint_double [of 10 "field hw 0 11"] by (simp add: branch16_target_def)
next
  case cbz
  have "hw AND 0xf500 = 0xb100" "hw AND 0xf000 \<noteq> 0xd000" "hw AND 0xf800 \<noteq> 0xe000"
    using cbz(1-3) by (simp_all add: field_def bits32)
  moreover have "push_bit 6 (drop_bit 9 hw AND 1) OR push_bit 1 (drop_bit 3 hw AND 31) =
      push_bit 6 (field hw 9 1) OR push_bit 1 (field hw 3 5)" by (simp add: field_def bits32)
  moreover have "sint (push_bit 6 (field hw 9 1) OR push_bit 1 (field hw 3 5)) = off"
    unfolding cbz(5) by (rule sint_low) (simp add: field_def bit_simps)
  ultimately show ?thesis by (simp add: branch16_target_def)
qed

lemma halfword_fields:
  "field (push_bit 16 hw OR take_bit 16 lo) 27 5 = field hw 11 5"
  "field (push_bit 16 hw OR take_bit 16 lo) 26 (Suc 0) = field hw 10 (Suc 0)"
  "field (push_bit 16 hw OR take_bit 16 lo) 23 3 = drop_bit 1 (drop_bit 6 hw AND 15)"
  "field (push_bit 16 hw OR take_bit 16 lo) 16 6 = field hw 0 6"
  "field (push_bit 16 hw OR take_bit 16 lo) 16 10 = field hw 0 10"
  "field (push_bit 16 hw OR take_bit 16 lo) 15 (Suc 0) = field lo 15 (Suc 0)"
  "field (push_bit 16 hw OR take_bit 16 lo) 14 (Suc 0) = field lo 14 (Suc 0)"
  "field (push_bit 16 hw OR take_bit 16 lo) 13 (Suc 0) = field lo 13 (Suc 0)"
  "field (push_bit 16 hw OR take_bit 16 lo) 12 (Suc 0) = field lo 12 (Suc 0)"
  "field (push_bit 16 hw OR take_bit 16 lo) 11 (Suc 0) = field lo 11 (Suc 0)"
  "field (push_bit 16 hw OR take_bit 16 lo) 0 11 = field lo 0 11"
  by (simp_all add: field_def bits32)

lemma t3_offset_word:
  "signed_drop_bit 11 (push_bit 11
      (push_bit 20 (drop_bit 10 hw AND 1) OR push_bit 19 (drop_bit 11 lo AND 1) OR push_bit 18 (drop_bit 13 lo AND 1) OR
       push_bit 12 (hw AND 0x3f) OR push_bit 1 (lo AND 0x7ff))) = unpack_b_t3 (push_bit 16 hw OR take_bit 16 (lo::u32))"
  unfolding unpack_b_t3_def by (simp add: halfword_fields) (simp add: field_def bits32)

lemma t4_offset_word:
  "signed_drop_bit 7 (push_bit 7
      (push_bit 24 (drop_bit 10 hw AND 1) OR push_bit 23 (of_bool (bit lo 13 = bit hw 10)) OR push_bit 22 (of_bool (bit lo 11 = bit hw 10)) OR
       push_bit 12 (hw AND 0x3ff) OR push_bit 1 (lo AND 0x7ff))) = unpack_10_11_0 (push_bit 16 hw OR take_bit 16 (lo::u32))"
proof -
  have "NOT (field lo 13 1 XOR field hw 10 1) AND 1 = of_bool (bit lo 13 = bit hw 10)"
     "NOT (field lo 11 1 XOR field hw 10 1) AND 1 = of_bool (bit lo 11 = bit hw 10)"
    by (simp_all add: field_def bits32)
  then show ?thesis unfolding unpack_10_11_0_def Let_def
    by (simp add: halfword_fields) (simp add: field_def bits32)
qed

lemma cond_below32: "drop_bit 1 ((c::u32) AND 15) \<noteq> 7 \<Longrightarrow> c AND 15 < 14"
proof -
  define x where "x = c AND 15"
  assume "drop_bit 1 (c AND 15) \<noteq> 7"
  then have a: "drop_bit 1 x \<noteq> 7" unfolding x_def .
  have seven: "unat w = 7 \<Longrightarrow> w = 7" for w :: u32 by (simp add: word_unat_eq_iff)
  have "unat (drop_bit 1 x) = unat x div 2" using unat_drop_bit_eq [of 1 x] drop_bit_eq_div [of 1 "unat x"] by simp
  then have "unat x div 2 \<noteq> 7" using a seven [of "drop_bit 1 x"] by argo
  moreover have "x < 16" unfolding x_def by (rule le_less_trans [OF word_and_le1]) simp
  ultimately have "x < 14" by (simp add: word_less_nat_alt)
  then show ?thesis unfolding x_def .
qed

lemma branch_words:
  "field hw 11 5 = 0x1E \<Longrightarrow> hw AND 0xf800 = 0xf000"
  "field lo 15 1 = 1 \<Longrightarrow> field lo 14 1 = 0 \<Longrightarrow> field lo 12 1 = 0 \<Longrightarrow> lo AND 0xd000 = 0x8000"
  "field lo 15 1 = 1 \<Longrightarrow> field lo 14 1 = 0 \<Longrightarrow> field lo 12 1 \<noteq> 0 \<Longrightarrow> lo AND 0xd000 = 0x9000"
  by (simp_all add: field_def bits32)



lemma branch32_offset_decoded:
  assumes "decode32 (push_bit 16 hw OR take_bit 16 lo) = Some i" "branch_offset i = Some off"
    and "\<And>n. 16 \<le> n \<Longrightarrow> \<not> bit hw n"
  shows "hw AND 0xf800 = 0xf000 \<and> branch32_offset hw lo = Some off"
  using assms(1,2)
proof (cases rule: branch32_cases)
  case cond
  note f = cond(1-4) [unfolded One_nat_def halfword_fields]
  note c = branch_words(1) [OF f(1)] branch_words(2) [unfolded One_nat_def, OF f(2-4)]
  have "drop_bit 1 (drop_bit 6 hw AND 15) \<noteq> 7" using cond(5) by (simp only: halfword_fields not_False_eq_True)
  then have "drop_bit 6 hw AND 15 < 14" by (rule cond_below32)
  then show ?thesis unfolding branch32_offset_def Let_def t3_offset_word cond(7) using c by (simp only: if_True simp_thms)
next
  case uncond
  note f = uncond(1-4) [unfolded One_nat_def halfword_fields]
  note c = branch_words(1) [OF f(1)] branch_words(3) [unfolded One_nat_def, OF f(2-4)]
  have x: "(drop_bit 13 lo AND 1) XOR (drop_bit 10 hw AND 1) = 0 \<longleftrightarrow> bit lo 13 = bit hw 10"
     "(drop_bit 11 lo AND 1) XOR (drop_bit 10 hw AND 1) = 0 \<longleftrightarrow> bit lo 11 = bit hw 10"
    by (simp_all add: bits32)
  have "lo AND 0xd000 \<noteq> 0x8000" unfolding c(2) by simp
  then show ?thesis unfolding branch32_offset_def Let_def x t4_offset_word uncond(6) using c by (simp only: if_True if_False simp_thms)
qed

lemma take_half [simp]: "take_bit 16 (ld16 d p) = ld16 d p"
  by (rule bit_word_eqI) (metis bit_take_bit_iff ld16_high not_le)

lemma branch_targets_at:
  assumes "decode (fetch d p) = Some i" "branch_offset i = Some off" "p + int (op_size (fetch d p)) \<le> end_pos"
  shows "branch_targets_from d p end_pos (p + 4 + off)"
proof (cases "ld16 d p < 0xE800")
  case True
  then have "branch16_target (ld16 d p) p = p + 4 + off"
    using assms(1,2) by (intro branch16_target_decoded) (simp_all add: fetch_def decode_def)
  then show ?thesis using True assms(3) by (subst branch_targets_from.simps) (simp add: fetch_def Let_def)
next
  case False
  then have "ld16 d p AND 0xf800 = 0xf000 \<and> branch32_offset (ld16 d p) (ld16 d (p + 2)) = Some off"
    using assms(1,2) branch32_offset_decoded [of "ld16 d p" "ld16 d (p + 2)" i off] by (simp add: fetch_def decode_def)
  then show ?thesis using False assms(3) by (subst branch_targets_from.simps) (simp add: fetch_def Let_def)
qed

lemma branch_targets_later:
  "branch_targets_from d (p + 2) end_pos target \<Longrightarrow> p + 2 \<le> end_pos \<Longrightarrow> branch_targets_from d p end_pos target"
  by (subst branch_targets_from.simps) (simp add: Let_def split: option.split)

lemma branch_targets_found:
  assumes "branch_targets_from d (p0 + 2 * int k) end_pos target" "p0 + 2 * int k \<le> end_pos"
  shows "branch_targets_from d p0 end_pos target"
  using assms
proof (induction k arbitrary: p0)
  case (Suc k)
  have e: "p0 + 2 * int (Suc k) = (p0 + 2) + 2 * int k" by simp
  have "branch_targets_from d (p0 + 2) end_pos target"
    by (rule Suc.IH) (use Suc.prems in \<open>simp_all only: e\<close>)
  moreover have "p0 + 2 \<le> end_pos" using Suc.prems(2) by simp
  ultimately show ?case by (rule branch_targets_later)
qed simp

subsection \<open>Reading and writing halfwords\<close>

lemma ld16_st16: "ld16 (st16 d p w) p = take_bit 16 w"
  unfolding ld16_def st16_def by (simp add: bits32)

lemma ld16_st16_other: "q \<noteq> p - 1 \<Longrightarrow> q \<noteq> p \<Longrightarrow> q \<noteq> p + 1 \<Longrightarrow> ld16 (st16 d p w) q = ld16 d q"
  unfolding ld16_def st16_def by (auto simp: fun_upd_def)

lemma st16_other: "q \<noteq> p \<Longrightarrow> q \<noteq> p + 1 \<Longrightarrow> st16 d p w q = d q"
  unfolding st16_def by simp

lemma ld16_cong: "d p = d' p \<Longrightarrow> d (p + 1) = d' (p + 1) \<Longrightarrow> ld16 d p = ld16 d' p"
  unfolding ld16_def by simp

text \<open>The halves of the 32-bit forms are halfwords.\<close>

definition half :: "u32 \<Rightarrow> bool" where
  "half w \<longleftrightarrow> take_bit 16 w = w"

lemma half_or: "half a \<Longrightarrow> half b \<Longrightarrow> half (a OR b)"
  by (simp add: half_def take_bit_or)

lemma half_numeral: "take_bit 16 (numeral n :: u32) = numeral n \<Longrightarrow> half (numeral n)"
  by (simp add: half_def)

lemma half_field: "n \<le> 16 \<Longrightarrow> half (field w s n)"
  by (simp add: half_def)

lemma half_push_field: "k + n \<le> 16 \<Longrightarrow> half (push_bit k (field w s n))"
proof -
  assume "k + n \<le> 16"
  then have "n \<le> 16 - k" "k \<le> 16" by simp_all
  then show ?thesis by (simp add: half_def take_bit_push_bit)
qed

lemma half_nth: "(\<forall>x\<in>set xs. half x) \<Longrightarrow> i < length xs \<Longrightarrow> half (xs ! i)"
  by simp

lemma half_tables:
  "half (t32_dp ! unat (field w s 4))" "half (t32_ls ! unat (field w s 3))" "half (t32_ext ! unat (field w s 2))"
proof -
  have "unat (field w s n) < 2 ^ n" for n using unat_field [of w s n] by simp
  from this [of 4] this [of 3] this [of 2]
  show "half (t32_dp ! unat (field w s 4))" "half (t32_ls ! unat (field w s 3))" "half (t32_ext ! unat (field w s 2))"
    by (intro half_nth; simp add: t32_dp_def t32_ls_def t32_ext_def half_def)+
qed

lemma half_scaled: "n + k \<le> 12 \<Longrightarrow> half (field w s n * 2 ^ k)"
proof -
  assume "n + k \<le> 12"
  then have e: "take_bit 12 (field w s n * 2 ^ k) = field w s n * 2 ^ k" by (rule scaled_field)
  have "take_bit 16 (take_bit 12 x) = take_bit 12 (x::u32)" for x by simp
  from this [of "field w s n * 2 ^ k"] show ?thesis unfolding half_def e .
qed

lemma half_drop: "half (push_bit 12 (drop_bit 2 (field w s 5)))" "half (push_bit 6 (field w s 5 AND 3))"
  "half (push_bit 8 ((drop_bit 4 w AND 8) OR field w s 3))" "half ((drop_bit 4 w AND 8) OR field w s 3)"
  "half (push_bit 12 (drop_bit 8 v AND 7))" "half (v AND 0xff)" "half (drop_bit 4 w AND 8)" "half 0"
  by (simp_all add: half_def field_def bits32)

lemma half_entries: "half (t32_dp ! 9)" "half (t32_dp ! 15)"
  by (simp_all add: half_def t32_dp_def)

lemmas half_intros = half_tables half_entries half_drop half_field half_push_field half_scaled

lemma t16_to_t32_half:
  assumes "th_t16_to_t32 hw = Some (w1, w2)"
  shows "half w1" "half w2"
proof -
  have m: "field hw 6 5 * 4 = field hw 6 5 * 2 ^ 2" "field hw 6 5 * 2 = field hw 6 5 * 2 ^ 1" "field hw 0 8 * 4 = field hw 0 8 * 2 ^ 2"
    by simp_all
  have "field hw 0 8 * 2 ^ 2 = push_bit 2 (field hw 0 8)" by (simp add: push_bit_eq_mult)
  then have i: "drop_bit 11 (field hw 0 8 * 2 ^ 2) = 0" by (simp only:) (simp add: field_def bits32)
  note d = assms(1) [unfolded th_t16_to_t32_def Let_def as_fields [of hw], unfolded m i]
  from d show "half w1"
    by (elim if_SomeE Some_pairE None_SomeE; hypsubst; (intro half_or)?; (simp only: half_intros split: if_split)?)
       (simp_all add: half_intros half_numeral)
  from d show "half w2"
    by (elim if_SomeE Some_pairE None_SomeE; hypsubst; (intro half_or)?; (simp only: half_intros split: if_split)?)
       (simp_all add: half_intros half_numeral)
qed

lemma half_less: "half hw \<Longrightarrow> hw < 0xE800 \<longleftrightarrow> unat (field hw 11 5) < 29"
proof -
  assume "half hw"
  then have "unat hw = take_bit 16 (unat hw)" unfolding half_def by (metis unsigned_take_bit_eq)
  then have "unat hw < 65536" using take_bit_nat_less_exp [of 16 "unat hw"] by simp
  then have "unat (field hw 11 5) = unat hw div 2048" using unat_field [of hw 11 5] by simp
  then show ?thesis by (simp add: word_less_nat_alt div_less_iff_less_mult)
qed

lemma wide_prefix_undefined:
  "field hw 11 5 = 29 \<Longrightarrow> decode16 hw = None" "field hw 11 5 = 30 \<Longrightarrow> decode16 hw = None" "field hw 11 5 = 31 \<Longrightarrow> decode16 hw = None"
proof -
  show "decode16 hw = None" if "field hw 11 5 = 29"
  proof -
    have "field hw 12 4 = 14" "field hw 11 (Suc 0) = 1" "field hw 14 2 = 3" using that by (simp_all add: field_def bits32)
    then show ?thesis by (simp add: decode16_def Let_def)
  qed
  show "decode16 hw = None" if "field hw 11 5 = 30"
  proof -
    have "field hw 12 4 = 15" "field hw 14 2 = 3" using that by (simp_all add: field_def bits32)
    then show ?thesis by (simp add: decode16_def Let_def)
  qed
  show "decode16 hw = None" if "field hw 11 5 = 31"
  proof -
    have "field hw 12 4 = 15" "field hw 14 2 = 3" using that by (simp_all add: field_def bits32)
    then show ?thesis by (simp add: decode16_def Let_def)
  qed
qed

lemma decode16_narrow: "decode16 hw \<noteq> None \<Longrightarrow> half hw \<Longrightarrow> hw < 0xE800"
proof (rule ccontr)
  assume a: "decode16 hw \<noteq> None" "half hw" "\<not> hw < 0xE800"
  have "unat (field hw 11 5) < 32" using unat_field [of hw 11 5] by simp
  moreover have "\<not> unat (field hw 11 5) < 29" using a(3) half_less [OF a(2)] by simp
  ultimately have "unat (field hw 11 5) = 29 \<or> unat (field hw 11 5) = 30 \<or> unat (field hw 11 5) = 31" by linarith
  then have "field hw 11 5 = 29 \<or> field hw 11 5 = 30 \<or> field hw 11 5 = 31" by (simp add: word_unat_eq_iff)
  then have "decode16 hw = None" by (elim disjE) (simp_all only: wide_prefix_undefined)
  then show False using a(1) by simp
qed

lemma decode32_wide: "decode32 (wide w1 w2) \<noteq> None \<Longrightarrow> half w1 \<Longrightarrow> half w2 \<Longrightarrow> \<not> w1 < 0xE800"
proof -
  assume a: "decode32 (wide w1 w2) \<noteq> None" "half w1" "half w2"
  have f: "field (wide w1 w2) 27 5 = field w1 11 5" "field (wide w1 w2) 25 7 = field w1 9 7" "field (wide w1 w2) 24 8 = field w1 8 8"
    "field (wide w1 w2) 20 12 = field w1 4 12"
    using halfword_fields(1) [of w1 w2] a(3) unfolding half_def by (simp_all add: field_def bits32)
  have t: "field w1 9 7 = 0x7C \<Longrightarrow> field w1 11 5 = 31" "field w1 8 8 = 0xFA \<Longrightarrow> field w1 11 5 = 31" "field w1 4 12 = 0xFB0 \<Longrightarrow> field w1 11 5 = 31"
    by (simp_all add: field_def bits32)
  have "field w1 11 5 = 29 \<or> field w1 11 5 = 30 \<or> field w1 11 5 = 31"
    using a(1) unfolding decode32_def f by (auto dest: t split: if_splits)
  then show ?thesis using half_less [OF a(2)] by auto
qed

lemma half_ld16: "half (ld16 d p)"
  by (simp add: half_def)

subsection \<open>Aligning a branch target\<close>

lemma st16_cong: "d' = st16 d p w \<Longrightarrow> q < p \<Longrightarrow> d' q = d q"
  by (simp add: st16_def)

text \<open>In the real pass the state lets \<^verbatim>\<open>o\<close> write.\<close>

abbreviation real_pass :: "align_state \<Rightarrow> bool" where
  "real_pass s \<equiv> \<not> dry_run_active s \<and> \<not> nocode_wanted s \<and> has_text_section s"

lemma not_widened:
  assumes "li_size (th_last_insn s) \<noteq> 2 \<or> ld16 (text_bytes s) (ind s - 2) = 0xbf00 \<or> dry_run_active s \<or> nocode_wanted s"
  shows "th_widen_last_insn w s = Inr (False, s)"
proof -
  have "th_t16_to_t32 0xbf00 = None" by code_simp
  then show ?thesis using assms unfolding th_widen_last_insn_def Let_def by auto
qed

lemma widened_step:
  assumes "th_widen_last_insn w s = Inr (True, s1)" "real_pass s"
  shows "ind s1 = ind s + 2" "real_pass s1" "li_size (th_last_insn s1) = 4"
    and "\<And>q. q < ind s - 2 \<Longrightarrow> text_bytes s1 q = text_bytes s q"
    and "\<exists>w1 w2. th_t16_to_t32 (ld16 (text_bytes s) (ind s - 2)) = Some (w1, w2) \<and>
      text_bytes s1 = st16 (st16 (text_bytes s) (ind s) w2) (ind s - 2) w1"
proof -
  obtain w1 w2 where "th_t16_to_t32 (ld16 (text_bytes s) (ind s - 2)) = Some (w1, w2)"
    "s1 = s\<lparr>th_widened := th_widened_record (ind s - 2) (th_widened s), text_bytes := st16 (st16 (text_bytes s) (ind s) w2) (ind s - 2) w1,
      ind := ind s + 2,
      th_last_insn := (th_last_insn s)\<lparr>li_pos := ind s - 2, li_end := ind s + 2, li_size := 4, li_opcode := push_bit 16 w1 OR w2\<rparr>\<rparr>"
    using assms unfolding th_widen_last_insn_def Let_def emit_o_def
    by (auto split: if_splits option.splits prod.splits sum.splits)
  then show "ind s1 = ind s + 2" "real_pass s1" "li_size (th_last_insn s1) = 4"
    "\<And>q. q < ind s - 2 \<Longrightarrow> text_bytes s1 q = text_bytes s q"
    "\<exists>w1 w2. th_t16_to_t32 (ld16 (text_bytes s) (ind s - 2)) = Some (w1, w2) \<and>
      text_bytes s1 = st16 (st16 (text_bytes s) (ind s) w2) (ind s - 2) w1"
    using assms(2) by (auto simp: st16_def)
qed

lemma widened_same:
  assumes "th_t16_to_t32 (ld16 d p) = Some (w1, w2)"
  defines "d' \<equiv> st16 (st16 d (p + 2) w2) p w1"
  shows "decode (fetch d' p) = decode (fetch d p)" "decode (fetch d p) \<noteq> None" "op_size (fetch d' p) = 4" "op_size (fetch d p) = 2"
proof -
  have h: "half w1" "half w2" using t16_to_t32_half [OF assms(1)] .
  have s: "same_instr (ld16 d p) (wide w1 w2)" by (rule t16_to_t32_same [OF assms(1)]) simp
  then have n: "decode16 (ld16 d p) \<noteq> None" "decode32 (wide w1 w2) \<noteq> None"
    unfolding same_instr_def by metis+
  have l: "ld16 d' p = w1" "ld16 d' (p + 2) = w2"
    using h unfolding d'_def half_def by (simp_all add: ld16_st16 ld16_st16_other)
  have "ld16 d p < 0xE800" by (rule decode16_narrow [OF n(1) half_ld16])
  moreover have "\<not> w1 < 0xE800" by (rule decode32_wide [OF n(2) h])
  ultimately have f: "fetch d p = \<lparr>op_size = 2, op_code = ld16 d p\<rparr>" "fetch d' p = \<lparr>op_size = 4, op_code = wide w1 w2\<rparr>"
    by (simp_all add: fetch_def l)
  show "decode (fetch d' p) = decode (fetch d p)" using s by (simp add: f decode_def same_instr_def)
  show "decode (fetch d p) \<noteq> None" using n(1) by (simp add: f decode_def)
  show "op_size (fetch d' p) = 4" "op_size (fetch d p) = 2" by (simp_all add: f)
qed

lemma emit_o_real: "real_pass s \<Longrightarrow> emit_o w s = Inr (s\<lparr>text_bytes := st16 (text_bytes s) (ind s) w, ind := ind s + 2\<rparr>)"
  by (simp add: emit_o_def)

lemma emit_o_dry: "dry_run_active s \<Longrightarrow> emit_o w s = Inr (s\<lparr>ind := ind s + 2\<rparr>)"
  by (simp add: emit_o_def)

lemma mask_mod: "(x::int) AND (2 ^ m - 1) = x mod 2 ^ m"
  by (simp add: take_bit_eq_mask mask_eq_exp_minus_1 flip: take_bit_eq_mod)

lemma not_aligned:
  assumes "(i + 2 * int (Suc n)) mod 2 ^ m = 0" "2 * int (Suc n) < 2 ^ m"
  shows "i mod 2 ^ m \<noteq> 0"
proof
  assume "i mod 2 ^ m = 0"
  then have "2 * int (Suc n) mod 2 ^ m = 0" using assms(1) by (metis add.left_neutral mod_add_left_eq)
  then show False using assms(2) by (simp add: mod_pos_pos_trivial)
qed

lemma nop_loop:
  assumes "(ind s + 2 * int n) mod 2 ^ m = 0" "2 * int n < 2 ^ m" "real_pass s"
    and "li_size (th_last_insn s) \<noteq> 2 \<or> ld16 (text_bytes s) (ind s - 2) = 0xbf00"
  shows "\<exists>s'. align_loop (2 ^ m) w s = Some (Inr s') \<and> ind s' = ind s + 2 * int n \<and>
     (\<forall>q. q < ind s \<longrightarrow> text_bytes s' q = text_bytes s q) \<and> (\<forall>k<n. ld16 (text_bytes s') (ind s + 2 * int k) = 0xbf00)"
  using assms
proof (induction n arbitrary: s)
  case 0
  then show ?case by (subst align_loop.simps) (simp add: mask_mod)
next
  case (Suc n)
  define t where "t = s\<lparr>text_bytes := st16 (text_bytes s) (ind s) 0xbf00, ind := ind s + 2\<rparr>"
  have i: "ind t = ind s + 2" and tb: "text_bytes t = st16 (text_bytes s) (ind s) 0xbf00" unfolding t_def by simp_all
  have nop: "ld16 (text_bytes t) (ind s) = 0xbf00" unfolding tb by (simp add: ld16_st16)
  have step: "align_loop (2 ^ m) w s = align_loop (2 ^ m) w t"
    using not_aligned [OF Suc.prems(1,2)] not_widened [of s w] emit_o_real [OF Suc.prems(3)] Suc.prems(4)
    by (subst align_loop.simps) (auto simp: mask_mod t_def)
  have "\<exists>s'. align_loop (2 ^ m) w t = Some (Inr s') \<and> ind s' = ind t + 2 * int n \<and>
     (\<forall>q. q < ind t \<longrightarrow> text_bytes s' q = text_bytes t q) \<and> (\<forall>k<n. ld16 (text_bytes s') (ind t + 2 * int k) = 0xbf00)"
    by (rule Suc.IH) (use Suc.prems nop in \<open>simp_all add: i t_def algebra_simps\<close>)
  then obtain s' where s': "align_loop (2 ^ m) w t = Some (Inr s')" "ind s' = ind t + 2 * int n"
    "\<And>q. q < ind t \<Longrightarrow> text_bytes s' q = text_bytes t q" "\<And>k. k < n \<Longrightarrow> ld16 (text_bytes s') (ind t + 2 * int k) = 0xbf00" by blast
  have "ld16 (text_bytes s') (ind s + 2 * int k) = 0xbf00" if "k < Suc n" for k
  proof (cases k)
    case 0
    then show ?thesis using nop ld16_cong [of "text_bytes s'" "ind s" "text_bytes t"] s'(3) by (simp add: i)
  next
    case (Suc j)
    then show ?thesis using s'(4) [of j] that by (simp add: i algebra_simps)
  qed
  moreover have "text_bytes s' q = text_bytes s q" if "q < ind s" for q
    using s'(3) [of q] that by (simp add: i tb st16_def)
  ultimately show ?case using s'(1,2) unfolding step i by (intro exI [of _ s']) (simp add: algebra_simps)
qed

lemma dry_loop:
  assumes "(ind s + 2 * int n) mod 2 ^ m = 0" "2 * int n < 2 ^ m" "dry_run_active s"
  shows "align_loop (2 ^ m) w s = Some (Inr (s\<lparr>ind := ind s + 2 * int n\<rparr>))"
  using assms
proof (induction n arbitrary: s)
  case 0
  then show ?case by (subst align_loop.simps) (simp add: mask_mod)
next
  case (Suc n)
  define t where "t = s\<lparr>ind := ind s + 2\<rparr>"
  have "align_loop (2 ^ m) w s = align_loop (2 ^ m) w t"
    using not_aligned [OF Suc.prems(1,2)] not_widened [of s w] emit_o_dry [OF Suc.prems(3)] Suc.prems(3)
    by (subst align_loop.simps) (auto simp: mask_mod t_def)
  also have "\<dots> = Some (Inr (t\<lparr>ind := ind t + 2 * int n\<rparr>))"
    by (rule Suc.IH) (use Suc.prems in \<open>simp_all add: t_def algebra_simps\<close>)
  finally show ?case by (simp add: t_def algebra_simps)
qed

lemma loop_unwidened:
  "ind s mod 2 ^ m \<noteq> 0 \<Longrightarrow> ind s AND 2 = 0 \<or> th_widen_last_insn w s = Inr (False, s) \<Longrightarrow> real_pass s \<Longrightarrow>
   align_loop (2 ^ m) w s = align_loop (2 ^ m) w (s\<lparr>text_bytes := st16 (text_bytes s) (ind s) 0xbf00, ind := ind s + 2\<rparr>)"
  by (subst align_loop.simps) (auto simp: mask_mod emit_o_real)

lemma loop_widened:
  "ind s mod 2 ^ m \<noteq> 0 \<Longrightarrow> ind s AND 2 \<noteq> 0 \<Longrightarrow> th_widen_last_insn w s = Inr (True, t) \<Longrightarrow>
   align_loop (2 ^ m) w s = align_loop (2 ^ m) w t"
  by (subst align_loop.simps) (auto simp: mask_mod)

lemma widen_total: "real_pass s \<Longrightarrow> th_widen_last_insn w s = Inr (False, s) \<or> (\<exists>t. th_widen_last_insn w s = Inr (True, t))"
  unfolding th_widen_last_insn_def Let_def by (auto simp: emit_o_def split: option.split)

text \<open>
  What aligning does to the code: from \<open>p\<close> on there are only NOPs, and the instruction before the
  pad is unchanged, or the same instruction in its 32-bit form, which takes the place of a NOP.
\<close>

definition pad_or_widened :: "text_data \<Rightarrow> int \<Rightarrow> text_data \<Rightarrow> int \<Rightarrow> bool" where
  "pad_or_widened d i d' i' \<longleftrightarrow>
     (\<forall>q. q < i - 2 \<longrightarrow> d' q = d q) \<and>
     (\<exists>p. (p = i \<and> d' (i - 2) = d (i - 2) \<and> d' (i - 1) = d (i - 1) \<or>
           p = i + 2 \<and> decode (fetch d' (i - 2)) = decode (fetch d (i - 2)) \<and> decode (fetch d (i - 2)) \<noteq> None \<and>
             op_size (fetch d' (i - 2)) = 4 \<and> op_size (fetch d (i - 2)) = 2) \<and>
          (\<forall>q. p \<le> q \<and> q < i' \<and> even (q - i) \<longrightarrow> ld16 d' q = 0xbf00))"

lemma nops_at:
  assumes "\<And>k. k < n \<Longrightarrow> ld16 d (i + 2 * int k) = 0xbf00" "i \<le> q" "q < i + 2 * int n" "even (q - i)"
  shows "ld16 d q = 0xbf00"
proof -
  from assms(4) obtain j where j: "q - i = 2 * j" by blast
  then have "q = i + 2 * int (nat j)" "nat j < n" using assms(2,3) by auto
  then show ?thesis using assms(1) [of "nat j"] by simp
qed

lemma align_loop_real:
  assumes "(ind s + 2 * int n) mod 2 ^ m = 0" "2 * int n < 2 ^ m" "real_pass s"
  shows "\<exists>s'. align_loop (2 ^ m) w s = Some (Inr s') \<and> ind s' = ind s + 2 * int n \<and>
     pad_or_widened (text_bytes s) (ind s) (text_bytes s') (ind s')"
proof (cases n)
  case 0
  then have "align_loop (2 ^ m) w s = Some (Inr s)" using assms(1) by (subst align_loop.simps) (simp add: mask_mod)
  then show ?thesis using 0 by (auto simp: pad_or_widened_def)
next
  case (Suc j)
  note na = not_aligned [OF assms(1,2) [unfolded Suc]]
  show ?thesis
  proof (cases "ind s AND 2 = 0 \<or> th_widen_last_insn w s = Inr (False, s)")
    case True
    define t where "t = s\<lparr>text_bytes := st16 (text_bytes s) (ind s) 0xbf00, ind := ind s + 2\<rparr>"
    have t: "ind t = ind s + 2" "text_bytes t = st16 (text_bytes s) (ind s) 0xbf00" "real_pass t"
      unfolding t_def using assms(3) by simp_all
    have "ld16 (text_bytes t) (ind t - 2) = 0xbf00" by (simp add: t ld16_st16)
    then obtain s' where s': "align_loop (2 ^ m) w t = Some (Inr s')" "ind s' = ind t + 2 * int j"
      "\<And>q. q < ind t \<Longrightarrow> text_bytes s' q = text_bytes t q" "\<And>k. k < j \<Longrightarrow> ld16 (text_bytes s') (ind t + 2 * int k) = 0xbf00"
      using nop_loop [of t j m w] assms(1,2) t(3) Suc by (auto simp: t(1) algebra_simps)
    have "ld16 (text_bytes s') (ind s) = 0xbf00"
      using ld16_cong [of "text_bytes s'" "ind s" "text_bytes t"] s'(3) by (simp add: t ld16_st16)
    moreover have "ld16 (text_bytes s') q = 0xbf00" if "ind s + 2 \<le> q" "q < ind s'" "even (q - ind s)" for q
      using nops_at [of j "text_bytes s'" "ind t" q, OF s'(4)] that s'(2) t(1) by simp
    moreover have "q = ind s \<or> ind s + 2 \<le> q" if "ind s \<le> q" "even (q - ind s)" for q using that by presburger
    ultimately have "ld16 (text_bytes s') q = 0xbf00" if "ind s \<le> q" "q < ind s'" "even (q - ind s)" for q
      using that by metis
    then have "pad_or_widened (text_bytes s) (ind s) (text_bytes s') (ind s')"
      unfolding pad_or_widened_def using s'(3) by (auto simp: t st16_def)
    then show ?thesis using s'(1,2) loop_unwidened [OF na True assms(3)] Suc by (auto simp: t_def)
  next
    case False
    then obtain t where w: "th_widen_last_insn w s = Inr (True, t)" using widen_total [OF assms(3)] by blast
    note t = widened_step [OF w assms(3)]
    obtain w1 w2 where w12: "th_t16_to_t32 (ld16 (text_bytes s) (ind s - 2)) = Some (w1, w2)"
      "text_bytes t = st16 (st16 (text_bytes s) (ind s) w2) (ind s - 2) w1" using t(5) by blast
    obtain s' where s': "align_loop (2 ^ m) w t = Some (Inr s')" "ind s' = ind t + 2 * int j"
      "\<And>q. q < ind t \<Longrightarrow> text_bytes s' q = text_bytes t q" "\<And>k. k < j \<Longrightarrow> ld16 (text_bytes s') (ind t + 2 * int k) = 0xbf00"
      using nop_loop [of t j m w] assms(1,2) t(1-3) Suc by (auto simp: algebra_simps)
    have "fetch (text_bytes s') (ind s - 2) = fetch (text_bytes t) (ind s - 2)"
      using ld16_cong [of "text_bytes s'" "ind s - 2" "text_bytes t"] ld16_cong [of "text_bytes s'" "ind s" "text_bytes t"] s'(3)
      by (simp add: fetch_def t(1))
    moreover have "ld16 (text_bytes s') q = 0xbf00" if "ind s + 2 \<le> q" "q < ind s'" "even (q - ind s)" for q
      using nops_at [of j "text_bytes s'" "ind t" q, OF s'(4)] that s'(2) t(1) by simp
    ultimately have "pad_or_widened (text_bytes s) (ind s) (text_bytes s') (ind s')"
      unfolding pad_or_widened_def using s'(3) t(1,4) widened_same [OF w12(1)] w12(2)
      by (intro conjI exI [of _ "ind s + 2"] disjI2) auto
    then show ?thesis using s'(1,2) loop_widened [OF na _ w] False Suc t(1) by auto
  qed
qed

lemma align_steps:
  assumes "even i" "1 \<le> m"
  obtains n where "(i + 2 * int n) mod 2 ^ m = 0" "2 * int n < 2 ^ m"
proof -
  define r where "r = (- i) mod 2 ^ m"
  have "even r" unfolding r_def using assms by (simp add: dvd_mod_iff)
  moreover have "0 \<le> r" "r < 2 ^ m" unfolding r_def by simp_all
  ultimately obtain n where "r = 2 * int n" by (metis evenE nonneg_int_cases zero_le_mult_iff zero_less_numeral linorder_not_less)
  moreover have "(i + r) mod 2 ^ m = 0" unfolding r_def by (simp add: mod_add_right_eq)
  ultimately show thesis using that \<open>r < 2 ^ m\<close> by auto
qed

lemma align_loop_ends:
  assumes "align_loop align w s = Some r"
  shows "nocode_wanted s \<longrightarrow> \<not> dry_run_active s \<longrightarrow> ind s AND (align - 1) = 0"
proof (rule align_loop.raw_induct [OF _ assms], intro impI)
  fix loop align w s r
  assume ih: "\<And>a w s r. loop a w s = Some r \<Longrightarrow> nocode_wanted s \<longrightarrow> \<not> dry_run_active s \<longrightarrow> ind s AND (a - 1) = 0"
    and b: "(if ind s AND (align - 1) = 0 then Some (Inr s)
      else case (if ind s AND 2 \<noteq> 0 then th_widen_last_insn w s else Inr (False, s)) of
             Inl e \<Rightarrow> Some (Inl e)
           | Inr (widened, s1) \<Rightarrow>
               if widened then loop align w s1
               else (case emit_o 0xbf00 s1 of Inl e \<Rightarrow> Some (Inl e) | Inr s2 \<Rightarrow> loop align w s2)) = Some r"
    and s: "nocode_wanted s" "\<not> dry_run_active s"
  have "th_widen_last_insn w s = Inr (False, s)" using s(1) by (intro not_widened) simp
  then show "ind s AND (align - 1) = 0" using b s ih [of align w s r] by (auto simp: emit_o_def split: if_splits)
qed

subsection \<open>Properties\<close>

text \<open>
  C17: no branch into the pad is overlooked.  If a branch at an even position between \<open>from\<close> and
  the end of the range decodes to a jump to \<open>target\<close>, then \<^verbatim>\<open>th_branch_in_range_targets\<close> reports
  it, so the instruction before \<open>target\<close> is not widened across it.
\<close>

theorem branch_in_range_reported:
  assumes "even p" "from \<le> p" "p + int (op_size (fetch d p)) \<le> end_pos"
    and "decode (fetch d p) = Some i" "branch_offset i = Some off"
  shows "th_branch_in_range_targets d from end_pos (p + 4 + off)"
proof -
  have f: "from AND NOT 1 = 2 * (from div 2)" using unset_bit_0 [of "from"] unset_bit_eq_and_not [of 0 "from"] by simp
  obtain j where j: "p = 2 * j" using assms(1) by blast
  then have "0 \<le> j - from div 2" using assms(2) by linarith
  then obtain k where k: "j - from div 2 = int k" by (rule nonneg_int_cases)
  then have k: "p = (from AND NOT 1) + 2 * int k" unfolding f j by simp
  have e: "p \<le> end_pos" using assms(3) by simp
  from branch_targets_at [OF assms(4,5,3)] e show ?thesis
    unfolding th_branch_in_range_targets_def k by (rule branch_targets_found)
qed

theorem branch_in_range_reported_witness:
  "th_branch_in_range_targets (\<lambda>q. if q = 4 then 0x02 else if q = 5 then 0xe0 else 0) 0 12 12"
proof -
  let ?d = "\<lambda>q::int. if q = 4 then 0x02 else if q = 5 then 0xe0 else 0 :: u8"
  have f: "fetch ?d 4 = \<lparr>op_size = 2, op_code = 0xe002\<rparr>" by (simp add: fetch_def ld16_def)
  have "decode \<lparr>op_size = 2, op_code = 0xe002\<rparr> = Some (Branch 4)" by code_simp
  with branch_in_range_reported [of 4 0 ?d 12 "Branch 4" 4] show ?thesis by (simp add: f)
qed

text \<open>
  C18: the record of widened instructions.  After any sequence of recordings from the reset state,
  \<^verbatim>\<open>th_widened_contains_mid\<close> answers true exactly for the middles of the instructions recorded last
  at their position and not below a later recording (which marks code emitted again).
\<close>

theorem widened_contains_recorded:
  "th_widened_contains_mid (fold th_widened_record ps th_widened_reset) a \<longleftrightarrow>
     (\<exists>i<length ps. ps ! i + 2 = a \<and> (\<forall>j. i < j \<and> j < length ps \<longrightarrow> ps ! i < ps ! j))"
  by (rule widened.in_mid_run)

theorem widened_contains_recorded_witness:
  "th_widened_contains_mid (fold th_widened_record [4, 20, 12] th_widened_reset) 14 \<and>
   \<not> th_widened_contains_mid (fold th_widened_record [4, 20, 12] th_widened_reset) 22"
  unfolding widened_contains_recorded by (auto simp: nth_Cons' intro!: exI [of _ "2::nat"])

text \<open>
  C19: aligning a branch target ends, at an aligned position less than one alignment away, the same
  in the dry run as in the real pass.  The dry run writes nothing.  The real pass leaves the code
  before untouched, except that the last instruction may have been replaced by its 32-bit form, and
  fills the rest of the pad with NOPs.
\<close>

theorem align_branch_target_ends:
  assumes "1 \<le> m" "even (ind s)" "dry_run_active s \<or> \<not> nocode_wanted s \<and> has_text_section s"
  shows "\<exists>s'. tcc_gen_machine_align_branch_target (2 ^ m) w s = Some (Inr s') \<and>
     ind s' = ind s + (- ind s) mod 2 ^ m \<and>
     (if dry_run_active s then text_bytes s' = text_bytes s
      else pad_or_widened (text_bytes s) (ind s) (text_bytes s') (ind s'))"
proof -
  obtain n where n: "(ind s + 2 * int n) mod 2 ^ m = 0" "2 * int n < 2 ^ m" using align_steps [OF assms(2,1)] .
  define t where "t = (if 2 ^ m - 2 > align_pad_max s then s\<lparr>align_pad_max := 2 ^ m - 2\<rparr> else s)"
  have t: "ind t = ind s" "text_bytes t = text_bytes s" "dry_run_active t = dry_run_active s"
    "nocode_wanted t = nocode_wanted s" "has_text_section t = has_text_section s" by (simp_all add: t_def)
  have e: "2 * int n = (- ind s) mod 2 ^ m"
  proof -
    have "(- ind s) mod 2 ^ m = (- ind s + (ind s + 2 * int n)) mod 2 ^ m" using n(1) by (metis add.right_neutral mod_add_right_eq)
    then show ?thesis using n(2) by simp
  qed
  have "(2::int) ^ 1 \<le> 2 ^ m" using assms(1) by (intro power_increasing) simp_all
  then have u: "tcc_gen_machine_align_branch_target (2 ^ m) w s = align_loop (2 ^ m) w t"
    by (simp add: tcc_gen_machine_align_branch_target_def t_def)
  show ?thesis
  proof (cases "dry_run_active s")
    case True
    then show ?thesis using dry_loop [of t n m w] n unfolding u by (simp add: t e)
  next
    case False
    then show ?thesis using align_loop_real [of t n m w] n assms(3) unfolding u by (auto simp: t e)
  qed
qed

theorem align_branch_target_ends_witness:
  "\<exists>s'. tcc_gen_machine_align_branch_target (2 ^ 2) (- 2)
       \<lparr>dry_run_active = False, nocode_wanted = False, generating_function = True, has_text_section = True,
        outline_suppressing = False, mov_equiv_it_pending = 0, pool_flush_it_pending = 0, th_func_code_start = 0,
        last_reloc_offset = None, th_last_insn = \<lparr>li_pos = 0, li_end = 2, li_opcode = 0x2500, li_size = 2, li_conditional = False\<rparr>,
        th_dry_last_insn = \<lparr>li_pos = - 1, li_end = - 1, li_opcode = 0, li_size = 0, li_conditional = False\<rparr>,
        th_widened = [], align_pad_max = 0, th_widen_armed = False, th_widen_done = False,
        text_bytes = (\<lambda>q. if q = 1 then 0x25 else 0), ind = 2\<rparr> = Some (Inr s') \<and> ind s' = 4"
  using align_branch_target_ends [of 2
       "\<lparr>dry_run_active = False, nocode_wanted = False, generating_function = True, has_text_section = True,
        outline_suppressing = False, mov_equiv_it_pending = 0, pool_flush_it_pending = 0, th_func_code_start = 0,
        last_reloc_offset = None, th_last_insn = \<lparr>li_pos = 0, li_end = 2, li_opcode = 0x2500, li_size = 2, li_conditional = False\<rparr>,
        th_dry_last_insn = \<lparr>li_pos = - 1, li_end = - 1, li_opcode = 0, li_size = 0, li_conditional = False\<rparr>,
        th_widened = [], align_pad_max = 0, th_widen_armed = False, th_widen_done = False,
        text_bytes = (\<lambda>q. if q = 1 then 0x25 else 0), ind = 2\<rparr>" "- 2"]
  by auto

text \<open>
  Where no code is wanted \<^verbatim>\<open>o\<close> does not move the position, so the loop only ends if there is
  nothing to align.
\<close>

lemma align_no_code:
  "2 \<le> align \<Longrightarrow> nocode_wanted s \<Longrightarrow> \<not> dry_run_active s \<Longrightarrow> ind s AND (align - 1) \<noteq> 0 \<Longrightarrow>
   tcc_gen_machine_align_branch_target align w s = None"
proof -
  assume a: "2 \<le> align" "nocode_wanted s" "\<not> dry_run_active s" "ind s AND (align - 1) \<noteq> 0"
  define t where "t = (if align - 2 > align_pad_max s then s\<lparr>align_pad_max := align - 2\<rparr> else s)"
  have "nocode_wanted t" "\<not> dry_run_active t" "ind t AND (align - 1) \<noteq> 0" using a(2-4) by (simp_all add: t_def)
  then have "align_loop align w t = None" using align_loop_ends [of align w t] by (cases "align_loop align w t") auto
  then show ?thesis using a(1) by (simp add: tcc_gen_machine_align_branch_target_def t_def)
qed

lemma armed_apply_same:
  "op_code op < 65536 \<Longrightarrow> decode (fst (th_widen_armed_apply op s)) = decode op"
proof -
  assume "op_code op < 65536"
  then have h: "take_bit 16 (op_code op) = op_code op" by (rule narrow)
  then have "\<not> bit (op_code op) n" if "16 \<le> n" for n using that by (metis bit_take_bit_iff not_le)
  note same = t16_to_t32_same [OF _ this, unfolded same_instr_def, simplified]
  show ?thesis unfolding th_widen_armed_apply_def Let_def h
    by (auto simp: decode_def same split: option.split)
qed

end
