(* ===== verification/Spec2Isabelle.thy ===== *)
theory Spec2Isabelle
  imports Thumb_Align
begin

text \<open>
  A verification development of the Thumb back end of this TinyCC fork.
\<close>

end
